(* ===== verification/Prelude.thy ===== *)
theory Prelude
  imports Main "HOL-Library.Word" "HOL-Library.State_Monad" "HOL-Library.Sublist"
    "HOL-Library.List_Lexorder" "HOL-Library.Char_ord" "HOL-Library.Product_Lexorder"
begin

text \<open>
  Shared vocabulary of the development: the base types every component uses, the lemma
  collections, generic list lemmas, and the small effect library (relations kept by every
  run of a state monad action) on which the handlers' invariants rest.

  A Go string and a Go byte slice are both sequences of bytes; a HOL \<^typ>\<open>char\<close> is exactly
  one byte, so both are \<^typ>\<open>string\<close> here and the conversions \<open>[]byte(s)\<close>, \<open>string(b)\<close> are
  the identity.
\<close>

section \<open>Base types\<close>

type_synonym bytes = string

text \<open>The sixteen bytes of a \<open>pgtype.UUID\<close>; a nullable column is an \<open>option\<close> of it.\<close>
type_synonym uuid = "128 word"

text \<open>Instants and durations, in nanoseconds (\<open>time.Time\<close>, \<open>time.Duration\<close>).\<close>
type_synonym time = int
type_synonym duration = int

definition Second :: duration where "Second = 1000000000"
definition Minute :: duration where "Minute = 60 * Second"
definition Hour :: duration where "Hour = 60 * Minute"

lemmas duration_defs = Second_def Minute_def Hour_def

section \<open>Lemma collections\<close>

named_theorems eff \<open>introduction rules for relations kept by monadic actions\<close>
named_theorems db_ops \<open>definitions of the database statements\<close>
named_theorems handler_defs \<open>definitions of the handlers and their helpers\<close>

section \<open>Lists as tables\<close>

text \<open>
  A table is the list of its rows in insertion order. An \<open>update ... where\<close> statement maps
  over the rows, a \<open>delete\<close> filters them, a \<open>:one\<close> select takes the first match.
\<close>

definition update_where :: "('r \<Rightarrow> bool) \<Rightarrow> ('r \<Rightarrow> 'r) \<Rightarrow> 'r list \<Rightarrow> 'r list" where
  "update_where P f rs = map (\<lambda>r. if P r then f r else r) rs"

definition count_where :: "('r \<Rightarrow> bool) \<Rightarrow> 'r list \<Rightarrow> int" where
  "count_where P rs = int (length (filter P rs))"

lemma update_where_Nil [simp]: "update_where P f [] = []"
  by (simp add: update_where_def)

lemma update_where_Cons [simp]:
  "update_where P f (r # rs) = (if P r then f r else r) # update_where P f rs"
  by (simp add: update_where_def)

lemma set_update_where:
  "set (update_where P f rs) = {f r |r. r \<in> set rs \<and> P r} \<union> {r \<in> set rs. \<not> P r}"
  by (auto simp: update_where_def)

lemma in_update_where:
  "x \<in> set (update_where P f rs) \<longleftrightarrow>
     (\<exists>r \<in> set rs. x = (if P r then f r else r))"
  by (auto simp: update_where_def)

lemma ball_update_where:
  "(\<forall>x \<in> set (update_where P f rs). Q x) \<longleftrightarrow> (\<forall>r \<in> set rs. if P r then Q (f r) else Q r)"
  by (induction rs) auto

lemma bex_update_where:
  "(\<exists>x \<in> set (update_where P f rs). Q x) \<longleftrightarrow> (\<exists>r \<in> set rs. if P r then Q (f r) else Q r)"
  by (induction rs) auto

lemma map_update_where_key [simp]:
  "(\<And>r. k (f r) = k r) \<Longrightarrow> map k (update_where P f rs) = map k rs"
  by (induction rs) auto

lemma length_update_where [simp]: "length (update_where P f rs) = length rs"
  by (simp add: update_where_def)

lemma update_where_none: "(\<And>r. r \<in> set rs \<Longrightarrow> \<not> P r) \<Longrightarrow> update_where P f rs = rs"
  by (induction rs) auto

lemma count_where_zero: "count_where P rs = 0 \<longleftrightarrow> (\<forall>r \<in> set rs. \<not> P r)"
  by (auto simp: count_where_def filter_empty_conv)

lemma find_Some_in: "List.find P xs = Some x \<Longrightarrow> x \<in> set xs \<and> P x"
  by (auto simp: find_Some_iff)

lemma find_None_all: "List.find P xs = None \<longleftrightarrow> (\<forall>x \<in> set xs. \<not> P x)"
  by (auto simp: find_None_iff)

lemma find_key_unique:
  assumes "distinct (map k xs)" and "x \<in> set xs" and "k x = i"
  shows "List.find (\<lambda>r. k r = i) xs = Some x"
  using assms by (induction xs) auto

lemma distinct_map_snoc:
  "distinct (map k xs) \<Longrightarrow> k x \<notin> set (map k xs) \<Longrightarrow> distinct (map k (xs @ [x]))"
  by simp

lemma list_ex_find: "list_ex P xs \<longleftrightarrow> List.find P xs \<noteq> None"
  by (induction xs) auto

text \<open>Membership in a list comprehension, generator by generator.\<close>

lemma in_concat_map: "x \<in> set (concat (map f xs)) \<longleftrightarrow> (\<exists>y \<in> set xs. x \<in> set (f y))"
  by auto

lemma in_if_list: "x \<in> set (if b then xs else []) \<longleftrightarrow> b \<and> x \<in> set xs"
  by auto

lemma in_single: "x \<in> set [y] \<longleftrightarrow> x = y"
  by auto

lemmas comprehension = in_concat_map in_if_list in_single set_remdups set_sort

section \<open>Actions and the relations they keep\<close>

abbreviation ret :: "'a \<Rightarrow> ('s, 'a) state" where
  "ret \<equiv> State_Monad.return"

text \<open>The shape \<open>x, err := m; if err != nil { h }; k\<close>.\<close>
definition attempt :: "('s, 'e + 'a) state \<Rightarrow> ('e \<Rightarrow> ('s, 'b) state) \<Rightarrow> ('a \<Rightarrow> ('s, 'b) state) \<Rightarrow> ('s, 'b) state" where
  "attempt m h k = do { r \<leftarrow> m; case r of Inl e \<Rightarrow> h e | Inr a \<Rightarrow> k a }"

text \<open>Go's \<open>for _, x := range xs { body }\<close>, and the form whose body returns an error early.\<close>

fun for_each :: "('a \<Rightarrow> ('s, unit) state) \<Rightarrow> 'a list \<Rightarrow> ('s, unit) state" where
  "for_each f [] = ret ()"
| "for_each f (x # xs) = do { f x; for_each f xs }"

fun for_until_err :: "('a \<Rightarrow> ('s, 'e + unit) state) \<Rightarrow> 'a list \<Rightarrow> ('s, 'e + unit) state" where
  "for_until_err f [] = ret (Inr ())"
| "for_until_err f (x # xs) =
     do { r \<leftarrow> f x; case r of Inl e \<Rightarrow> ret (Inl e) | Inr _ \<Rightarrow> for_until_err f xs }"

text \<open>Appending to a slice the results of a body, in order.\<close>

fun for_collect :: "('a \<Rightarrow> ('s, 'b) state) \<Rightarrow> 'a list \<Rightarrow> ('s, 'b list) state" where
  "for_collect f [] = ret []"
| "for_collect f (x # xs) = do { y \<leftarrow> f x; ys \<leftarrow> for_collect f xs; ret (y # ys) }"

lemma run_attempt:
  "run_state (attempt m h k) w = (case run_state m w of
     (Inl e, w') \<Rightarrow> run_state (h e) w' | (Inr a, w') \<Rightarrow> run_state (k a) w')"
  by (simp add: attempt_def split: prod.splits sum.splits)

text \<open>
  \<^const>\<open>state_io_rel\<close> \<open>R m\<close> says that every run of \<open>m\<close> relates its first state to its last
  one by \<open>R\<close>. For a preorder \<open>R\<close> that composes along the control flow of a handler. An
  invariant \<open>I\<close> is the special case \<open>R s t = (I s \<longrightarrow> I t)\<close>.
\<close>

lemma eff_if [eff]:
  "(b \<Longrightarrow> state_io_rel R m) \<Longrightarrow> (\<not> b \<Longrightarrow> state_io_rel R n) \<Longrightarrow>
     state_io_rel R (if b then m else n)"
  by simp

lemma eff_sum [eff]:
  "(\<And>e. x = Inl e \<Longrightarrow> state_io_rel R (f e)) \<Longrightarrow> (\<And>a. x = Inr a \<Longrightarrow> state_io_rel R (g a)) \<Longrightarrow>
     state_io_rel R (case x of Inl e \<Rightarrow> f e | Inr a \<Rightarrow> g a)"
  by (cases x) auto

lemma eff_option [eff]:
  "(x = None \<Longrightarrow> state_io_rel R m) \<Longrightarrow> (\<And>a. x = Some a \<Longrightarrow> state_io_rel R (f a)) \<Longrightarrow>
     state_io_rel R (case x of None \<Rightarrow> m | Some a \<Rightarrow> f a)"
  by (cases x) auto

lemma eff_prod [eff]:
  "(\<And>a b. x = (a, b) \<Longrightarrow> state_io_rel R (f a b)) \<Longrightarrow> state_io_rel R (case x of (a, b) \<Rightarrow> f a b)"
  by (cases x) auto

lemma eff_let [eff]: "(\<And>x. x = t \<Longrightarrow> state_io_rel R (f x)) \<Longrightarrow> state_io_rel R (let x = t in f x)"
  by simp

locale effect_order =
  fixes R :: "'s \<Rightarrow> 's \<Rightarrow> bool"
  assumes eff_refl: "R s s"
    and eff_trans: "R s t \<Longrightarrow> R t u \<Longrightarrow> R s u"
begin

lemma eff_return [eff]: "state_io_rel R (ret x)"
  by (auto simp: state_io_rel_def eff_refl)

lemma eff_get [eff]: "state_io_rel R State_Monad.get"
  by (auto simp: state_io_rel_def eff_refl)

lemma eff_bind [eff]:
  "state_io_rel R m \<Longrightarrow> (\<And>x. state_io_rel R (f x)) \<Longrightarrow> state_io_rel R (State_Monad.bind m f)"
  unfolding state_io_rel_def by (auto split: prod.splits) (metis eff_trans snd_conv)

lemma eff_attempt [eff]:
  "state_io_rel R m \<Longrightarrow> (\<And>e. state_io_rel R (h e)) \<Longrightarrow> (\<And>a. state_io_rel R (k a)) \<Longrightarrow>
     state_io_rel R (attempt m h k)"
  unfolding attempt_def by (intro eff_bind eff_sum)

lemma eff_for_each [eff]:
  assumes "\<And>x. x \<in> set xs \<Longrightarrow> state_io_rel R (f x)"
  shows "state_io_rel R (for_each f xs)"
  using assms by (induction xs) (auto intro!: eff_return eff_bind)

lemma eff_for_until_err [eff]:
  assumes "\<And>x. x \<in> set xs \<Longrightarrow> state_io_rel R (f x)"
  shows "state_io_rel R (for_until_err f xs)"
  using assms by (induction xs) (auto intro!: eff_return eff_bind eff_sum)

lemma eff_for_collect [eff]:
  assumes "\<And>x. x \<in> set xs \<Longrightarrow> state_io_rel R (f x)"
  shows "state_io_rel R (for_collect f xs)"
  using assms by (induction xs) (auto intro!: eff_return eff_bind)

end

lemma state_io_rel_run: "state_io_rel R m \<Longrightarrow> R s (snd (run_state m s))"
  by (simp add: state_io_rel_def)

end
