(* ===== verification/DB_Model.thy ===== *)
theory DB_Model
  imports Prelude
begin

text \<open>
  The control plane's database: one record type per table of \<open>migrations/0001_init.sql\<close>
  (the structs of \<open>internal/controlplane/db/models.go\<close>), the database as the record of all
  tables, the errors a statement can return, and the constraints of the schema as one
  predicate. A table is the list of its rows in insertion order.

  A column that the schema declares \<open>not null\<close> has its plain type, a nullable one is an
  \<open>option\<close>. Text columns are compared under the database's collation, which is deployment
  configuration: every statement that orders by text takes the collation's sort key as a
  parameter (\<open>coll\<close>), compared bytewise. Rows that tie under an \<open>order by\<close>, and the rows of
  a select without one, come in insertion order.
\<close>

section \<open>Row types\<close>

record User =
  u_ID :: uuid
  u_Email :: string
  u_Name :: string
  u_DisplayName :: "string option"
  u_Role :: string
  u_Status :: string
  u_CreatedAt :: time

record Identity =
  i_ID :: uuid
  i_UserID :: uuid
  i_Provider :: string
  i_ExternalID :: string
  i_PasswordHash :: "string option"
  i_CreatedAt :: time
  i_LastLoginAt :: "time option"
  i_FailedLogins :: int
  i_LastFailedAt :: "time option"
  i_LockedUntil :: "time option"

record Invitation =
  inv_ID :: uuid
  inv_Email :: string
  inv_Role :: string
  inv_TokenHash :: string
  inv_InvitedBy :: "uuid option"
  inv_ExpiresAt :: time
  inv_AcceptedAt :: "time option"
  inv_CreatedAt :: time

record Session =
  s_ID :: uuid
  s_UserID :: uuid
  s_TokenHash :: string
  s_ClientPublicKey :: "bytes option"
  s_CreatedAt :: time
  s_ExpiresAt :: time
  s_RevokedAt :: "time option"

record AccessToken =
  at_ID :: uuid
  at_SessionID :: uuid
  at_TokenHash :: string
  at_ExpiresAt :: time
  at_CreatedAt :: time

record PasswordReset =
  pr_ID :: uuid
  pr_UserID :: uuid
  pr_TokenHash :: string
  pr_ExpiresAt :: time
  pr_UsedAt :: "time option"
  pr_CreatedAt :: time

record PublicKey =
  pk_ID :: uuid
  pk_UserID :: uuid
  pk_Label :: string
  pk_KeyType :: string
  pk_KeyBlob :: string
  pk_Fingerprint :: string
  pk_CreatedAt :: time

record Host =
  h_ID :: uuid
  h_Name :: string
  h_Hostname :: string
  h_IdentityKey :: string
  h_EncryptionKey :: string
  h_Accounts :: "string list"
  h_Status :: string
  h_MachineID :: "string option"
  h_LastSeq :: int
  h_LastSetSeq :: int
  h_AgentVersion :: string
  h_DesiredVersion :: string
  h_EnrolledAt :: time
  h_LastSeenAt :: "time option"

record EnrollmentToken =
  et_ID :: uuid
  et_TokenHash :: string
  et_Label :: "string option"
  et_Accounts :: "string list"
  et_CreatedBy :: "uuid option"
  et_ExpiresAt :: time
  et_UsedAt :: "time option"
  et_HostID :: "uuid option"
  et_CreatedAt :: time

record Secret =
  sec_ID :: uuid
  sec_Label :: string
  sec_Url :: "string option"
  sec_Username :: "string option"
  sec_OtpRecipient :: "string option"
  sec_Ciphertext :: "bytes option"
  sec_Nonce :: "bytes option"
  sec_WrappedKey :: "bytes option"
  sec_CreatedBy :: "uuid option"
  sec_UpdatedBy :: "uuid option"
  sec_CreatedAt :: time
  sec_UpdatedAt :: time

record ResourceGroup =
  rg_ID :: uuid
  rg_Name :: string
  rg_Description :: string
  rg_CreatedAt :: time

record GroupResource =
  gr_GroupID :: uuid
  gr_ResourceKind :: string
  gr_ResourceID :: uuid
  gr_AddedAt :: time

record Permission =
  p_Key :: string
  p_Description :: string

record Grant =
  g_ID :: uuid
  g_UserID :: uuid
  g_Permission :: string
  g_TargetKind :: string
  g_TargetID :: "uuid option"
  g_GrantedBy :: "uuid option"
  g_CreatedAt :: time
  g_RevokedAt :: "time option"

record SecretSet =
  ss_ID :: uuid
  ss_Name :: string
  ss_CreatedBy :: "uuid option"
  ss_CreatedAt :: time
  ss_UpdatedAt :: time

record SecretSetEntry =
  se_SetID :: uuid
  se_Key :: string
  se_Ciphertext :: bytes
  se_Nonce :: bytes
  se_WrappedKey :: bytes
  se_CreatedAt :: time
  se_UpdatedAt :: time

record HostSetBinding =
  b_HostID :: uuid
  b_SetID :: uuid
  b_AsUser :: "string option"
  b_GrantedBy :: "uuid option"
  b_CreatedAt :: time
  b_RevokedAt :: "time option"

record SecretAuditLog =
  sal_ID :: uuid
  sal_SecretID :: "uuid option"
  sal_SecretName :: string
  sal_Action :: string
  sal_UserID :: "uuid option"
  sal_At :: time

record SshAccessLog =
  ssh_ID :: uuid
  ssh_HostID :: uuid
  ssh_Hostname :: string
  ssh_PublicKeyID :: "uuid option"
  ssh_Account :: string
  ssh_Allowed :: bool
  ssh_At :: time
  ssh_Fingerprint :: string

record GrantAuditLog =
  gal_ID :: uuid
  gal_Action :: string
  gal_GrantID :: "uuid option"
  gal_ActorID :: "uuid option"
  gal_ActorEmail :: string
  gal_SubjectID :: "uuid option"
  gal_SubjectEmail :: string
  gal_Permission :: string
  gal_TargetKind :: string
  gal_TargetID :: "uuid option"
  gal_At :: time

record SetAuditLog =
  setal_ID :: uuid
  setal_SetID :: "uuid option"
  setal_SetName :: string
  setal_EntryKey :: "string option"
  setal_HostID :: "uuid option"
  setal_Action :: string
  setal_Actor :: "uuid option"
  setal_At :: time

section \<open>The database\<close>

record db =
  users :: "User list"
  identities :: "Identity list"
  invitations :: "Invitation list"
  sessions :: "Session list"
  access_tokens :: "AccessToken list"
  password_resets :: "PasswordReset list"
  public_keys :: "PublicKey list"
  hosts :: "Host list"
  enrollment_tokens :: "EnrollmentToken list"
  secrets :: "Secret list"
  resource_groups :: "ResourceGroup list"
  group_resources :: "GroupResource list"
  permissions :: "Permission list"
  grants :: "Grant list"
  secret_sets :: "SecretSet list"
  secret_set_entries :: "SecretSetEntry list"
  host_set_bindings :: "HostSetBinding list"
  secret_audit_logs :: "SecretAuditLog list"
  ssh_access_logs :: "SshAccessLog list"
  grant_audit_logs :: "GrantAuditLog list"
  set_audit_logs :: "SetAuditLog list"

text \<open>
  What a statement can return instead of a result. \<open>ConnFault\<close> is every failure that is not
  a constraint of the schema: a lost connection, a timeout, a rejected encoding.
\<close>
datatype dberr = ErrNoRows | UniqueViolation | ForeignKeyViolation | CheckViolation
  | OutOfRange | ConnFault

text \<open>What a statement reads of its environment: \<open>gen_random_uuid()\<close> and \<open>now()\<close>.\<close>
record stmt =
  st_uuid :: uuid
  st_now :: time

type_synonym collation = "string \<Rightarrow> string"
type_synonym 'a db_write = "stmt \<Rightarrow> db \<Rightarrow> (dberr + 'a) \<times> db"

text \<open>A \<open>:one\<close> query: the first row, or \<open>pgx.ErrNoRows\<close>.\<close>
definition one_row :: "'r list \<Rightarrow> dberr + 'r" where
  "one_row rs = (case rs of [] \<Rightarrow> Inl ErrNoRows | r # _ \<Rightarrow> Inr r)"

text \<open>An insert: the constraints in the order the server evaluates them, then the row.\<close>
definition insert_row :: "bool \<Rightarrow> bool \<Rightarrow> bool \<Rightarrow> 'a \<Rightarrow> db \<Rightarrow> db \<Rightarrow> (dberr + 'a) \<times> db" where
  "insert_row chk uniq fk r d d' =
     (if \<not> chk then (Inl CheckViolation, d)
      else if \<not> uniq then (Inl UniqueViolation, d)
      else if \<not> fk then (Inl ForeignKeyViolation, d)
      else (Inr r, d'))"

text \<open>A nullable foreign key column.\<close>
definition ref_ok :: "uuid option \<Rightarrow> uuid list \<Rightarrow> bool" where
  "ref_ok r ids = (case r of None \<Rightarrow> True | Some i \<Rightarrow> i \<in> set ids)"

abbreviation user_ids :: "db \<Rightarrow> uuid list" where "user_ids d \<equiv> map u_ID (users d)"
abbreviation host_ids :: "db \<Rightarrow> uuid list" where "host_ids d \<equiv> map h_ID (hosts d)"

text \<open>The constants of the schema's check constraints.\<close>
definition user_roles :: "string list" where "user_roles = [''admin'', ''member'']"
definition user_statuses :: "string list" where
  "user_statuses = [''active'', ''suspended'', ''removed'']"
definition host_statuses :: "string list" where "host_statuses = [''active'', ''revoked'']"
definition resource_kinds :: "string list" where "resource_kinds = [''secret'', ''host'', ''set'']"
definition target_kinds :: "string list" where
  "target_kinds = [''secret'', ''host'', ''group'', ''set'', ''global'']"
definition secret_actions :: "string list" where
  "secret_actions = [''read'', ''add'', ''update'', ''delete'']"
definition grant_actions :: "string list" where "grant_actions = [''grant'', ''revoke'']"
definition set_actions :: "string list" where
  "set_actions = [''create'', ''edit'', ''rename'', ''deliver'', ''machine_read'', ''delete'']"

lemmas schema_consts = user_roles_def user_statuses_def host_statuses_def resource_kinds_def
  target_kinds_def secret_actions_def grant_actions_def set_actions_def

text \<open>The rows the migration seeds, and the database it leaves.\<close>
definition seeded_permissions :: "Permission list" where
  "seeded_permissions = map (\<lambda>(k, desc). \<lparr>p_Key = k, p_Description = desc\<rparr>)
    [(''secret.add'', ''Create secrets''),
     (''group.create'', ''Create resource groups''),
     (''host.add'', ''Create host enrollment tokens''),
     (''set.add'', ''Create machine secret sets''),
     (''secret.read'', ''View a secret value''),
     (''secret.update'', ''Modify secrets''),
     (''secret.delete'', ''Delete secrets''),
     (''host.access'', ''SSH access to a host''),
     (''host.revoke'', ''Revoke/decommission a host''),
     (''host.upgrade'', ''Upgrade a host agent''),
     (''host.audit'', ''View host access audit''),
     (''group.read'', ''View a group and its members''),
     (''group.manage'', ''Rename, delete, or change membership of a group''),
     (''set.read'', ''View a set and its keys''),
     (''set.manage'', ''Edit, delete, or bind a set'')]"

definition init_db :: db where
  "init_db = \<lparr>users = [], identities = [], invitations = [], sessions = [], access_tokens = [],
     password_resets = [], public_keys = [], hosts = [], enrollment_tokens = [], secrets = [],
     resource_groups = [], group_resources = [], permissions = seeded_permissions, grants = [],
     secret_sets = [], secret_set_entries = [], host_set_bindings = [], secret_audit_logs = [],
     ssh_access_logs = [], grant_audit_logs = [], set_audit_logs = []\<rparr>"

section \<open>The schema's constraints\<close>

text \<open>The partial unique index \<open>hosts_machine_id_active\<close>.\<close>
definition active_machine_ids :: "Host list \<Rightarrow> string list" where
  "active_machine_ids hs = List.map_filter
     (\<lambda>h. if h_Status h = ''active'' then h_MachineID h else None) hs"

definition users_ok :: "User list \<Rightarrow> bool" where
  "users_ok us \<longleftrightarrow> distinct (map u_ID us) \<and> distinct (map u_Email us) \<and>
     (\<forall>u \<in> set us. u_Role u \<in> set user_roles \<and> u_Status u \<in> set user_statuses)"

definition identities_ok :: "uuid list \<Rightarrow> Identity list \<Rightarrow> bool" where
  "identities_ok uids is \<longleftrightarrow> distinct (map i_ID is) \<and>
     distinct (map (\<lambda>i. (i_Provider i, i_ExternalID i)) is) \<and>
     (\<forall>i \<in> set is. i_UserID i \<in> set uids)"

definition invitations_ok :: "uuid list \<Rightarrow> Invitation list \<Rightarrow> bool" where
  "invitations_ok uids is \<longleftrightarrow> distinct (map inv_ID is) \<and>
     (\<forall>i \<in> set is. inv_Role i \<in> set user_roles \<and> ref_ok (inv_InvitedBy i) uids)"

definition sessions_ok :: "uuid list \<Rightarrow> Session list \<Rightarrow> AccessToken list \<Rightarrow> bool" where
  "sessions_ok uids ses ats \<longleftrightarrow> distinct (map s_ID ses) \<and> distinct (map s_TokenHash ses) \<and>
     (\<forall>s \<in> set ses. s_UserID s \<in> set uids) \<and>
     distinct (map at_ID ats) \<and> distinct (map at_TokenHash ats) \<and>
     (\<forall>a \<in> set ats. at_SessionID a \<in> set (map s_ID ses))"

definition resets_ok :: "uuid list \<Rightarrow> PasswordReset list \<Rightarrow> bool" where
  "resets_ok uids prs \<longleftrightarrow> distinct (map pr_ID prs) \<and> distinct (map pr_TokenHash prs) \<and>
     (\<forall>p \<in> set prs. pr_UserID p \<in> set uids)"

definition keys_ok :: "uuid list \<Rightarrow> PublicKey list \<Rightarrow> bool" where
  "keys_ok uids pks \<longleftrightarrow> distinct (map pk_ID pks) \<and> distinct (map pk_Fingerprint pks) \<and>
     (\<forall>k \<in> set pks. pk_UserID k \<in> set uids)"

definition hosts_ok :: "Host list \<Rightarrow> bool" where
  "hosts_ok hs \<longleftrightarrow> distinct (map h_ID hs) \<and> distinct (map h_IdentityKey hs) \<and>
     (\<forall>h \<in> set hs. h_Status h \<in> set host_statuses \<and>
        0 \<le> h_LastSeq h \<and> h_LastSeq h < 2 ^ 63 \<and> 0 \<le> h_LastSetSeq h \<and> h_LastSetSeq h < 2 ^ 63) \<and>
     distinct (active_machine_ids hs)"

definition enrollment_ok :: "uuid list \<Rightarrow> uuid list \<Rightarrow> EnrollmentToken list \<Rightarrow> bool" where
  "enrollment_ok uids hids ets \<longleftrightarrow> distinct (map et_ID ets) \<and> distinct (map et_TokenHash ets) \<and>
     (\<forall>t \<in> set ets. ref_ok (et_CreatedBy t) uids \<and> ref_ok (et_HostID t) hids)"

definition secrets_ok :: "uuid list \<Rightarrow> Secret list \<Rightarrow> bool" where
  "secrets_ok uids secs \<longleftrightarrow> distinct (map sec_ID secs) \<and>
     (\<forall>s \<in> set secs. ref_ok (sec_CreatedBy s) uids \<and> ref_ok (sec_UpdatedBy s) uids)"

definition groups_ok :: "ResourceGroup list \<Rightarrow> GroupResource list \<Rightarrow> bool" where
  "groups_ok rgs grs \<longleftrightarrow> distinct (map rg_ID rgs) \<and>
     distinct (map (\<lambda>r. (gr_GroupID r, gr_ResourceKind r, gr_ResourceID r)) grs) \<and>
     (\<forall>r \<in> set grs. gr_ResourceKind r \<in> set resource_kinds \<and> gr_GroupID r \<in> set (map rg_ID rgs))"

definition grants_ok :: "uuid list \<Rightarrow> Permission list \<Rightarrow> Grant list \<Rightarrow> bool" where
  "grants_ok uids ps gs \<longleftrightarrow> ps = seeded_permissions \<and> distinct (map g_ID gs) \<and>
     (\<forall>g \<in> set gs. g_UserID g \<in> set uids \<and> g_Permission g \<in> set (map p_Key ps) \<and>
        g_TargetKind g \<in> set target_kinds \<and> ref_ok (g_GrantedBy g) uids \<and>
        (g_TargetKind g = ''global'') = (g_TargetID g = None))"

definition sets_ok :: "uuid list \<Rightarrow> uuid list \<Rightarrow> SecretSet list \<Rightarrow> SecretSetEntry list \<Rightarrow>
    HostSetBinding list \<Rightarrow> bool" where
  "sets_ok uids hids sss ses bs \<longleftrightarrow> distinct (map ss_ID sss) \<and> distinct (map ss_Name sss) \<and>
     (\<forall>s \<in> set sss. ref_ok (ss_CreatedBy s) uids) \<and>
     distinct (map (\<lambda>e. (se_SetID e, se_Key e)) ses) \<and>
     (\<forall>e \<in> set ses. se_SetID e \<in> set (map ss_ID sss)) \<and>
     distinct (map (\<lambda>b. (b_HostID b, b_SetID b)) bs) \<and>
     (\<forall>b \<in> set bs. b_HostID b \<in> set hids \<and> b_SetID b \<in> set (map ss_ID sss) \<and>
        ref_ok (b_GrantedBy b) uids)"

definition audit_ok :: "SecretAuditLog list \<Rightarrow> SshAccessLog list \<Rightarrow> GrantAuditLog list \<Rightarrow>
    SetAuditLog list \<Rightarrow> bool" where
  "audit_ok sal ssh gal setal \<longleftrightarrow> distinct (map sal_ID sal) \<and>
     (\<forall>a \<in> set sal. sal_Action a \<in> set secret_actions) \<and>
     distinct (map ssh_ID ssh) \<and> distinct (map gal_ID gal) \<and>
     (\<forall>a \<in> set gal. gal_Action a \<in> set grant_actions) \<and>
     distinct (map setal_ID setal) \<and>
     (\<forall>a \<in> set setal. setal_Action a \<in> set set_actions)"

definition schema_ok :: "db \<Rightarrow> bool" where
  "schema_ok d \<longleftrightarrow> users_ok (users d) \<and> identities_ok (user_ids d) (identities d) \<and>
     invitations_ok (user_ids d) (invitations d) \<and>
     sessions_ok (user_ids d) (sessions d) (access_tokens d) \<and>
     resets_ok (user_ids d) (password_resets d) \<and> keys_ok (user_ids d) (public_keys d) \<and>
     hosts_ok (hosts d) \<and> enrollment_ok (user_ids d) (host_ids d) (enrollment_tokens d) \<and>
     secrets_ok (user_ids d) (secrets d) \<and> groups_ok (resource_groups d) (group_resources d) \<and>
     grants_ok (user_ids d) (permissions d) (grants d) \<and>
     sets_ok (user_ids d) (host_ids d) (secret_sets d) (secret_set_entries d) (host_set_bindings d) \<and>
     audit_ok (secret_audit_logs d) (ssh_access_logs d) (grant_audit_logs d) (set_audit_logs d)"

lemmas table_ok_defs = users_ok_def identities_ok_def invitations_ok_def sessions_ok_def
  resets_ok_def keys_ok_def hosts_ok_def enrollment_ok_def secrets_ok_def groups_ok_def
  grants_ok_def sets_ok_def audit_ok_def

section \<open>What may happen to a table over time\<close>

text \<open>
  \<open>evolves Q xs ys\<close>: the table \<open>ys\<close> is \<open>xs\<close> with each of its rows changed at most as \<open>Q\<close>
  allows and new rows appended; with equality for \<open>Q\<close> the table is append-only.
\<close>
definition evolves :: "('r \<Rightarrow> 'r \<Rightarrow> bool) \<Rightarrow> 'r list \<Rightarrow> 'r list \<Rightarrow> bool" where
  "evolves Q xs ys \<longleftrightarrow> length xs \<le> length ys \<and> list_all2 Q xs (take (length xs) ys)"

lemma evolves_refl [intro, simp]: "(\<And>x. Q x x) \<Longrightarrow> evolves Q xs xs"
  by (simp add: evolves_def list_all2_refl)

lemma evolves_append [intro, simp]: "(\<And>x. Q x x) \<Longrightarrow> evolves Q xs (xs @ ys)"
  by (simp add: evolves_def list_all2_refl)

lemma evolves_update [intro, simp]:
  "(\<And>x. Q x x) \<Longrightarrow> (\<And>x. P x \<Longrightarrow> Q x (f x)) \<Longrightarrow> evolves Q xs (update_where P f xs)"
  by (auto simp: evolves_def update_where_def list_all2_conv_all_nth)

lemma evolves_trans:
  assumes Q: "\<And>x y z. Q x y \<Longrightarrow> Q y z \<Longrightarrow> Q x z"
    and xy: "evolves Q xs ys" and yz: "evolves Q ys zs"
  shows "evolves Q xs zs"
proof -
  have "Q (xs ! i) (zs ! i)" if "i < length xs" for i
    using that xy yz Q [of "xs ! i" "ys ! i" "zs ! i"]
    by (auto simp: evolves_def list_all2_conv_all_nth)
  then show ?thesis using xy yz by (auto simp: evolves_def list_all2_conv_all_nth)
qed

lemma evolves_eq_prefix: "evolves (=) xs ys \<longleftrightarrow> prefix xs ys"
  by (auto simp: evolves_def list.rel_eq prefix_def take_all_iff)
     (metis append_take_drop_id)

lemma evolves_in:
  "evolves Q xs ys \<Longrightarrow> x \<in> set xs \<Longrightarrow> \<exists>y \<in> set ys. Q x y"
  by (auto simp: evolves_def list_all2_conv_all_nth in_set_conv_nth) force

lemma init_db_schema_ok: "schema_ok init_db"
  by (simp add: schema_ok_def table_ok_defs init_db_def active_machine_ids_def map_filter_def)

lemma ref_ok_simps [simp]:
  "ref_ok None ids" "ref_ok (Some i) ids \<longleftrightarrow> i \<in> set ids"
  by (simp_all add: ref_ok_def)

lemma ref_ok_mono: "ref_ok r xs \<Longrightarrow> set xs \<subseteq> set ys \<Longrightarrow> ref_ok r ys"
  by (auto simp: ref_ok_def split: option.splits)

lemma one_row_simps [simp]:
  "one_row [] = Inl ErrNoRows" "one_row (r # rs) = Inr r"
  by (simp_all add: one_row_def)

lemma one_row_Inr: "one_row (filter P rs) = Inr r \<longleftrightarrow> List.find P rs = Some r"
  by (induction rs) (auto simp: one_row_def)

lemma one_row_Inl: "one_row (filter P rs) = Inl e \<longleftrightarrow> e = ErrNoRows \<and> (\<forall>r \<in> set rs. \<not> P r)"
  by (induction rs) (auto simp: one_row_def)

end
