(* ===== verification/DB_Step.thy ===== *)
theory DB_Step
  imports DB_Model
begin

text \<open>
  The relation \<open>db_step\<close> that every statement of the control plane keeps between the
  database before and after it: the schema's constraints are preserved, and the history is
  only ever extended. One rule per table reduces it to a fact about that table, so a
  statement's proof speaks of the rows it writes only.
\<close>

section \<open>How single rows may change\<close>

text \<open>A grant is never edited: it is revoked once, and that is final.\<close>
definition grant_le :: "Grant \<Rightarrow> Grant \<Rightarrow> bool" where
  "grant_le g g' \<longleftrightarrow> g' = g \<or> g_RevokedAt g = None \<and> (\<exists>t. g' = g\<lparr>g_RevokedAt := Some t\<rparr>)"

text \<open>A host keeps its identity; its sequence counters never go back.\<close>
definition host_le :: "Host \<Rightarrow> Host \<Rightarrow> bool" where
  "host_le h h' \<longleftrightarrow> h_ID h' = h_ID h \<and> h_IdentityKey h' = h_IdentityKey h \<and>
     h_EncryptionKey h' = h_EncryptionKey h \<and> h_MachineID h' = h_MachineID h \<and>
     h_Accounts h' = h_Accounts h \<and> h_LastSeq h \<le> h_LastSeq h' \<and> h_LastSetSeq h \<le> h_LastSetSeq h'"

text \<open>A user keeps id, email and role.\<close>
definition user_le :: "User \<Rightarrow> User \<Rightarrow> bool" where
  "user_le u u' \<longleftrightarrow> u_ID u' = u_ID u \<and> u_Email u' = u_Email u \<and> u_Role u' = u_Role u"

text \<open>A session keeps its user and its expiry; a revoked one stays revoked.\<close>
definition session_le :: "Session \<Rightarrow> Session \<Rightarrow> bool" where
  "session_le s s' \<longleftrightarrow> s_ID s' = s_ID s \<and> s_UserID s' = s_UserID s \<and> s_ExpiresAt s' = s_ExpiresAt s \<and>
     (s_RevokedAt s \<noteq> None \<longrightarrow> s_RevokedAt s' \<noteq> None)"

text \<open>A used reset or enrollment token stays used.\<close>
definition reset_le :: "PasswordReset \<Rightarrow> PasswordReset \<Rightarrow> bool" where
  "reset_le p p' \<longleftrightarrow> pr_ID p' = pr_ID p \<and> pr_UserID p' = pr_UserID p \<and>
     pr_TokenHash p' = pr_TokenHash p \<and> pr_ExpiresAt p' = pr_ExpiresAt p \<and>
     (pr_UsedAt p \<noteq> None \<longrightarrow> pr_UsedAt p' \<noteq> None)"

definition token_le :: "EnrollmentToken \<Rightarrow> EnrollmentToken \<Rightarrow> bool" where
  "token_le t t' \<longleftrightarrow> et_ID t' = et_ID t \<and> et_TokenHash t' = et_TokenHash t \<and>
     et_ExpiresAt t' = et_ExpiresAt t \<and> et_Accounts t' = et_Accounts t \<and>
     (et_UsedAt t \<noteq> None \<longrightarrow> et_UsedAt t' \<noteq> None)"

lemmas row_le_defs = grant_le_def host_le_def user_le_def session_le_def reset_le_def token_le_def

definition history_le :: "db \<Rightarrow> db \<Rightarrow> bool" where
  "history_le d d' \<longleftrightarrow>
     evolves (=) (secret_audit_logs d) (secret_audit_logs d') \<and>
     evolves (=) (ssh_access_logs d) (ssh_access_logs d') \<and>
     evolves (=) (grant_audit_logs d) (grant_audit_logs d') \<and>
     evolves (=) (set_audit_logs d) (set_audit_logs d') \<and>
     evolves (=) (access_tokens d) (access_tokens d') \<and>
     evolves grant_le (grants d) (grants d') \<and>
     evolves host_le (hosts d) (hosts d') \<and>
     evolves user_le (users d) (users d') \<and>
     evolves session_le (sessions d) (sessions d') \<and>
     evolves reset_le (password_resets d) (password_resets d') \<and>
     evolves token_le (enrollment_tokens d) (enrollment_tokens d')"

definition db_step :: "db \<Rightarrow> db \<Rightarrow> bool" where
  "db_step d d' \<longleftrightarrow> (schema_ok d \<longrightarrow> schema_ok d') \<and> history_le d d'"

named_theorems db_steps \<open>every statement keeps db_step\<close>

lemma row_le_refl [simp]:
  "grant_le g g" "host_le h h" "user_le u u" "session_le s s" "reset_le p p" "token_le t t"
  by (simp_all add: row_le_defs)

lemma grant_le_trans: "grant_le a b \<Longrightarrow> grant_le b c \<Longrightarrow> grant_le a c"
  by (auto simp: grant_le_def)

lemma host_le_trans: "host_le a b \<Longrightarrow> host_le b c \<Longrightarrow> host_le a c"
  by (auto simp: host_le_def)

lemma user_le_trans: "user_le a b \<Longrightarrow> user_le b c \<Longrightarrow> user_le a c"
  by (auto simp: user_le_def)

lemma session_le_trans: "session_le a b \<Longrightarrow> session_le b c \<Longrightarrow> session_le a c"
  by (auto simp: session_le_def)

lemma reset_le_trans: "reset_le a b \<Longrightarrow> reset_le b c \<Longrightarrow> reset_le a c"
  by (auto simp: reset_le_def)

lemma token_le_trans: "token_le a b \<Longrightarrow> token_le b c \<Longrightarrow> token_le a c"
  by (auto simp: token_le_def)

lemma history_le_refl: "history_le d d"
  by (simp add: history_le_def)

lemma history_le_trans: "history_le d e \<Longrightarrow> history_le e f \<Longrightarrow> history_le d f"
  unfolding history_le_def
  by (elim conjE, intro conjI)
     (erule (1) evolves_trans [rotated], simp |
      erule (1) evolves_trans [rotated],
        erule (1) grant_le_trans host_le_trans user_le_trans session_le_trans reset_le_trans
          token_le_trans)+

lemma db_step_refl [simp, intro]: "db_step d d"
  by (simp add: db_step_def history_le_refl)

lemma db_step_trans: "db_step d e \<Longrightarrow> db_step e f \<Longrightarrow> db_step d f"
  by (auto simp: db_step_def intro: history_le_trans)

lemma db_step_schema: "db_step d d' \<Longrightarrow> schema_ok d \<Longrightarrow> schema_ok d'"
  by (simp add: db_step_def)

lemma db_step_history: "db_step d d' \<Longrightarrow> history_le d d'"
  by (simp add: db_step_def)

section \<open>One rule per table\<close>

lemma evolves_ids:
  "evolves Q xs ys \<Longrightarrow> (\<And>x y. Q x y \<Longrightarrow> k y = k x) \<Longrightarrow> set (map k xs) \<subseteq> set (map k ys)"
  by (auto dest: evolves_in) (metis evolves_in image_eqI)

lemma insert_step:
  "(chk \<Longrightarrow> uniq \<Longrightarrow> fk \<Longrightarrow> db_step d d') \<Longrightarrow> db_step d (snd (insert_row chk uniq fk r d d'))"
  by (simp add: insert_row_def)

lemma ids_mono:
  assumes "set uids \<subseteq> set uids'"
  shows "identities_ok uids x1 \<Longrightarrow> identities_ok uids' x1"
    and "invitations_ok uids x2 \<Longrightarrow> invitations_ok uids' x2"
    and "sessions_ok uids x3 y3 \<Longrightarrow> sessions_ok uids' x3 y3"
    and "resets_ok uids x4 \<Longrightarrow> resets_ok uids' x4"
    and "keys_ok uids x5 \<Longrightarrow> keys_ok uids' x5"
    and "enrollment_ok uids hids x6 \<Longrightarrow> enrollment_ok uids' hids x6"
    and "secrets_ok uids x7 \<Longrightarrow> secrets_ok uids' x7"
    and "grants_ok uids ps x8 \<Longrightarrow> grants_ok uids' ps x8"
    and "sets_ok uids hids x9 y9 z9 \<Longrightarrow> sets_ok uids' hids x9 y9 z9"
  using assms by (auto simp: table_ok_defs elim!: ref_ok_mono)

lemma host_ids_mono:
  assumes "set hids \<subseteq> set hids'"
  shows "enrollment_ok uids hids x \<Longrightarrow> enrollment_ok uids hids' x"
    and "sets_ok uids hids y z w \<Longrightarrow> sets_ok uids hids' y z w"
  using assms by (auto simp: enrollment_ok_def sets_ok_def elim!: ref_ok_mono)

lemma step_users:
  assumes ev: "evolves user_le (users d) us" and ok: "users_ok (users d) \<Longrightarrow> users_ok us"
  shows "db_step d (d\<lparr>users := us\<rparr>)"
proof -
  have ids: "set (user_ids d) \<subseteq> set (map u_ID us)"
    using ev by (rule evolves_ids) (simp add: user_le_def)
  have "schema_ok d \<longrightarrow> schema_ok (d\<lparr>users := us\<rparr>)"
    using ok ids_mono [OF ids] by (simp add: schema_ok_def)
  then show ?thesis using ev by (simp add: db_step_def history_le_def)
qed

lemma step_hosts:
  assumes ev: "evolves host_le (hosts d) hs" and ok: "hosts_ok (hosts d) \<Longrightarrow> hosts_ok hs"
  shows "db_step d (d\<lparr>hosts := hs\<rparr>)"
proof -
  have ids: "set (host_ids d) \<subseteq> set (map h_ID hs)"
    using ev by (rule evolves_ids) (simp add: host_le_def)
  have "schema_ok d \<longrightarrow> schema_ok (d\<lparr>hosts := hs\<rparr>)"
    using ok host_ids_mono [OF ids] by (simp add: schema_ok_def)
  then show ?thesis using ev by (simp add: db_step_def history_le_def)
qed

lemma step_identities:
  "(identities_ok (user_ids d) (identities d) \<Longrightarrow> identities_ok (user_ids d) x) \<Longrightarrow>
     db_step d (d\<lparr>identities := x\<rparr>)"
  by (simp add: db_step_def history_le_def schema_ok_def)

lemma step_invitations:
  "(invitations_ok (user_ids d) (invitations d) \<Longrightarrow> invitations_ok (user_ids d) x) \<Longrightarrow>
     db_step d (d\<lparr>invitations := x\<rparr>)"
  by (simp add: db_step_def history_le_def schema_ok_def)

lemma step_sessions:
  "evolves session_le (sessions d) x \<Longrightarrow>
     (sessions_ok (user_ids d) (sessions d) (access_tokens d) \<Longrightarrow>
        sessions_ok (user_ids d) x (access_tokens d)) \<Longrightarrow>
     db_step d (d\<lparr>sessions := x\<rparr>)"
  by (simp add: db_step_def history_le_def schema_ok_def)

lemma step_access_tokens:
  "(sessions_ok (user_ids d) (sessions d) (access_tokens d) \<Longrightarrow>
      sessions_ok (user_ids d) (sessions d) (access_tokens d @ x)) \<Longrightarrow>
     db_step d (d\<lparr>access_tokens := access_tokens d @ x\<rparr>)"
  by (simp add: db_step_def history_le_def schema_ok_def)

lemma step_password_resets:
  "evolves reset_le (password_resets d) x \<Longrightarrow>
     (resets_ok (user_ids d) (password_resets d) \<Longrightarrow> resets_ok (user_ids d) x) \<Longrightarrow>
     db_step d (d\<lparr>password_resets := x\<rparr>)"
  by (simp add: db_step_def history_le_def schema_ok_def)

lemma step_public_keys:
  "(keys_ok (user_ids d) (public_keys d) \<Longrightarrow> keys_ok (user_ids d) x) \<Longrightarrow>
     db_step d (d\<lparr>public_keys := x\<rparr>)"
  by (simp add: db_step_def history_le_def schema_ok_def)

lemma step_enrollment_tokens:
  "evolves token_le (enrollment_tokens d) x \<Longrightarrow>
     (enrollment_ok (user_ids d) (host_ids d) (enrollment_tokens d) \<Longrightarrow>
        enrollment_ok (user_ids d) (host_ids d) x) \<Longrightarrow>
     db_step d (d\<lparr>enrollment_tokens := x\<rparr>)"
  by (simp add: db_step_def history_le_def schema_ok_def)

lemma step_secrets:
  "(secrets_ok (user_ids d) (secrets d) \<Longrightarrow> secrets_ok (user_ids d) x) \<Longrightarrow>
     db_step d (d\<lparr>secrets := x\<rparr>)"
  by (simp add: db_step_def history_le_def schema_ok_def)

lemma step_groups:
  "(groups_ok (resource_groups d) (group_resources d) \<Longrightarrow> groups_ok x y) \<Longrightarrow>
     db_step d (d\<lparr>resource_groups := x, group_resources := y\<rparr>)"
  by (simp add: db_step_def history_le_def schema_ok_def)

lemma step_resource_groups:
  "(groups_ok (resource_groups d) (group_resources d) \<Longrightarrow> groups_ok x (group_resources d)) \<Longrightarrow>
     db_step d (d\<lparr>resource_groups := x\<rparr>)"
  by (simp add: db_step_def history_le_def schema_ok_def)

lemma step_group_resources:
  "(groups_ok (resource_groups d) (group_resources d) \<Longrightarrow> groups_ok (resource_groups d) y) \<Longrightarrow>
     db_step d (d\<lparr>group_resources := y\<rparr>)"
  by (simp add: db_step_def history_le_def schema_ok_def)

lemma step_grants:
  "evolves grant_le (grants d) x \<Longrightarrow>
     (grants_ok (user_ids d) (permissions d) (grants d) \<Longrightarrow>
        grants_ok (user_ids d) (permissions d) x) \<Longrightarrow>
     db_step d (d\<lparr>grants := x\<rparr>)"
  by (simp add: db_step_def history_le_def schema_ok_def)

lemma step_sets:
  "(sets_ok (user_ids d) (host_ids d) (secret_sets d) (secret_set_entries d) (host_set_bindings d) \<Longrightarrow>
      sets_ok (user_ids d) (host_ids d) x y z) \<Longrightarrow>
     db_step d (d\<lparr>secret_sets := x, secret_set_entries := y, host_set_bindings := z\<rparr>)"
  by (simp add: db_step_def history_le_def schema_ok_def)

lemma step_secret_sets:
  "(sets_ok (user_ids d) (host_ids d) (secret_sets d) (secret_set_entries d) (host_set_bindings d) \<Longrightarrow>
      sets_ok (user_ids d) (host_ids d) x (secret_set_entries d) (host_set_bindings d)) \<Longrightarrow>
     db_step d (d\<lparr>secret_sets := x\<rparr>)"
  by (simp add: db_step_def history_le_def schema_ok_def)

lemma step_secret_set_entries:
  "(sets_ok (user_ids d) (host_ids d) (secret_sets d) (secret_set_entries d) (host_set_bindings d) \<Longrightarrow>
      sets_ok (user_ids d) (host_ids d) (secret_sets d) x (host_set_bindings d)) \<Longrightarrow>
     db_step d (d\<lparr>secret_set_entries := x\<rparr>)"
  by (simp add: db_step_def history_le_def schema_ok_def)

lemma step_host_set_bindings:
  "(sets_ok (user_ids d) (host_ids d) (secret_sets d) (secret_set_entries d) (host_set_bindings d) \<Longrightarrow>
      sets_ok (user_ids d) (host_ids d) (secret_sets d) (secret_set_entries d) x) \<Longrightarrow>
     db_step d (d\<lparr>host_set_bindings := x\<rparr>)"
  by (simp add: db_step_def history_le_def schema_ok_def)

lemma step_secret_audit_logs:
  "st \<notin> sal_ID ` set (secret_audit_logs d) \<Longrightarrow> sal_ID x = st \<Longrightarrow> sal_Action x \<in> set secret_actions \<Longrightarrow>
     db_step d (d\<lparr>secret_audit_logs := secret_audit_logs d @ [x]\<rparr>)"
  by (simp add: db_step_def history_le_def schema_ok_def audit_ok_def)

lemma step_ssh_access_logs:
  "st \<notin> ssh_ID ` set (ssh_access_logs d) \<Longrightarrow> ssh_ID x = st \<Longrightarrow>
     db_step d (d\<lparr>ssh_access_logs := ssh_access_logs d @ [x]\<rparr>)"
  by (simp add: db_step_def history_le_def schema_ok_def audit_ok_def)

lemma step_grant_audit_logs:
  "st \<notin> gal_ID ` set (grant_audit_logs d) \<Longrightarrow> gal_ID x = st \<Longrightarrow> gal_Action x \<in> set grant_actions \<Longrightarrow>
     db_step d (d\<lparr>grant_audit_logs := grant_audit_logs d @ [x]\<rparr>)"
  by (simp add: db_step_def history_le_def schema_ok_def audit_ok_def)

lemma step_set_audit_logs:
  "st \<notin> setal_ID ` set (set_audit_logs d) \<Longrightarrow> setal_ID x = st \<Longrightarrow> setal_Action x \<in> set set_actions \<Longrightarrow>
     db_step d (d\<lparr>set_audit_logs := set_audit_logs d @ [x]\<rparr>)"
  by (simp add: db_step_def history_le_def schema_ok_def audit_ok_def)

end
