(* ===== verification/DB_Identity.thy ===== *)
theory DB_Identity
  imports DB_Step
begin

text \<open>
  The statements of \<open>internal/controlplane/db\<close> on people and their credentials: users,
  identities, sessions, access tokens, invitations, password resets and public keys. A
  statement keeps the name of its generated Go method; the fields of its params struct are
  its arguments, in order. Each writing statement has its \<open>db_step\<close> lemma.
\<close>

section \<open>Users\<close>

definition GetUserByEmail :: "string \<Rightarrow> db \<Rightarrow> dberr + User" where
  "GetUserByEmail email d = one_row (filter (\<lambda>u. u_Email u = email) (users d))"

definition GetUserByID :: "uuid \<Rightarrow> db \<Rightarrow> dberr + User" where
  "GetUserByID rid d = one_row (filter (\<lambda>u. u_ID u = rid) (users d))"

definition CreateUser :: "string \<Rightarrow> string \<Rightarrow> string option \<Rightarrow> string \<Rightarrow> User db_write" where
  "CreateUser email name display_name role st d =
     (let u = \<lparr>u_ID = st_uuid st, u_Email = email, u_Name = name, u_DisplayName = display_name,
               u_Role = role, u_Status = ''active'', u_CreatedAt = st_now st\<rparr>
      in insert_row (role \<in> set user_roles)
           (st_uuid st \<notin> set (user_ids d) \<and> email \<notin> set (map u_Email (users d))) True
           u d (d\<lparr>users := users d @ [u]\<rparr>))"

definition CountActiveAdmins :: "db \<Rightarrow> int" where
  "CountActiveAdmins d = count_where (\<lambda>u. u_Role u = ''admin'' \<and> u_Status u = ''active'') (users d)"

definition ListUsers :: "collation \<Rightarrow> db \<Rightarrow> User list" where
  "ListUsers coll d = sort_key (\<lambda>u. coll (u_Email u)) (users d)"

definition UpdateUserName :: "uuid \<Rightarrow> string \<Rightarrow> unit db_write" where
  "UpdateUserName rid name st d =
     (Inr (), d\<lparr>users := update_where (\<lambda>u. u_ID u = rid) (u_Name_update (\<lambda>_. name)) (users d)\<rparr>)"

definition UpdateUserDisplayName :: "uuid \<Rightarrow> string option \<Rightarrow> unit db_write" where
  "UpdateUserDisplayName rid name st d =
     (Inr (), d\<lparr>users := update_where (\<lambda>u. u_ID u = rid) (u_DisplayName_update (\<lambda>_. name)) (users d)\<rparr>)"

definition SetUserStatus :: "uuid \<Rightarrow> string \<Rightarrow> int db_write" where
  "SetUserStatus rid status st d =
     (let n = count_where (\<lambda>u. u_ID u = rid) (users d) in
      if n > 0 \<and> status \<notin> set user_statuses then (Inl CheckViolation, d)
      else (Inr n, d\<lparr>users := update_where (\<lambda>u. u_ID u = rid) (u_Status_update (\<lambda>_. status)) (users d)\<rparr>))"

definition DeleteUserIdentities :: "uuid \<Rightarrow> unit db_write" where
  "DeleteUserIdentities user_id st d =
     (Inr (), d\<lparr>identities := filter (\<lambda>i. i_UserID i \<noteq> user_id) (identities d)\<rparr>)"

section \<open>Identities\<close>

definition GetIdentity :: "string \<Rightarrow> string \<Rightarrow> db \<Rightarrow> dberr + Identity" where
  "GetIdentity provider external_id d =
     one_row (filter (\<lambda>i. i_Provider i = provider \<and> i_ExternalID i = external_id) (identities d))"

definition CreateIdentity :: "uuid \<Rightarrow> string \<Rightarrow> string \<Rightarrow> string option \<Rightarrow> Identity db_write" where
  "CreateIdentity user_id provider external_id password_hash st d =
     (let i = \<lparr>i_ID = st_uuid st, i_UserID = user_id, i_Provider = provider,
               i_ExternalID = external_id, i_PasswordHash = password_hash, i_CreatedAt = st_now st,
               i_LastLoginAt = None, i_FailedLogins = 0, i_LastFailedAt = None, i_LockedUntil = None\<rparr>
      in insert_row True
           (st_uuid st \<notin> set (map i_ID (identities d)) \<and>
            (provider, external_id) \<notin> set (map (\<lambda>i. (i_Provider i, i_ExternalID i)) (identities d)))
           (user_id \<in> set (user_ids d))
           i d (d\<lparr>identities := identities d @ [i]\<rparr>))"

definition TouchIdentityLogin :: "uuid \<Rightarrow> unit db_write" where
  "TouchIdentityLogin rid st d =
     (Inr (), d\<lparr>identities := update_where (\<lambda>i. i_ID i = rid)
        (i_LastLoginAt_update (\<lambda>_. Some (st_now st))) (identities d)\<rparr>)"

definition UpdatePasswordIdentity :: "uuid \<Rightarrow> string option \<Rightarrow> unit db_write" where
  "UpdatePasswordIdentity user_id password_hash st d =
     (Inr (), d\<lparr>identities := update_where (\<lambda>i. i_UserID i = user_id \<and> i_Provider i = ''password'')
        (i_PasswordHash_update (\<lambda>_. password_hash)) (identities d)\<rparr>)"

definition SetLoginFailure :: "uuid \<Rightarrow> int \<Rightarrow> time option \<Rightarrow> unit db_write" where
  "SetLoginFailure rid failed_logins locked_until st d =
     (Inr (), d\<lparr>identities := update_where (\<lambda>i. i_ID i = rid)
        (\<lambda>i. i\<lparr>i_FailedLogins := failed_logins, i_LockedUntil := locked_until,
               i_LastFailedAt := Some (st_now st)\<rparr>) (identities d)\<rparr>)"

definition ResetLoginFailures :: "uuid \<Rightarrow> unit db_write" where
  "ResetLoginFailures rid st d =
     (Inr (), d\<lparr>identities := update_where (\<lambda>i. i_ID i = rid)
        (\<lambda>i. i\<lparr>i_FailedLogins := 0, i_LockedUntil := None\<rparr>) (identities d)\<rparr>)"

section \<open>Sessions and access tokens\<close>

definition CreateSession :: "uuid \<Rightarrow> string \<Rightarrow> bytes option \<Rightarrow> time \<Rightarrow> Session db_write" where
  "CreateSession user_id token_hash client_public_key expires_at st d =
     (let s = \<lparr>s_ID = st_uuid st, s_UserID = user_id, s_TokenHash = token_hash,
               s_ClientPublicKey = client_public_key, s_CreatedAt = st_now st,
               s_ExpiresAt = expires_at, s_RevokedAt = None\<rparr>
      in insert_row True
           (st_uuid st \<notin> set (map s_ID (sessions d)) \<and> token_hash \<notin> set (map s_TokenHash (sessions d)))
           (user_id \<in> set (user_ids d))
           s d (d\<lparr>sessions := sessions d @ [s]\<rparr>))"

definition GetSessionByTokenHash :: "string \<Rightarrow> time \<Rightarrow> db \<Rightarrow> dberr + Session" where
  "GetSessionByTokenHash token_hash now d =
     one_row (filter (\<lambda>s. s_TokenHash s = token_hash \<and> s_RevokedAt s = None \<and> s_ExpiresAt s > now)
       (sessions d))"

definition UpdateSessionClientKey :: "uuid \<Rightarrow> bytes option \<Rightarrow> unit db_write" where
  "UpdateSessionClientKey rid key st d =
     (Inr (), d\<lparr>sessions := update_where (\<lambda>s. s_ID s = rid) (s_ClientPublicKey_update (\<lambda>_. key)) (sessions d)\<rparr>)"

definition RotateSessionToken :: "uuid \<Rightarrow> string \<Rightarrow> unit db_write" where
  "RotateSessionToken rid token_hash st d =
     (if list_ex (\<lambda>s. s_ID s = rid) (sessions d) \<and>
         list_ex (\<lambda>s. s_ID s \<noteq> rid \<and> s_TokenHash s = token_hash) (sessions d)
      then (Inl UniqueViolation, d)
      else (Inr (), d\<lparr>sessions := update_where (\<lambda>s. s_ID s = rid)
              (s_TokenHash_update (\<lambda>_. token_hash)) (sessions d)\<rparr>))"

definition RevokeSession :: "uuid \<Rightarrow> unit db_write" where
  "RevokeSession rid st d =
     (Inr (), d\<lparr>sessions := update_where (\<lambda>s. s_ID s = rid)
        (s_RevokedAt_update (\<lambda>_. Some (st_now st))) (sessions d)\<rparr>)"

definition RevokeAllUserSessions :: "uuid \<Rightarrow> unit db_write" where
  "RevokeAllUserSessions user_id st d =
     (Inr (), d\<lparr>sessions := update_where (\<lambda>s. s_UserID s = user_id \<and> s_RevokedAt s = None)
        (s_RevokedAt_update (\<lambda>_. Some (st_now st))) (sessions d)\<rparr>)"

definition CreateAccessToken :: "uuid \<Rightarrow> string \<Rightarrow> time \<Rightarrow> AccessToken db_write" where
  "CreateAccessToken session_id token_hash expires_at st d =
     (let a = \<lparr>at_ID = st_uuid st, at_SessionID = session_id, at_TokenHash = token_hash,
               at_ExpiresAt = expires_at, at_CreatedAt = st_now st\<rparr>
      in insert_row True
           (st_uuid st \<notin> set (map at_ID (access_tokens d)) \<and>
            token_hash \<notin> set (map at_TokenHash (access_tokens d)))
           (session_id \<in> set (map s_ID (sessions d)))
           a d (d\<lparr>access_tokens := access_tokens d @ [a]\<rparr>))"

record GetAccessContextRow =
  ac_SessionID :: uuid
  ac_ClientPublicKey :: "bytes option"
  ac_UserID :: uuid
  ac_Role :: string
  ac_Status :: string

definition GetAccessContext :: "string \<Rightarrow> time \<Rightarrow> db \<Rightarrow> dberr + GetAccessContextRow" where
  "GetAccessContext token_hash now d = one_row
     [\<lparr>ac_SessionID = s_ID s, ac_ClientPublicKey = s_ClientPublicKey s, ac_UserID = u_ID u,
       ac_Role = u_Role u, ac_Status = u_Status u\<rparr>.
       a \<leftarrow> access_tokens d, s \<leftarrow> sessions d, s_ID s = at_SessionID a,
       u \<leftarrow> users d, u_ID u = s_UserID s,
       at_TokenHash a = token_hash \<and> at_ExpiresAt a > now \<and> s_RevokedAt s = None \<and> s_ExpiresAt s > now]"

section \<open>Invitations and password resets\<close>

definition CreateInvitation ::
    "string \<Rightarrow> string \<Rightarrow> string \<Rightarrow> uuid option \<Rightarrow> time \<Rightarrow> Invitation db_write" where
  "CreateInvitation email role token_hash invited_by expires_at st d =
     (let i = \<lparr>inv_ID = st_uuid st, inv_Email = email, inv_Role = role, inv_TokenHash = token_hash,
               inv_InvitedBy = invited_by, inv_ExpiresAt = expires_at, inv_AcceptedAt = None,
               inv_CreatedAt = st_now st\<rparr>
      in insert_row (role \<in> set user_roles) (st_uuid st \<notin> set (map inv_ID (invitations d)))
           (ref_ok invited_by (user_ids d))
           i d (d\<lparr>invitations := invitations d @ [i]\<rparr>))"

definition GetInvitationByTokenHash :: "string \<Rightarrow> db \<Rightarrow> dberr + Invitation" where
  "GetInvitationByTokenHash token_hash d =
     one_row (filter (\<lambda>i. inv_TokenHash i = token_hash) (invitations d))"

definition MarkInvitationAccepted :: "uuid \<Rightarrow> unit db_write" where
  "MarkInvitationAccepted rid st d =
     (Inr (), d\<lparr>invitations := update_where (\<lambda>i. inv_ID i = rid)
        (inv_AcceptedAt_update (\<lambda>_. Some (st_now st))) (invitations d)\<rparr>)"

record ListPendingInvitationsRow =
  pi_ID :: uuid
  pi_Email :: string
  pi_Role :: string
  pi_InvitedBy :: "uuid option"
  pi_ExpiresAt :: time
  pi_CreatedAt :: time

definition ListPendingInvitations :: "time \<Rightarrow> db \<Rightarrow> ListPendingInvitationsRow list" where
  "ListPendingInvitations now d =
     map (\<lambda>i. \<lparr>pi_ID = inv_ID i, pi_Email = inv_Email i, pi_Role = inv_Role i,
               pi_InvitedBy = inv_InvitedBy i, pi_ExpiresAt = inv_ExpiresAt i,
               pi_CreatedAt = inv_CreatedAt i\<rparr>)
       (sort_key (\<lambda>i. - inv_CreatedAt i)
          (filter (\<lambda>i. inv_AcceptedAt i = None \<and> inv_ExpiresAt i > now) (invitations d)))"

definition DeleteInvitation :: "uuid \<Rightarrow> int db_write" where
  "DeleteInvitation rid st d =
     (Inr (count_where (\<lambda>i. inv_ID i = rid \<and> inv_AcceptedAt i = None) (invitations d)),
      d\<lparr>invitations := filter (\<lambda>i. \<not> (inv_ID i = rid \<and> inv_AcceptedAt i = None)) (invitations d)\<rparr>)"

definition RefreshInvitationToken :: "uuid \<Rightarrow> string \<Rightarrow> time \<Rightarrow> Invitation db_write" where
  "RefreshInvitationToken rid token_hash expires_at st d =
     (let f = (\<lambda>i. i\<lparr>inv_TokenHash := token_hash, inv_ExpiresAt := expires_at\<rparr>);
          P = (\<lambda>i. inv_ID i = rid \<and> inv_AcceptedAt i = None)
      in (one_row (map f (filter P (invitations d))),
          d\<lparr>invitations := update_where P f (invitations d)\<rparr>))"

definition CreatePasswordReset :: "uuid \<Rightarrow> string \<Rightarrow> time \<Rightarrow> PasswordReset db_write" where
  "CreatePasswordReset user_id token_hash expires_at st d =
     (let p = \<lparr>pr_ID = st_uuid st, pr_UserID = user_id, pr_TokenHash = token_hash,
               pr_ExpiresAt = expires_at, pr_UsedAt = None, pr_CreatedAt = st_now st\<rparr>
      in insert_row True
           (st_uuid st \<notin> set (map pr_ID (password_resets d)) \<and>
            token_hash \<notin> set (map pr_TokenHash (password_resets d)))
           (user_id \<in> set (user_ids d))
           p d (d\<lparr>password_resets := password_resets d @ [p]\<rparr>))"

definition GetPasswordReset :: "string \<Rightarrow> db \<Rightarrow> dberr + PasswordReset" where
  "GetPasswordReset token_hash d =
     one_row (filter (\<lambda>p. pr_TokenHash p = token_hash) (password_resets d))"

definition MarkPasswordResetUsed :: "uuid \<Rightarrow> unit db_write" where
  "MarkPasswordResetUsed rid st d =
     (Inr (), d\<lparr>password_resets := update_where (\<lambda>p. pr_ID p = rid)
        (pr_UsedAt_update (\<lambda>_. Some (st_now st))) (password_resets d)\<rparr>)"

section \<open>Public keys\<close>

definition CreatePublicKey ::
    "uuid \<Rightarrow> string \<Rightarrow> string \<Rightarrow> string \<Rightarrow> string \<Rightarrow> PublicKey db_write" where
  "CreatePublicKey user_id label key_type key_blob fingerprint st d =
     (let k = \<lparr>pk_ID = st_uuid st, pk_UserID = user_id, pk_Label = label, pk_KeyType = key_type,
               pk_KeyBlob = key_blob, pk_Fingerprint = fingerprint, pk_CreatedAt = st_now st\<rparr>
      in insert_row True
           (st_uuid st \<notin> set (map pk_ID (public_keys d)) \<and>
            fingerprint \<notin> set (map pk_Fingerprint (public_keys d)))
           (user_id \<in> set (user_ids d))
           k d (d\<lparr>public_keys := public_keys d @ [k]\<rparr>))"

definition ListUserPublicKeys :: "uuid \<Rightarrow> db \<Rightarrow> PublicKey list" where
  "ListUserPublicKeys user_id d =
     sort_key pk_CreatedAt (filter (\<lambda>k. pk_UserID k = user_id) (public_keys d))"

definition DeletePublicKey :: "uuid \<Rightarrow> uuid \<Rightarrow> int db_write" where
  "DeletePublicKey rid user_id st d =
     (Inr (count_where (\<lambda>k. pk_ID k = rid \<and> pk_UserID k = user_id) (public_keys d)),
      d\<lparr>public_keys := filter (\<lambda>k. \<not> (pk_ID k = rid \<and> pk_UserID k = user_id)) (public_keys d)\<rparr>)"

definition GetPublicKeyByFingerprint :: "string \<Rightarrow> db \<Rightarrow> dberr + PublicKey" where
  "GetPublicKeyByFingerprint fingerprint d =
     one_row (filter (\<lambda>k. pk_Fingerprint k = fingerprint) (public_keys d))"

section \<open>Every statement keeps the schema and the history\<close>

lemma CreateUser_step [db_steps]: "db_step d (snd (CreateUser e n dn r st d))"
  unfolding CreateUser_def Let_def
  by (rule insert_step, rule step_users) (auto simp: users_ok_def user_statuses_def)

lemma UpdateUserName_step [db_steps]: "db_step d (snd (UpdateUserName rid n st d))"
  unfolding UpdateUserName_def snd_conv
  by (rule step_users) (auto simp: users_ok_def in_update_where user_le_def)

lemma UpdateUserDisplayName_step [db_steps]: "db_step d (snd (UpdateUserDisplayName rid n st d))"
  unfolding UpdateUserDisplayName_def snd_conv
  by (rule step_users) (auto simp: users_ok_def in_update_where user_le_def)

lemma SetUserStatus_step [db_steps]: "db_step d (snd (SetUserStatus rid s st d))"
proof (cases "count_where (\<lambda>u. u_ID u = rid) (users d) > 0 \<and> s \<notin> set user_statuses")
  case True
  then show ?thesis by (simp add: SetUserStatus_def)
next
  case False
  then have ok: "\<lbrakk>u \<in> set (users d); u_ID u = rid\<rbrakk> \<Longrightarrow> s \<in> set user_statuses" for u
    using count_where_zero [of "\<lambda>u. u_ID u = rid" "users d"] by (auto simp: count_where_def)
  have "db_step d (d\<lparr>users := update_where (\<lambda>u. u_ID u = rid) (u_Status_update (\<lambda>_. s)) (users d)\<rparr>)"
    by (rule step_users) (auto simp: users_ok_def in_update_where user_le_def ok [simplified])
  then show ?thesis using False by (simp add: SetUserStatus_def Let_def)
qed

lemma DeleteUserIdentities_step [db_steps]: "db_step d (snd (DeleteUserIdentities u st d))"
  unfolding DeleteUserIdentities_def snd_conv
  by (rule step_identities) (auto simp: identities_ok_def intro: distinct_map_filter)

lemma CreateIdentity_step [db_steps]: "db_step d (snd (CreateIdentity u p e h st d))"
  unfolding CreateIdentity_def Let_def
  by (rule insert_step, rule step_identities) (auto simp: identities_ok_def)

lemma identities_ok_update:
  "(\<And>i. i_ID (f i) = i_ID i \<and> i_Provider (f i) = i_Provider i \<and> i_ExternalID (f i) = i_ExternalID i \<and>
      i_UserID (f i) = i_UserID i) \<Longrightarrow>
     identities_ok uids is \<Longrightarrow> identities_ok uids (update_where P f is)"
  by (auto simp: identities_ok_def in_update_where)

lemma identity_updates_step [db_steps]:
  "db_step d (snd (TouchIdentityLogin rid st d))"
  "db_step d (snd (UpdatePasswordIdentity u h st d))"
  "db_step d (snd (SetLoginFailure rid n l st d))"
  "db_step d (snd (ResetLoginFailures rid st d))"
  unfolding TouchIdentityLogin_def UpdatePasswordIdentity_def SetLoginFailure_def
    ResetLoginFailures_def snd_conv
  by (rule step_identities, rule identities_ok_update, simp, assumption)+

lemma CreateSession_step [db_steps]: "db_step d (snd (CreateSession u h k e st d))"
  unfolding CreateSession_def Let_def
  by (rule insert_step, rule step_sessions) (auto simp: sessions_ok_def)

lemma sessions_ok_update:
  assumes "\<And>s. s_ID (f s) = s_ID s \<and> s_TokenHash (f s) = s_TokenHash s \<and> s_UserID (f s) = s_UserID s"
    and "sessions_ok uids ses ats"
  shows "sessions_ok uids (update_where P f ses) ats"
proof -
  have "s_ID ` set (update_where P f ses) = s_ID ` set ses"
    using assms(1) by (metis list.set_map map_update_where_key)
  then show ?thesis using assms by (auto simp: sessions_ok_def in_update_where)
qed

lemma session_updates_step [db_steps]:
  "db_step d (snd (UpdateSessionClientKey rid k st d))"
  "db_step d (snd (RevokeSession rid st d))"
  "db_step d (snd (RevokeAllUserSessions u st d))"
  unfolding UpdateSessionClientKey_def RevokeSession_def RevokeAllUserSessions_def snd_conv
  by (rule step_sessions, rule evolves_update, simp, simp add: session_le_def,
      rule sessions_ok_update, simp, assumption)+

lemma distinct_update_key:
  assumes "distinct (map k rs)" and "distinct (map h rs)" and "\<And>r. k r \<noteq> i \<Longrightarrow> r \<in> set rs \<Longrightarrow> h r \<noteq> v"
    and "\<And>r. h (f r) = v"
  shows "distinct (map h (update_where (\<lambda>r. k r = i) f rs))"
  using assms
proof (induction rs)
  case (Cons r rs)
  have IH: "distinct (map h (update_where (\<lambda>r. k r = i) f rs))" using Cons by auto
  show ?case
  proof (cases "k r = i")
    case True
    then have "\<forall>q \<in> set rs. k q \<noteq> i" using Cons.prems(1) by (auto simp: image_iff)
    then have "update_where (\<lambda>r. k r = i) f rs = rs" by (intro update_where_none) auto
    moreover have "v \<notin> h ` set rs"
      using \<open>\<forall>q \<in> set rs. k q \<noteq> i\<close> Cons.prems(3) by force
    ultimately show ?thesis using True Cons.prems by auto
  next
    case False
    then have "h r \<noteq> v" using Cons.prems(3) by auto
    moreover have "h r \<notin> h ` set rs" using Cons.prems(2) by simp
    ultimately have "h r \<notin> h ` set (update_where (\<lambda>r. k r = i) f rs)"
      using Cons.prems(4) by (auto simp: in_update_where split: if_splits)
    then show ?thesis using False IH by simp
  qed
qed simp

lemma RotateSessionToken_step [db_steps]: "db_step d (snd (RotateSessionToken rid h st d))"
proof (cases "list_ex (\<lambda>s. s_ID s = rid) (sessions d) \<and>
    list_ex (\<lambda>s. s_ID s \<noteq> rid \<and> s_TokenHash s = h) (sessions d)")
  case True
  then show ?thesis by (simp add: RotateSessionToken_def)
next
  case False
  let ?s = "update_where (\<lambda>s. s_ID s = rid) (s_TokenHash_update (\<lambda>_. h)) (sessions d)"
  have ids: "map s_ID ?s = map s_ID (sessions d)" by simp
  have "distinct (map s_TokenHash ?s)" if ok: "sessions_ok u (sessions d) a" for u a
  proof (cases "list_ex (\<lambda>s. s_ID s = rid) (sessions d)")
    case True
    then have "\<forall>s \<in> set (sessions d). s_ID s \<noteq> rid \<longrightarrow> s_TokenHash s \<noteq> h"
      using False by (auto simp: list_ex_iff)
    then show ?thesis using ok
      by (intro distinct_update_key) (auto simp: sessions_ok_def)
  next
    case none: False
    then have "?s = sessions d" by (intro update_where_none) (auto simp: list_ex_iff)
    then show ?thesis using ok by (simp add: sessions_ok_def)
  qed
  then have "sessions_ok u (sessions d) a \<Longrightarrow> sessions_ok u ?s a" for u a
    unfolding sessions_ok_def ids by (auto simp: in_update_where)
  then have "db_step d (d\<lparr>sessions := ?s\<rparr>)"
    by (intro step_sessions evolves_update) (auto simp: session_le_def)
  then show ?thesis using False by (simp add: RotateSessionToken_def)
qed

lemma CreateAccessToken_step [db_steps]: "db_step d (snd (CreateAccessToken s h e st d))"
  unfolding CreateAccessToken_def Let_def
  by (rule insert_step, rule step_access_tokens) (auto simp: sessions_ok_def)

lemma CreateInvitation_step [db_steps]: "db_step d (snd (CreateInvitation e r h b x st d))"
  unfolding CreateInvitation_def Let_def
  by (rule insert_step, rule step_invitations) (auto simp: invitations_ok_def)

lemma invitations_ok_update:
  "(\<And>i. inv_ID (f i) = inv_ID i \<and> inv_Role (f i) = inv_Role i \<and> inv_InvitedBy (f i) = inv_InvitedBy i) \<Longrightarrow>
     invitations_ok uids is \<Longrightarrow> invitations_ok uids (update_where P f is)"
  by (auto simp: invitations_ok_def in_update_where)

lemma invitation_updates_step [db_steps]:
  "db_step d (snd (MarkInvitationAccepted rid st d))"
  "db_step d (snd (RefreshInvitationToken rid h x st d))"
  unfolding MarkInvitationAccepted_def RefreshInvitationToken_def Let_def snd_conv
  by (rule step_invitations, rule invitations_ok_update, simp, assumption)+

lemma DeleteInvitation_step [db_steps]: "db_step d (snd (DeleteInvitation rid st d))"
  unfolding DeleteInvitation_def snd_conv
  by (rule step_invitations) (auto simp: invitations_ok_def intro: distinct_map_filter)

lemma CreatePasswordReset_step [db_steps]: "db_step d (snd (CreatePasswordReset u h x st d))"
  unfolding CreatePasswordReset_def Let_def
  by (rule insert_step, rule step_password_resets) (auto simp: resets_ok_def)

lemma MarkPasswordResetUsed_step [db_steps]: "db_step d (snd (MarkPasswordResetUsed rid st d))"
  unfolding MarkPasswordResetUsed_def snd_conv
  by (rule step_password_resets) (auto simp: resets_ok_def in_update_where reset_le_def)

lemma CreatePublicKey_step [db_steps]: "db_step d (snd (CreatePublicKey u l t b f st d))"
  unfolding CreatePublicKey_def Let_def
  by (rule insert_step, rule step_public_keys) (auto simp: keys_ok_def)

lemma DeletePublicKey_step [db_steps]: "db_step d (snd (DeletePublicKey rid u st d))"
  unfolding DeletePublicKey_def snd_conv
  by (rule step_public_keys) (auto simp: keys_ok_def intro: distinct_map_filter)

end
