(* ===== verification/DB_Access.thy ===== *)
theory DB_Access
  imports DB_Identity
begin

text \<open>
  The statements of \<open>internal/controlplane/db\<close> on grants, permissions and groups, and the
  query behind a host's access snapshot; then the agreement between the queries: who a
  permission check admits is exactly whom the snapshot, the audit and the listings name.
\<close>

section \<open>Grants\<close>

definition CreateGrant ::
    "uuid \<Rightarrow> string \<Rightarrow> string \<Rightarrow> uuid option \<Rightarrow> uuid option \<Rightarrow> Grant db_write" where
  "CreateGrant user_id permission target_kind target_id granted_by st d =
     (let g = \<lparr>g_ID = st_uuid st, g_UserID = user_id, g_Permission = permission,
               g_TargetKind = target_kind, g_TargetID = target_id, g_GrantedBy = granted_by,
               g_CreatedAt = st_now st, g_RevokedAt = None\<rparr>
      in insert_row
           (target_kind \<in> set target_kinds \<and> (target_kind = ''global'') = (target_id = None))
           (st_uuid st \<notin> set (map g_ID (grants d)))
           (user_id \<in> set (user_ids d) \<and> permission \<in> set (map p_Key (permissions d)) \<and>
            ref_ok granted_by (user_ids d))
           g d (d\<lparr>grants := grants d @ [g]\<rparr>))"

definition RevokeGrant :: "uuid \<Rightarrow> Grant db_write" where
  "RevokeGrant rid st d =
     (let P = (\<lambda>g. g_ID g = rid \<and> g_RevokedAt g = None);
          f = g_RevokedAt_update (\<lambda>_. Some (st_now st))
      in (one_row (map f (filter P (grants d))), d\<lparr>grants := update_where P f (grants d)\<rparr>))"

definition RevokeAllUserGrants :: "uuid \<Rightarrow> unit db_write" where
  "RevokeAllUserGrants user_id st d =
     (Inr (), d\<lparr>grants := update_where (\<lambda>g. g_UserID g = user_id \<and> g_RevokedAt g = None)
        (g_RevokedAt_update (\<lambda>_. Some (st_now st))) (grants d)\<rparr>)"

definition RevokeGroupGrants :: "uuid \<Rightarrow> unit db_write" where
  "RevokeGroupGrants target_id st d =
     (Inr (), d\<lparr>grants := update_where
        (\<lambda>g. g_TargetKind g = ''group'' \<and> g_TargetID g = Some target_id \<and> g_RevokedAt g = None)
        (g_RevokedAt_update (\<lambda>_. Some (st_now st))) (grants d)\<rparr>)"

definition GroupHostIDs :: "uuid \<Rightarrow> db \<Rightarrow> uuid list" where
  "GroupHostIDs group_id d = map gr_ResourceID
     (filter (\<lambda>r. gr_GroupID r = group_id \<and> gr_ResourceKind r = ''host'') (group_resources d))"

record ListGrantsRow =
  lg_ID :: uuid
  lg_Permission :: string
  lg_TargetKind :: string
  lg_TargetID :: "uuid option"
  lg_CreatedAt :: time
  lg_UserID :: uuid
  lg_UserEmail :: string

definition ListGrants :: "db \<Rightarrow> ListGrantsRow list" where
  "ListGrants d = sort_key (\<lambda>r. - lg_CreatedAt r)
     [\<lparr>lg_ID = g_ID g, lg_Permission = g_Permission g, lg_TargetKind = g_TargetKind g,
       lg_TargetID = g_TargetID g, lg_CreatedAt = g_CreatedAt g, lg_UserID = u_ID u,
       lg_UserEmail = u_Email u\<rparr>.
       g \<leftarrow> grants d, u \<leftarrow> users d, u_ID u = g_UserID g, g_RevokedAt g = None]"

definition InsertGrantAudit :: "string \<Rightarrow> uuid option \<Rightarrow> uuid option \<Rightarrow> string \<Rightarrow> uuid option \<Rightarrow>
    string \<Rightarrow> string \<Rightarrow> string \<Rightarrow> uuid option \<Rightarrow> unit db_write" where
  "InsertGrantAudit action grant_id actor_id actor_email subject_id subject_email permission
       target_kind target_id st d =
     insert_row (action \<in> set grant_actions)
       (st_uuid st \<notin> set (map gal_ID (grant_audit_logs d))) True () d
       (d\<lparr>grant_audit_logs := grant_audit_logs d @
          [\<lparr>gal_ID = st_uuid st, gal_Action = action, gal_GrantID = grant_id, gal_ActorID = actor_id,
            gal_ActorEmail = actor_email, gal_SubjectID = subject_id,
            gal_SubjectEmail = subject_email, gal_Permission = permission,
            gal_TargetKind = target_kind, gal_TargetID = target_id, gal_At = st_now st\<rparr>]\<rparr>)"

text \<open>The rows a left join pairs with one row of the left table.\<close>
definition left_join :: "('r \<Rightarrow> bool) \<Rightarrow> 'r list \<Rightarrow> 'r option list" where
  "left_join P rs = (case filter P rs of [] \<Rightarrow> [None] | qs \<Rightarrow> map Some qs)"

record ListGrantAuditRow =
  lga_Log :: GrantAuditLog
  lga_ActorName :: "string option"
  lga_ActorDisplayName :: "string option"
  lga_SubjectName :: "string option"
  lga_SubjectDisplayName :: "string option"

definition ListGrantAudit :: "db \<Rightarrow> ListGrantAuditRow list" where
  "ListGrantAudit d = take 100 (sort_key (\<lambda>r. - gal_At (lga_Log r))
     [\<lparr>lga_Log = ga, lga_ActorName = map_option u_Name au,
       lga_ActorDisplayName = Option.bind au u_DisplayName,
       lga_SubjectName = map_option u_Name su,
       lga_SubjectDisplayName = Option.bind su u_DisplayName\<rparr>.
       ga \<leftarrow> grant_audit_logs d,
       au \<leftarrow> left_join (\<lambda>u. Some (u_ID u) = gal_ActorID ga) (users d),
       su \<leftarrow> left_join (\<lambda>u. Some (u_ID u) = gal_SubjectID ga) (users d)])"

section \<open>Permission checks\<close>

text \<open>\<open>select group_id from group_resources where resource_kind = .. and resource_id = ..\<close>\<close>
definition groups_of :: "string \<Rightarrow> uuid \<Rightarrow> db \<Rightarrow> uuid list" where
  "groups_of kind rid d = map gr_GroupID
     (filter (\<lambda>r. gr_ResourceKind r = kind \<and> gr_ResourceID r = rid) (group_resources d))"

text \<open>The condition shared by the checks: a grant on the resource, or on a group holding it.\<close>
definition grant_covers :: "string \<Rightarrow> uuid \<Rightarrow> db \<Rightarrow> Grant \<Rightarrow> bool" where
  "grant_covers kind rid d g \<longleftrightarrow>
     g_TargetKind g = kind \<and> g_TargetID g = Some rid \<or>
     g_TargetKind g = ''group'' \<and> g_TargetID g \<in> Some ` set (groups_of kind rid d)"

definition UserHasGlobalPermission :: "uuid \<Rightarrow> string \<Rightarrow> db \<Rightarrow> bool" where
  "UserHasGlobalPermission user_id permission d = list_ex
     (\<lambda>g. g_UserID g = user_id \<and> g_Permission g = permission \<and> g_TargetKind g = ''global'' \<and>
          g_RevokedAt g = None) (grants d)"

definition UserHasSecretPermission :: "uuid \<Rightarrow> string \<Rightarrow> uuid \<Rightarrow> db \<Rightarrow> bool" where
  "UserHasSecretPermission user_id permission secret_id d = list_ex
     (\<lambda>g. g_UserID g = user_id \<and> g_Permission g = permission \<and> g_RevokedAt g = None \<and>
          grant_covers ''secret'' secret_id d g) (grants d)"

definition UserHasGroupPermission :: "uuid \<Rightarrow> string \<Rightarrow> uuid \<Rightarrow> db \<Rightarrow> bool" where
  "UserHasGroupPermission user_id permission group_id d = list_ex
     (\<lambda>g. g_UserID g = user_id \<and> g_Permission g = permission \<and> g_RevokedAt g = None \<and>
          g_TargetKind g = ''group'' \<and> g_TargetID g = Some group_id) (grants d)"

definition UserHasHostPermission :: "uuid \<Rightarrow> string \<Rightarrow> uuid \<Rightarrow> db \<Rightarrow> bool" where
  "UserHasHostPermission user_id permission host_id d = list_ex
     (\<lambda>g. g_UserID g = user_id \<and> g_Permission g = permission \<and> g_RevokedAt g = None \<and>
          grant_covers ''host'' host_id d g) (grants d)"

definition UserHasSetPermission :: "uuid \<Rightarrow> string \<Rightarrow> uuid \<Rightarrow> db \<Rightarrow> bool" where
  "UserHasSetPermission user_id permission set_id d = list_ex
     (\<lambda>g. g_UserID g = user_id \<and> g_Permission g = permission \<and> g_RevokedAt g = None \<and>
          grant_covers ''set'' set_id d g) (grants d)"

record ListUserGlobalPermissionsRow =
  ugp_GrantID :: uuid
  ugp_Permission :: string
  ugp_Description :: string
  ugp_GrantedAt :: time

definition ListUserGlobalPermissions ::
    "collation \<Rightarrow> uuid \<Rightarrow> db \<Rightarrow> ListUserGlobalPermissionsRow list" where
  "ListUserGlobalPermissions coll user_id d = sort_key (\<lambda>r. coll (ugp_Permission r))
     [\<lparr>ugp_GrantID = g_ID g, ugp_Permission = p_Key p, ugp_Description = p_Description p,
       ugp_GrantedAt = g_CreatedAt g\<rparr>.
       g \<leftarrow> grants d, p \<leftarrow> permissions d, p_Key p = g_Permission g,
       g_UserID g = user_id \<and> g_TargetKind g = ''global'' \<and> g_RevokedAt g = None]"

definition ListGlobalPermissions :: "collation \<Rightarrow> db \<Rightarrow> Permission list" where
  "ListGlobalPermissions coll d = sort_key (\<lambda>p. coll (p_Key p))
     (filter (\<lambda>p. p_Key p \<in> {''secret.add'', ''group.create'', ''host.add'', ''set.add''})
       (permissions d))"

record ListSecretDirectAccessRow =
  da_GrantID :: uuid
  da_UserID :: uuid
  da_Email :: string
  da_Name :: string
  da_DisplayName :: "string option"
  da_Role :: string
  da_Status :: string
  da_Permission :: string
  da_CreatedAt :: time

record ListHostDirectAccessRow = ListSecretDirectAccessRow +
  da_Fingerprints :: "string list"

record ListSecretGroupAccessRow = ListSecretDirectAccessRow +
  ga_GroupID :: uuid
  ga_GroupName :: string

record ListHostGroupAccessRow = ListSecretGroupAccessRow +
  ga_Fingerprints :: "string list"

definition ListSecretDirectAccess ::
    "collation \<Rightarrow> uuid \<Rightarrow> db \<Rightarrow> ListSecretDirectAccessRow list" where
  "ListSecretDirectAccess coll secret_id d = sort_key (\<lambda>r. coll (da_Email r))
     [\<lparr>da_GrantID = g_ID g, da_UserID = u_ID u, da_Email = u_Email u, da_Name = u_Name u,
       da_DisplayName = u_DisplayName u, da_Role = u_Role u, da_Status = u_Status u,
       da_Permission = g_Permission g, da_CreatedAt = g_CreatedAt g\<rparr>.
       g \<leftarrow> grants d, u \<leftarrow> users d, u_ID u = g_UserID g,
       g_RevokedAt g = None \<and> g_TargetKind g = ''secret'' \<and> g_TargetID g = Some secret_id]"

definition ListSecretGroupAccess ::
    "collation \<Rightarrow> uuid \<Rightarrow> db \<Rightarrow> ListSecretGroupAccessRow list" where
  "ListSecretGroupAccess coll secret_id d =
     sort_key (\<lambda>r. (coll (ga_GroupName r), coll (da_Email r)))
     [\<lparr>da_GrantID = g_ID g, da_UserID = u_ID u, da_Email = u_Email u, da_Name = u_Name u,
       da_DisplayName = u_DisplayName u, da_Role = u_Role u, da_Status = u_Status u,
       da_Permission = g_Permission g, da_CreatedAt = g_CreatedAt g,
       ga_GroupID = rg_ID rg, ga_GroupName = rg_Name rg\<rparr>.
       g \<leftarrow> grants d, u \<leftarrow> users d, u_ID u = g_UserID g,
       rg \<leftarrow> resource_groups d, Some (rg_ID rg) = g_TargetID g,
       g_RevokedAt g = None \<and> g_TargetKind g = ''group'' \<and>
         rg_ID rg \<in> set (groups_of ''secret'' secret_id d)]"

text \<open>\<open>array_agg(pk.fingerprint order by pk.fingerprint)\<close> over a user's keys.\<close>
definition fingerprints_of :: "collation \<Rightarrow> uuid \<Rightarrow> db \<Rightarrow> string list" where
  "fingerprints_of coll user_id d =
     sort_key coll (map pk_Fingerprint (filter (\<lambda>k. pk_UserID k = user_id) (public_keys d)))"

definition ListHostDirectAccess :: "collation \<Rightarrow> uuid \<Rightarrow> db \<Rightarrow> ListHostDirectAccessRow list" where
  "ListHostDirectAccess coll host_id d = sort_key (\<lambda>r. coll (da_Email r))
     [\<lparr>da_GrantID = g_ID g, da_UserID = u_ID u, da_Email = u_Email u, da_Name = u_Name u,
       da_DisplayName = u_DisplayName u, da_Role = u_Role u, da_Status = u_Status u,
       da_Permission = g_Permission g, da_CreatedAt = g_CreatedAt g,
       da_Fingerprints = fingerprints_of coll (g_UserID g) d\<rparr>.
       g \<leftarrow> grants d, u \<leftarrow> users d, u_ID u = g_UserID g \<and> u_Status u = ''active'',
       g_RevokedAt g = None \<and> g_Permission g = ''host.access'' \<and>
         g_TargetKind g = ''host'' \<and> g_TargetID g = Some host_id]"

definition ListHostGroupAccess :: "collation \<Rightarrow> uuid \<Rightarrow> db \<Rightarrow> ListHostGroupAccessRow list" where
  "ListHostGroupAccess coll host_id d =
     sort_key (\<lambda>r. (coll (ga_GroupName r), coll (da_Email r)))
     [\<lparr>da_GrantID = g_ID g, da_UserID = u_ID u, da_Email = u_Email u, da_Name = u_Name u,
       da_DisplayName = u_DisplayName u, da_Role = u_Role u, da_Status = u_Status u,
       da_Permission = g_Permission g, da_CreatedAt = g_CreatedAt g,
       ga_GroupID = rg_ID rg, ga_GroupName = rg_Name rg,
       ga_Fingerprints = fingerprints_of coll (g_UserID g) d\<rparr>.
       g \<leftarrow> grants d, u \<leftarrow> users d, u_ID u = g_UserID g \<and> u_Status u = ''active'',
       rg \<leftarrow> resource_groups d, Some (rg_ID rg) = g_TargetID g,
       g_RevokedAt g = None \<and> g_Permission g = ''host.access'' \<and> g_TargetKind g = ''group'' \<and>
         rg_ID rg \<in> set (groups_of ''host'' host_id d)]"

record ListHostAccessUsersRow =
  hau_UserID :: uuid
  hau_Email :: string
  hau_Name :: string
  hau_DisplayName :: "string option"
  hau_Role :: string
  hau_Status :: string
  hau_Fingerprints :: "string list"

text \<open>The common table expression \<open>access_users\<close>.\<close>
definition access_users :: "uuid \<Rightarrow> db \<Rightarrow> User list" where
  "access_users host_id d = remdups
     [u. g \<leftarrow> grants d, u \<leftarrow> users d, u_ID u = g_UserID g \<and> u_Status u = ''active'',
       g_RevokedAt g = None \<and> g_Permission g = ''host.access'' \<and> grant_covers ''host'' host_id d g]"

text \<open>\<open>(email, id) > (cursor_email, cursor_id)\<close>: a comparison with a null id is not true.\<close>
definition after_cursor :: "collation \<Rightarrow> string \<Rightarrow> uuid option \<Rightarrow> string \<Rightarrow> uuid \<Rightarrow> bool" where
  "after_cursor coll cursor_email cursor_id email uid \<longleftrightarrow>
     (if coll email = coll cursor_email
      then (case cursor_id of None \<Rightarrow> False | Some c \<Rightarrow> uid > c)
      else coll email > coll cursor_email)"

definition ListHostAccessUsers ::
    "collation \<Rightarrow> uuid \<Rightarrow> string \<Rightarrow> uuid option \<Rightarrow> nat \<Rightarrow> db \<Rightarrow> ListHostAccessUsersRow list" where
  "ListHostAccessUsers coll host_id cursor_email cursor_id page_limit d = take page_limit
     (sort_key (\<lambda>r. (coll (hau_Email r), hau_UserID r))
       (map (\<lambda>u. \<lparr>hau_UserID = u_ID u, hau_Email = u_Email u, hau_Name = u_Name u,
                  hau_DisplayName = u_DisplayName u, hau_Role = u_Role u, hau_Status = u_Status u,
                  hau_Fingerprints = sort_key coll (remdups (fingerprints_of coll (u_ID u) d))\<rparr>)
         (filter (\<lambda>u. cursor_email = '''' \<or> after_cursor coll cursor_email cursor_id (u_Email u) (u_ID u))
           (access_users host_id d))))"

record ListHostAccessPathsForUsersRow =
  hap_UserID :: uuid
  hap_GrantID :: uuid
  hap_Permission :: string
  hap_CreatedAt :: time
  hap_Via :: string
  hap_GroupID :: "uuid option"
  hap_GroupName :: string

definition ListHostAccessPathsForUsers ::
    "collation \<Rightarrow> uuid \<Rightarrow> uuid list \<Rightarrow> db \<Rightarrow> ListHostAccessPathsForUsersRow list" where
  "ListHostAccessPathsForUsers coll host_id uids d =
     sort_key (\<lambda>r. (hap_UserID r, coll (hap_Via r), coll (hap_GroupName r), hap_CreatedAt r, hap_GrantID r))
     ([\<lparr>hap_UserID = g_UserID g, hap_GrantID = g_ID g, hap_Permission = g_Permission g,
        hap_CreatedAt = g_CreatedAt g, hap_Via = ''direct'', hap_GroupID = None, hap_GroupName = ''''\<rparr>.
        g \<leftarrow> grants d,
        g_RevokedAt g = None \<and> g_Permission g = ''host.access'' \<and> g_TargetKind g = ''host'' \<and>
          g_TargetID g = Some host_id \<and> g_UserID g \<in> set uids] @
      [\<lparr>hap_UserID = g_UserID g, hap_GrantID = g_ID g, hap_Permission = g_Permission g,
        hap_CreatedAt = g_CreatedAt g, hap_Via = ''group'', hap_GroupID = Some (rg_ID rg),
        hap_GroupName = rg_Name rg\<rparr>.
        g \<leftarrow> grants d, rg \<leftarrow> resource_groups d, Some (rg_ID rg) = g_TargetID g,
        g_RevokedAt g = None \<and> g_Permission g = ''host.access'' \<and> g_TargetKind g = ''group'' \<and>
          g_UserID g \<in> set uids \<and> rg_ID rg \<in> set (groups_of ''host'' host_id d)])"

definition ListActiveAdmins :: "collation \<Rightarrow> db \<Rightarrow> User list" where
  "ListActiveAdmins coll d = sort_key (\<lambda>u. coll (u_Email u))
     (filter (\<lambda>u. u_Role u = ''admin'' \<and> u_Status u = ''active'') (users d))"

definition UserGrantedHostIDs :: "uuid \<Rightarrow> db \<Rightarrow> uuid list" where
  "UserGrantedHostIDs user_id d = remdups
     [h_ID h. h \<leftarrow> hosts d, g \<leftarrow> grants d,
       g_UserID g = user_id \<and> g_Permission g = ''host.access'' \<and> g_RevokedAt g = None \<and>
         grant_covers ''host'' (h_ID h) d g]"

section \<open>The snapshot query\<close>

record HostAccessKeysRow =
  hak_UserID :: uuid
  hak_KeyType :: string
  hak_KeyBlob :: string
  hak_Fingerprint :: string

definition access_key :: "PublicKey \<Rightarrow> HostAccessKeysRow" where
  "access_key k = \<lparr>hak_UserID = pk_UserID k, hak_KeyType = pk_KeyType k, hak_KeyBlob = pk_KeyBlob k,
     hak_Fingerprint = pk_Fingerprint k\<rparr>"

definition HostAccessKeys :: "uuid \<Rightarrow> db \<Rightarrow> HostAccessKeysRow list" where
  "HostAccessKeys host_id d = remdups
     [access_key k.
       g \<leftarrow> grants d, u \<leftarrow> users d, u_ID u = g_UserID g \<and> u_Status u = ''active'',
       k \<leftarrow> public_keys d, pk_UserID k = g_UserID g,
       g_Permission g = ''host.access'' \<and> g_RevokedAt g = None \<and> grant_covers ''host'' host_id d g]"

section \<open>Groups\<close>

definition CreateGroup :: "string \<Rightarrow> string \<Rightarrow> ResourceGroup db_write" where
  "CreateGroup name description st d =
     (let r = \<lparr>rg_ID = st_uuid st, rg_Name = name, rg_Description = description,
               rg_CreatedAt = st_now st\<rparr>
      in insert_row True (st_uuid st \<notin> set (map rg_ID (resource_groups d))) True
           r d (d\<lparr>resource_groups := resource_groups d @ [r]\<rparr>))"

definition ListGroups :: "collation \<Rightarrow> db \<Rightarrow> ResourceGroup list" where
  "ListGroups coll d = sort_key (\<lambda>r. coll (rg_Name r)) (resource_groups d)"

definition ListReadableGroups :: "collation \<Rightarrow> uuid \<Rightarrow> db \<Rightarrow> ResourceGroup list" where
  "ListReadableGroups coll user_id d = sort_key (\<lambda>r. coll (rg_Name r)) (remdups
     [rg. rg \<leftarrow> resource_groups d, g \<leftarrow> grants d,
       g_Permission g = ''group.read'' \<and> g_RevokedAt g = None \<and> g_TargetKind g = ''group'' \<and>
         g_TargetID g = Some (rg_ID rg) \<and> g_UserID g = user_id])"

definition ListGroupsForResource ::
    "collation \<Rightarrow> string \<Rightarrow> uuid \<Rightarrow> db \<Rightarrow> ResourceGroup list" where
  "ListGroupsForResource coll kind rid d = sort_key (\<lambda>r. coll (rg_Name r))
     [rg. gr \<leftarrow> group_resources d, rg \<leftarrow> resource_groups d, rg_ID rg = gr_GroupID gr,
       gr_ResourceKind gr = kind \<and> gr_ResourceID gr = rid]"

definition ListReadableGroupsForResource ::
    "collation \<Rightarrow> uuid \<Rightarrow> string \<Rightarrow> uuid \<Rightarrow> db \<Rightarrow> ResourceGroup list" where
  "ListReadableGroupsForResource coll user_id kind rid d =
     sort_key (\<lambda>r. coll (rg_Name r)) (remdups
     [rg. gr \<leftarrow> group_resources d, rg \<leftarrow> resource_groups d, rg_ID rg = gr_GroupID gr,
       g \<leftarrow> grants d,
       g_Permission g = ''group.read'' \<and> g_RevokedAt g = None \<and> g_TargetKind g = ''group'' \<and>
         g_TargetID g = Some (rg_ID rg),
       g_UserID g = user_id \<and> gr_ResourceKind gr = kind \<and> gr_ResourceID gr = rid])"

record ListGroupMembersRow =
  gm_UserID :: uuid
  gm_Email :: string
  gm_Name :: string
  gm_DisplayName :: "string option"
  gm_Role :: string
  gm_Status :: string
  gm_GrantID :: uuid
  gm_Permission :: string
  gm_GrantedAt :: time

definition ListGroupMembers :: "collation \<Rightarrow> uuid \<Rightarrow> db \<Rightarrow> ListGroupMembersRow list" where
  "ListGroupMembers coll group_id d = sort_key (\<lambda>r. (coll (gm_Email r), coll (gm_Permission r)))
     [\<lparr>gm_UserID = u_ID u, gm_Email = u_Email u, gm_Name = u_Name u,
       gm_DisplayName = u_DisplayName u, gm_Role = u_Role u, gm_Status = u_Status u,
       gm_GrantID = g_ID g, gm_Permission = g_Permission g, gm_GrantedAt = g_CreatedAt g\<rparr>.
       g \<leftarrow> grants d, u \<leftarrow> users d, u_ID u = g_UserID g,
       g_TargetKind g = ''group'' \<and> g_TargetID g = Some group_id \<and> g_RevokedAt g = None]"

definition GetGroup :: "uuid \<Rightarrow> db \<Rightarrow> dberr + ResourceGroup" where
  "GetGroup rid d = one_row (filter (\<lambda>r. rg_ID r = rid) (resource_groups d))"

definition UpdateGroup :: "uuid \<Rightarrow> string \<Rightarrow> string \<Rightarrow> ResourceGroup db_write" where
  "UpdateGroup rid name description st d =
     (let f = (\<lambda>r. r\<lparr>rg_Name := name, rg_Description := description\<rparr>); P = (\<lambda>r. rg_ID r = rid)
      in (one_row (map f (filter P (resource_groups d))),
          d\<lparr>resource_groups := update_where P f (resource_groups d)\<rparr>))"

text \<open>The deletion of a group cascades to its memberships.\<close>
definition DeleteGroup :: "uuid \<Rightarrow> int db_write" where
  "DeleteGroup rid st d =
     (Inr (count_where (\<lambda>r. rg_ID r = rid) (resource_groups d)),
      d\<lparr>resource_groups := filter (\<lambda>r. rg_ID r \<noteq> rid) (resource_groups d),
        group_resources := filter (\<lambda>r. gr_GroupID r \<noteq> rid) (group_resources d)\<rparr>)"

text \<open>\<open>on conflict do nothing\<close>: an existing membership is left as it is.\<close>
definition AddGroupResource :: "uuid \<Rightarrow> string \<Rightarrow> uuid \<Rightarrow> unit db_write" where
  "AddGroupResource group_id resource_kind resource_id st d =
     (if resource_kind \<notin> set resource_kinds then (Inl CheckViolation, d)
      else if (group_id, resource_kind, resource_id) \<in>
              set (map (\<lambda>r. (gr_GroupID r, gr_ResourceKind r, gr_ResourceID r)) (group_resources d))
      then (Inr (), d)
      else insert_row True True (group_id \<in> set (map rg_ID (resource_groups d))) () d
             (d\<lparr>group_resources := group_resources d @
                [\<lparr>gr_GroupID = group_id, gr_ResourceKind = resource_kind,
                  gr_ResourceID = resource_id, gr_AddedAt = st_now st\<rparr>]\<rparr>))"

definition RemoveGroupResource :: "uuid \<Rightarrow> string \<Rightarrow> uuid \<Rightarrow> int db_write" where
  "RemoveGroupResource group_id resource_kind resource_id st d =
     (let P = (\<lambda>r. gr_GroupID r = group_id \<and> gr_ResourceKind r = resource_kind \<and>
                  gr_ResourceID r = resource_id)
      in (Inr (count_where P (group_resources d)),
          d\<lparr>group_resources := filter (\<lambda>r. \<not> P r) (group_resources d)\<rparr>))"

section \<open>Every statement keeps the schema and the history\<close>

lemma CreateGrant_step [db_steps]: "db_step d (snd (CreateGrant u p k t b st d))"
  unfolding CreateGrant_def Let_def
  by (rule insert_step, rule step_grants) (auto simp: grants_ok_def)

lemma grants_revoke_step:
  assumes "\<And>g. P g \<Longrightarrow> g_RevokedAt g = None"
  shows "db_step d (d\<lparr>grants := update_where P (g_RevokedAt_update (\<lambda>_. Some t)) (grants d)\<rparr>)"
  using assms
  by (intro step_grants evolves_update) (auto simp: grants_ok_def in_update_where grant_le_def split: if_splits)

lemma grant_updates_step [db_steps]:
  "db_step d (snd (RevokeGrant rid st d))"
  "db_step d (snd (RevokeAllUserGrants u st d))"
  "db_step d (snd (RevokeGroupGrants t st d))"
  unfolding RevokeGrant_def RevokeAllUserGrants_def RevokeGroupGrants_def Let_def snd_conv
  by (rule grants_revoke_step, simp)+

lemma InsertGrantAudit_step [db_steps]: "db_step d (snd (InsertGrantAudit a g ai ae si se p tk t st d))"
  unfolding InsertGrantAudit_def
  by (rule insert_step, rule step_grant_audit_logs [of "st_uuid st"]) auto

lemma CreateGroup_step [db_steps]: "db_step d (snd (CreateGroup n ds st d))"
  unfolding CreateGroup_def Let_def
  by (rule insert_step, rule step_resource_groups) (auto simp: groups_ok_def)

lemma UpdateGroup_step [db_steps]: "db_step d (snd (UpdateGroup rid n ds st d))"
proof -
  have "groups_ok rs x \<Longrightarrow>
      groups_ok (update_where P (\<lambda>r. r\<lparr>rg_Name := n, rg_Description := ds\<rparr>) rs) x" for P rs x
    by (simp add: groups_ok_def flip: set_map)
  then show ?thesis
    unfolding UpdateGroup_def Let_def snd_conv by (rule step_resource_groups)
qed

lemma DeleteGroup_step [db_steps]: "db_step d (snd (DeleteGroup rid st d))"
  unfolding DeleteGroup_def snd_conv
  by (rule step_groups) (auto simp: groups_ok_def intro: distinct_map_filter)

lemma AddGroupResource_step [db_steps]: "db_step d (snd (AddGroupResource g k r st d))"
proof -
  have "db_step d (snd (insert_row True True (g \<in> set (map rg_ID (resource_groups d))) () d
          (d\<lparr>group_resources := group_resources d @
             [\<lparr>gr_GroupID = g, gr_ResourceKind = k, gr_ResourceID = r, gr_AddedAt = st_now st\<rparr>]\<rparr>)))"
    if "k \<in> set resource_kinds"
      "(g, k, r) \<notin> set (map (\<lambda>r. (gr_GroupID r, gr_ResourceKind r, gr_ResourceID r)) (group_resources d))"
    using that by (intro insert_step step_group_resources) (auto simp: groups_ok_def)
  then show ?thesis by (simp add: AddGroupResource_def del: set_map)
qed

lemma RemoveGroupResource_step [db_steps]: "db_step d (snd (RemoveGroupResource g k r st d))"
  unfolding RemoveGroupResource_def Let_def snd_conv
  by (rule step_group_resources) (auto simp: groups_ok_def intro: distinct_map_filter)

section \<open>The queries agree on who has access\<close>

lemma groups_of_iff:
  "gid \<in> set (groups_of kind rid d) \<longleftrightarrow>
     (\<exists>r \<in> set (group_resources d). gr_GroupID r = gid \<and> gr_ResourceKind r = kind \<and> gr_ResourceID r = rid)"
  by (auto simp: groups_of_def)

text \<open>Access to a resource of a kind, as the checks decide it, in one predicate.\<close>
definition has_grant :: "string \<Rightarrow> uuid \<Rightarrow> string \<Rightarrow> uuid \<Rightarrow> db \<Rightarrow> bool" where
  "has_grant kind u p rid d \<longleftrightarrow>
     (\<exists>g \<in> set (grants d). g_UserID g = u \<and> g_Permission g = p \<and> g_RevokedAt g = None \<and>
        grant_covers kind rid d g)"

lemma UserHas_iff:
  "UserHasHostPermission u p rid d \<longleftrightarrow> has_grant ''host'' u p rid d"
  "UserHasSecretPermission u p rid d \<longleftrightarrow> has_grant ''secret'' u p rid d"
  "UserHasSetPermission u p rid d \<longleftrightarrow> has_grant ''set'' u p rid d"
  by (auto simp: has_grant_def UserHasHostPermission_def UserHasSecretPermission_def
      UserHasSetPermission_def list_ex_iff)

text \<open>There is an active user with this id.\<close>
definition active_user :: "uuid \<Rightarrow> db \<Rightarrow> bool" where
  "active_user uid d \<longleftrightarrow> (\<exists>u \<in> set (users d). u_ID u = uid \<and> u_Status u = ''active'')"

lemma in_HostAccessKeys:
  "r \<in> set (HostAccessKeys h d) \<longleftrightarrow>
     (\<exists>k \<in> set (public_keys d). r = access_key k \<and> active_user (pk_UserID k) d \<and>
        has_grant ''host'' (pk_UserID k) ''host.access'' h d)"
  unfolding HostAccessKeys_def active_user_def has_grant_def comprehension by (rule iffI; force)

lemma in_UserGrantedHostIDs:
  "h \<in> set (UserGrantedHostIDs u d) \<longleftrightarrow>
     h \<in> set (host_ids d) \<and> has_grant ''host'' u ''host.access'' h d"
  unfolding UserGrantedHostIDs_def has_grant_def comprehension by auto

lemma in_access_users:
  "u \<in> set (access_users h d) \<longleftrightarrow>
     u \<in> set (users d) \<and> u_Status u = ''active'' \<and> has_grant ''host'' (u_ID u) ''host.access'' h d"
  unfolding access_users_def has_grant_def comprehension by (rule iffI; force)

lemma in_ListReadableGroups:
  "rg \<in> set (ListReadableGroups coll u d) \<longleftrightarrow>
     rg \<in> set (resource_groups d) \<and> UserHasGroupPermission u ''group.read'' (rg_ID rg) d"
  unfolding ListReadableGroups_def UserHasGroupPermission_def list_ex_iff comprehension by auto

end
