(* ===== verification/DB_Hosts.thy ===== *)
theory DB_Hosts
  imports DB_Access
begin

text \<open>
  The statements of \<open>internal/controlplane/db\<close> on hosts, enrollment tokens and the SSH access
  log, with the agreement of the host listings with the permission checks.
\<close>

section \<open>Hosts\<close>

text \<open>A host that is active and has a machine id holds that id: the partial unique index.\<close>
definition machine_id_free :: "string option \<Rightarrow> Host list \<Rightarrow> bool" where
  "machine_id_free m hs \<longleftrightarrow> (case m of None \<Rightarrow> True | Some mid \<Rightarrow> mid \<notin> set (active_machine_ids hs))"

definition CreateHost :: "string \<Rightarrow> string \<Rightarrow> string \<Rightarrow> string list \<Rightarrow> string option \<Rightarrow> string \<Rightarrow>
    Host db_write" where
  "CreateHost name hostname identity_key accounts machine_id encryption_key st d =
     (let h = \<lparr>h_ID = st_uuid st, h_Name = name, h_Hostname = hostname,
               h_IdentityKey = identity_key, h_EncryptionKey = encryption_key,
               h_Accounts = accounts, h_Status = ''active'', h_MachineID = machine_id,
               h_LastSeq = 0, h_LastSetSeq = 0, h_AgentVersion = '''', h_DesiredVersion = '''',
               h_EnrolledAt = st_now st, h_LastSeenAt = None\<rparr>
      in insert_row True
           (st_uuid st \<notin> set (host_ids d) \<and> identity_key \<notin> set (map h_IdentityKey (hosts d)) \<and>
            machine_id_free machine_id (hosts d)) True
           h d (d\<lparr>hosts := hosts d @ [h]\<rparr>))"

text \<open>\<open>machine_id = $1\<close> is not true of a null.\<close>
definition GetActiveHostByMachineID :: "string option \<Rightarrow> db \<Rightarrow> dberr + Host" where
  "GetActiveHostByMachineID machine_id d = one_row
     (filter (\<lambda>h. machine_id \<noteq> None \<and> h_MachineID h = machine_id \<and> h_Status h = ''active'') (hosts d))"

definition GetHostByID :: "uuid \<Rightarrow> db \<Rightarrow> dberr + Host" where
  "GetHostByID rid d = one_row (filter (\<lambda>h. h_ID h = rid) (hosts d))"

definition TouchHostSeen :: "uuid \<Rightarrow> unit db_write" where
  "TouchHostSeen rid st d =
     (Inr (), d\<lparr>hosts := update_where (\<lambda>h. h_ID h = rid)
        (h_LastSeenAt_update (\<lambda>_. Some (st_now st))) (hosts d)\<rparr>)"

definition SetHostStatus :: "uuid \<Rightarrow> string \<Rightarrow> int db_write" where
  "SetHostStatus rid status st d =
     (let n = count_where (\<lambda>h. h_ID h = rid) (hosts d);
          hs = update_where (\<lambda>h. h_ID h = rid) (h_Status_update (\<lambda>_. status)) (hosts d)
      in if n > 0 \<and> status \<notin> set host_statuses then (Inl CheckViolation, d)
         else if \<not> distinct (active_machine_ids hs) then (Inl UniqueViolation, d)
         else (Inr n, d\<lparr>hosts := hs\<rparr>))"

definition SetHostVersion :: "uuid \<Rightarrow> string \<Rightarrow> unit db_write" where
  "SetHostVersion rid v st d =
     (Inr (), d\<lparr>hosts := update_where (\<lambda>h. h_ID h = rid) (h_AgentVersion_update (\<lambda>_. v)) (hosts d)\<rparr>)"

definition SetHostDesiredVersion :: "uuid \<Rightarrow> string \<Rightarrow> unit db_write" where
  "SetHostDesiredVersion rid v st d =
     (Inr (), d\<lparr>hosts := update_where (\<lambda>h. h_ID h = rid) (h_DesiredVersion_update (\<lambda>_. v)) (hosts d)\<rparr>)"

text \<open>\<open>last_seq\<close> is a \<open>bigint\<close>: the increment past its range is an error.\<close>
definition NextHostSeq :: "uuid \<Rightarrow> int db_write" where
  "NextHostSeq rid st d =
     (if list_ex (\<lambda>h. h_ID h = rid \<and> h_LastSeq h + 1 \<ge> 2 ^ 63) (hosts d) then (Inl OutOfRange, d)
      else (one_row (map (\<lambda>h. h_LastSeq h + 1) (filter (\<lambda>h. h_ID h = rid) (hosts d))),
            d\<lparr>hosts := update_where (\<lambda>h. h_ID h = rid) (h_LastSeq_update (\<lambda>n. n + 1)) (hosts d)\<rparr>))"

definition NextHostSetSeq :: "uuid \<Rightarrow> int db_write" where
  "NextHostSetSeq rid st d =
     (if list_ex (\<lambda>h. h_ID h = rid \<and> h_LastSetSeq h + 1 \<ge> 2 ^ 63) (hosts d) then (Inl OutOfRange, d)
      else (one_row (map (\<lambda>h. h_LastSetSeq h + 1) (filter (\<lambda>h. h_ID h = rid) (hosts d))),
            d\<lparr>hosts := update_where (\<lambda>h. h_ID h = rid) (h_LastSetSeq_update (\<lambda>n. n + 1)) (hosts d)\<rparr>))"

record ListHostsRow =
  lh_ID :: uuid
  lh_Name :: string
  lh_Hostname :: string
  lh_Accounts :: "string list"
  lh_Status :: string
  lh_AgentVersion :: string
  lh_DesiredVersion :: string
  lh_EnrolledAt :: time
  lh_LastSeenAt :: "time option"

definition host_row :: "Host \<Rightarrow> ListHostsRow" where
  "host_row h = \<lparr>lh_ID = h_ID h, lh_Name = h_Name h, lh_Hostname = h_Hostname h,
     lh_Accounts = h_Accounts h, lh_Status = h_Status h, lh_AgentVersion = h_AgentVersion h,
     lh_DesiredVersion = h_DesiredVersion h, lh_EnrolledAt = h_EnrolledAt h,
     lh_LastSeenAt = h_LastSeenAt h\<rparr>"

definition ListHosts :: "collation \<Rightarrow> db \<Rightarrow> ListHostsRow list" where
  "ListHosts coll d = sort_key (\<lambda>r. coll (lh_Name r))
     (map host_row (filter (\<lambda>h. h_Status h = ''active'') (hosts d)))"

definition ListReadableHosts :: "collation \<Rightarrow> uuid \<Rightarrow> db \<Rightarrow> ListHostsRow list" where
  "ListReadableHosts coll user_id d = sort_key (\<lambda>r. coll (lh_Name r)) (remdups
     [host_row h. h \<leftarrow> hosts d, g \<leftarrow> grants d,
       g_UserID g = user_id \<and> g_Permission g = ''host.access'' \<and> g_RevokedAt g = None \<and>
         grant_covers ''host'' (h_ID h) d g,
       h_Status h = ''active''])"

record ListActiveHostsRow =
  lah_ID :: uuid
  lah_Name :: string
  lah_Hostname :: string
  lah_AgentVersion :: string
  lah_DesiredVersion :: string

definition ListActiveHosts :: "collation \<Rightarrow> db \<Rightarrow> ListActiveHostsRow list" where
  "ListActiveHosts coll d = sort_key (\<lambda>r. coll (lah_Name r))
     (map (\<lambda>h. \<lparr>lah_ID = h_ID h, lah_Name = h_Name h, lah_Hostname = h_Hostname h,
                lah_AgentVersion = h_AgentVersion h, lah_DesiredVersion = h_DesiredVersion h\<rparr>)
       (filter (\<lambda>h. h_Status h = ''active'') (hosts d)))"

section \<open>Enrollment tokens\<close>

definition GetEnrollmentToken :: "string \<Rightarrow> db \<Rightarrow> dberr + EnrollmentToken" where
  "GetEnrollmentToken token_hash d =
     one_row (filter (\<lambda>t. et_TokenHash t = token_hash) (enrollment_tokens d))"

definition CreateEnrollmentToken :: "string \<Rightarrow> string option \<Rightarrow> string list \<Rightarrow> uuid option \<Rightarrow> time \<Rightarrow>
    EnrollmentToken db_write" where
  "CreateEnrollmentToken token_hash label accounts created_by expires_at st d =
     (let t = \<lparr>et_ID = st_uuid st, et_TokenHash = token_hash, et_Label = label,
               et_Accounts = accounts, et_CreatedBy = created_by, et_ExpiresAt = expires_at,
               et_UsedAt = None, et_HostID = None, et_CreatedAt = st_now st\<rparr>
      in insert_row True
           (st_uuid st \<notin> set (map et_ID (enrollment_tokens d)) \<and>
            token_hash \<notin> set (map et_TokenHash (enrollment_tokens d)))
           (ref_ok created_by (user_ids d))
           t d (d\<lparr>enrollment_tokens := enrollment_tokens d @ [t]\<rparr>))"

definition MarkTokenUsed :: "uuid \<Rightarrow> uuid option \<Rightarrow> unit db_write" where
  "MarkTokenUsed rid host_id st d =
     (if list_ex (\<lambda>t. et_ID t = rid) (enrollment_tokens d) \<and> \<not> ref_ok host_id (host_ids d)
      then (Inl ForeignKeyViolation, d)
      else (Inr (), d\<lparr>enrollment_tokens := update_where (\<lambda>t. et_ID t = rid)
              (\<lambda>t. t\<lparr>et_UsedAt := Some (st_now st), et_HostID := host_id\<rparr>) (enrollment_tokens d)\<rparr>))"

section \<open>The SSH access log\<close>

definition InsertSSHAccessLog ::
    "uuid \<Rightarrow> string \<Rightarrow> uuid option \<Rightarrow> string \<Rightarrow> bool \<Rightarrow> time \<Rightarrow> string \<Rightarrow> unit db_write" where
  "InsertSSHAccessLog host_id hostname public_key_id account allowed at fingerprint st d =
     insert_row True (st_uuid st \<notin> set (map ssh_ID (ssh_access_logs d))) True () d
       (d\<lparr>ssh_access_logs := ssh_access_logs d @
          [\<lparr>ssh_ID = st_uuid st, ssh_HostID = host_id, ssh_Hostname = hostname,
            ssh_PublicKeyID = public_key_id, ssh_Account = account, ssh_Allowed = allowed,
            ssh_At = at, ssh_Fingerprint = fingerprint\<rparr>]\<rparr>)"

text \<open>The nullable filter arguments of \<open>ListHostAccessLogs\<close>.\<close>
record ListHostAccessLogsParams =
  hlp_CursorAt :: "time option"
  hlp_CursorID :: "uuid option"
  hlp_From :: "time option"
  hlp_To :: "time option"
  hlp_Allowed :: "bool option"
  hlp_UserID :: "uuid option"
  hlp_Search :: "string option"

record ListHostAccessLogsRow =
  hl_ID :: uuid
  hl_Account :: string
  hl_Allowed :: bool
  hl_Fingerprint :: string
  hl_At :: time
  hl_UserID :: "uuid option"
  hl_UserEmail :: string
  hl_UserName :: string
  hl_UserDisplayName :: string
  hl_UserRole :: string
  hl_UserStatus :: string

text \<open>\<open>coalesce(u.col, '')\<close>\<close>
definition or_empty :: "string option \<Rightarrow> string" where
  "or_empty s = (case s of None \<Rightarrow> '''' | Some v \<Rightarrow> v)"

text \<open>\<open>(l.at, l.id) < (cursor_at, cursor_id)\<close>, where a comparison with a null is not true.\<close>
definition before_cursor :: "time option \<Rightarrow> uuid option \<Rightarrow> time \<Rightarrow> uuid \<Rightarrow> bool" where
  "before_cursor cursor_at cursor_id at rid \<longleftrightarrow> (case cursor_at of None \<Rightarrow> True
     | Some ca \<Rightarrow> if at = ca then (case cursor_id of None \<Rightarrow> False | Some c \<Rightarrow> rid < c) else at < ca)"

text \<open>
  \<open>ilike\<close> is the database's pattern match; it is a parameter, applied to the subject and the
  pattern.
\<close>
definition ListHostAccessLogs :: "(string \<Rightarrow> string \<Rightarrow> bool) \<Rightarrow> uuid \<Rightarrow> ListHostAccessLogsParams \<Rightarrow> nat \<Rightarrow>
    db \<Rightarrow> ListHostAccessLogsRow list" where
  "ListHostAccessLogs ilike host_id arg page_limit d = take page_limit
     (rev (sort_key (\<lambda>r. (hl_At r, hl_ID r))
       [\<lparr>hl_ID = ssh_ID l, hl_Account = ssh_Account l, hl_Allowed = ssh_Allowed l,
         hl_Fingerprint = ssh_Fingerprint l, hl_At = ssh_At l, hl_UserID = map_option u_ID u,
         hl_UserEmail = or_empty (map_option u_Email u),
         hl_UserName = or_empty (map_option u_Name u),
         hl_UserDisplayName = or_empty (Option.bind u u_DisplayName),
         hl_UserRole = or_empty (map_option u_Role u),
         hl_UserStatus = or_empty (map_option u_Status u)\<rparr>.
         l \<leftarrow> ssh_access_logs d,
         k \<leftarrow> left_join (\<lambda>k. pk_Fingerprint k = ssh_Fingerprint l) (public_keys d),
         u \<leftarrow> left_join (\<lambda>u. Some (u_ID u) = map_option pk_UserID k) (users d),
         ssh_HostID l = host_id,
         before_cursor (hlp_CursorAt arg) (hlp_CursorID arg) (ssh_At l) (ssh_ID l),
         case hlp_From arg of None \<Rightarrow> True | Some t \<Rightarrow> ssh_At l \<ge> t,
         case hlp_To arg of None \<Rightarrow> True | Some t \<Rightarrow> ssh_At l \<le> t,
         case hlp_Allowed arg of None \<Rightarrow> True | Some b \<Rightarrow> ssh_Allowed l = b,
         case hlp_UserID arg of None \<Rightarrow> True | Some i \<Rightarrow> map_option u_ID u = Some i,
         case hlp_Search arg of None \<Rightarrow> True | Some s \<Rightarrow>
           (let pat = ''%'' @ s @ ''%'' in
            ilike (ssh_Account l) pat \<or> ilike (ssh_Fingerprint l) pat \<or>
            (case u of None \<Rightarrow> False | Some v \<Rightarrow> ilike (u_Email v) pat \<or> ilike (u_Name v) pat))]))"

section \<open>Every statement keeps the schema and the history\<close>

lemma active_machine_ids_append:
  "active_machine_ids (hs @ [h]) = active_machine_ids hs @
     (if h_Status h = ''active'' then (case h_MachineID h of None \<Rightarrow> [] | Some m \<Rightarrow> [m]) else [])"
  by (simp add: active_machine_ids_def map_filter_def split: option.splits)

lemma active_machine_ids_update:
  "(\<And>h. h_Status (f h) = h_Status h \<and> h_MachineID (f h) = h_MachineID h) \<Longrightarrow>
     active_machine_ids (update_where P f hs) = active_machine_ids hs"
  by (induction hs) (auto simp: active_machine_ids_def map_filter_simps split: option.splits)

lemma CreateHost_step [db_steps]: "db_step d (snd (CreateHost n hn ik a m ek st d))"
  unfolding CreateHost_def Let_def
  by (rule insert_step, rule step_hosts)
     (auto simp: hosts_ok_def active_machine_ids_append machine_id_free_def host_statuses_def
       split: option.splits)

lemma host_update_step:
  assumes "\<And>h. h_ID (f h) = h_ID h \<and> h_IdentityKey (f h) = h_IdentityKey h \<and>
      h_Status (f h) = h_Status h \<and> h_MachineID (f h) = h_MachineID h"
    and "\<And>h. h \<in> set (hosts d) \<Longrightarrow> P h \<Longrightarrow> host_le h (f h)"
    and "\<And>h. h \<in> set (hosts d) \<Longrightarrow> P h \<Longrightarrow> h_LastSeq h < 2 ^ 63 \<Longrightarrow> h_LastSetSeq h < 2 ^ 63 \<Longrightarrow>
      h_LastSeq (f h) < 2 ^ 63 \<and> h_LastSetSeq (f h) < 2 ^ 63"
  shows "db_step d (d\<lparr>hosts := update_where P f (hosts d)\<rparr>)"
proof (rule step_hosts)
  show "evolves host_le (hosts d) (update_where P f (hosts d))"
    using assms(2) by (auto simp: evolves_def update_where_def list_all2_conv_all_nth)
  assume ok: "hosts_ok (hosts d)"
  have "map h_ID (update_where P f (hosts d)) = map h_ID (hosts d)"
    "map h_IdentityKey (update_where P f (hosts d)) = map h_IdentityKey (hosts d)"
    using assms(1) by simp_all
  moreover have "active_machine_ids (update_where P f (hosts d)) = active_machine_ids (hosts d)"
    using assms(1) by (simp add: active_machine_ids_update)
  moreover have "h_Status x \<in> set host_statuses \<and> 0 \<le> h_LastSeq x \<and> h_LastSeq x < 2 ^ 63 \<and>
      0 \<le> h_LastSetSeq x \<and> h_LastSetSeq x < 2 ^ 63" if "x \<in> set (update_where P f (hosts d))" for x
    using that ok assms(1) assms(2) assms(3)
    by (fastforce simp: in_update_where hosts_ok_def host_le_def split: if_splits)
  ultimately show "hosts_ok (update_where P f (hosts d))" using ok by (simp add: hosts_ok_def)
qed

lemma host_updates_step [db_steps]:
  "db_step d (snd (TouchHostSeen rid st d))"
  "db_step d (snd (SetHostVersion rid v st d))"
  "db_step d (snd (SetHostDesiredVersion rid v st d))"
  unfolding TouchHostSeen_def SetHostVersion_def SetHostDesiredVersion_def snd_conv
  by (rule host_update_step; simp add: host_le_def)+

lemma NextHostSeq_step [db_steps]: "db_step d (snd (NextHostSeq rid st d))"
proof (cases "list_ex (\<lambda>h. h_ID h = rid \<and> h_LastSeq h + 1 \<ge> 2 ^ 63) (hosts d)")
  case False
  then have "db_step d (d\<lparr>hosts := update_where (\<lambda>h. h_ID h = rid) (h_LastSeq_update (\<lambda>n. n + 1)) (hosts d)\<rparr>)"
    by (intro host_update_step) (auto simp: host_le_def list_ex_iff)
  then show ?thesis using False by (simp add: NextHostSeq_def del: power_numeral)
qed (simp add: NextHostSeq_def del: power_numeral)

lemma NextHostSetSeq_step [db_steps]: "db_step d (snd (NextHostSetSeq rid st d))"
proof (cases "list_ex (\<lambda>h. h_ID h = rid \<and> h_LastSetSeq h + 1 \<ge> 2 ^ 63) (hosts d)")
  case False
  then have "db_step d (d\<lparr>hosts := update_where (\<lambda>h. h_ID h = rid) (h_LastSetSeq_update (\<lambda>n. n + 1)) (hosts d)\<rparr>)"
    by (intro host_update_step) (auto simp: host_le_def list_ex_iff)
  then show ?thesis using False by (simp add: NextHostSetSeq_def del: power_numeral)
qed (simp add: NextHostSetSeq_def del: power_numeral)

lemma SetHostStatus_step [db_steps]: "db_step d (snd (SetHostStatus rid s st d))"
proof -
  let ?hs = "update_where (\<lambda>h. h_ID h = rid) (h_Status_update (\<lambda>_. s)) (hosts d)"
  let ?n = "count_where (\<lambda>h. h_ID h = rid) (hosts d)"
  have "db_step d (d\<lparr>hosts := ?hs\<rparr>)"
    if n: "\<not> (?n > 0 \<and> s \<notin> set host_statuses)" and dist: "distinct (active_machine_ids ?hs)"
  proof (rule step_hosts)
    have "s \<in> set host_statuses" if "h \<in> set (hosts d)" "h_ID h = rid" for h
      using that n count_where_zero [of "\<lambda>h. h_ID h = rid" "hosts d"] by (auto simp: count_where_def)
    then show "hosts_ok (hosts d) \<Longrightarrow> hosts_ok ?hs"
      using dist by (auto simp: hosts_ok_def in_update_where)
  qed (auto simp: host_le_def)
  then show ?thesis by (auto simp: SetHostStatus_def Let_def)
qed

lemma CreateEnrollmentToken_step [db_steps]: "db_step d (snd (CreateEnrollmentToken h l a b x st d))"
  unfolding CreateEnrollmentToken_def Let_def
  by (rule insert_step, rule step_enrollment_tokens) (auto simp: enrollment_ok_def)

lemma MarkTokenUsed_step [db_steps]: "db_step d (snd (MarkTokenUsed rid h st d))"
proof (cases "list_ex (\<lambda>t. et_ID t = rid) (enrollment_tokens d) \<and> \<not> ref_ok h (host_ids d)")
  case False
  then have ok: "ref_ok h (host_ids d)" if "t \<in> set (enrollment_tokens d)" "et_ID t = rid" for t
    using that by (auto simp: list_ex_iff)
  have "db_step d (d\<lparr>enrollment_tokens := update_where (\<lambda>t. et_ID t = rid)
      (\<lambda>t. t\<lparr>et_UsedAt := Some (st_now st), et_HostID := h\<rparr>) (enrollment_tokens d)\<rparr>)"
    by (rule step_enrollment_tokens)
       (auto simp: token_le_def enrollment_ok_def in_update_where ok)
  then show ?thesis using False by (simp add: MarkTokenUsed_def)
qed (simp add: MarkTokenUsed_def)

lemma InsertSSHAccessLog_step [db_steps]: "db_step d (snd (InsertSSHAccessLog h n k a al t f st d))"
  unfolding InsertSSHAccessLog_def
  by (rule insert_step, rule step_ssh_access_logs [of "st_uuid st"]) auto

section \<open>The host listing shows what the permission check admits\<close>

lemma in_ListReadableHosts:
  "r \<in> set (ListReadableHosts coll u d) \<longleftrightarrow>
     (\<exists>h \<in> set (hosts d). r = host_row h \<and> h_Status h = ''active'' \<and>
        has_grant ''host'' u ''host.access'' (h_ID h) d)"
  unfolding ListReadableHosts_def has_grant_def comprehension by (rule iffI; force)

end
