(* ===== verification/DB_Secrets.thy ===== *)
theory DB_Secrets
  imports DB_Hosts
begin

text \<open>
  The statements of \<open>internal/controlplane/db\<close> on secrets, secret sets, their entries and
  bindings, and their audit logs, with the agreement of the listings with the checks.
\<close>

section \<open>Secrets\<close>

definition CreateSecret :: "string \<Rightarrow> string option \<Rightarrow> string option \<Rightarrow> string option \<Rightarrow> bytes option \<Rightarrow>
    bytes option \<Rightarrow> bytes option \<Rightarrow> uuid option \<Rightarrow> uuid option \<Rightarrow> Secret db_write" where
  "CreateSecret label url username otp_recipient ciphertext nonce wrapped_key created_by updated_by st d =
     (let s = \<lparr>sec_ID = st_uuid st, sec_Label = label, sec_Url = url, sec_Username = username,
               sec_OtpRecipient = otp_recipient, sec_Ciphertext = ciphertext, sec_Nonce = nonce,
               sec_WrappedKey = wrapped_key, sec_CreatedBy = created_by, sec_UpdatedBy = updated_by,
               sec_CreatedAt = st_now st, sec_UpdatedAt = st_now st\<rparr>
      in insert_row True (st_uuid st \<notin> set (map sec_ID (secrets d)))
           (ref_ok created_by (user_ids d) \<and> ref_ok updated_by (user_ids d))
           s d (d\<lparr>secrets := secrets d @ [s]\<rparr>))"

text \<open>The columns a secret's listing adds from the users who created and last changed it.\<close>
record editor_columns =
  ed_CreatedByName :: "string option"
  ed_CreatedByDisplayName :: "string option"
  ed_CreatedByEmail :: "string option"
  ed_UpdatedByName :: "string option"
  ed_UpdatedByDisplayName :: "string option"
  ed_UpdatedByEmail :: "string option"

definition editors :: "User option \<Rightarrow> User option \<Rightarrow> editor_columns" where
  "editors cu uu = \<lparr>ed_CreatedByName = map_option u_Name cu,
     ed_CreatedByDisplayName = Option.bind cu u_DisplayName,
     ed_CreatedByEmail = map_option u_Email cu, ed_UpdatedByName = map_option u_Name uu,
     ed_UpdatedByDisplayName = Option.bind uu u_DisplayName,
     ed_UpdatedByEmail = map_option u_Email uu\<rparr>"

text \<open>A row of \<open>GetSecret\<close>: \<open>s.*\<close> and the editor columns.\<close>
type_synonym GetSecretRow = "Secret \<times> editor_columns"

definition GetSecret :: "uuid \<Rightarrow> db \<Rightarrow> dberr + GetSecretRow" where
  "GetSecret rid d = one_row
     [(s, editors cu uu).
       s \<leftarrow> secrets d,
       cu \<leftarrow> left_join (\<lambda>u. Some (u_ID u) = sec_CreatedBy s) (users d),
       uu \<leftarrow> left_join (\<lambda>u. Some (u_ID u) = sec_UpdatedBy s) (users d),
       sec_ID s = rid]"

definition UpdateSecret :: "uuid \<Rightarrow> string \<Rightarrow> string option \<Rightarrow> string option \<Rightarrow> string option \<Rightarrow>
    bytes option \<Rightarrow> bytes option \<Rightarrow> bytes option \<Rightarrow> uuid option \<Rightarrow> Secret db_write" where
  "UpdateSecret rid label url username otp_recipient ciphertext nonce wrapped_key updated_by st d =
     (let f = (\<lambda>s. s\<lparr>sec_Label := label, sec_Url := url, sec_Username := username,
                     sec_OtpRecipient := otp_recipient, sec_Ciphertext := ciphertext,
                     sec_Nonce := nonce, sec_WrappedKey := wrapped_key,
                     sec_UpdatedBy := updated_by, sec_UpdatedAt := st_now st\<rparr>);
          P = (\<lambda>s. sec_ID s = rid)
      in if list_ex P (secrets d) \<and> \<not> ref_ok updated_by (user_ids d) then (Inl ForeignKeyViolation, d)
         else (one_row (map f (filter P (secrets d))),
               d\<lparr>secrets := update_where P f (secrets d)\<rparr>))"

definition DeleteSecret :: "uuid \<Rightarrow> unit db_write" where
  "DeleteSecret rid st d =
     (Inr (), d\<lparr>secrets := filter (\<lambda>s. sec_ID s \<noteq> rid) (secrets d)\<rparr>)"

text \<open>A row of the two listings: the plaintext metadata columns, never the sealed ones.\<close>
record ListAllSecretsRow =
  ls_ID :: uuid
  ls_Label :: string
  ls_Url :: "string option"
  ls_Username :: "string option"
  ls_OtpRecipient :: "string option"
  ls_CreatedAt :: time
  ls_UpdatedAt :: time
  ls_CreatedBy :: "uuid option"
  ls_UpdatedBy :: "uuid option"
  ls_Editors :: editor_columns

definition secret_row :: "Secret \<Rightarrow> editor_columns \<Rightarrow> ListAllSecretsRow" where
  "secret_row s ed = \<lparr>ls_ID = sec_ID s, ls_Label = sec_Label s, ls_Url = sec_Url s,
     ls_Username = sec_Username s, ls_OtpRecipient = sec_OtpRecipient s,
     ls_CreatedAt = sec_CreatedAt s, ls_UpdatedAt = sec_UpdatedAt s,
     ls_CreatedBy = sec_CreatedBy s, ls_UpdatedBy = sec_UpdatedBy s, ls_Editors = ed\<rparr>"

definition ListAllSecrets :: "collation \<Rightarrow> db \<Rightarrow> ListAllSecretsRow list" where
  "ListAllSecrets coll d = sort_key (\<lambda>r. coll (ls_Label r))
     [secret_row s (editors cu uu).
       s \<leftarrow> secrets d,
       cu \<leftarrow> left_join (\<lambda>u. Some (u_ID u) = sec_CreatedBy s) (users d),
       uu \<leftarrow> left_join (\<lambda>u. Some (u_ID u) = sec_UpdatedBy s) (users d)]"

definition ListReadableSecrets :: "collation \<Rightarrow> uuid \<Rightarrow> db \<Rightarrow> ListAllSecretsRow list" where
  "ListReadableSecrets coll user_id d = sort_key (\<lambda>r. coll (ls_Label r)) (remdups
     [secret_row s (editors cu uu).
       s \<leftarrow> secrets d, g \<leftarrow> grants d,
       g_Permission g = ''secret.read'' \<and> g_RevokedAt g = None \<and> grant_covers ''secret'' (sec_ID s) d g,
       cu \<leftarrow> left_join (\<lambda>u. Some (u_ID u) = sec_CreatedBy s) (users d),
       uu \<leftarrow> left_join (\<lambda>u. Some (u_ID u) = sec_UpdatedBy s) (users d),
       g_UserID g = user_id])"

definition InsertSecretAudit :: "uuid option \<Rightarrow> string \<Rightarrow> string \<Rightarrow> uuid option \<Rightarrow> unit db_write" where
  "InsertSecretAudit secret_id secret_name action user_id st d =
     insert_row (action \<in> set secret_actions)
       (st_uuid st \<notin> set (map sal_ID (secret_audit_logs d))) True () d
       (d\<lparr>secret_audit_logs := secret_audit_logs d @
          [\<lparr>sal_ID = st_uuid st, sal_SecretID = secret_id, sal_SecretName = secret_name,
            sal_Action = action, sal_UserID = user_id, sal_At = st_now st\<rparr>]\<rparr>)"

record ListSecretAuditRow =
  lsa_ID :: uuid
  lsa_Action :: string
  lsa_At :: time
  lsa_SecretID :: "uuid option"
  lsa_SecretName :: string
  lsa_UserID :: "uuid option"
  lsa_UserEmail :: "string option"
  lsa_UserName :: "string option"
  lsa_UserDisplayName :: "string option"

definition secret_audit_row :: "SecretAuditLog \<Rightarrow> User option \<Rightarrow> ListSecretAuditRow" where
  "secret_audit_row a u = \<lparr>lsa_ID = sal_ID a, lsa_Action = sal_Action a, lsa_At = sal_At a,
     lsa_SecretID = sal_SecretID a, lsa_SecretName = sal_SecretName a,
     lsa_UserID = map_option u_ID u, lsa_UserEmail = map_option u_Email u,
     lsa_UserName = map_option u_Name u, lsa_UserDisplayName = Option.bind u u_DisplayName\<rparr>"

definition ListSecretAudit :: "uuid \<Rightarrow> db \<Rightarrow> ListSecretAuditRow list" where
  "ListSecretAudit secret_id d = sort_key (\<lambda>r. - lsa_At r)
     [secret_audit_row a u. a \<leftarrow> secret_audit_logs d,
       u \<leftarrow> left_join (\<lambda>u. Some (u_ID u) = sal_UserID a) (users d), sal_SecretID a = Some secret_id]"

definition ListAllSecretAudit :: "nat \<Rightarrow> db \<Rightarrow> ListSecretAuditRow list" where
  "ListAllSecretAudit lim d = take lim (sort_key (\<lambda>r. - lsa_At r)
     [secret_audit_row a u. a \<leftarrow> secret_audit_logs d,
       u \<leftarrow> left_join (\<lambda>u. Some (u_ID u) = sal_UserID a) (users d)])"

section \<open>Secret sets\<close>

definition CreateSet :: "string \<Rightarrow> uuid option \<Rightarrow> SecretSet db_write" where
  "CreateSet name created_by st d =
     (let s = \<lparr>ss_ID = st_uuid st, ss_Name = name, ss_CreatedBy = created_by,
               ss_CreatedAt = st_now st, ss_UpdatedAt = st_now st\<rparr>
      in insert_row True
           (st_uuid st \<notin> set (map ss_ID (secret_sets d)) \<and> name \<notin> set (map ss_Name (secret_sets d)))
           (ref_ok created_by (user_ids d))
           s d (d\<lparr>secret_sets := secret_sets d @ [s]\<rparr>))"

definition GetSet :: "uuid \<Rightarrow> db \<Rightarrow> dberr + SecretSet" where
  "GetSet rid d = one_row (filter (\<lambda>s. ss_ID s = rid) (secret_sets d))"

definition GetSetByName :: "string \<Rightarrow> db \<Rightarrow> dberr + SecretSet" where
  "GetSetByName name d = one_row (filter (\<lambda>s. ss_Name s = name) (secret_sets d))"

definition UpdateSetName :: "uuid \<Rightarrow> string \<Rightarrow> SecretSet db_write" where
  "UpdateSetName rid name st d =
     (let f = (\<lambda>s. s\<lparr>ss_Name := name, ss_UpdatedAt := st_now st\<rparr>); P = (\<lambda>s. ss_ID s = rid)
      in if list_ex P (secret_sets d) \<and> list_ex (\<lambda>s. ss_ID s \<noteq> rid \<and> ss_Name s = name) (secret_sets d)
         then (Inl UniqueViolation, d)
         else (one_row (map f (filter P (secret_sets d))),
               d\<lparr>secret_sets := update_where P f (secret_sets d)\<rparr>))"

record ListSetsRow =
  lset_ID :: uuid
  lset_Name :: string
  lset_CreatedAt :: time
  lset_UpdatedAt :: time
  lset_KeyCount :: int

text \<open>\<open>coalesce(k.key_count, 0)\<close> over the entries grouped by set.\<close>
definition set_row :: "db \<Rightarrow> SecretSet \<Rightarrow> ListSetsRow" where
  "set_row d s = \<lparr>lset_ID = ss_ID s, lset_Name = ss_Name s, lset_CreatedAt = ss_CreatedAt s,
     lset_UpdatedAt = ss_UpdatedAt s,
     lset_KeyCount = count_where (\<lambda>e. se_SetID e = ss_ID s) (secret_set_entries d)\<rparr>"

definition ListSets :: "collation \<Rightarrow> db \<Rightarrow> ListSetsRow list" where
  "ListSets coll d = sort_key (\<lambda>r. coll (lset_Name r)) (map (set_row d) (secret_sets d))"

definition ListReadableSets :: "collation \<Rightarrow> uuid \<Rightarrow> db \<Rightarrow> ListSetsRow list" where
  "ListReadableSets coll user_id d = sort_key (\<lambda>r. coll (lset_Name r)) (remdups
     [set_row d s. s \<leftarrow> secret_sets d, g \<leftarrow> grants d,
       g_Permission g = ''set.read'' \<and> g_RevokedAt g = None \<and> grant_covers ''set'' (ss_ID s) d g,
       g_UserID g = user_id])"

definition CreateSetEntry :: "uuid \<Rightarrow> string \<Rightarrow> bytes \<Rightarrow> bytes \<Rightarrow> bytes \<Rightarrow> unit db_write" where
  "CreateSetEntry set_id key ciphertext nonce wrapped_key st d =
     insert_row True
       ((set_id, key) \<notin> set (map (\<lambda>e. (se_SetID e, se_Key e)) (secret_set_entries d)))
       (set_id \<in> set (map ss_ID (secret_sets d))) () d
       (d\<lparr>secret_set_entries := secret_set_entries d @
          [\<lparr>se_SetID = set_id, se_Key = key, se_Ciphertext = ciphertext, se_Nonce = nonce,
            se_WrappedKey = wrapped_key, se_CreatedAt = st_now st, se_UpdatedAt = st_now st\<rparr>]\<rparr>)"

definition ListSetKeys :: "collation \<Rightarrow> uuid \<Rightarrow> db \<Rightarrow> string list" where
  "ListSetKeys coll set_id d =
     sort_key coll (map se_Key (filter (\<lambda>e. se_SetID e = set_id) (secret_set_entries d)))"

definition GetSetEntries :: "collation \<Rightarrow> uuid \<Rightarrow> db \<Rightarrow> SecretSetEntry list" where
  "GetSetEntries coll set_id d =
     sort_key (\<lambda>e. coll (se_Key e)) (filter (\<lambda>e. se_SetID e = set_id) (secret_set_entries d))"

definition BindSet :: "uuid \<Rightarrow> uuid \<Rightarrow> string option \<Rightarrow> uuid option \<Rightarrow> unit db_write" where
  "BindSet host_id set_id as_user granted_by st d =
     (if (host_id, set_id) \<in> set (map (\<lambda>b. (b_HostID b, b_SetID b)) (host_set_bindings d))
      then insert_row True True (ref_ok granted_by (user_ids d)) () d
             (d\<lparr>host_set_bindings := update_where (\<lambda>b. b_HostID b = host_id \<and> b_SetID b = set_id)
                (\<lambda>b. b\<lparr>b_AsUser := as_user, b_GrantedBy := granted_by, b_RevokedAt := None\<rparr>)
                (host_set_bindings d)\<rparr>)
      else insert_row True True
             (host_id \<in> set (host_ids d) \<and> set_id \<in> set (map ss_ID (secret_sets d)) \<and>
              ref_ok granted_by (user_ids d)) () d
             (d\<lparr>host_set_bindings := host_set_bindings d @
                [\<lparr>b_HostID = host_id, b_SetID = set_id, b_AsUser = as_user,
                  b_GrantedBy = granted_by, b_CreatedAt = st_now st, b_RevokedAt = None\<rparr>]\<rparr>))"

definition UnbindSet :: "uuid \<Rightarrow> uuid \<Rightarrow> int db_write" where
  "UnbindSet host_id set_id st d =
     (let P = (\<lambda>b. b_HostID b = host_id \<and> b_SetID b = set_id)
      in (Inr (count_where P (host_set_bindings d)),
          d\<lparr>host_set_bindings := filter (\<lambda>b. \<not> P b) (host_set_bindings d)\<rparr>))"

record SetsForHostRow =
  sfh_ID :: uuid
  sfh_Name :: string
  sfh_UpdatedAt :: time
  sfh_AsUser :: "string option"

definition SetsForHost :: "collation \<Rightarrow> uuid \<Rightarrow> db \<Rightarrow> SetsForHostRow list" where
  "SetsForHost coll host_id d = sort_key (\<lambda>r. coll (sfh_Name r))
     [\<lparr>sfh_ID = ss_ID s, sfh_Name = ss_Name s, sfh_UpdatedAt = ss_UpdatedAt s, sfh_AsUser = b_AsUser b\<rparr>.
       b \<leftarrow> host_set_bindings d, s \<leftarrow> secret_sets d, ss_ID s = b_SetID b,
       b_HostID b = host_id \<and> b_RevokedAt b = None]"

definition HostsForSet :: "uuid \<Rightarrow> db \<Rightarrow> uuid list" where
  "HostsForSet set_id d = map b_HostID
     (filter (\<lambda>b. b_SetID b = set_id \<and> b_RevokedAt b = None) (host_set_bindings d))"

text \<open>A row of \<open>ListHostsForSet\<close>: the host's columns, \<open>as_user\<close> and \<open>bound_at\<close>.\<close>
record ListHostsForSetRow = ListHostsRow +
  lhs_AsUser :: "string option"
  lhs_BoundAt :: time

definition ListHostsForSet :: "collation \<Rightarrow> uuid \<Rightarrow> db \<Rightarrow> ListHostsForSetRow list" where
  "ListHostsForSet coll set_id d = sort_key (\<lambda>r. coll (lh_Name r))
     [ListHostsRow.extend (host_row h) \<lparr>lhs_AsUser = b_AsUser b, lhs_BoundAt = b_CreatedAt b\<rparr>.
       b \<leftarrow> host_set_bindings d, h \<leftarrow> hosts d, h_ID h = b_HostID b,
       b_SetID b = set_id \<and> b_RevokedAt b = None]"

definition DeleteSetEntries :: "uuid \<Rightarrow> unit db_write" where
  "DeleteSetEntries set_id st d =
     (Inr (), d\<lparr>secret_set_entries := filter (\<lambda>e. se_SetID e \<noteq> set_id) (secret_set_entries d)\<rparr>)"

definition UpsertSetEntry :: "uuid \<Rightarrow> string \<Rightarrow> bytes \<Rightarrow> bytes \<Rightarrow> bytes \<Rightarrow> unit db_write" where
  "UpsertSetEntry set_id key ciphertext nonce wrapped_key st d =
     (if (set_id, key) \<in> set (map (\<lambda>e. (se_SetID e, se_Key e)) (secret_set_entries d))
      then (Inr (), d\<lparr>secret_set_entries := update_where (\<lambda>e. se_SetID e = set_id \<and> se_Key e = key)
              (\<lambda>e. e\<lparr>se_Ciphertext := ciphertext, se_Nonce := nonce, se_WrappedKey := wrapped_key,
                     se_UpdatedAt := st_now st\<rparr>) (secret_set_entries d)\<rparr>)
      else CreateSetEntry set_id key ciphertext nonce wrapped_key st d)"

definition DeleteSetEntry :: "uuid \<Rightarrow> string \<Rightarrow> int db_write" where
  "DeleteSetEntry set_id key st d =
     (let P = (\<lambda>e. se_SetID e = set_id \<and> se_Key e = key)
      in (Inr (count_where P (secret_set_entries d)),
          d\<lparr>secret_set_entries := filter (\<lambda>e. \<not> P e) (secret_set_entries d)\<rparr>))"

definition TouchSet :: "uuid \<Rightarrow> unit db_write" where
  "TouchSet rid st d =
     (Inr (), d\<lparr>secret_sets := update_where (\<lambda>s. ss_ID s = rid)
        (ss_UpdatedAt_update (\<lambda>_. st_now st)) (secret_sets d)\<rparr>)"

text \<open>The deletion of a set cascades to its entries and its bindings.\<close>
definition DeleteSet :: "uuid \<Rightarrow> int db_write" where
  "DeleteSet rid st d =
     (Inr (count_where (\<lambda>s. ss_ID s = rid) (secret_sets d)),
      d\<lparr>secret_sets := filter (\<lambda>s. ss_ID s \<noteq> rid) (secret_sets d),
        secret_set_entries := filter (\<lambda>e. se_SetID e \<noteq> rid) (secret_set_entries d),
        host_set_bindings := filter (\<lambda>b. b_SetID b \<noteq> rid) (host_set_bindings d)\<rparr>)"

definition InsertSetAudit :: "uuid option \<Rightarrow> string \<Rightarrow> string option \<Rightarrow> uuid option \<Rightarrow> string \<Rightarrow> uuid option \<Rightarrow>
    unit db_write" where
  "InsertSetAudit set_id set_name entry_key host_id action actor st d =
     insert_row (action \<in> set set_actions)
       (st_uuid st \<notin> set (map setal_ID (set_audit_logs d))) True () d
       (d\<lparr>set_audit_logs := set_audit_logs d @
          [\<lparr>setal_ID = st_uuid st, setal_SetID = set_id, setal_SetName = set_name,
            setal_EntryKey = entry_key, setal_HostID = host_id, setal_Action = action,
            setal_Actor = actor, setal_At = st_now st\<rparr>]\<rparr>)"

record ListSetAuditRow =
  lsta_Action :: string
  lsta_SetName :: string
  lsta_EntryKey :: "string option"
  lsta_HostID :: "uuid option"
  lsta_Actor :: "uuid option"
  lsta_ActorEmail :: "string option"
  lsta_ActorName :: "string option"
  lsta_ActorDisplayName :: "string option"
  lsta_At :: time

definition ListSetAudit :: "uuid \<Rightarrow> string \<Rightarrow> db \<Rightarrow> ListSetAuditRow list" where
  "ListSetAudit set_id set_name d = take 100 (sort_key (\<lambda>r. - lsta_At r)
     [\<lparr>lsta_Action = setal_Action a, lsta_SetName = setal_SetName a,
       lsta_EntryKey = setal_EntryKey a, lsta_HostID = setal_HostID a, lsta_Actor = setal_Actor a,
       lsta_ActorEmail = map_option u_Email u, lsta_ActorName = map_option u_Name u,
       lsta_ActorDisplayName = Option.bind u u_DisplayName, lsta_At = setal_At a\<rparr>.
       a \<leftarrow> set_audit_logs d,
       u \<leftarrow> left_join (\<lambda>u. Some (u_ID u) = setal_Actor a) (users d),
       setal_SetID a = Some set_id \<or> (setal_SetID a = None \<and> setal_SetName a = set_name)])"

section \<open>The resources of a group\<close>

text \<open>
  A row of \<open>ListGroupResources\<close>: the host, secret or set columns, which are null or their
  \<open>coalesce\<close> defaults when the join finds no row, as an option each.
\<close>
record ListGroupResourcesRow =
  lgr_ResourceKind :: string
  lgr_ResourceID :: uuid
  lgr_AddedAt :: time
  lgr_Host :: "ListHostsRow option"
  lgr_Secret :: "Secret option"
  lgr_Set :: "ListSetsRow option"

definition ListGroupResources :: "uuid \<Rightarrow> db \<Rightarrow> ListGroupResourcesRow list" where
  "ListGroupResources group_id d = sort_key lgr_AddedAt
     [\<lparr>lgr_ResourceKind = gr_ResourceKind r, lgr_ResourceID = gr_ResourceID r, lgr_AddedAt = gr_AddedAt r,
       lgr_Host = map_option host_row h, lgr_Secret = s, lgr_Set = map_option (set_row d) ss\<rparr>.
       r \<leftarrow> group_resources d,
       h \<leftarrow> left_join (\<lambda>h. gr_ResourceKind r = ''host'' \<and> h_ID h = gr_ResourceID r) (hosts d),
       s \<leftarrow> left_join (\<lambda>s. gr_ResourceKind r = ''secret'' \<and> sec_ID s = gr_ResourceID r) (secrets d),
       ss \<leftarrow> left_join (\<lambda>s. gr_ResourceKind r = ''set'' \<and> ss_ID s = gr_ResourceID r) (secret_sets d),
       gr_GroupID r = group_id]"

section \<open>Every statement keeps the schema and the history\<close>

lemma CreateSecret_step [db_steps]: "db_step d (snd (CreateSecret l u n otp c nn w cb ub st d))"
  unfolding CreateSecret_def Let_def
  by (rule insert_step, rule step_secrets) (auto simp: secrets_ok_def)

lemma UpdateSecret_step [db_steps]: "db_step d (snd (UpdateSecret rid l u n otp c nn w ub st d))"
proof (cases "list_ex (\<lambda>s. sec_ID s = rid) (secrets d) \<and> \<not> ref_ok ub (user_ids d)")
  case False
  then have ok: "ref_ok ub (user_ids d)" if "s \<in> set (secrets d)" "sec_ID s = rid" for s
    using that by (auto simp: list_ex_iff)
  have "db_step d (d\<lparr>secrets := update_where (\<lambda>s. sec_ID s = rid)
      (\<lambda>s. s\<lparr>sec_Label := l, sec_Url := u, sec_Username := n, sec_OtpRecipient := otp,
             sec_Ciphertext := c, sec_Nonce := nn, sec_WrappedKey := w, sec_UpdatedBy := ub,
             sec_UpdatedAt := st_now st\<rparr>) (secrets d)\<rparr>)"
    by (rule step_secrets) (auto simp: secrets_ok_def in_update_where ok)
  then show ?thesis using False by (auto simp: UpdateSecret_def Let_def)
qed (simp add: UpdateSecret_def Let_def)

lemma DeleteSecret_step [db_steps]: "db_step d (snd (DeleteSecret rid st d))"
  unfolding DeleteSecret_def snd_conv
  by (rule step_secrets) (auto simp: secrets_ok_def intro: distinct_map_filter)

lemma InsertSecretAudit_step [db_steps]: "db_step d (snd (InsertSecretAudit s n a u st d))"
  unfolding InsertSecretAudit_def
  by (rule insert_step, rule step_secret_audit_logs [of "st_uuid st"]) auto

lemma CreateSet_step [db_steps]: "db_step d (snd (CreateSet n b st d))"
  unfolding CreateSet_def Let_def
  by (rule insert_step, rule step_secret_sets) (auto simp: sets_ok_def)

lemma sets_ok_update:
  assumes "\<And>s. ss_ID (f s) = ss_ID s \<and> ss_CreatedBy (f s) = ss_CreatedBy s"
    and "distinct (map ss_Name (update_where P f sss))" and "sets_ok u h sss ses bs"
  shows "sets_ok u h (update_where P f sss) ses bs"
proof -
  have "map ss_ID (update_where P f sss) = map ss_ID sss" using assms(1) by simp
  then show ?thesis using assms unfolding sets_ok_def by (auto simp: in_update_where)
qed

lemma TouchSet_step [db_steps]: "db_step d (snd (TouchSet rid st d))"
  unfolding TouchSet_def snd_conv
  by (rule step_secret_sets, rule sets_ok_update) (auto simp: sets_ok_def)

lemma UpdateSetName_step [db_steps]: "db_step d (snd (UpdateSetName rid n st d))"
proof (cases "list_ex (\<lambda>s. ss_ID s = rid) (secret_sets d) \<and>
    list_ex (\<lambda>s. ss_ID s \<noteq> rid \<and> ss_Name s = n) (secret_sets d)")
  case False
  let ?f = "\<lambda>s. s\<lparr>ss_Name := n, ss_UpdatedAt := st_now st\<rparr>"
  have "distinct (map ss_Name (update_where (\<lambda>s. ss_ID s = rid) ?f (secret_sets d)))"
    if ok: "sets_ok u h (secret_sets d) ses bs" for u h ses bs
  proof (cases "list_ex (\<lambda>s. ss_ID s = rid) (secret_sets d)")
    case True
    then have "\<forall>s \<in> set (secret_sets d). ss_ID s \<noteq> rid \<longrightarrow> ss_Name s \<noteq> n"
      using False by (auto simp: list_ex_iff)
    then show ?thesis using ok by (intro distinct_update_key) (auto simp: sets_ok_def)
  next
    case none: False
    then have "update_where (\<lambda>s. ss_ID s = rid) ?f (secret_sets d) = secret_sets d"
      by (intro update_where_none) (auto simp: list_ex_iff)
    then show ?thesis using ok by (simp add: sets_ok_def)
  qed
  then have "db_step d (d\<lparr>secret_sets := update_where (\<lambda>s. ss_ID s = rid) ?f (secret_sets d)\<rparr>)"
    by (intro step_secret_sets sets_ok_update) auto
  then show ?thesis using False by (auto simp: UpdateSetName_def Let_def)
qed (simp add: UpdateSetName_def Let_def)

lemma CreateSetEntry_step [db_steps]: "db_step d (snd (CreateSetEntry s k c n w st d))"
  unfolding CreateSetEntry_def
  by (rule insert_step, rule step_secret_set_entries) (auto simp: sets_ok_def)

lemma UpsertSetEntry_step [db_steps]: "db_step d (snd (UpsertSetEntry s k c n w st d))"
proof -
  have "db_step d (d\<lparr>secret_set_entries := update_where (\<lambda>e. se_SetID e = s \<and> se_Key e = k)
      (\<lambda>e. e\<lparr>se_Ciphertext := c, se_Nonce := n, se_WrappedKey := w, se_UpdatedAt := st_now st\<rparr>)
      (secret_set_entries d)\<rparr>)"
    by (rule step_secret_set_entries) (auto simp: sets_ok_def in_update_where)
  then show ?thesis using CreateSetEntry_step [of d s k c n w st]
    by (simp add: UpsertSetEntry_def del: set_map)
qed

lemma set_deletes_step [db_steps]:
  "db_step d (snd (DeleteSetEntries s st d))"
  "db_step d (snd (DeleteSetEntry s k st d))"
  unfolding DeleteSetEntries_def DeleteSetEntry_def Let_def snd_conv
  by (rule step_secret_set_entries, auto simp: sets_ok_def intro: distinct_map_filter)+

lemma BindSet_step [db_steps]: "db_step d (snd (BindSet h s a g st d))"
proof -
  have "db_step d (snd (insert_row True True (ref_ok g (user_ids d)) () d
      (d\<lparr>host_set_bindings := update_where (\<lambda>b. b_HostID b = h \<and> b_SetID b = s)
         (\<lambda>b. b\<lparr>b_AsUser := a, b_GrantedBy := g, b_RevokedAt := None\<rparr>) (host_set_bindings d)\<rparr>)))"
    by (intro insert_step step_host_set_bindings) (auto simp: sets_ok_def in_update_where)
  moreover have "db_step d (snd (insert_row True True
      (h \<in> set (host_ids d) \<and> s \<in> set (map ss_ID (secret_sets d)) \<and> ref_ok g (user_ids d)) () d
      (d\<lparr>host_set_bindings := host_set_bindings d @
         [\<lparr>b_HostID = h, b_SetID = s, b_AsUser = a, b_GrantedBy = g, b_CreatedAt = st_now st,
           b_RevokedAt = None\<rparr>]\<rparr>)))"
    if "(h, s) \<notin> set (map (\<lambda>b. (b_HostID b, b_SetID b)) (host_set_bindings d))"
    using that by (intro insert_step step_host_set_bindings) (auto simp: sets_ok_def)
  ultimately show ?thesis by (simp add: BindSet_def del: set_map)
qed

lemma UnbindSet_step [db_steps]: "db_step d (snd (UnbindSet h s st d))"
  unfolding UnbindSet_def Let_def snd_conv
  by (rule step_host_set_bindings) (auto simp: sets_ok_def intro: distinct_map_filter)

lemma DeleteSet_step [db_steps]: "db_step d (snd (DeleteSet rid st d))"
  unfolding DeleteSet_def snd_conv
  by (rule step_sets) (auto simp: sets_ok_def intro: distinct_map_filter)

lemma InsertSetAudit_step [db_steps]: "db_step d (snd (InsertSetAudit s n e h a ac st d))"
  unfolding InsertSetAudit_def
  by (rule insert_step, rule step_set_audit_logs [of "st_uuid st"]) auto

section \<open>The listings show what the permission checks admit\<close>

lemma left_join_nonempty: "left_join P rs \<noteq> []"
  by (auto simp: left_join_def split: list.splits)

lemma ListReadableSecrets_ids:
  "rid \<in> ls_ID ` set (ListReadableSecrets coll u d) \<longleftrightarrow>
     rid \<in> sec_ID ` set (secrets d) \<and> has_grant ''secret'' u ''secret.read'' rid d"
proof -
  have ex: "\<exists>x. x \<in> set (left_join P rs)" for P and rs :: "User list"
    using left_join_nonempty [of P rs] by (cases "left_join P rs") auto
  show ?thesis
    unfolding ListReadableSecrets_def has_grant_def image_iff comprehension
    using ex by (auto simp: secret_row_def)
qed

lemma in_ListReadableSets:
  "r \<in> set (ListReadableSets coll u d) \<longleftrightarrow>
     (\<exists>s \<in> set (secret_sets d). r = set_row d s \<and> has_grant ''set'' u ''set.read'' (ss_ID s) d)"
  unfolding ListReadableSets_def has_grant_def comprehension by (rule iffI; force)

end
