(* ===== verification/Go_Std.thy ===== *)
theory Go_Std
  imports Prelude
begin

text \<open>
  The parts of Go's standard library the program computes with: big-endian integers
  (\<open>encoding/binary\<close>), hexadecimal (\<open>encoding/hex\<close>, \<open>%x\<close>), base64 (\<open>encoding/base64\<close>), UTF-8
  (\<open>unicode/utf8\<close>) and string helpers (\<open>strings\<close>), each with the round trip or the
  injectivity the program relies on; and \<open>uuidString\<close> of \<open>internal/controlplane/http.go\<close>.
\<close>

section \<open>Big-endian integers\<close>

text \<open>The \<open>n\<close> low bytes of a number, most significant first.\<close>
primrec be_bytes :: "nat \<Rightarrow> nat \<Rightarrow> bytes" where
  "be_bytes 0 v = []"
| "be_bytes (Suc n) v = be_bytes n (v div 256) @ [char_of v]"

definition be_val :: "bytes \<Rightarrow> nat" where
  "be_val bs = foldl (\<lambda>a c. a * 256 + of_char c) 0 bs"

lemma length_be_bytes [simp]: "length (be_bytes n v) = n"
  by (induction n arbitrary: v) auto

lemma be_val_snoc [simp]: "be_val (bs @ [c]) = be_val bs * 256 + of_char c"
  by (simp add: be_val_def)

lemma be_val_bytes: "be_val (be_bytes n v) = v mod 256 ^ n"
proof (induction n arbitrary: v)
  case (Suc n)
  have "be_val (be_bytes (Suc n) v) = (v div 256 mod 256 ^ n) * 256 + v mod 256"
    using Suc by simp
  also have "\<dots> = v mod 256 ^ Suc n"
    by (simp add: mod_mult2_eq mult.commute)
  finally show ?case .
qed (simp add: be_val_def)

lemma be_bytes_inj:
  assumes "be_bytes n v = be_bytes n w" and "v < 256 ^ n" and "w < 256 ^ n"
  shows "v = w"
proof -
  have "v mod 256 ^ n = w mod 256 ^ n" using assms(1) be_val_bytes by metis
  then show ?thesis using assms by simp
qed

section \<open>Hexadecimal\<close>

definition hex_digit :: "nat \<Rightarrow> char" where
  "hex_digit n = ''0123456789abcdef'' ! (n mod 16)"

definition hex_byte :: "char \<Rightarrow> string" where
  "hex_byte c = [hex_digit (of_char c div 16), hex_digit (of_char c mod 16)]"

text \<open>\<open>hex.EncodeToString\<close>, and the verb \<open>%x\<close> on a byte slice.\<close>
definition hex_encode :: "bytes \<Rightarrow> string" where
  "hex_encode bs = concat (map hex_byte bs)"

lemma of_char_256: "(of_char c :: nat) < 256"
  by (metis of_char_mod_256 mod_less_divisor zero_less_numeral)

lemma hex_digit_eq_iff: "m < 16 \<Longrightarrow> n < 16 \<Longrightarrow> hex_digit m = hex_digit n \<longleftrightarrow> m = n"
proof -
  have "distinct ''0123456789abcdef''" by simp
  moreover assume "m < 16" "n < 16"
  ultimately show ?thesis
    by (simp add: hex_digit_def nth_eq_iff_index_eq [of "''0123456789abcdef''"])
qed

lemma hex_digit_set: "hex_digit n \<in> set ''0123456789abcdef''"
  unfolding hex_digit_def by (rule nth_mem) simp

lemma hex_byte_inj: "hex_byte c = hex_byte d \<Longrightarrow> c = d"
proof -
  assume "hex_byte c = hex_byte d"
  then have "hex_digit (of_char c div 16) = hex_digit (of_char d div 16)"
    and "hex_digit (of_char c mod 16) = hex_digit (of_char d mod 16)"
    by (simp_all add: hex_byte_def)
  moreover have "(of_char c :: nat) div 16 < 16" "(of_char d :: nat) div 16 < 16"
    using of_char_256 [of c] of_char_256 [of d] by (simp_all add: less_mult_imp_div_less)
  ultimately have "(of_char c :: nat) div 16 = of_char d div 16" "(of_char c :: nat) mod 16 = of_char d mod 16"
    by (simp_all add: hex_digit_eq_iff)
  then have "(of_char c :: nat) = of_char d" by (metis div_mod_decomp)
  then show "c = d" by (simp only: of_char_eq_iff)
qed

lemma hex_encode_inj: "hex_encode xs = hex_encode ys \<Longrightarrow> xs = ys"
proof (induction xs arbitrary: ys)
  case Nil
  then show ?case by (cases ys) (auto simp: hex_encode_def hex_byte_def)
next
  case (Cons x xs)
  then obtain y zs where ys: "ys = y # zs" by (cases ys) (auto simp: hex_encode_def hex_byte_def)
  have split: "hex_encode (x # xs) = hex_byte x @ hex_encode xs"
    "hex_encode (y # zs) = hex_byte y @ hex_encode zs" by (simp_all add: hex_encode_def)
  have "length (hex_byte x) = length (hex_byte y)" by (simp add: hex_byte_def)
  then have "hex_byte x = hex_byte y" "hex_encode xs = hex_encode zs"
    using Cons.prems ys split append_eq_append_conv by metis+
  then show ?case using Cons.IH ys hex_byte_inj by auto
qed

lemma set_hex_encode: "set (hex_encode bs) \<subseteq> set ''0123456789abcdef''"
  using hex_digit_set by (auto simp: hex_encode_def hex_byte_def)

section \<open>uuidString\<close>

definition uuid_bytes :: "uuid \<Rightarrow> bytes" where
  "uuid_bytes u = be_bytes 16 (unat u)"

text \<open>\<open>fmt.Sprintf("%x-%x-%x-%x-%x", b[0:4], b[4:6], b[6:8], b[8:10], b[10:16])\<close>\<close>
definition uuidString :: "uuid option \<Rightarrow> string" where
  "uuidString u = (case u of None \<Rightarrow> ''''
     | Some v \<Rightarrow> (let b = uuid_bytes v in
         hex_encode (take 4 b) @ ''-'' @ hex_encode (take 2 (drop 4 b)) @ ''-'' @
         hex_encode (take 2 (drop 6 b)) @ ''-'' @ hex_encode (take 2 (drop 8 b)) @ ''-'' @
         hex_encode (drop 10 b)))"

lemma hex_encode_append [simp]: "hex_encode (xs @ ys) = hex_encode xs @ hex_encode ys"
  by (simp add: hex_encode_def)

lemma filter_hex_encode [simp]: "filter (\<lambda>c. c \<noteq> CHR ''-'') (hex_encode bs) = hex_encode bs"
  using set_hex_encode [of bs] by (intro filter_True) auto

lemma length_hex_encode [simp]: "length (hex_encode bs) = 2 * length bs"
  by (induction bs) (simp_all add: hex_encode_def hex_byte_def)

lemma length_uuidString: "length (uuidString (Some u)) = 36"
  by (simp add: uuidString_def Let_def uuid_bytes_def)

lemma uuidString_digits:
  "filter (\<lambda>c. c \<noteq> CHR ''-'') (uuidString (Some u)) = hex_encode (uuid_bytes u)"
proof -
  have "uuid_bytes u = take 4 (uuid_bytes u) @ take 2 (drop 4 (uuid_bytes u)) @
      take 2 (drop 6 (uuid_bytes u)) @ take 2 (drop 8 (uuid_bytes u)) @ drop 10 (uuid_bytes u)"
    using append_take_drop_id [of 4 "uuid_bytes u"] append_take_drop_id [of 2 "drop 4 (uuid_bytes u)"]
      append_take_drop_id [of 2 "drop 6 (uuid_bytes u)"] append_take_drop_id [of 2 "drop 8 (uuid_bytes u)"]
    by (simp only: drop_drop) simp
  from arg_cong [OF this, of hex_encode] show ?thesis
    by (simp add: uuidString_def Let_def)
qed

lemma uuid_bytes_inj: "uuid_bytes u = uuid_bytes v \<Longrightarrow> u = v"
proof -
  assume eq: "uuid_bytes u = uuid_bytes v"
  have "unat w < 256 ^ 16" for w :: uuid using unsigned_less [where w = w] by simp
  then have "unat u = unat v" using eq be_bytes_inj [of 16 "unat u" "unat v"] by (simp add: uuid_bytes_def)
  then show "u = v" by (simp add: word_unat_eq_iff)
qed

lemma uuidString_inj: "uuidString u = uuidString v \<longleftrightarrow> u = v"
proof
  assume eq: "uuidString u = uuidString v"
  show "u = v"
  proof (cases u; cases v)
    fix a b assume u: "u = Some a" and v: "v = Some b"
    then have "hex_encode (uuid_bytes a) = hex_encode (uuid_bytes b)"
      using eq uuidString_digits [of a] uuidString_digits [of b] by simp
    then show ?thesis using u v hex_encode_inj uuid_bytes_inj by blast
  qed (use eq in \<open>auto simp: uuidString_def Let_def\<close>)
qed simp

section \<open>Base64\<close>

definition b64_alphabet :: string where
  "b64_alphabet = ''ABCDEFGHIJKLMNOPQRSTUVWXYZabcdefghijklmnopqrstuvwxyz0123456789+/''"

definition b64_char :: "nat \<Rightarrow> char" where
  "b64_char n = b64_alphabet ! (n mod 64)"

definition b64_val :: "char \<Rightarrow> nat option" where
  "b64_val c = (let b = of_char c in
     if 65 \<le> b \<and> b \<le> 90 then Some (b - 65)
     else if 97 \<le> b \<and> b \<le> 122 then Some (b - 97 + 26)
     else if 48 \<le> b \<and> b \<le> 57 then Some (b - 48 + 52)
     else if b = 43 then Some 62 else if b = 47 then Some 63 else None)"

text \<open>\<open>base64.StdEncoding.EncodeToString\<close>\<close>
fun b64_encode :: "bytes \<Rightarrow> string" where
  "b64_encode [] = []"
| "b64_encode [a] = (let v = of_char a * 16 in [b64_char (v div 64), b64_char v] @ ''=='')"
| "b64_encode [a, b] = (let v = (of_char a * 256 + of_char b) * 4 in
     [b64_char (v div 4096), b64_char (v div 64), b64_char v] @ ''='')"
| "b64_encode (a # b # c # r) = (let v = (of_char a * 256 + of_char b) * 256 + of_char c in
     [b64_char (v div 262144), b64_char (v div 4096), b64_char (v div 64), b64_char v] @ b64_encode r)"

text \<open>\<open>base64.StdEncoding.DecodeString\<close>, after it has dropped carriage returns and newlines.\<close>
fun b64_quanta :: "string \<Rightarrow> bytes option" where
  "b64_quanta [] = Some []"
| "b64_quanta (w # x # y # z # r) = (case (b64_val w, b64_val x) of
     (Some i, Some j) \<Rightarrow>
       if y = CHR ''='' then (if z = CHR ''='' \<and> r = [] then Some [char_of ((i * 64 + j) div 16)] else None)
       else (case b64_val y of None \<Rightarrow> None
         | Some k \<Rightarrow>
             if z = CHR ''='' then
               (if r = [] then (let v = ((i * 64 + j) * 64 + k) div 4 in
                  Some [char_of (v div 256), char_of v]) else None)
             else (case (b64_val z, b64_quanta r) of
               (Some l, Some t) \<Rightarrow> (let v = ((i * 64 + j) * 64 + k) * 64 + l in
                  Some (char_of (v div 65536) # char_of (v div 256) # char_of v # t))
             | _ \<Rightarrow> None))
   | _ \<Rightarrow> None)"
| "b64_quanta _ = None"

definition b64_decode :: "string \<Rightarrow> bytes option" where
  "b64_decode s = b64_quanta (filter (\<lambda>c. c \<noteq> CHR 0x0A \<and> c \<noteq> CHR 0x0D) s)"

lemma b64_table:
  "list_all (\<lambda>n. b64_val (b64_alphabet ! n) = Some n \<and> b64_alphabet ! n \<noteq> CHR ''='' \<and>
      b64_alphabet ! n \<noteq> CHR 0x0A \<and> b64_alphabet ! n \<noteq> CHR 0x0D) [0..<64]"
  by (simp add: b64_alphabet_def b64_val_def Let_def upt_rec)

lemma b64_val_char [simp]: "b64_val (b64_char n) = Some (n mod 64)"
  using b64_table by (simp add: list_all_iff b64_char_def)

lemma b64_char_neq [simp]:
  "b64_char n \<noteq> CHR ''=''" "b64_char n \<noteq> CHR 0x0A" "b64_char n \<noteq> CHR 0x0D"
  using b64_table by (simp_all add: list_all_iff b64_char_def)

lemma b64_encode_clean: "filter (\<lambda>c. c \<noteq> CHR 0x0A \<and> c \<noteq> CHR 0x0D) (b64_encode bs) = b64_encode bs"
  by (induction bs rule: b64_encode.induct) (simp_all add: Let_def)

lemma digits64:
  fixes v :: nat
  shows "v < 4096 \<Longrightarrow> v div 64 mod 64 * 64 + v mod 64 = v"
    and "v < 262144 \<Longrightarrow> (v div 4096 mod 64 * 64 + v div 64 mod 64) * 64 + v mod 64 = v"
    and "v < 16777216 \<Longrightarrow>
      ((v div 262144 mod 64 * 64 + v div 4096 mod 64) * 64 + v div 64 mod 64) * 64 + v mod 64 = v"
proof -
  have two: "w div 64 mod 64 * 64 + w mod 64 = w" if "w < 4096" for w :: nat
    using that by (simp add: less_mult_imp_div_less)
  have three: "(w div 4096 mod 64 * 64 + w div 64 mod 64) * 64 + w mod 64 = w" if "w < 262144" for w :: nat
  proof -
    have "w div 4096 = w div 64 div 64" by (simp flip: div_mult2_eq)
    then show ?thesis using two [of "w div 64"] that by (simp add: less_mult_imp_div_less)
  qed
  show "v < 4096 \<Longrightarrow> v div 64 mod 64 * 64 + v mod 64 = v" by (rule two)
  show "v < 262144 \<Longrightarrow> (v div 4096 mod 64 * 64 + v div 64 mod 64) * 64 + v mod 64 = v" by (rule three)
  assume v: "v < 16777216"
  have "v div 262144 = v div 64 div 4096" "v div 4096 = v div 64 div 64" by (simp_all flip: div_mult2_eq)
  then show "((v div 262144 mod 64 * 64 + v div 4096 mod 64) * 64 + v div 64 mod 64) * 64 + v mod 64 = v"
    using three [of "v div 64"] v by (simp add: less_mult_imp_div_less)
qed

lemma of_char_255: "(of_char c :: nat) \<le> 255"
  using of_char_256 [of c] by linarith

lemma byte_bound2: "x \<le> 255 \<Longrightarrow> y \<le> 255 \<Longrightarrow> (x * 256 + y) * 4 < (262144 :: nat)"
  unfolding add_mult_distrib by linarith

lemma byte_bound3: "x \<le> 255 \<Longrightarrow> y \<le> 255 \<Longrightarrow> z \<le> 255 \<Longrightarrow> (x * 256 + y) * 256 + z < (16777216 :: nat)"
  unfolding add_mult_distrib by linarith

lemma b64_quanta_chars:
  "b64_quanta ([b64_char x, b64_char y] @ ''=='') = Some [char_of ((x mod 64 * 64 + y mod 64) div 16)]"
  "b64_quanta ([b64_char x, b64_char y, b64_char z] @ ''='') =
     (let v = ((x mod 64 * 64 + y mod 64) * 64 + z mod 64) div 4 in
      Some [char_of (v div 256), char_of v])"
  "b64_quanta ([b64_char x, b64_char y, b64_char z, b64_char w] @ r) =
     (let v = ((x mod 64 * 64 + y mod 64) * 64 + z mod 64) * 64 + w mod 64 in
      map_option (\<lambda>t. char_of (v div 65536) # char_of (v div 256) # char_of v # t) (b64_quanta r))"
  by (simp_all add: Let_def split: option.splits)

lemma char_of_low: "char_of (x * 256 + of_char b :: nat) = b"
  by (metis char_of_mod_256 char_of_char mod_mult_self3)

lemma div_256_high: "(x * 256 + of_char b :: nat) div 256 = x"
  using of_char_256 [of b] by simp

lemma b64_quanta_encode: "b64_quanta (b64_encode bs) = Some bs"
proof (induction bs rule: b64_encode.induct)
  case 1
  then show ?case by simp
next
  case (2 a)
  define v :: nat where "v = of_char a * 16"
  have v: "v < 4096" using of_char_256 [of a] by (simp add: v_def)
  have "b64_quanta (b64_encode [a]) = Some [char_of (v div 16)]"
    unfolding b64_encode.simps v_def [symmetric] Let_def b64_quanta_chars digits64(1) [OF v] ..
  then show ?case by (simp add: v_def)
next
  case (3 a b)
  define v :: nat where "v = (of_char a * 256 + of_char b) * 4"
  have v: "v < 262144" unfolding v_def by (intro byte_bound2 of_char_255)
  have "b64_quanta (b64_encode [a, b]) = Some [char_of (v div 4 div 256), char_of (v div 4)]"
    unfolding b64_encode.simps v_def [symmetric] Let_def b64_quanta_chars digits64(2) [OF v] ..
  moreover have "v div 4 = of_char a * 256 + of_char b" by (simp add: v_def)
  ultimately show ?case by (simp only: char_of_low div_256_high char_of_char)
next
  case (4 a b c r)
  define v :: nat where "v = (of_char a * 256 + of_char b) * 256 + of_char c"
  have v: "v < 16777216" unfolding v_def by (intro byte_bound3 of_char_255)
  have "b64_quanta (b64_encode (a # b # c # r)) =
      Some (char_of (v div 65536) # char_of (v div 256) # char_of v # r)"
    unfolding b64_encode.simps v_def [symmetric] Let_def b64_quanta_chars digits64(3) [OF v]
    using 4 by simp
  moreover have "v div 65536 = v div 256 div 256" by (simp flip: div_mult2_eq)
  moreover have "v div 256 = of_char a * 256 + of_char b" "char_of v = c"
    unfolding v_def by (simp_all only: div_256_high char_of_low)
  ultimately show ?case by (simp only: char_of_low div_256_high char_of_char)
qed

lemma b64_roundtrip: "b64_decode (b64_encode bs) = Some bs"
  by (simp add: b64_decode_def b64_encode_clean b64_quanta_encode)

end
