(* ===== verification/Go_Json.thy ===== *)
theory Go_Json
  imports Go_Std
begin

text \<open>
  \<open>encoding/json\<close>: the encoding of values with Go's string escaping, a parser for the JSON
  grammar with Go's unquoting, and the round trip between them for every value whose strings
  are valid UTF-8. Struct decoding (field matching, null, type errors) is at the end.
\<close>

section \<open>UTF-8\<close>

abbreviation byte :: "char \<Rightarrow> nat" where "byte c \<equiv> of_char c"

definition in_range :: "nat \<Rightarrow> nat \<Rightarrow> char \<Rightarrow> bool" where
  "in_range lo hi c \<longleftrightarrow> lo \<le> byte c \<and> byte c \<le> hi"

text \<open>The ranges a first byte admits for the bytes that follow it (Unicode, table 3-7).\<close>
fun tails :: "(nat \<times> nat) list \<Rightarrow> string \<Rightarrow> bool" where
  "tails [] cs = True"
| "tails (r # rs) [] = False"
| "tails (r # rs) (c # cs) = (in_range (fst r) (snd r) c \<and> tails rs cs)"

definition utf8_ranges :: "char \<Rightarrow> (nat \<times> nat) list option" where
  "utf8_ranges c = (let b = byte c; t = (0x80, 0xBF) in
     if b < 0x80 then Some []
     else if b < 0xC2 then None
     else if b \<le> 0xDF then Some [t]
     else if b = 0xE0 then Some [(0xA0, 0xBF), t]
     else if b = 0xED then Some [(0x80, 0x9F), t]
     else if b \<le> 0xEF then Some [t, t]
     else if b = 0xF0 then Some [(0x90, 0xBF), t, t]
     else if b \<le> 0xF3 then Some [t, t, t]
     else if b = 0xF4 then Some [(0x80, 0x8F), t, t]
     else None)"

text \<open>The width of the encoding at the head of a string; 0 where \<open>utf8.DecodeRune\<close> reports an error.\<close>
fun utf8_len :: "string \<Rightarrow> nat" where
  "utf8_len [] = 0"
| "utf8_len (c # cs) = (case utf8_ranges c of None \<Rightarrow> 0
     | Some rs \<Rightarrow> if tails rs cs then Suc (length rs) else 0)"

function valid_utf8 :: "string \<Rightarrow> bool" where
  "valid_utf8 s = (if s = [] then True else if utf8_len s = 0 then False
     else valid_utf8 (drop (utf8_len s) s))"
  by pat_completeness auto
termination by (relation "measure length") auto

section \<open>String literals\<close>

abbreviation dquote :: char where "dquote \<equiv> CHR 0x22"
abbreviation bslash :: char where "bslash \<equiv> CHR 0x5C"

text \<open>\<open>appendString\<close> of \<open>encoding/json\<close> with HTML escaping, as \<open>json.Marshal\<close> calls it.\<close>
definition esc_ascii :: "char \<Rightarrow> string" where
  "esc_ascii c =
     (if c = dquote \<or> c = bslash then [bslash, c]
      else if byte c = 8 then [bslash, CHR ''b'']
      else if byte c = 12 then [bslash, CHR ''f'']
      else if byte c = 10 then [bslash, CHR ''n'']
      else if byte c = 13 then [bslash, CHR ''r'']
      else if byte c = 9 then [bslash, CHR ''t'']
      else if byte c < 0x20 \<or> c = CHR ''<'' \<or> c = CHR ''>'' \<or> c = CHR ''&''
      then bslash # ''u00'' @ hex_byte c
      else [c])"

function quote_body :: "string \<Rightarrow> string" where
  "quote_body [] = []"
| "quote_body (c # cs) =
     (if byte c < 0x80 then esc_ascii c @ quote_body cs
      else let n = utf8_len (c # cs) in
        if n = 0 then bslash # ''ufffd'' @ quote_body cs
        else let m = take (n - 1) cs; r = drop (n - 1) cs in
          (if c # m = [CHR 0xE2, CHR 0x80, CHR 0xA8] then bslash # ''u2028''
           else if c # m = [CHR 0xE2, CHR 0x80, CHR 0xA9] then bslash # ''u2029''
           else c # m) @ quote_body r)"
  by pat_completeness auto
termination by (relation "measure length") auto

definition quote :: "string \<Rightarrow> string" where
  "quote s = dquote # quote_body s @ [dquote]"

text \<open>\<open>getu4\<close> and \<open>unquoteBytes\<close> of \<open>encoding/json\<close>.\<close>
definition hex_val :: "char \<Rightarrow> nat option" where
  "hex_val c = (let b = byte c in
     if 0x30 \<le> b \<and> b \<le> 0x39 then Some (b - 0x30)
     else if 0x61 \<le> b \<and> b \<le> 0x66 then Some (b - 0x61 + 10)
     else if 0x41 \<le> b \<and> b \<le> 0x46 then Some (b - 0x41 + 10)
     else None)"

definition hex4 :: "string \<Rightarrow> (nat \<times> string) option" where
  "hex4 s = (case s of
     a # b # c # d # r \<Rightarrow>
       (case (hex_val a, hex_val b, hex_val c, hex_val d) of
          (Some w, Some x, Some y, Some z) \<Rightarrow> Some (((w * 16 + x) * 16 + y) * 16 + z, r)
        | _ \<Rightarrow> None)
   | _ \<Rightarrow> None)"

definition utf8_encode :: "nat \<Rightarrow> string" where
  "utf8_encode v =
     (if v < 0x80 then [char_of v]
      else if v < 0x800 then [char_of (0xC0 + v div 0x40), char_of (0x80 + v mod 0x40)]
      else if v < 0x10000 then [char_of (0xE0 + v div 0x1000), char_of (0x80 + v div 0x40 mod 0x40),
          char_of (0x80 + v mod 0x40)]
      else [char_of (0xF0 + v div 0x40000), char_of (0x80 + v div 0x1000 mod 0x40),
          char_of (0x80 + v div 0x40 mod 0x40), char_of (0x80 + v mod 0x40)])"

abbreviation rune_error :: string where "rune_error \<equiv> [CHR 0xEF, CHR 0xBF, CHR 0xBD]"

definition unescape_u :: "string \<Rightarrow> (string \<times> string) option" where
  "unescape_u s = (case hex4 s of None \<Rightarrow> None
     | Some (v, r) \<Rightarrow>
         if 0xD800 \<le> v \<and> v < 0xE000
         then (case r of
             b # u # r' \<Rightarrow>
               (case hex4 r' of
                  Some (v2, r2) \<Rightarrow>
                    if b = bslash \<and> u = CHR ''u'' \<and> v < 0xDC00 \<and> 0xDC00 \<le> v2 \<and> v2 < 0xE000
                    then Some (utf8_encode (0x10000 + (v - 0xD800) * 0x400 + (v2 - 0xDC00)), r2)
                    else Some (rune_error, r)
                | None \<Rightarrow> Some (rune_error, r))
           | _ \<Rightarrow> Some (rune_error, r))
         else Some (utf8_encode v, r))"

fun unescape :: "string \<Rightarrow> (string \<times> string) option" where
  "unescape [] = None"
| "unescape (e # r) =
     (if e = dquote \<or> e = bslash \<or> e = CHR ''/'' then Some ([e], r)
      else if e = CHR ''b'' then Some ([CHR 0x08], r)
      else if e = CHR ''f'' then Some ([CHR 0x0C], r)
      else if e = CHR ''n'' then Some ([CHR 0x0A], r)
      else if e = CHR ''r'' then Some ([CHR 0x0D], r)
      else if e = CHR ''t'' then Some ([CHR 0x09], r)
      else if e = CHR ''u'' then unescape_u r
      else None)"

lemma hex4_shorter: "hex4 s = Some (v, r) \<Longrightarrow> length r < length s"
  by (auto simp: hex4_def split: list.splits option.splits)

lemma unescape_u_shorter: "unescape_u s = Some (t, r) \<Longrightarrow> length r \<le> length s"
  by (auto simp: unescape_u_def split: option.splits list.splits if_splits dest!: hex4_shorter)

lemma unescape_shorter: "unescape s = Some (t, r) \<Longrightarrow> length r \<le> length s"
  by (cases s) (auto split: if_splits dest: unescape_u_shorter)

function unquote :: "string \<Rightarrow> (string \<times> string) option" where
  "unquote [] = None"
| "unquote (c # cs) =
     (if c = dquote then Some ([], cs)
      else if c = bslash
      then (case unescape cs of None \<Rightarrow> None
            | Some (t, r) \<Rightarrow> map_option (apfst ((@) t)) (unquote r))
      else if byte c < 0x20 then None
      else if byte c < 0x80 then map_option (apfst ((@) [c])) (unquote cs)
      else let n = utf8_len (c # cs) in
        if n = 0 then map_option (apfst ((@) rune_error)) (unquote cs)
        else map_option (apfst ((@) (c # take (n - 1) cs))) (unquote (drop (n - 1) cs)))"
  by pat_completeness auto
termination by (relation "measure length") (auto dest: unescape_shorter)

section \<open>Values\<close>

datatype json = JNull | JBool bool | JNum string | JStr string | JArr "json list"
  | JObj "(string \<times> json) list"

fun enc :: "json \<Rightarrow> string" and enc_elems :: "json list \<Rightarrow> string"
  and enc_members :: "(string \<times> json) list \<Rightarrow> string" where
  "enc JNull = ''null''"
| "enc (JBool b) = (if b then ''true'' else ''false'')"
| "enc (JNum l) = l"
| "enc (JStr s) = quote s"
| "enc (JArr xs) = CHR ''['' # enc_elems xs @ '']''"
| "enc (JObj ms) = CHR ''{'' # enc_members ms @ ''}''"
| "enc_elems [] = ''''"
| "enc_elems (x # xs) = enc x @ (if xs = [] then '''' else CHR '','' # enc_elems xs)"
| "enc_members [] = ''''"
| "enc_members ((k, v) # ms) =
     quote k @ CHR '':'' # enc v @ (if ms = [] then '''' else CHR '','' # enc_members ms)"

abbreviation is_ws :: "char \<Rightarrow> bool" where
  "is_ws c \<equiv> c = CHR 0x20 \<or> c = CHR 0x09 \<or> c = CHR 0x0A \<or> c = CHR 0x0D"

definition skip_ws :: "string \<Rightarrow> string" where
  "skip_ws s = dropWhile is_ws s"

definition num_char :: "char \<Rightarrow> bool" where
  "num_char c \<longleftrightarrow> c \<in> set ''0123456789+-.eE''"

definition is_digit :: "char \<Rightarrow> bool" where
  "is_digit c \<longleftrightarrow> c \<in> set ''0123456789''"

definition valid_exp :: "string \<Rightarrow> bool" where
  "valid_exp s \<longleftrightarrow> (case s of [] \<Rightarrow> True
     | e # r \<Rightarrow> (e = CHR ''e'' \<or> e = CHR ''E'') \<and>
         (let ds = (case r of [] \<Rightarrow> [] | g # q \<Rightarrow> if g = CHR ''+'' \<or> g = CHR ''-'' then q else r)
          in ds \<noteq> [] \<and> list_all is_digit ds))"

definition valid_frac :: "string \<Rightarrow> bool" where
  "valid_frac s \<longleftrightarrow> (case s of [] \<Rightarrow> True
     | d # r \<Rightarrow> if d = CHR ''.'' then takeWhile is_digit r \<noteq> [] \<and> valid_exp (dropWhile is_digit r)
               else valid_exp s)"

definition valid_num :: "string \<Rightarrow> bool" where
  "valid_num s \<longleftrightarrow> (let t = (case s of [] \<Rightarrow> [] | c # r \<Rightarrow> if c = CHR ''-'' then r else s)
     in (case t of [] \<Rightarrow> False
         | c # r \<Rightarrow> if c = CHR ''0'' then valid_frac r
                   else is_digit c \<and> valid_frac (dropWhile is_digit r)))"

text \<open>
  The grammar of RFC 8259. The fuel of \<open>parse_json\<close> is enough for every input: more never
  changes the result (\<open>parse_fuel\<close> below).
\<close>
fun p_value :: "nat \<Rightarrow> string \<Rightarrow> (json \<times> string) option"
  and p_elems :: "nat \<Rightarrow> string \<Rightarrow> (json list \<times> string) option"
  and p_members :: "nat \<Rightarrow> string \<Rightarrow> ((string \<times> json) list \<times> string) option" where
  "p_value 0 s = None"
| "p_value (Suc n) s = (case skip_ws s of [] \<Rightarrow> None
     | c # cs \<Rightarrow>
         if c = dquote then map_option (apfst JStr) (unquote cs)
         else if c = CHR ''['' then
           (case skip_ws cs of [] \<Rightarrow> None
            | c' # r \<Rightarrow> if c' = CHR '']'' then Some (JArr [], r)
                       else map_option (apfst JArr) (p_elems n cs))
         else if c = CHR ''{'' then
           (case skip_ws cs of [] \<Rightarrow> None
            | c' # r \<Rightarrow> if c' = CHR ''}'' then Some (JObj [], r)
                       else map_option (apfst JObj) (p_members n cs))
         else if take 4 (c # cs) = ''null'' then Some (JNull, drop 4 (c # cs))
         else if take 4 (c # cs) = ''true'' then Some (JBool True, drop 4 (c # cs))
         else if take 5 (c # cs) = ''false'' then Some (JBool False, drop 5 (c # cs))
         else if valid_num (takeWhile num_char (c # cs))
         then Some (JNum (takeWhile num_char (c # cs)), dropWhile num_char (c # cs))
         else None)"
| "p_elems 0 s = None"
| "p_elems (Suc n) s = (case p_value n s of None \<Rightarrow> None
     | Some (v, r) \<Rightarrow> (case skip_ws r of [] \<Rightarrow> None
         | c # r' \<Rightarrow> if c = CHR '','' then map_option (apfst ((#) v)) (p_elems n r')
                    else if c = CHR '']'' then Some ([v], r') else None))"
| "p_members 0 s = None"
| "p_members (Suc n) s = (case skip_ws s of [] \<Rightarrow> None
     | q # cs \<Rightarrow> if q \<noteq> dquote then None else
         (case unquote cs of None \<Rightarrow> None
          | Some (k, r) \<Rightarrow> (case skip_ws r of [] \<Rightarrow> None
              | c # r1 \<Rightarrow> if c \<noteq> CHR '':'' then None else
                  (case p_value n r1 of None \<Rightarrow> None
                   | Some (v, r2) \<Rightarrow> (case skip_ws r2 of [] \<Rightarrow> None
                       | e # r3 \<Rightarrow> if e = CHR '','' then map_option (apfst ((#) (k, v))) (p_members n r3)
                                  else if e = CHR ''}'' then Some ([(k, v)], r3) else None)))))"

definition parse_json :: "string \<Rightarrow> json option" where
  "parse_json s = (case p_value (Suc (2 * length s)) s of None \<Rightarrow> None
     | Some (v, r) \<Rightarrow> if skip_ws r = [] then Some v else None)"

fun json_ok :: "json \<Rightarrow> bool" where
  "json_ok JNull = True"
| "json_ok (JBool b) = True"
| "json_ok (JNum l) = (valid_num l \<and> list_all num_char l)"
| "json_ok (JStr s) = valid_utf8 s"
| "json_ok (JArr xs) = (\<forall>x \<in> set xs. json_ok x)"
| "json_ok (JObj ms) = (\<forall>(k, v) \<in> set ms. valid_utf8 k \<and> json_ok v)"

definition stop :: "string \<Rightarrow> bool" where
  "stop r \<longleftrightarrow> (case r of [] \<Rightarrow> True | c # _ \<Rightarrow> \<not> num_char c)"

section \<open>Numbers and struct fields\<close>

text \<open>\<open>strconv.AppendUint(.., 10)\<close> and the value of a decimal literal.\<close>
function dec_digits :: "nat \<Rightarrow> string" where
  "dec_digits n = (if n < 10 then [char_of (48 + n)] else dec_digits (n div 10) @ [char_of (48 + n mod 10)])"
  by pat_completeness auto
termination by (relation "measure (\<lambda>n. n)") auto

definition dec_val :: "string \<Rightarrow> nat" where
  "dec_val l = foldl (\<lambda>a c. a * 10 + (byte c - 48)) 0 l"

text \<open>
  Field names match up to case folding; besides ASCII letters only the long s and the Kelvin
  sign fold to an ASCII letter.
\<close>
definition lower_char :: "char \<Rightarrow> char" where
  "lower_char c = (if in_range 65 90 c then char_of (byte c + 32) else c)"

fun fold_key :: "string \<Rightarrow> string" where
  "fold_key [] = []"
| "fold_key [a] = [lower_char a]"
| "fold_key [a, b] = (if [a, b] = [CHR 0xC5, CHR 0xBF] then ''s'' else lower_char a # fold_key [b])"
| "fold_key (a # b # c # r) =
     (if [a, b] = [CHR 0xC5, CHR 0xBF] then CHR ''s'' # fold_key (c # r)
      else if [a, b, c] = [CHR 0xE2, CHR 0x84, CHR 0xAA] then CHR ''k'' # fold_key r
      else lower_char a # fold_key (b # c # r))"

text \<open>
  Decoding a struct field: the members that match it in order, a null leaving the value as it
  is, a value of the wrong type an error.
\<close>
definition field :: "(json \<Rightarrow> 'a option) \<Rightarrow> 'a \<Rightarrow> string \<Rightarrow> (string \<times> json) list \<Rightarrow> 'a option" where
  "field dec zero name ms = foldl
     (\<lambda>acc v. case acc of None \<Rightarrow> None | Some a \<Rightarrow> (if v = JNull then Some a else dec v))
     (Some zero) (map snd (filter (\<lambda>(k, v). fold_key k = fold_key name) ms))"

text \<open>
  The same for a field of slice type, where a null is the nil slice. A repeated member replaces
  the slice; the source reuses the elements of the first, a difference for such inputs only.
\<close>
definition slice_field :: "(json \<Rightarrow> 'a list option) \<Rightarrow> string \<Rightarrow> (string \<times> json) list \<Rightarrow> 'a list option" where
  "slice_field dec name ms = foldl
     (\<lambda>acc v. case acc of None \<Rightarrow> None | Some a \<Rightarrow> (if v = JNull then Some [] else dec v))
     (Some []) (map snd (filter (\<lambda>(k, v). fold_key k = fold_key name) ms))"

definition dec_string :: "json \<Rightarrow> string option" where
  "dec_string j = (case j of JStr s \<Rightarrow> Some s | _ \<Rightarrow> None)"

definition dec_uint64 :: "json \<Rightarrow> 64 word option" where
  "dec_uint64 j = (case j of JNum l \<Rightarrow>
       if list_all is_digit l \<and> dec_val l < 2 ^ 64 then Some (of_nat (dec_val l)) else None
   | _ \<Rightarrow> None)"

text \<open>An element of a slice: a null is the zero value.\<close>
fun dec_slice :: "(json \<Rightarrow> 'a option) \<Rightarrow> 'a \<Rightarrow> json list \<Rightarrow> 'a list option" where
  "dec_slice dec zero [] = Some []"
| "dec_slice dec zero (v # vs) =
     (case (if v = JNull then Some zero else dec v, dec_slice dec zero vs) of
        (Some a, Some as) \<Rightarrow> Some (a # as) | _ \<Rightarrow> None)"

definition dec_array :: "(json \<Rightarrow> 'a option) \<Rightarrow> 'a \<Rightarrow> json \<Rightarrow> 'a list option" where
  "dec_array dec zero j = (case j of JArr xs \<Rightarrow> dec_slice dec zero xs | _ \<Rightarrow> None)"

section \<open>UTF-8 lemmas\<close>

declare valid_utf8.simps [simp del]

lemma tails_length: "tails rs cs \<Longrightarrow> length rs \<le> length cs"
  by (induction rs cs rule: tails.induct) auto

lemma tails_take: "tails rs cs \<Longrightarrow> tails rs (take (length rs) cs @ t)"
  by (induction rs cs rule: tails.induct) auto

lemma utf8_len_le: "utf8_len s \<le> length s"
  by (cases s) (auto split: option.splits dest: tails_length)

lemma utf8_len_take: "utf8_len s = n \<Longrightarrow> 0 < n \<Longrightarrow> utf8_len (take n s @ t) = n"
  by (cases s) (auto split: option.splits if_splits intro: tails_take)

lemma valid_utf8_ascii: "(\<forall>c \<in> set s. byte c < 0x80) \<Longrightarrow> valid_utf8 s"
proof (induction s)
  case Nil then show ?case by (simp add: valid_utf8.simps)
next
  case (Cons c cs)
  then have "utf8_len (c # cs) = 1" by (simp add: utf8_ranges_def Let_def)
  then show ?case using Cons by (subst valid_utf8.simps) simp
qed

lemma valid_utf8_induct [consumes 1, case_names Nil Ascii Multi]:
  assumes v: "valid_utf8 s"
    and nil: "P []"
    and ascii: "\<And>c s. byte c < 0x80 \<Longrightarrow> valid_utf8 s \<Longrightarrow> P s \<Longrightarrow> P (c # s)"
    and multi: "\<And>c m s. 0x80 \<le> byte c \<Longrightarrow> utf8_len (c # m @ s) = Suc (length m) \<Longrightarrow> valid_utf8 s \<Longrightarrow> P s \<Longrightarrow> P (c # m @ s)"
  shows "P s"
  using v
proof (induction s rule: length_induct)
  case (1 s)
  show ?case
  proof (cases s)
    case Nil then show ?thesis using nil by simp
  next
    case (Cons c cs)
    let ?n = "utf8_len s"
    have n: "?n \<noteq> 0" and vd: "valid_utf8 (drop ?n s)"
      using 1(2) Cons valid_utf8.simps [of s] by (auto split: if_splits simp del: utf8_len.simps)
    have Pd: "P (drop ?n s)" using 1(1) n vd Cons by (simp del: utf8_len.simps)
    show ?thesis
    proof (cases "byte c < 0x80")
      case True
      then have "?n = 1" using Cons by (simp add: utf8_ranges_def Let_def)
      then show ?thesis using ascii [OF True, of cs] vd Pd Cons by (simp del: utf8_len.simps)
    next
      case False
      obtain m where m: "?n = Suc m" using n by (cases ?n) auto
      have le: "m \<le> length cs" using utf8_len_le [of s] m Cons by simp
      have s: "s = c # take m cs @ drop ?n s" using m Cons by (simp del: utf8_len.simps)
      have "P (c # take m cs @ drop ?n s)"
        by (rule multi) (use False s m le vd Pd in \<open>simp_all del: utf8_len.simps\<close>)
      then show ?thesis using s by simp
    qed
  qed
qed

section \<open>String literals round trip\<close>

lemma hex_val_digit: "n < 16 \<Longrightarrow> hex_val (hex_digit n) = Some n"
proof -
  assume "n < 16"
  then have "n \<in> set [0, 1, 2, 3, 4, 5, 6, 7, 8, 9, 10, 11, 12, 13, 14, 15]"
    by (simp only: list.set insert_iff empty_iff) presburger
  moreover have "list_all (\<lambda>k. hex_val (hex_digit k) = Some k)
      [0, 1, 2, 3, 4, 5, 6, 7, 8, 9, 10, 11, 12, 13, 14, 15]"
    by (simp add: hex_val_def hex_digit_def Let_def)
  ultimately show ?thesis unfolding list_all_iff by blast
qed

lemma hex4_byte: "hex4 (CHR ''0'' # CHR ''0'' # hex_byte c @ t) = Some (byte c, t)"
proof -
  have "(of_char c :: nat) div 16 < 16" using of_char_256 [of c] by (simp add: less_mult_imp_div_less)
  moreover have "hex_val (CHR ''0'') = Some 0" by (simp add: hex_val_def)
  ultimately show ?thesis by (simp add: hex4_def hex_byte_def hex_val_digit)
qed

lemma esc_ascii_ctl:
  "esc_ascii (CHR 0x08) = [bslash, CHR ''b'']" "esc_ascii (CHR 0x09) = [bslash, CHR ''t'']"
  "esc_ascii (CHR 0x0A) = [bslash, CHR ''n'']" "esc_ascii (CHR 0x0C) = [bslash, CHR ''f'']"
  "esc_ascii (CHR 0x0D) = [bslash, CHR ''r'']"
  by (simp_all add: esc_ascii_def)

lemma unquote_ascii:
  assumes c: "byte c < 0x80"
  shows "unquote (esc_ascii c @ t) = map_option (apfst ((@) [c])) (unquote t)"
proof -
  have eq: "c = d \<longleftrightarrow> byte c = byte d" for d by (simp only: of_char_eq_iff)
  have u: "unescape (CHR ''u'' # CHR ''0'' # CHR ''0'' # hex_byte c @ t) = Some ([c], t)"
  proof -
    have "char_of (byte c) = c" by (rule char_of_char)
    then show ?thesis using c by (simp add: unescape_u_def hex4_byte utf8_encode_def)
  qed
  consider (q) "c = dquote \<or> c = bslash" | (ctl) "byte c \<in> {8, 9, 10, 12, 13}"
    | (u) "c \<noteq> dquote" "c \<noteq> bslash" "byte c \<notin> {8, 9, 10, 12, 13}"
        "byte c < 0x20 \<or> c = CHR ''<'' \<or> c = CHR ''>'' \<or> c = CHR ''&''"
    | (plain) "c \<noteq> dquote" "c \<noteq> bslash" "\<not> byte c < 0x20" "c \<noteq> CHR ''<''" "c \<noteq> CHR ''>''" "c \<noteq> CHR ''&''"
    by blast
  then show ?thesis
  proof cases
    case q then show ?thesis by (auto simp: esc_ascii_def)
  next
    case ctl
    then have "c \<in> {CHR 0x08, CHR 0x09, CHR 0x0A, CHR 0x0C, CHR 0x0D}"
      unfolding insert_iff eq by (auto simp del: of_char_eq_iff)
    then show ?thesis by (elim insertE emptyE; simp only: esc_ascii_ctl; simp)
  next
    case u
    then have "esc_ascii c = bslash # CHR ''u'' # CHR ''0'' # CHR ''0'' # hex_byte c"
      by (auto simp: esc_ascii_def)
    then show ?thesis using \<open>unescape _ = _\<close> by simp
  next
    case plain
    then have "esc_ascii c = [c]" by (auto simp: esc_ascii_def)
    then show ?thesis using plain c by simp
  qed
qed

lemma unescape_separators:
  "unescape_u (CHR ''2'' # CHR ''0'' # CHR ''2'' # CHR ''8'' # t) = Some ([CHR 0xE2, CHR 0x80, CHR 0xA8], t)"
  "unescape_u (CHR ''2'' # CHR ''0'' # CHR ''2'' # CHR ''9'' # t) = Some ([CHR 0xE2, CHR 0x80, CHR 0xA9], t)"
  by (simp_all add: unescape_u_def hex4_def hex_val_def Let_def utf8_encode_def char_of_def bit_0)

lemma quote_body_multi:
  assumes "0x80 \<le> byte c" and "utf8_len (c # m @ s) = Suc (length m)"
  shows "quote_body (c # m @ s) =
      (if c # m = [CHR 0xE2, CHR 0x80, CHR 0xA8] then bslash # ''u2028''
       else if c # m = [CHR 0xE2, CHR 0x80, CHR 0xA9] then bslash # ''u2029''
       else c # m) @ quote_body s"
  using assms by (simp add: Let_def del: utf8_len.simps)

lemma unquote_multi:
  assumes "0x80 \<le> byte c" and "utf8_len (c # m @ s) = Suc (length m)"
  shows "unquote (c # m @ t) = map_option (apfst ((@) (c # m))) (unquote t)"
proof -
  have c: "c \<noteq> dquote" "c \<noteq> bslash" using assms(1) by (intro notI; simp)+
  have "utf8_len (c # m @ t) = Suc (length m)"
    using utf8_len_take [of "c # m @ s" "Suc (length m)" t] assms(2) by (simp del: utf8_len.simps)
  then show ?thesis using c assms(1) by (simp add: Let_def del: utf8_len.simps)
qed

lemma unquote_quote_body:
  "valid_utf8 s \<Longrightarrow> unquote (quote_body s @ dquote # rest) = Some (s, rest)"
proof (induction s rule: valid_utf8_induct)
  case Nil then show ?case by simp
next
  case (Ascii c s)
  then show ?case by (simp add: unquote_ascii)
next
  case (Multi c m s)
  let ?t = "quote_body s @ dquote # rest"
  note qb = quote_body_multi [OF Multi(1,2)]
  show ?case
  proof (cases "c # m = [CHR 0xE2, CHR 0x80, CHR 0xA8] \<or> c # m = [CHR 0xE2, CHR 0x80, CHR 0xA9]")
    case True
    then show ?thesis
    proof (elim disjE)
      assume e: "c # m = [CHR 0xE2, CHR 0x80, CHR 0xA8]"
      have q: "quote_body (c # m @ s) = bslash # CHR ''u'' # ''2028'' @ quote_body s"
        unfolding qb e by simp
      have "unquote (bslash # CHR ''u'' # ''2028'' @ ?t) = Some ((c # m) @ s, rest)"
        unfolding e using Multi(4) by (simp add: unescape_separators)
      then show ?thesis unfolding q by (simp only: append_Cons append_assoc append_Nil)
    next
      assume e: "c # m = [CHR 0xE2, CHR 0x80, CHR 0xA9]"
      have q: "quote_body (c # m @ s) = bslash # CHR ''u'' # ''2029'' @ quote_body s"
        unfolding qb e by simp
      have "unquote (bslash # CHR ''u'' # ''2029'' @ ?t) = Some ((c # m) @ s, rest)"
        unfolding e using Multi(4) by (simp add: unescape_separators)
      then show ?thesis unfolding q by (simp only: append_Cons append_assoc append_Nil)
    qed
  next
    case False
    then have ne: "c # m \<noteq> [CHR 0xE2, CHR 0x80, CHR 0xA8]" "c # m \<noteq> [CHR 0xE2, CHR 0x80, CHR 0xA9]"
      by blast+
    have q: "quote_body (c # m @ s) = (c # m) @ quote_body s"
      unfolding qb if_not_P [OF ne(1)] if_not_P [OF ne(2)] ..
    have "unquote (c # m @ ?t) = Some ((c # m) @ s, rest)"
      unfolding unquote_multi [OF Multi(1,2), of ?t] Multi(4) by simp
    then show ?thesis unfolding q by (simp only: append_Cons append_assoc)
  qed
qed

section \<open>Values round trip\<close>

lemma skip_ws_Cons [simp]: "\<not> is_ws c \<Longrightarrow> skip_ws (c # s) = c # s"
  by (simp add: skip_ws_def)

lemma valid_num_head: "valid_num l \<Longrightarrow> \<exists>c t. l = c # t \<and> (c = CHR ''-'' \<or> is_digit c)"
  by (cases l) (auto simp: valid_num_def is_digit_def split: if_splits)

lemma enc_head:
  "json_ok j \<Longrightarrow> \<exists>c t. enc j = c # t \<and> \<not> is_ws c \<and> c \<noteq> CHR '']'' \<and> c \<noteq> CHR ''}''"
  by (cases j) (auto simp: quote_def is_digit_def dest!: valid_num_head)

lemma takeWhile_num: "list_all num_char l \<Longrightarrow> stop r \<Longrightarrow> takeWhile num_char (l @ r) = l"
  by (induction l) (auto simp: stop_def takeWhile_eq_Nil_iff split: list.splits)

lemma dropWhile_num: "list_all num_char l \<Longrightarrow> stop r \<Longrightarrow> dropWhile num_char (l @ r) = r"
  by (induction l) (auto simp: stop_def dropWhile_eq_self_iff split: list.splits)

lemma stop_simps [simp]:
  "stop (CHR '','' # r)" "stop (CHR '']'' # r)" "stop (CHR ''}'' # r)" "stop []"
  by (simp_all add: stop_def num_char_def)

lemma p_value_num:
  assumes "valid_num l" "list_all num_char l" "stop r"
  shows "p_value (Suc n) (l @ r) = Some (JNum l, r)"
proof -
  obtain c t where l: "l = c # t" and c: "c = CHR ''-'' \<or> is_digit c"
    using valid_num_head [OF assms(1)] by blast
  have "\<not> is_ws c" "c \<noteq> dquote" "c \<noteq> CHR ''[''" "c \<noteq> CHR ''{''" "c \<noteq> CHR ''n''" "c \<noteq> CHR ''t''" "c \<noteq> CHR ''f''"
    using c by (auto simp: is_digit_def)
  then show ?thesis
    using takeWhile_num [OF assms(2,3)] dropWhile_num [OF assms(2,3)] assms(1) l
    by (simp del: takeWhile.simps dropWhile.simps)
qed

lemma enc_head_append:
  assumes "json_ok j"
  obtains c t where "enc j @ r = c # t" "\<not> is_ws c" "c \<noteq> CHR '']''" "c \<noteq> CHR ''}''"
  using enc_head [OF assms] by auto

lemma p_value_str: "valid_utf8 s \<Longrightarrow> p_value (Suc n) (quote s @ r) = Some (JStr s, r)"
  by (simp add: quote_def unquote_quote_body)

lemma p_value_lit:
  "p_value (Suc n) (''null'' @ r) = Some (JNull, r)"
  "p_value (Suc n) (''true'' @ r) = Some (JBool True, r)"
  "p_value (Suc n) (''false'' @ r) = Some (JBool False, r)"
  by (simp_all add: skip_ws_def)

lemma p_value_arr:
  assumes "xs \<noteq> []" and "json_ok (JArr xs)"
    and "p_elems n (enc_elems xs @ CHR '']'' # r) = Some (xs, r)"
  shows "p_value (Suc n) (enc (JArr xs) @ r) = Some (JArr xs, r)"
proof -
  obtain y ys where xs: "xs = y # ys" using assms(1) by (cases xs) auto
  obtain c t where ct: "enc_elems xs @ CHR '']'' # r = c # t" "\<not> is_ws c" "c \<noteq> CHR '']''"
    using enc_head [of y] assms(2) xs by fastforce
  then show ?thesis using assms(3) by (simp add: skip_ws_def)
qed

lemma p_value_obj:
  assumes "ms \<noteq> []" and "p_members n (enc_members ms @ CHR ''}'' # r) = Some (ms, r)"
  shows "p_value (Suc n) (enc (JObj ms) @ r) = Some (JObj ms, r)"
proof -
  obtain t where ct: "enc_members ms @ CHR ''}'' # r = dquote # t"
    using assms(1) by (cases ms) (auto simp: quote_def)
  then show ?thesis using assms(2) by (simp add: skip_ws_def)
qed

lemma parse_enc_gen:
  "json_ok j \<Longrightarrow> stop r \<Longrightarrow> length (enc j) \<le> n \<Longrightarrow> p_value n (enc j @ r) = Some (j, r)"
  "(\<forall>x \<in> set xs. json_ok x) \<Longrightarrow> xs \<noteq> [] \<Longrightarrow> length (enc_elems xs) < n \<Longrightarrow>
     p_elems n (enc_elems xs @ CHR '']'' # r) = Some (xs, r)"
  "(\<forall>(k, v) \<in> set ms. valid_utf8 k \<and> json_ok v) \<Longrightarrow> ms \<noteq> [] \<Longrightarrow> length (enc_members ms) < n \<Longrightarrow>
     p_members n (enc_members ms @ CHR ''}'' # r) = Some (ms, r)"
proof (induction j and xs and ms arbitrary: n r and n r and n r rule: enc_enc_elems_enc_members.induct)
  case 1
  then obtain m where "n = Suc m" by (cases n) auto
  then show ?case by (simp only: enc.simps p_value_lit)
next
  case (2 b)
  then obtain m where "n = Suc m" by (cases n) (auto split: if_splits)
  then show ?case by (cases b) (simp_all only: enc.simps p_value_lit if_True if_False)
next
  case (3 l)
  then obtain m where "n = Suc m" using valid_num_head [of l] by (cases n) auto
  then show ?case using 3 by (simp only: enc.simps json_ok.simps p_value_num)
next
  case (4 s)
  then obtain m where "n = Suc m" by (cases n) (auto simp: quote_def)
  then show ?case using 4 by (simp only: enc.simps json_ok.simps p_value_str)
next
  case (5 xs)
  then obtain m where n: "n = Suc m" by (cases n) auto
  show ?case
  proof (cases "xs = []")
    case True
    then show ?thesis using n by (simp add: skip_ws_def)
  next
    case False
    then have "p_elems m (enc_elems xs @ CHR '']'' # r) = Some (xs, r)" using 5 n by simp
    then show ?thesis unfolding n by (rule p_value_arr [OF False 5(2)])
  qed
next
  case (6 ms)
  then obtain m where n: "n = Suc m" by (cases n) auto
  show ?case
  proof (cases "ms = []")
    case True
    then show ?thesis using n by (simp add: skip_ws_def)
  next
    case False
    then have "p_members m (enc_members ms @ CHR ''}'' # r) = Some (ms, r)" using 6 n by simp
    then show ?thesis unfolding n by (rule p_value_obj [OF False])
  qed
next
  case 7
  then show ?case by simp
next
  case (8 x xs)
  obtain m where n: "n = Suc m" using 8(5) by (cases n) auto
  show ?case
  proof (cases "xs = []")
    case True
    then have "p_value m (enc x @ CHR '']'' # r) = Some (x, CHR '']'' # r)" using 8 n by simp
    then show ?thesis using True n by simp
  next
    case False
    let ?r = "CHR '','' # enc_elems xs @ CHR '']'' # r"
    have "p_value m (enc x @ ?r) = Some (x, ?r)" using 8 n by simp
    moreover have "p_elems m (enc_elems xs @ CHR '']'' # r) = Some (xs, r)" using 8 n False by simp
    ultimately show ?thesis using False n by simp
  qed
next
  case 9
  then show ?case by simp
next
  case (10 k v ms)
  obtain m where n: "n = Suc m" using 10(5) by (cases n) auto
  have k: "unquote (quote_body k @ dquote # t) = Some (k, t)" for t
    using 10(3) by (simp add: unquote_quote_body)
  show ?case
  proof (cases "ms = []")
    case True
    then have "p_value m (enc v @ CHR ''}'' # r) = Some (v, CHR ''}'' # r)" using 10 n by simp
    then show ?thesis using True n k by (simp add: quote_def)
  next
    case False
    let ?r = "CHR '','' # enc_members ms @ CHR ''}'' # r"
    have "p_value m (enc v @ ?r) = Some (v, ?r)" using 10 n by simp
    moreover have "p_members m (enc_members ms @ CHR ''}'' # r) = Some (ms, r)" using 10 n False by simp
    ultimately show ?thesis using False n k by (simp add: quote_def)
  qed
qed

lemma parse_enc: "json_ok j \<Longrightarrow> parse_json (enc j) = Some j"
  using parse_enc_gen(1) [of j "[]" "Suc (2 * length (enc j))"]
  by (simp add: parse_json_def skip_ws_def del: p_value.simps)

section \<open>The fuel is enough\<close>

lemma skip_ws_length: "length (skip_ws s) \<le> length s"
  by (simp add: skip_ws_def length_dropWhile_le)

lemma unquote_shorter: "unquote s = Some (t, r) \<Longrightarrow> length r < length s"
proof (induction s arbitrary: t r rule: unquote.induct)
  case 1
  then show ?case by simp
next
  case (2 c cs)
  show ?case
  proof (cases "c = dquote")
    case True
    then show ?thesis using 2(5) by simp
  next
    case nq: False
    show ?thesis
    proof (cases "c = bslash")
      case True
      then obtain u q t' where u: "unescape cs = Some (u, q)" and q: "unquote q = Some (t', r)"
        using 2(5) nq by (auto split: option.splits)
      have "length r < length q" using 2(1) [OF nq True u refl q] .
      then show ?thesis using unescape_shorter [OF u] by simp
    next
      case nb: False
      show ?thesis using 2(2-5) nq nb
        by (auto simp: Let_def split: if_splits simp del: utf8_len.simps) fastforce+
    qed
  qed
qed

lemma dropWhile_shorter: "valid_num (takeWhile num_char s) \<Longrightarrow> length (dropWhile num_char s) < length s"
proof -
  assume "valid_num (takeWhile num_char s)"
  then have "takeWhile num_char s \<noteq> []" using valid_num_head by fastforce
  moreover have "length s = length (takeWhile num_char s) + length (dropWhile num_char s)"
    by (metis length_append takeWhile_dropWhile_id)
  ultimately show ?thesis by simp
qed

lemma skip_ws_Some: "skip_ws s = c # cs \<Longrightarrow> length cs < length s"
  using skip_ws_length [of s] by simp

lemma p_shorter:
  "p_value n s = Some (v, r) \<Longrightarrow> length r < length s"
  "p_elems n s = Some (vs, r) \<Longrightarrow> length r < length s"
  "p_members n s = Some (ms, r) \<Longrightarrow> length r < length s"
proof (induction n s and n s and n s arbitrary: v r and vs r and ms r
    rule: p_value_p_elems_p_members.induct)
  case (2 n s)
  then obtain c cs where sw: "skip_ws s = c # cs" by (auto split: list.splits)
  note len = skip_ws_Some [OF sw] skip_ws_length [of s]
  have num: "length (dropWhile num_char (c # cs)) < length s"
    if "valid_num (takeWhile num_char (c # cs))"
    using dropWhile_shorter [OF that] len sw by simp
  have arr_len: "length q < length s" if "skip_ws cs = c' # r'" "p_elems n cs = Some (vs, q)"
    "c = CHR ''[''" "c' \<noteq> CHR '']''" for c' r' vs q
    using 2(1) [OF sw, of c' r' vs q] that len by simp
  have obj_len: "length q < length s" if "skip_ws cs = c' # r'" "p_members n cs = Some (vs, q)"
    "c = CHR ''{''" "c' \<noteq> CHR ''}''" for c' r' vs q
    using 2(2) [OF sw, of c' r' vs q] that len by simp
  note unf = 2(3) [unfolded p_value.simps(2) sw list.case]
  consider (str) "c = dquote" | (arr) "c = CHR ''[''" | (obj) "c = CHR ''{''"
    | (lit) "c \<noteq> dquote" "c \<noteq> CHR ''[''" "c \<noteq> CHR ''{''" by blast
  then show ?case
  proof cases
    case str
    then obtain t where "unquote cs = Some (t, r)" using unf by auto
    then show ?thesis using unquote_shorter len by fastforce
  next
    case arr
    then obtain c' r' where sc: "skip_ws cs = c' # r'" using unf by (auto split: list.splits)
    show ?thesis
    proof (cases "c' = CHR '']''")
      case True
      then have "r = r'" using unf sc arr by simp
      then show ?thesis using skip_ws_Some [OF sc] len by simp
    next
      case False
      then obtain vs where "p_elems n cs = Some (vs, r)" using unf sc arr by auto
      then show ?thesis using arr_len sc arr False by blast
    qed
  next
    case obj
    then obtain c' r' where sc: "skip_ws cs = c' # r'" using unf by (auto split: list.splits)
    show ?thesis
    proof (cases "c' = CHR ''}''")
      case True
      then have "r = r'" using unf sc obj by simp
      then show ?thesis using skip_ws_Some [OF sc] len by simp
    next
      case False
      then obtain ms where "p_members n cs = Some (ms, r)" using unf sc obj by auto
      then show ?thesis using obj_len sc obj False by blast
    qed
  next
    case lit
    then have "r = drop 4 (c # cs) \<or> r = drop 5 (c # cs) \<or>
        valid_num (takeWhile num_char (c # cs)) \<and> r = dropWhile num_char (c # cs)"
      using unf by (simp only: if_False) (metis option.sel option.distinct(1) snd_conv)
    then show ?thesis using num len by auto
  qed
next
  case (4 n s)
  then obtain v' r1 c r2 where v: "p_value n s = Some (v', r1)" and sw: "skip_ws r1 = c # r2"
    by (auto split: option.splits list.splits)
  note len = 4(1) [OF v] skip_ws_Some [OF sw]
  show ?case using 4(3) v sw len 4(2) [OF v refl sw] by (auto split: if_splits)
next
  case (6 n s)
  then obtain cs k r1 r2 v' r3 e r4 where sw: "skip_ws s = dquote # cs"
    and k: "unquote cs = Some (k, r1)" and c: "skip_ws r1 = CHR '':'' # r2"
    and v: "p_value n r2 = Some (v', r3)" and e: "skip_ws r3 = e # r4"
    by (auto split: option.splits list.splits if_splits)
  have "length r3 < length r2" using 6(1) sw k c v by simp
  note len = this skip_ws_Some [OF sw] unquote_shorter [OF k] skip_ws_Some [OF c] skip_ws_Some [OF e]
  have "length q < length r4" if "e = CHR '',''" "p_members n r4 = Some (ms', q)" for ms' q
    using 6(2) [OF sw _ k refl c _ v refl e that] by simp
  then show ?case using 6(3) sw k c v e len by (auto split: if_splits)
qed auto

lemma parse_fuel:
  "2 * length s < n \<Longrightarrow> p_value (Suc n) s = p_value n s"
  "Suc (2 * length s) < n \<Longrightarrow> p_elems (Suc n) s = p_elems n s"
  "Suc (2 * length s) < n \<Longrightarrow> p_members (Suc n) s = p_members n s"
proof (induction n arbitrary: s)
  case (Suc n)
  {
    case 1
    have "p_elems (Suc n) cs = p_elems n cs" "p_members (Suc n) cs = p_members n cs"
      if "skip_ws s = c # cs" for c cs
      using Suc.IH(2,3) [of cs] skip_ws_Some [OF that] 1 by auto
    then show ?case by (auto simp: p_value.simps(2) split: list.splits)
  next
    case 2
    have "p_value (Suc n) s = p_value n s" using Suc.IH(1) [of s] 2 by simp
    moreover have "p_elems (Suc n) r' = p_elems n r'"
      if "p_value n s = Some (v, r)" "skip_ws r = c # r'" for v r c r'
      using Suc.IH(2) [of r'] p_shorter(1) [OF that(1)] skip_ws_Some [OF that(2)] 2 by auto
    ultimately show ?case by (auto simp: p_elems.simps(2) split: option.splits list.splits)
  next
    case 3
    have "p_value (Suc n) r1 = p_value n r1"
      if "skip_ws s = q # cs" "unquote cs = Some (k, r)" "skip_ws r = c # r1" for q cs k r c r1
      using Suc.IH(1) [of r1] skip_ws_Some [OF that(1)] unquote_shorter [OF that(2)]
        skip_ws_Some [OF that(3)] 3 by auto
    moreover have "p_members (Suc n) r3 = p_members n r3"
      if "skip_ws s = q # cs" "unquote cs = Some (k, r)" "skip_ws r = c # r1"
        "p_value n r1 = Some (v, r2)" "skip_ws r2 = e # r3" for q cs k r c r1 v r2 e r3
      using Suc.IH(3) [of r3] skip_ws_Some [OF that(1)] unquote_shorter [OF that(2)]
        skip_ws_Some [OF that(3)] p_shorter(1) [OF that(4)] skip_ws_Some [OF that(5)] 3 by auto
    ultimately show ?case by (auto simp: p_members.simps(2) split: option.splits list.splits)
  }
qed auto

section \<open>Numbers and struct fields round trip\<close>

declare dec_digits.simps [simp del]

lemma byte_char_of: "n < 256 \<Longrightarrow> byte (char_of n) = n"
  by simp

lemma digit_char: "n < 10 \<Longrightarrow> is_digit (char_of (48 + n)) \<and> (n \<noteq> 0 \<longrightarrow> char_of (48 + n) \<noteq> CHR ''0'')"
  for n :: nat
proof -
  assume "n < 10"
  then have "n \<in> set [0, 1, 2, 3, 4, 5, 6, 7, 8, 9]"
    by (simp only: list.set insert_iff empty_iff) presburger
  moreover have "list_all (\<lambda>n. is_digit (char_of (48 + n)) \<and> (n \<noteq> 0 \<longrightarrow> char_of (48 + n) \<noteq> CHR ''0''))
      [0, 1, 2, 3, 4, 5, 6, 7, 8, 9 :: nat]"
    by (simp add: is_digit_def char_of_def bit_0)
  ultimately show ?thesis unfolding list_all_iff by blast
qed

lemma dec_val_snoc: "dec_val (l @ [c]) = dec_val l * 10 + (byte c - 48)"
  by (simp add: dec_val_def)

lemma dec_val_digits: "dec_val (dec_digits n) = n"
proof (induction n rule: dec_digits.induct)
  case (1 n)
  show ?case
  proof (cases "n < 10")
    case True
    then show ?thesis by (subst dec_digits.simps) (simp add: dec_val_def)
  next
    case False
    have "dec_digits n = dec_digits (n div 10) @ [char_of (48 + n mod 10)]"
      using False by (subst dec_digits.simps) simp
    then show ?thesis using 1 False by (simp add: dec_val_snoc)
  qed
qed

lemma dec_digits_digits: "list_all is_digit (dec_digits n)"
proof (induction n rule: dec_digits.induct)
  case (1 n)
  then show ?case using digit_char [of n] digit_char [of "n mod 10"]
    by (subst dec_digits.simps) auto
qed

lemma dec_digits_head: "\<exists>c t. dec_digits n = c # t \<and> (c = CHR ''0'' \<longrightarrow> t = [])"
proof (induction n rule: dec_digits.induct)
  case (1 n)
  show ?case
  proof (cases "n < 10")
    case True
    then show ?thesis by (subst dec_digits.simps) simp
  next
    case False
    then obtain c t where ct: "dec_digits (n div 10) = c # t" "c = CHR ''0'' \<longrightarrow> t = []" using 1 by blast
    have "c \<noteq> CHR ''0''"
    proof
      assume "c = CHR ''0''"
      then have "dec_val (dec_digits (n div 10)) = 0" using ct by (simp add: dec_val_def)
      then show False using False by (simp add: dec_val_digits)
    qed
    then show ?thesis using ct False by (subst dec_digits.simps) simp
  qed
qed

lemma digit_num_char: "is_digit c \<Longrightarrow> num_char c"
proof -
  have "set ''0123456789'' \<subseteq> set ''0123456789+-.eE''" by simp
  then show "is_digit c \<Longrightarrow> num_char c" unfolding is_digit_def num_char_def by blast
qed

lemma json_ok_dec: "json_ok (JNum (dec_digits n))"
proof -
  obtain c t where ct: "dec_digits n = c # t" and z: "c = CHR ''0'' \<longrightarrow> t = []"
    using dec_digits_head by blast
  have d: "is_digit c" "list_all is_digit t" using dec_digits_digits [of n] ct by simp_all
  have dw: "dropWhile is_digit t = []" using d(2) by (simp add: list_all_iff)
  have "valid_frac (dropWhile is_digit t)" "valid_frac []" unfolding dw by (simp_all add: valid_frac_def)
  moreover have "c \<noteq> CHR ''-''" using d(1) by (auto simp: is_digit_def)
  ultimately have "valid_num (c # t)" using d z by (cases "c = CHR ''0''") (simp_all add: valid_num_def)
  moreover have "list_all num_char (c # t)"
    using d by (simp add: list_all_iff digit_num_char)
  ultimately show ?thesis using ct by simp
qed

lemma dec_uint64_enc: "dec_uint64 (JNum (dec_digits (unat w))) = Some w" for w :: "64 word"
proof -
  have "unat w < 2 ^ 64" using unsigned_less [where w = w] by simp
  then show ?thesis by (simp add: dec_uint64_def dec_digits_digits dec_val_digits)
qed

lemma dec_slice_map:
  "(\<And>x. x \<in> set xs \<Longrightarrow> dec (f x) = Some x \<and> f x \<noteq> JNull) \<Longrightarrow> dec_slice dec zero (map f xs) = Some xs"
  by (induction xs) auto

end
