(* ===== verification/Protocol.thy ===== *)
theory Protocol
  imports Go_Json
begin

text \<open>
  The messages between control plane and daemon (\<open>internal/protocol\<close>) and the identity
  signatures on them (\<open>internal/identity\<close>): the envelope, the snapshot and its JSON form, the
  bytes a signature covers, and signing and verification over an Ed25519 implementation that
  is a parameter. The lemmas: the signed bytes determine the message, its kind and its host,
  and a snapshot survives the trip through JSON.
\<close>

section \<open>Messages\<close>

definition TypeChallenge :: string where "TypeChallenge = ''challenge''"
definition TypeSnapshot :: string where "TypeSnapshot = ''snapshot''"
definition TypeGrant :: string where "TypeGrant = ''grant''"
definition TypeRevoke :: string where "TypeRevoke = ''revoke''"
definition TypePing :: string where "TypePing = ''ping''"
definition TypeUpgrade :: string where "TypeUpgrade = ''upgrade''"
definition TypeSecretSets :: string where "TypeSecretSets = ''secret_sets''"
definition TypeAuth :: string where "TypeAuth = ''auth''"
definition TypeAccessLog :: string where "TypeAccessLog = ''access_log''"
definition TypeSecretRead :: string where "TypeSecretRead = ''secret_read''"
definition TypePong :: string where "TypePong = ''pong''"

lemmas message_types = TypeChallenge_def TypeSnapshot_def TypeGrant_def TypeRevoke_def TypePing_def
  TypeUpgrade_def TypeSecretSets_def TypeAuth_def TypeAccessLog_def TypeSecretRead_def TypePong_def

record Envelope =
  env_Type :: string
  env_Data :: bytes
  env_Seq :: "64 word"
  env_Sig :: bytes

record AccessEntry =
  ae_UserID :: string
  ae_KeyType :: string
  ae_KeyBlob :: string
  ae_Fingerprint :: string
  ae_Accounts :: "string list"

record Snapshot =
  snap_Entries :: "AccessEntry list"

record AccessLog =
  al_Fingerprint :: string
  al_Account :: string
  al_Allowed :: bool
  al_At :: time

record SecretRead =
  rd_SetName :: string
  rd_At :: time

record Auth =
  auth_HostID :: string
  auth_Signature :: bytes
  auth_Version :: string

section \<open>The snapshot as JSON\<close>

definition entry_json :: "AccessEntry \<Rightarrow> json" where
  "entry_json e = JObj [(''user_id'', JStr (ae_UserID e)), (''key_type'', JStr (ae_KeyType e)),
     (''key_blob'', JStr (ae_KeyBlob e)), (''fingerprint'', JStr (ae_Fingerprint e)),
     (''accounts'', JArr (map JStr (ae_Accounts e)))]"

definition snapshot_json :: "Snapshot \<Rightarrow> json" where
  "snapshot_json s = JObj [(''entries'', JArr (map entry_json (snap_Entries s)))]"

text \<open>\<open>json.Marshal(snap)\<close>; for this type it has no error.\<close>
definition marshal_snapshot :: "Snapshot \<Rightarrow> bytes" where
  "marshal_snapshot s = enc (snapshot_json s)"

definition zero_entry :: AccessEntry where
  "zero_entry = \<lparr>ae_UserID = '''', ae_KeyType = '''', ae_KeyBlob = '''', ae_Fingerprint = '''',
     ae_Accounts = []\<rparr>"

definition dec_entry :: "json \<Rightarrow> AccessEntry option" where
  "dec_entry j = (case j of JObj ms \<Rightarrow>
     (case (field dec_string '''' ''user_id'' ms, field dec_string '''' ''key_type'' ms,
            field dec_string '''' ''key_blob'' ms, field dec_string '''' ''fingerprint'' ms,
            slice_field (dec_array dec_string '''') ''accounts'' ms) of
        (Some u, Some t, Some b, Some f, Some as) \<Rightarrow>
          Some \<lparr>ae_UserID = u, ae_KeyType = t, ae_KeyBlob = b, ae_Fingerprint = f, ae_Accounts = as\<rparr>
      | _ \<Rightarrow> None)
   | _ \<Rightarrow> None)"

definition dec_snapshot :: "json \<Rightarrow> Snapshot option" where
  "dec_snapshot j = (case j of
     JObj ms \<Rightarrow> map_option (\<lambda>es. \<lparr>snap_Entries = es\<rparr>)
       (slice_field (dec_array dec_entry zero_entry) ''entries'' ms)
   | JNull \<Rightarrow> Some \<lparr>snap_Entries = []\<rparr>
   | _ \<Rightarrow> None)"

text \<open>\<open>json.Unmarshal(env.Data, &snap)\<close>\<close>
definition unmarshal_snapshot :: "bytes \<Rightarrow> Snapshot option" where
  "unmarshal_snapshot b = Option.bind (parse_json b) dec_snapshot"

text \<open>The strings of an entry are text, as every column of the database is.\<close>
definition entry_utf8 :: "AccessEntry \<Rightarrow> bool" where
  "entry_utf8 e \<longleftrightarrow> valid_utf8 (ae_UserID e) \<and> valid_utf8 (ae_KeyType e) \<and> valid_utf8 (ae_KeyBlob e) \<and>
     valid_utf8 (ae_Fingerprint e) \<and> (\<forall>a \<in> set (ae_Accounts e). valid_utf8 a)"

text \<open>A \<open>[]byte\<close> field is base64 text.\<close>
definition dec_bytes :: "json \<Rightarrow> bytes option" where
  "dec_bytes j = (case j of JStr s \<Rightarrow> b64_decode s | _ \<Rightarrow> None)"

section \<open>What a signature covers\<close>

definition snapshotSigTag :: string where "snapshotSigTag = ''custos-snapshot:v1''"
definition setsSigTag :: string where "setsSigTag = ''custos-sets:v1''"

text \<open>\<open>uint16(len(hostID))\<close> keeps the low sixteen bits, as \<^const>\<open>be_bytes\<close> does.\<close>
definition signingInput :: "string \<Rightarrow> string \<Rightarrow> 64 word \<Rightarrow> bytes \<Rightarrow> bytes" where
  "signingInput tag hostID seq data =
     tag @ be_bytes 2 (length hostID) @ hostID @ be_bytes 8 (unat seq) @ data"

definition SnapshotSigningInput :: "string \<Rightarrow> 64 word \<Rightarrow> bytes \<Rightarrow> bytes" where
  "SnapshotSigningInput hostID seq data = signingInput snapshotSigTag hostID seq data"

definition SecretSetsSigningInput :: "string \<Rightarrow> 64 word \<Rightarrow> bytes \<Rightarrow> bytes" where
  "SecretSetsSigningInput hostID seq data = signingInput setsSigTag hostID seq data"

section \<open>Identity keys\<close>

text \<open>\<open>crypto/ed25519\<close>: signing with a private key, verification with a public key.\<close>
record ed25519 =
  ed_Sign :: "bytes \<Rightarrow> bytes \<Rightarrow> bytes"
  ed_Verify :: "bytes \<Rightarrow> bytes \<Rightarrow> bytes \<Rightarrow> bool"
  ed_Public :: "bytes \<Rightarrow> bytes"

definition authContext :: string where "authContext = ''custos-host-auth:v1:''"

definition challengeSize :: nat where "challengeSize = 32"

definition ident_message :: "bytes \<Rightarrow> bytes" where
  "ident_message challenge = authContext @ challenge"

text \<open>\<open>(*KeyPair).Sign\<close>, by the private key of the pair.\<close>
definition ident_Sign :: "ed25519 \<Rightarrow> bytes \<Rightarrow> bytes \<Rightarrow> bytes" where
  "ident_Sign ed priv challenge = ed_Sign ed priv (ident_message challenge)"

text \<open>\<open>LoadKeyPair\<close>: the private key, if the text decodes to one of the right length.\<close>
definition LoadKeyPair :: "string \<Rightarrow> bytes option" where
  "LoadKeyPair s = (case b64_decode s of None \<Rightarrow> None
     | Some raw \<Rightarrow> if length raw \<noteq> 64 then None else Some raw)"

definition ident_PublicKey :: "ed25519 \<Rightarrow> bytes \<Rightarrow> string" where
  "ident_PublicKey ed priv = b64_encode (ed_Public ed priv)"

text \<open>\<open>Verify\<close>: whether it returns no error.\<close>
definition ident_Verify :: "ed25519 \<Rightarrow> string \<Rightarrow> bytes \<Rightarrow> bytes \<Rightarrow> bool" where
  "ident_Verify ed publicKey challenge signature = (case b64_decode publicKey of None \<Rightarrow> False
     | Some raw \<Rightarrow> length raw = 32 \<and> ed_Verify ed raw (ident_message challenge) signature)"

section \<open>Lemmas\<close>

lemma unat_seq_inj: "be_bytes 8 (unat (a :: 64 word)) = be_bytes 8 (unat b) \<Longrightarrow> a = b"
proof -
  assume eq: "be_bytes 8 (unat a) = be_bytes 8 (unat b)"
  have "unat w < 256 ^ 8" for w :: "64 word" using unsigned_less [where w = w] by simp
  then show "a = b" using be_bytes_inj [OF eq] by (simp add: word_unat_eq_iff)
qed

lemma signingInput_inj:
  assumes len: "length h < 65536" "length h' < 65536"
    and eq: "signingInput tag h s d = signingInput tag h' s' d'"
  shows "h = h' \<and> s = s' \<and> d = d'"
proof -
  from eq have e: "be_bytes 2 (length h) @ h @ be_bytes 8 (unat s) @ d =
      be_bytes 2 (length h') @ h' @ be_bytes 8 (unat s') @ d'"
    by (simp add: signingInput_def)
  then have "be_bytes 2 (length h) = be_bytes 2 (length h')" and r: "h @ be_bytes 8 (unat s) @ d =
      h' @ be_bytes 8 (unat s') @ d'"
    by (metis append_eq_append_conv length_be_bytes)+
  then have "length h = length h'" using be_bytes_inj len by simp
  then have h: "h = h'" and r2: "be_bytes 8 (unat s) @ d = be_bytes 8 (unat s') @ d'"
    using r by (metis append_eq_append_conv)+
  then have "be_bytes 8 (unat s) = be_bytes 8 (unat s')" "d = d'"
    by (metis append_eq_append_conv length_be_bytes)+
  then show ?thesis using h unat_seq_inj by blast
qed

lemma signingInput_tags:
  "signingInput snapshotSigTag h s d \<noteq> signingInput setsSigTag h' s' d'"
  by (simp add: signingInput_def snapshotSigTag_def setsSigTag_def)

lemma ident_message_inj: "ident_message a = ident_message b \<longleftrightarrow> a = b"
  by (simp add: ident_message_def)

lemma b64_encode_ascii: "\<forall>c \<in> set (b64_encode bs). byte c < 0x80"
proof -
  have "\<forall>c \<in> set b64_alphabet. byte c < 0x80" by (simp add: b64_alphabet_def)
  moreover have "b64_char n \<in> set b64_alphabet" for n
    unfolding b64_char_def by (rule nth_mem) (simp add: b64_alphabet_def)
  ultimately have "byte (b64_char n) < 0x80" for n by blast
  then show ?thesis by (induction bs rule: b64_encode.induct) (simp_all add: Let_def)
qed

lemma b64_encode_utf8 [simp]: "valid_utf8 (b64_encode bs)"
  using b64_encode_ascii by (rule valid_utf8_ascii)

lemma field_hit:
  "field dec z k [(k1, v1), (k2, v2), (k3, v3), (k4, v4), (k5, v5)] =
     foldl (\<lambda>acc v. case acc of None \<Rightarrow> None | Some a \<Rightarrow> (if v = JNull then Some a else dec v)) (Some z)
       ((if fold_key k1 = fold_key k then [v1] else []) @ (if fold_key k2 = fold_key k then [v2] else []) @
        (if fold_key k3 = fold_key k then [v3] else []) @ (if fold_key k4 = fold_key k then [v4] else []) @
        (if fold_key k5 = fold_key k then [v5] else []))"
  by (simp add: field_def)

lemma slice_field_hit:
  "slice_field dec k [(k1, v1), (k2, v2), (k3, v3), (k4, v4), (k5, v5)] =
     foldl (\<lambda>acc v. case acc of None \<Rightarrow> None | Some a \<Rightarrow> (if v = JNull then Some [] else dec v)) (Some [])
       ((if fold_key k1 = fold_key k then [v1] else []) @ (if fold_key k2 = fold_key k then [v2] else []) @
        (if fold_key k3 = fold_key k then [v3] else []) @ (if fold_key k4 = fold_key k then [v4] else []) @
        (if fold_key k5 = fold_key k then [v5] else []))"
  by (simp add: slice_field_def)

lemma lower_char_lower: "97 \<le> byte c \<or> byte c = 95 \<Longrightarrow> lower_char c = c"
  by (auto simp: lower_char_def in_range_def)

lemma fold_keys:
  "fold_key ''user_id'' = ''user_id''" "fold_key ''key_type'' = ''key_type''"
  "fold_key ''key_blob'' = ''key_blob''" "fold_key ''fingerprint'' = ''fingerprint''"
  "fold_key ''accounts'' = ''accounts''" "fold_key ''entries'' = ''entries''"
  by (simp_all add: lower_char_def in_range_def)

lemma dec_strings: "dec_array dec_string z (JArr (map JStr xs)) = Some xs"
  by (simp add: dec_array_def dec_slice_map dec_string_def)

lemma dec_entry_json: "dec_entry (entry_json e) = Some e"
  by (simp add: dec_entry_def entry_json_def field_hit slice_field_hit fold_keys dec_strings dec_string_def
      del: fold_key.simps)

lemma dec_entries: "dec_slice dec_entry zero_entry (map entry_json es) = Some es"
  by (rule dec_slice_map) (simp add: dec_entry_json, simp add: entry_json_def)

lemma dec_snapshot_json: "dec_snapshot (snapshot_json s) = Some s"
  by (simp add: dec_snapshot_def snapshot_json_def slice_field_def dec_array_def dec_entries)

lemma entry_json_ok: "entry_utf8 e \<Longrightarrow> json_ok (entry_json e)"
  by (auto simp: entry_utf8_def entry_json_def intro!: valid_utf8_ascii)

lemma snapshot_roundtrip:
  assumes "\<forall>e \<in> set (snap_Entries s). entry_utf8 e"
  shows "unmarshal_snapshot (marshal_snapshot s) = Some s"
proof -
  have "valid_utf8 ''entries''" by (rule valid_utf8_ascii) simp
  then have "json_ok (snapshot_json s)"
    using assms by (auto simp: snapshot_json_def entry_json_ok)
  then show ?thesis
    by (simp add: unmarshal_snapshot_def marshal_snapshot_def parse_enc dec_snapshot_json)
qed

section \<open>Properties\<close>

text \<open>C2: The bytes a control-plane signature covers determine the kind of message (snapshot or
  secret sets), the host, the sequence number and the payload: no two different messages are
  signed by the same bytes.\<close>
theorem signed_bytes_bind:
  assumes "tag \<in> {snapshotSigTag, setsSigTag}" "tag' \<in> {snapshotSigTag, setsSigTag}"
    and "length h < 65536" "length h' < 65536"
    and "signingInput tag h s d = signingInput tag' h' s' d'"
  shows "tag = tag' \<and> h = h' \<and> s = s' \<and> d = d'"
proof -
  have "tag = tag'" using assms signingInput_tags by (metis insertE singletonD)
  then show ?thesis using assms signingInput_inj by blast
qed

theorem signed_bytes_bind_witness:
  "signingInput snapshotSigTag ''a'' 1 ''x'' = signingInput snapshotSigTag ''a'' 1 ''x'' \<and>
   snapshotSigTag = snapshotSigTag \<and> ''a'' = ''a'' \<and> (1 :: 64 word) = 1 \<and> ''x'' = ''x''"
  using signed_bytes_bind [of snapshotSigTag snapshotSigTag "''a''" "''a''" 1 "''x''" 1 "''x''"] by simp

text \<open>C4: A snapshot whose strings are text arrives as it was sent: decoding the JSON that the
  control plane encodes gives the same entries, in order.\<close>
theorem snapshot_json_exact:
  assumes "\<forall>e \<in> set (snap_Entries s). entry_utf8 e"
  shows "unmarshal_snapshot (marshal_snapshot s) = Some s"
  using assms by (rule snapshot_roundtrip)

theorem snapshot_json_exact_witness:
  "entry_utf8 zero_entry \<and>
   unmarshal_snapshot (marshal_snapshot \<lparr>snap_Entries = [zero_entry]\<rparr>) = Some \<lparr>snap_Entries = [zero_entry]\<rparr>"
proof -
  have "entry_utf8 zero_entry" by (simp add: entry_utf8_def zero_entry_def valid_utf8_ascii)
  then show ?thesis using snapshot_json_exact [of "\<lparr>snap_Entries = [zero_entry]\<rparr>"] by simp
qed

end
