(* ===== verification/Hub.thy ===== *)
theory Hub
  imports Protocol
begin

text \<open>
  \<open>internal/controlplane/hub.go\<close>: the live daemon connections by host id. A Go channel is a
  bounded buffer named by an id; a connection's \<open>cancel\<close> sets the flag that its writer sees.
  The locale \<open>bounded_channel\<close> is what the hub and the writer rely on of a channel; it is
  interpreted on the model's channels, and the hub's delivery lemmas rest on it.
\<close>

section \<open>Channels\<close>

record chan =
  ch_buf :: "Envelope list"
  ch_cancelled :: bool

text \<open>\<open>make(chan protocol.Envelope, 32)\<close>\<close>
definition sendCap :: nat where "sendCap = 32"

definition new_chan :: chan where "new_chan = \<lparr>ch_buf = [], ch_cancelled = False\<rparr>"

text \<open>\<open>select { case c.send <- env: default: }\<close>\<close>
definition chan_offer :: "Envelope \<Rightarrow> chan \<Rightarrow> chan" where
  "chan_offer env c = (if length (ch_buf c) < sendCap then c\<lparr>ch_buf := ch_buf c @ [env]\<rparr> else c)"

text \<open>\<open>case env := <-send\<close>\<close>
definition chan_recv :: "chan \<Rightarrow> (Envelope \<times> chan) option" where
  "chan_recv c = (case ch_buf c of [] \<Rightarrow> None | e # es \<Rightarrow> Some (e, c\<lparr>ch_buf := es\<rparr>))"

section \<open>The hub\<close>

text \<open>
  \<open>hub_conns\<close> is the map from host id to connection; a connection is the id of its send
  channel, which identifies it as the channel value does in the source.
\<close>
record hub =
  hub_conns :: "string \<Rightarrow> nat option"
  hub_chans :: "nat \<Rightarrow> chan"
  hub_next :: nat

definition newHub :: hub where
  "newHub = \<lparr>hub_conns = (\<lambda>_. None), hub_chans = (\<lambda>_. new_chan), hub_next = 0\<rparr>"

text \<open>A fresh channel for a new connection.\<close>
definition make_chan :: "hub \<Rightarrow> nat \<times> hub" where
  "make_chan h = (hub_next h,
     h\<lparr>hub_chans := (hub_chans h)(hub_next h := new_chan), hub_next := Suc (hub_next h)\<rparr>)"

definition register :: "string \<Rightarrow> nat \<Rightarrow> hub \<Rightarrow> hub" where
  "register hostID send h = h\<lparr>hub_conns := (hub_conns h)(hostID := Some send)\<rparr>"

definition unregister :: "string \<Rightarrow> nat \<Rightarrow> hub \<Rightarrow> hub" where
  "unregister hostID send h =
     (if hub_conns h hostID = Some send then h\<lparr>hub_conns := (hub_conns h)(hostID := None)\<rparr> else h)"

definition online :: "string \<Rightarrow> hub \<Rightarrow> bool" where
  "online hostID h \<longleftrightarrow> hub_conns h hostID \<noteq> None"

definition push :: "string \<Rightarrow> Envelope \<Rightarrow> hub \<Rightarrow> hub" where
  "push hostID env h = (case hub_conns h hostID of None \<Rightarrow> h
     | Some i \<Rightarrow> h\<lparr>hub_chans := (hub_chans h)(i := chan_offer env (hub_chans h i))\<rparr>)"

definition disconnect :: "string \<Rightarrow> Envelope \<Rightarrow> hub \<Rightarrow> hub" where
  "disconnect hostID final h = (case hub_conns h hostID of None \<Rightarrow> h
     | Some i \<Rightarrow> h\<lparr>hub_chans := (hub_chans h)
         (i := (chan_offer final (hub_chans h i))\<lparr>ch_cancelled := True\<rparr>)\<rparr>)"

text \<open>What is queued for a host's live connection.\<close>
definition queued :: "string \<Rightarrow> hub \<Rightarrow> Envelope list" where
  "queued hostID h = (case hub_conns h hostID of None \<Rightarrow> [] | Some i \<Rightarrow> ch_buf (hub_chans h i))"

text \<open>The connections are distinct and every channel in use has been made.\<close>
definition hub_ok :: "hub \<Rightarrow> bool" where
  "hub_ok h \<longleftrightarrow> inj_on (hub_conns h) (dom (hub_conns h)) \<and>
     (\<forall>a i. hub_conns h a = Some i \<longrightarrow> i < hub_next h) \<and>
     (\<forall>i. length (ch_buf (hub_chans h i)) \<le> sendCap)"

section \<open>The contract of a channel\<close>

locale bounded_channel =
  fixes offer :: "'m \<Rightarrow> 'q \<Rightarrow> 'q"
    and recv :: "'q \<Rightarrow> ('m \<times> 'q) option"
    and items :: "'q \<Rightarrow> 'm list"
    and cap :: nat
  assumes offer_room: "length (items q) < cap \<Longrightarrow> items (offer m q) = items q @ [m]"
    and offer_full: "cap \<le> length (items q) \<Longrightarrow> offer m q = q"
    and recv_empty: "items q = [] \<Longrightarrow> recv q = None"
    and recv_first: "items q = m # ms \<Longrightarrow> \<exists>q'. recv q = Some (m, q') \<and> items q' = ms"
begin

lemma offer_items: "items (offer m q) = items q @ (if length (items q) < cap then [m] else [])"
  using offer_room offer_full by simp

lemma offer_bound: "length (items q) \<le> cap \<Longrightarrow> length (items (offer m q)) \<le> cap"
  by (auto simp: offer_items)

lemma offers_fifo: "items (fold offer ms q) = items q @ take (cap - length (items q)) ms"
proof (induction ms arbitrary: q)
  case (Cons m ms)
  show ?case
  proof (cases "length (items q) < cap")
    case True
    then have "take (cap - length (items q)) (m # ms) = m # take (cap - Suc (length (items q))) ms"
      by (simp add: take_Cons')
    then show ?thesis using Cons True by (simp add: offer_items)
  qed (simp add: Cons offer_items)
qed simp

lemma recv_offer:
  assumes "length (items q) < cap"
  shows "\<exists>m' q'. recv (offer m q) = Some (m', q') \<and> m' # items q' = items q @ [m]"
proof -
  obtain m' ms where "items (offer m q) = m' # ms" by (cases "items (offer m q)") (use assms offer_items in auto)
  then show ?thesis using recv_first [of "offer m q" m' ms] assms by (auto simp: offer_items)
qed

end

interpretation ch: bounded_channel chan_offer chan_recv ch_buf sendCap
  by unfold_locales (auto simp: chan_offer_def chan_recv_def)

section \<open>Delivery\<close>

lemma online_simps [simp]:
  "online a (register b i h) \<longleftrightarrow> a = b \<or> online a h"
  "online a (push b e h) \<longleftrightarrow> online a h"
  "online a (disconnect b e h) \<longleftrightarrow> online a h"
  by (auto simp: online_def register_def push_def disconnect_def split: option.splits)

lemma push_conns [simp]: "hub_conns (push a e h) = hub_conns h" "hub_next (push a e h) = hub_next h"
  by (simp_all add: push_def split: option.splits)

lemma push_queued_same:
  "queued a (push a e h) = queued a h @
     (if online a h \<and> length (queued a h) < sendCap then [e] else [])"
  by (auto simp: queued_def push_def online_def ch.offer_items split: option.splits)

lemma push_queued_other: "hub_ok h \<Longrightarrow> a \<noteq> b \<Longrightarrow> queued a (push b e h) = queued a h"
  by (auto simp: queued_def push_def hub_ok_def inj_on_def dom_def split: option.splits)

lemma hub_ok_push: "hub_ok h \<Longrightarrow> hub_ok (push a e h)"
  by (auto simp: hub_ok_def push_def ch.offer_bound split: option.splits)

lemma hub_ok_disconnect: "hub_ok h \<Longrightarrow> hub_ok (disconnect a e h)"
  by (auto simp: hub_ok_def disconnect_def ch.offer_bound split: option.splits)

lemma hub_ok_new: "hub_ok newHub"
  by (simp add: hub_ok_def newHub_def new_chan_def)

lemma hub_ok_connect:
  "hub_ok h \<Longrightarrow> make_chan h = (i, h') \<Longrightarrow> hub_ok (register a i h')"
  by (fastforce simp: hub_ok_def make_chan_def register_def new_chan_def inj_on_def dom_def split: if_splits)

lemma hub_ok_unregister: "hub_ok h \<Longrightarrow> hub_ok (unregister a i h)"
  by (auto simp: hub_ok_def unregister_def inj_on_def dom_def split: if_splits)

end
