(* ===== verification/Go_Strings.thy ===== *)
theory Go_Strings
  imports Go_Json
begin

text \<open>
  The parts of Go's \<open>strings\<close>, \<open>strconv\<close> and \<open>fmt\<close> packages, and of \<open>encoding/base64\<close> without
  padding, that the repository uses, on byte sequences.
\<close>

section \<open>White space\<close>

text \<open>
  The number of bytes of the white space character (\<open>unicode.IsSpace\<close>) a text starts with, 0
  if it starts with none. A lead byte never occurs inside another character, so reading at
  every byte finds the same separators as decoding character by character.
\<close>
definition space_width :: "string \<Rightarrow> nat" where
  "space_width s = (case map byte s of
     [] \<Rightarrow> 0
   | a # r \<Rightarrow>
     if a \<in> {9, 10, 11, 12, 13, 32} then 1
     else (case r of [] \<Rightarrow> 0
       | b # r' \<Rightarrow>
         if a = 0xC2 \<and> b \<in> {0x85, 0xA0} then 2
         else (case r' of [] \<Rightarrow> 0
           | c # _ \<Rightarrow>
             if a = 0xE1 \<and> b = 0x9A \<and> c = 0x80 \<or>
                a = 0xE2 \<and> b = 0x80 \<and> (0x80 \<le> c \<and> c \<le> 0x8A \<or> c \<in> {0xA8, 0xA9, 0xAF}) \<or>
                a = 0xE2 \<and> b = 0x81 \<and> c = 0x9F \<or>
                a = 0xE3 \<and> b = 0x80 \<and> c = 0x80
             then 3 else 0)))"

lemma space_width_Nil [simp]: "space_width [] = 0"
  by (simp add: space_width_def)

lemma space_width_drop: "space_width s \<noteq> 0 \<Longrightarrow> length (drop (space_width s) s) < length s"
  by (cases s) auto

text \<open>\<open>strings.Fields\<close>: \<open>cur\<close> is the field being read, reversed.\<close>
function fields_from :: "string \<Rightarrow> string \<Rightarrow> string list" where
  "fields_from cur [] = (if cur = [] then [] else [rev cur])"
| "fields_from cur (c # cs) = (case space_width (c # cs) of
     0 \<Rightarrow> fields_from (c # cur) cs
   | Suc n \<Rightarrow> (if cur = [] then [] else [rev cur]) @ fields_from [] (drop n cs))"
  by pat_completeness auto
termination
  by (relation "measure (length \<circ> snd)") auto

definition Fields :: "string \<Rightarrow> string list" where
  "Fields s = fields_from [] s"

text \<open>\<open>strings.TrimSpace\<close>, from the left and from the right.\<close>
function trim_left :: "string \<Rightarrow> string" where
  "trim_left s = (if space_width s = 0 then s else trim_left (drop (space_width s) s))"
  by pat_completeness auto
termination
  by (relation "measure length") (simp_all add: space_width_drop del: length_drop)

declare trim_left.simps [simp del]

text \<open>The width of the white space character a text ends with.\<close>
definition space_end :: "string \<Rightarrow> nat" where
  "space_end s = (if 1 \<le> length s \<and> space_width (drop (length s - 1) s) = 1 then 1
     else if 2 \<le> length s \<and> space_width (drop (length s - 2) s) = 2 then 2
     else if 3 \<le> length s \<and> space_width (drop (length s - 3) s) = 3 then 3
     else 0)"

lemma space_end_le: "space_end s \<le> length s"
  by (simp add: space_end_def)

function trim_right :: "string \<Rightarrow> string" where
  "trim_right s = (if space_end s = 0 then s else trim_right (take (length s - space_end s) s))"
  by pat_completeness auto
termination
proof (relation "measure length")
  fix s assume "space_end s \<noteq> 0"
  then show "(take (length s - space_end s) s, s) \<in> measure length"
    using space_end_le [of s] by simp
qed simp

declare trim_right.simps [simp del]

definition TrimSpace :: "string \<Rightarrow> string" where
  "TrimSpace s = trim_right (trim_left s)"

section \<open>Cutting and splitting\<close>

text \<open>\<open>strings.Split(s, sep)\<close> for a separator of one byte.\<close>
fun Split :: "string \<Rightarrow> char \<Rightarrow> string list" where
  "Split [] sep = [[]]"
| "Split (c # s) sep = (if c = sep then [] # Split s sep
     else (case Split s sep of f # fs \<Rightarrow> (c # f) # fs | [] \<Rightarrow> [[c]]))"

text \<open>\<open>strings.Cut(s, sep)\<close> for a separator of one byte: \<open>None\<close> if it does not occur.\<close>
definition Cut :: "string \<Rightarrow> char \<Rightarrow> (string \<times> string) option" where
  "Cut s sep = (if sep \<in> set s
     then Some (takeWhile (\<lambda>c. c \<noteq> sep) s, tl (dropWhile (\<lambda>c. c \<noteq> sep) s)) else None)"

text \<open>\<open>strings.CutPrefix\<close>\<close>
definition CutPrefix :: "string \<Rightarrow> string \<Rightarrow> string option" where
  "CutPrefix s p = (if take (length p) s = p then Some (drop (length p) s) else None)"

definition HasPrefix :: "string \<Rightarrow> string \<Rightarrow> bool" where
  "HasPrefix s p \<longleftrightarrow> take (length p) s = p"

text \<open>\<open>strings.TrimRight(s, cutset)\<close> for a cutset of one byte.\<close>
definition TrimRight :: "string \<Rightarrow> char \<Rightarrow> string" where
  "TrimRight s c = rev (dropWhile (\<lambda>x. x = c) (rev s))"

text \<open>\<open>strings.Replace(s, old, new, 1)\<close> for a non-empty \<open>old\<close>.\<close>
fun Replace1 :: "string \<Rightarrow> string \<Rightarrow> string \<Rightarrow> string" where
  "Replace1 [] p n = []"
| "Replace1 (c # s) p n = (if HasPrefix (c # s) p then n @ drop (length p) (c # s)
     else c # Replace1 s p n)"

text \<open>\<open>strings.Contains\<close>\<close>
fun Contains :: "string \<Rightarrow> string \<Rightarrow> bool" where
  "Contains [] p \<longleftrightarrow> p = []"
| "Contains (c # s) p \<longleftrightarrow> HasPrefix (c # s) p \<or> Contains s p"

section \<open>Numbers\<close>

definition digits_val :: "string \<Rightarrow> nat" where
  "digits_val ds = foldl (\<lambda>n c. 10 * n + (byte c - 48)) 0 ds"

text \<open>The unsigned decimal number a text starts with, and the rest.\<close>
definition scan_digits :: "string \<Rightarrow> (nat \<times> string) option" where
  "scan_digits s = (let ds = takeWhile is_digit s in
     if ds = [] then None else Some (digits_val ds, dropWhile is_digit s))"

text \<open>\<open>fmt.Sscanf\<close> skips white space before a number, but not the end of the line.\<close>
function skip_blank :: "string \<Rightarrow> string option" where
  "skip_blank s = (case s of [] \<Rightarrow> Some []
     | c # r \<Rightarrow>
       if c = CHR 0x0A \<or> c = CHR 0x0D \<and> take 1 r = [CHR 0x0A] then None
       else if space_width s = 0 then Some s else skip_blank (drop (space_width s) s))"
  by pat_completeness auto
termination
proof (relation "measure length")
  fix s :: string and c r
  assume "s = c # r" and "space_width s \<noteq> 0"
  then show "(drop (space_width s) s, s) \<in> measure length"
    using space_width_drop [of s] by (simp del: length_drop)
qed simp

declare skip_blank.simps [simp del]

text \<open>The verb \<open>%d\<close> for an unsigned integer of \<open>w\<close> bits.\<close>
definition scan_uint :: "nat \<Rightarrow> string \<Rightarrow> (nat \<times> string) option" where
  "scan_uint w s = (case skip_blank s of None \<Rightarrow> None
     | Some s' \<Rightarrow> (case scan_digits s' of None \<Rightarrow> None
        | Some (n, r) \<Rightarrow> if n < 2 ^ w then Some (n, r) else None))"

text \<open>The verb \<open>%d\<close> for an \<open>int\<close> of 64 bits.\<close>
definition scan_int :: "string \<Rightarrow> (int \<times> string) option" where
  "scan_int s = (case skip_blank s of None \<Rightarrow> None
     | Some s' \<Rightarrow>
       (let neg = (take 1 s' = ''-''); d = (if take 1 s' = ''-'' \<or> take 1 s' = ''+'' then drop 1 s' else s') in
        case scan_digits d of None \<Rightarrow> None
        | Some (n, r) \<Rightarrow>
            if neg then (if n \<le> 2 ^ 63 then Some (- int n, r) else None)
            else (if n < 2 ^ 63 then Some (int n, r) else None)))"

text \<open>\<open>strconv.Atoi\<close>\<close>
definition Atoi :: "string \<Rightarrow> int option" where
  "Atoi s = (let neg = (take 1 s = ''-''); d = (if take 1 s = ''-'' \<or> take 1 s = ''+'' then drop 1 s else s) in
     if d = [] \<or> \<not> list_all is_digit d then None
     else let n = digits_val d in
       if neg then (if n \<le> 2 ^ 63 then Some (- int n) else None)
       else (if n < 2 ^ 63 then Some (int n) else None))"

section \<open>Base64 without padding\<close>

text \<open>\<open>base64.RawStdEncoding\<close> and \<open>base64.RawURLEncoding\<close>.\<close>
definition raw_std_encode :: "bytes \<Rightarrow> string" where
  "raw_std_encode bs = filter (\<lambda>c. c \<noteq> CHR ''='') (b64_encode bs)"

definition url_char :: "char \<Rightarrow> char" where
  "url_char c = (if c = CHR ''+'' then CHR ''-'' else if c = CHR ''/'' then CHR ''_'' else c)"

definition raw_url_encode :: "bytes \<Rightarrow> string" where
  "raw_url_encode bs = map url_char (raw_std_encode bs)"

text \<open>Decoding: line breaks are ignored, padding is not part of the alphabet.\<close>
definition raw_std_decode :: "string \<Rightarrow> bytes option" where
  "raw_std_decode s = (let t = filter (\<lambda>c. c \<noteq> CHR 0x0A \<and> c \<noteq> CHR 0x0D) s in
     if CHR ''='' \<in> set t then None
     else if length t mod 4 = 1 then None
     else b64_quanta (t @ replicate ((4 - length t mod 4) mod 4) (CHR ''='')))"

definition unurl_char :: "char \<Rightarrow> char" where
  "unurl_char c = (if c = CHR ''-'' then CHR ''+'' else if c = CHR ''_'' then CHR ''/'' else c)"

definition raw_url_decode :: "string \<Rightarrow> bytes option" where
  "raw_url_decode s = (if CHR ''+'' \<in> set s \<or> CHR ''/'' \<in> set s then None
     else raw_std_decode (map unurl_char s))"


section \<open>Lemmas\<close>

text \<open>A text in which no white space character can start.\<close>
definition no_space :: "string \<Rightarrow> bool" where
  "no_space s \<longleftrightarrow> (\<forall>c \<in> set s. byte c \<notin> {9, 10, 11, 12, 13, 32, 0xC2, 0xE1, 0xE2, 0xE3})"

lemma no_space_width: "no_space (c # s) \<Longrightarrow> space_width (c # t) = 0"
  by (auto simp: space_width_def no_space_def split: list.splits)

lemma fields_word: "no_space s \<Longrightarrow> fields_from cur (s @ t) = fields_from (rev s @ cur) t"
proof (induction s arbitrary: cur)
  case (Cons c s)
  have "space_width (c # (s @ t)) = 0" using no_space_width Cons.prems by blast
  moreover have "no_space s" using Cons.prems by (simp add: no_space_def)
  ultimately show ?case using Cons.IH by simp
qed simp

lemma fields_space: "fields_from cur (CHR '' '' # t) = (if cur = [] then [] else [rev cur]) @ fields_from [] t"
  by (simp add: space_width_def)

lemma Fields_line:
  assumes "no_space t" "no_space b" "t \<noteq> []" "b \<noteq> []"
  shows "Fields (t @ '' '' @ b @ '' '' @ c) = t # b # Fields c" and "Fields (t @ '' '' @ b) = [t, b]"
  using assms fields_word [of b "[]" "[]"]
  by (simp_all add: Fields_def fields_word fields_space del: fields_from.simps(2))

lemma Split_nonempty [simp]: "Split s sep \<noteq> []"
  by (induction s) (auto split: list.splits)

lemma Split_no_sep: "sep \<notin> set s \<Longrightarrow> Split s sep = [s]"
  by (induction s) auto

lemma Split_append: "sep \<notin> set s \<Longrightarrow> Split (s @ sep # t) sep = s # Split t sep"
  by (induction s) auto

lemma cut_scan:
  "sep \<notin> set s \<Longrightarrow> takeWhile (\<lambda>c. c \<noteq> sep) (s @ sep # t) = s \<and> dropWhile (\<lambda>c. c \<noteq> sep) (s @ sep # t) = sep # t"
  by (induction s) auto

lemma Cut_append: "sep \<notin> set s \<Longrightarrow> Cut (s @ sep # t) sep = Some (s, t)"
  by (simp add: Cut_def cut_scan)

lemma raw_std_clean: "CHR ''='' \<notin> set (raw_std_encode bs)"
  by (simp add: raw_std_encode_def)

lemma raw_std_encode_simps:
  "raw_std_encode [] = []"
  "\<exists>x y. b64_encode [a] = [x, y] @ ''=='' \<and> raw_std_encode [a] = [x, y]"
  "\<exists>x y z. b64_encode [a, b] = [x, y, z] @ ''='' \<and> raw_std_encode [a, b] = [x, y, z]"
  "\<exists>w x y z. b64_encode (a # b # c # r) = [w, x, y, z] @ b64_encode r \<and>
     raw_std_encode (a # b # c # r) = [w, x, y, z] @ raw_std_encode r"
  by (simp_all add: raw_std_encode_def Let_def)

lemma raw_std_padding:
  "b64_encode bs = raw_std_encode bs @ replicate ((4 - length (raw_std_encode bs) mod 4) mod 4) (CHR ''='')
   \<and> length (raw_std_encode bs) mod 4 \<noteq> 1"
proof (induction bs rule: b64_encode.induct)
  case (2 a)
  obtain x y where e: "b64_encode [a] = [x, y] @ ''==''" "raw_std_encode [a] = [x, y]"
    using raw_std_encode_simps(2) by blast
  show ?case unfolding e by (simp add: numeral_2_eq_2)
next
  case (3 a b)
  obtain x y z where e: "b64_encode [a, b] = [x, y, z] @ ''=''" "raw_std_encode [a, b] = [x, y, z]"
    using raw_std_encode_simps(3) by blast
  show ?case unfolding e by simp
next
  case (4 a b c r)
  obtain w x y z where e: "b64_encode (a # b # c # r) = [w, x, y, z] @ b64_encode r"
    "raw_std_encode (a # b # c # r) = [w, x, y, z] @ raw_std_encode r"
    using raw_std_encode_simps(4) by blast
  have "length (raw_std_encode (a # b # c # r)) mod 4 = length (raw_std_encode r) mod 4"
    unfolding e by simp
  then show ?case using 4 unfolding e by simp
qed (simp add: raw_std_encode_simps)

lemma raw_std_no_break:
  "filter (\<lambda>c. c \<noteq> CHR 0x0A \<and> c \<noteq> CHR 0x0D) (raw_std_encode bs) = raw_std_encode bs"
  unfolding raw_std_encode_def filter_filter
  by (metis (no_types, lifting) b64_encode_clean filter_cong filter_filter)

lemma raw_std_roundtrip: "raw_std_decode (raw_std_encode bs) = Some bs"
  using raw_std_padding [of bs] b64_quanta_encode [of bs]
  by (simp add: raw_std_decode_def raw_std_no_break raw_std_clean Let_def)

lemma b64_alphabet_in: "set (b64_encode bs) \<subseteq> insert (CHR ''='') (set b64_alphabet)"
proof -
  have "b64_char n \<in> set b64_alphabet" for n
    unfolding b64_char_def by (rule nth_mem) (simp add: b64_alphabet_def)
  then show ?thesis by (induction bs rule: b64_encode.induct) (simp_all add: Let_def)
qed

lemma raw_std_alphabet: "set (raw_std_encode bs) \<subseteq> set b64_alphabet"
  using b64_alphabet_in [of bs] by (auto simp: raw_std_encode_def)

lemma raw_std_no_dollar: "CHR ''$'' \<notin> set (raw_std_encode bs)"
proof -
  have "CHR ''$'' \<notin> set b64_alphabet" by (simp add: b64_alphabet_def)
  then show ?thesis using raw_std_alphabet [of bs] by blast
qed

lemma url_alphabet:
  "\<forall>c \<in> set b64_alphabet. unurl_char (url_char c) = c \<and> url_char c \<noteq> CHR ''+'' \<and> url_char c \<noteq> CHR ''/''"
  by (simp add: b64_alphabet_def url_char_def unurl_char_def)

lemma raw_url_roundtrip: "raw_url_decode (raw_url_encode bs) = Some bs"
proof -
  have in_a: "c \<in> set b64_alphabet" if "c \<in> set (raw_std_encode bs)" for c
    using that raw_std_alphabet [of bs] by (rule subsetD [rotated])
  then have "map unurl_char (map url_char (raw_std_encode bs)) = raw_std_encode bs"
    unfolding map_map using url_alphabet by (intro map_idI) simp
  moreover have "CHR ''+'' \<notin> set (raw_url_encode bs)" "CHR ''/'' \<notin> set (raw_url_encode bs)"
    unfolding raw_url_encode_def set_map using in_a url_alphabet by (metis imageE)+
  ultimately show ?thesis
    by (simp add: raw_url_decode_def raw_url_encode_def raw_std_roundtrip)
qed

end
