(* ===== verification/Crypto.thy ===== *)
theory Crypto
  imports Go_Strings
begin

text \<open>
  The cryptographic packages: \<open>internal/hybrid\<close> (public-key encryption of request and response
  bodies and of secret bundles), \<open>internal/vault\<close> (envelope encryption of secrets at rest) and
  \<open>internal/password\<close> (password hashes). AES-GCM, X25519, HKDF and argon2 are parameters; what is
  used of them are the predicates \<open>gcm_ok\<close>, \<open>dh_ok\<close> and \<open>argon2_ok\<close>. Random bytes are arguments
  here: the callers draw them.
\<close>

section \<open>The primitives\<close>

text \<open>\<open>crypto/cipher\<close>'s GCM over AES, by key, nonce and text.\<close>
record gcm =
  gcm_Seal :: "bytes \<Rightarrow> bytes \<Rightarrow> bytes \<Rightarrow> bytes"
  gcm_Open :: "bytes \<Rightarrow> bytes \<Rightarrow> bytes \<Rightarrow> bytes option"

text \<open>\<open>crypto/ecdh\<close>'s X25519, and \<open>hkdf.Key\<close> over SHA-256 (secret, salt, info, length).\<close>
record x25519 =
  dh_Public :: "bytes \<Rightarrow> bytes"
  dh_ECDH :: "bytes \<Rightarrow> bytes \<Rightarrow> bytes option"
  dh_hkdf :: "bytes \<Rightarrow> bytes \<Rightarrow> string \<Rightarrow> nat \<Rightarrow> bytes"

text \<open>\<open>argon2.IDKey\<close>: password, salt, time, memory, threads, key length.\<close>
type_synonym argon2 = "bytes \<Rightarrow> bytes \<Rightarrow> nat \<Rightarrow> nat \<Rightarrow> nat \<Rightarrow> nat \<Rightarrow> bytes"

definition NonceSize :: nat where "NonceSize = 12"

text \<open>What is opened is what was sealed under the same key and nonce.\<close>
definition gcm_ok :: "gcm \<Rightarrow> bool" where
  "gcm_ok g \<longleftrightarrow> (\<forall>k n p. gcm_Open g k n (gcm_Seal g k n p) = Some p)"

text \<open>Both sides of a key agreement compute the same secret; public keys have 32 bytes.\<close>
definition dh_ok :: "x25519 \<Rightarrow> bool" where
  "dh_ok dh \<longleftrightarrow> (\<forall>a b. dh_ECDH dh a (dh_Public dh b) = dh_ECDH dh b (dh_Public dh a)) \<and>
     (\<forall>a. length (dh_Public dh a) = 32)"

text \<open>A derived key has the requested length.\<close>
definition argon2_ok :: "argon2 \<Rightarrow> bool" where
  "argon2_ok f \<longleftrightarrow> (\<forall>pw salt t m p n. length (f pw salt t m p n) = n)"

section \<open>Hybrid encryption\<close>

definition hkdfInfo :: string where "hkdfInfo = ''custos-hybrid:v1''"

definition deriveGCM :: "x25519 \<Rightarrow> bytes \<Rightarrow> bytes \<Rightarrow> bytes \<Rightarrow> bytes" where
  "deriveGCM dh shared ephemeralPub recipientPub =
     dh_hkdf dh shared (ephemeralPub @ recipientPub) hkdfInfo 32"

text \<open>\<open>hybrid.Seal\<close>, given the ephemeral private key and the nonce it draws.\<close>
definition hybrid_Seal :: "x25519 \<Rightarrow> gcm \<Rightarrow> bytes \<Rightarrow> bytes \<Rightarrow> bytes \<Rightarrow> bytes \<Rightarrow> bytes option" where
  "hybrid_Seal dh g ephemeral nonce recipientPublic plaintext =
     (if length recipientPublic \<noteq> 32 then None
      else case dh_ECDH dh ephemeral recipientPublic of None \<Rightarrow> None
      | Some shared \<Rightarrow>
          let ephemeralPub = dh_Public dh ephemeral; key = deriveGCM dh shared ephemeralPub recipientPublic
          in Some (ephemeralPub @ nonce @ gcm_Seal g key nonce plaintext))"

definition hybrid_Open :: "x25519 \<Rightarrow> gcm \<Rightarrow> bytes \<Rightarrow> bytes \<Rightarrow> bytes option" where
  "hybrid_Open dh g recipientPrivate sealed =
     (if length recipientPrivate \<noteq> 32 then None
      else if length sealed < 32 then None
      else let ephemeralPub = take 32 sealed; rest = drop 32 sealed in
        case dh_ECDH dh recipientPrivate ephemeralPub of None \<Rightarrow> None
        | Some shared \<Rightarrow>
            let key = deriveGCM dh shared ephemeralPub (dh_Public dh recipientPrivate) in
            if length rest < NonceSize then None
            else gcm_Open g key (take NonceSize rest) (drop NonceSize rest))"

text \<open>\<open>hybrid.LoadKeyPair\<close>: the private key, if the text decodes to one of the right length.\<close>
definition hybrid_LoadKeyPair :: "string \<Rightarrow> bytes option" where
  "hybrid_LoadKeyPair s = (case b64_decode s of None \<Rightarrow> None
     | Some raw \<Rightarrow> if length raw \<noteq> 32 then None else Some raw)"

definition hybrid_PublicKey :: "x25519 \<Rightarrow> bytes \<Rightarrow> string" where
  "hybrid_PublicKey dh priv = b64_encode (dh_Public dh priv)"

section \<open>The vault\<close>

record Sealed =
  sd_Ciphertext :: bytes
  sd_Nonce :: bytes
  sd_WrappedKey :: bytes

text \<open>\<open>NewAESWrapper\<close>: the master key, if it has 32 bytes.\<close>
definition NewAESWrapper :: "bytes \<Rightarrow> bytes option" where
  "NewAESWrapper masterKey = (if length masterKey \<noteq> 32 then None else Some masterKey)"

definition Wrap :: "gcm \<Rightarrow> bytes \<Rightarrow> bytes \<Rightarrow> bytes \<Rightarrow> bytes" where
  "Wrap g master nonce dataKey = nonce @ gcm_Seal g master nonce dataKey"

definition Unwrap :: "gcm \<Rightarrow> bytes \<Rightarrow> bytes \<Rightarrow> bytes option" where
  "Unwrap g master wrapped = (if length wrapped < NonceSize then None
     else gcm_Open g master (take NonceSize wrapped) (drop NonceSize wrapped))"

text \<open>\<open>vault.Seal\<close>, given the data key and the two nonces it draws.\<close>
definition vault_Seal :: "gcm \<Rightarrow> bytes \<Rightarrow> bytes \<Rightarrow> bytes \<Rightarrow> bytes \<Rightarrow> bytes \<Rightarrow> Sealed" where
  "vault_Seal g master dataKey nonce wrapNonce plaintext =
     \<lparr>sd_Ciphertext = gcm_Seal g dataKey nonce plaintext, sd_Nonce = nonce,
      sd_WrappedKey = Wrap g master wrapNonce dataKey\<rparr>"

text \<open>
  \<open>newGCM\<close> accepts AES key lengths only. A nonce of another length than \<open>NonceSize\<close> is a panic in
  \<open>crypto/cipher\<close>, which ends the request like an error does.
\<close>
definition vault_Open :: "gcm \<Rightarrow> bytes \<Rightarrow> Sealed \<Rightarrow> bytes option" where
  "vault_Open g master s = (case Unwrap g master (sd_WrappedKey s) of None \<Rightarrow> None
     | Some dataKey \<Rightarrow>
         if length dataKey \<notin> {16, 24, 32} \<or> length (sd_Nonce s) \<noteq> NonceSize then None
         else gcm_Open g dataKey (sd_Nonce s) (sd_Ciphertext s))"

section \<open>Passwords\<close>

definition pw_time :: nat where "pw_time = 3"
definition pw_memory :: nat where "pw_memory = 64 * 1024"
definition pw_threads :: nat where "pw_threads = 2"
definition pw_keyLen :: nat where "pw_keyLen = 32"
definition pw_saltLen :: nat where "pw_saltLen = 16"
definition argon2_Version :: int where "argon2_Version = 19"

lemmas pw_consts = pw_time_def pw_memory_def pw_threads_def pw_keyLen_def argon2_Version_def

text \<open>\<open>password.Hash\<close>, given the salt it draws: the PHC string of the key and its parameters.\<close>
definition password_Hash :: "argon2 \<Rightarrow> bytes \<Rightarrow> string \<Rightarrow> string" where
  "password_Hash argon2 salt plain =
     ''$argon2id$v=19$m=65536,t=3,p=2$'' @ raw_std_encode salt @ ''$'' @
     raw_std_encode (argon2 plain salt pw_time pw_memory pw_threads pw_keyLen)"

text \<open>A check of a password: an error of the format, a panic of argon2, or an answer.\<close>
datatype verdict = BadHash | HashPanics | Checked bool

text \<open>\<open>fmt.Sscanf(s, "v=%d", &version)\<close> and \<open>fmt.Sscanf(s, "m=%d,t=%d,p=%d", &m, &t, &p)\<close>.\<close>
definition scan_version :: "string \<Rightarrow> int option" where
  "scan_version s = (case CutPrefix s ''v='' of None \<Rightarrow> None
     | Some r \<Rightarrow> map_option fst (scan_int r))"

definition scan_params :: "string \<Rightarrow> (nat \<times> nat \<times> nat) option" where
  "scan_params s = (case CutPrefix s ''m='' of None \<Rightarrow> None
     | Some r0 \<Rightarrow> (case scan_uint 32 r0 of None \<Rightarrow> None
       | Some (m, r1) \<Rightarrow> (case CutPrefix r1 '',t='' of None \<Rightarrow> None
         | Some r2 \<Rightarrow> (case scan_uint 32 r2 of None \<Rightarrow> None
           | Some (t, r3) \<Rightarrow> (case CutPrefix r3 '',p='' of None \<Rightarrow> None
             | Some r4 \<Rightarrow> (case scan_uint 8 r4 of None \<Rightarrow> None
               | Some (p, _) \<Rightarrow> Some (m, t, p)))))))"

definition password_Verify :: "argon2 \<Rightarrow> string \<Rightarrow> string \<Rightarrow> verdict" where
  "password_Verify argon2 encoded plain = (case Split encoded (CHR ''$'') of
     [_, alg, v, params, saltText, keyText] \<Rightarrow>
       if alg \<noteq> ''argon2id'' then BadHash
       else (case scan_version v of None \<Rightarrow> BadHash
       | Some version \<Rightarrow>
         if version \<noteq> argon2_Version then BadHash
         else (case scan_params params of None \<Rightarrow> BadHash
         | Some (m, t, p) \<Rightarrow>
           (case (raw_std_decode saltText, raw_std_decode keyText) of
             (Some salt, Some want) \<Rightarrow>
               if t < 1 \<or> p < 1 then HashPanics
               else Checked (argon2 plain salt t m p (length want) = want)
           | _ \<Rightarrow> BadHash)))
   | _ \<Rightarrow> BadHash)"

section \<open>Lemmas\<close>

lemma hybrid_roundtrip:
  assumes "gcm_ok g" "dh_ok dh" "length priv = 32" "length nonce = NonceSize"
    and "hybrid_Seal dh g eph nonce (dh_Public dh priv) plain = Some sealed"
  shows "hybrid_Open dh g priv sealed = Some plain"
  using assms
  by (auto simp: hybrid_Seal_def hybrid_Open_def gcm_ok_def dh_ok_def Let_def NonceSize_def split: option.splits if_splits)

lemma vault_roundtrip:
  assumes "gcm_ok g" "length dataKey = 32" "length nonce = NonceSize" "length wrapNonce = NonceSize"
  shows "vault_Open g master (vault_Seal g master dataKey nonce wrapNonce plain) = Some plain"
  using assms by (simp add: vault_Open_def vault_Seal_def Unwrap_def Wrap_def gcm_ok_def)

lemma scan_hash_params:
  "scan_version ''v=19'' = Some 19" "scan_params ''m=65536,t=3,p=2'' = Some (65536, 3, 2)"
  by (simp_all add: scan_version_def scan_params_def CutPrefix_def scan_int_def scan_uint_def skip_blank.simps
      space_width_def scan_digits_def is_digit_def in_range_def digits_val_def Let_def)

lemma hash_parts:
  "Split (password_Hash f salt plain) (CHR ''$'') = ['''', ''argon2id'', ''v=19'', ''m=65536,t=3,p=2'',
     raw_std_encode salt, raw_std_encode (f plain salt pw_time pw_memory pw_threads pw_keyLen)]"
  using raw_std_no_dollar [of salt] by (simp add: password_Hash_def Split_append Split_no_sep raw_std_no_dollar)

lemma password_roundtrip:
  assumes "argon2_ok f"
  shows "password_Verify f (password_Hash f salt plain) other =
    Checked (f other salt pw_time pw_memory pw_threads pw_keyLen = f plain salt pw_time pw_memory pw_threads pw_keyLen)"
proof -
  have "length (f plain salt pw_time pw_memory pw_threads pw_keyLen) = pw_keyLen"
    using assms by (simp add: argon2_ok_def)
  then show ?thesis
    by (simp add: password_Verify_def hash_parts scan_hash_params raw_std_roundtrip argon2_Version_def)
       (simp add: pw_consts)
qed

section \<open>Simple executable instances\<close>

definition sample_gcm :: gcm where
  "sample_gcm = \<lparr>gcm_Seal = (\<lambda>k n p. p), gcm_Open = (\<lambda>k n c. Some c)\<rparr>"

definition sample_dh :: x25519 where
  "sample_dh = \<lparr>dh_Public = (\<lambda>k. replicate 32 (CHR ''p'')), dh_ECDH = (\<lambda>a p. Some []),
     dh_hkdf = (\<lambda>s salt info n. replicate n (CHR ''k''))\<rparr>"

end
