(* ===== verification/Set_Protocol.thy ===== *)
theory Set_Protocol
  imports Protocol Go_Strings
begin

text \<open>
  The remaining payloads of \<open>internal/protocol\<close>: the secret bundle of a host and its sealed form,
  and the upgrade order, with their JSON. A Go map from strings to strings is the list of its
  members in key order, which is also the order its JSON has; \<open>map_put\<close> is the assignment to a
  key. The lemma: a bundle survives the trip through JSON.
\<close>

type_synonym str_map = "(string \<times> string) list"

fun map_put :: "string \<Rightarrow> string \<Rightarrow> str_map \<Rightarrow> str_map" where
  "map_put k v [] = [(k, v)]"
| "map_put k v ((k', v') # m) =
     (if k = k' then (k, v) # m else if k < k' then (k, v) # (k', v') # m else (k', v') # map_put k v m)"

definition map_ok :: "str_map \<Rightarrow> bool" where
  "map_ok m \<longleftrightarrow> sorted_wrt (<) (map fst m)"

record SecretSet_msg =
  set_Name :: string
  set_AsUser :: string
  set_Version :: "64 word"
  set_Values :: str_map

text \<open>\<open>Sets\<close> may be the nil slice, whose JSON is null.\<close>
record SecretSets =
  sets_Sets :: "SecretSet_msg list option"

record Upgrade =
  up_Version :: string
  up_SHA256 :: str_map

section \<open>JSON\<close>

definition map_json :: "str_map \<Rightarrow> json" where
  "map_json m = JObj (map (\<lambda>(k, v). (k, JStr v)) m)"

definition set_json :: "SecretSet_msg \<Rightarrow> json" where
  "set_json s = JObj ([(''name'', JStr (set_Name s))] @
     (if set_AsUser s = '''' then [] else [(''as_user'', JStr (set_AsUser s))]) @
     [(''version'', JNum (dec_digits (unat (set_Version s)))), (''values'', map_json (set_Values s))])"

definition sets_json :: "SecretSets \<Rightarrow> json" where
  "sets_json s = JObj [(''sets'', case sets_Sets s of None \<Rightarrow> JNull | Some ss \<Rightarrow> JArr (map set_json ss))]"

definition marshal_sets :: "SecretSets \<Rightarrow> bytes" where
  "marshal_sets s = enc (sets_json s)"

text \<open>The JSON of \<open>SealedSecretSets\<close>.\<close>
definition marshal_sealed :: "bytes \<Rightarrow> bytes" where
  "marshal_sealed sealed = enc (JObj [(''sealed'', JStr (b64_encode sealed))])"

definition unmarshal_sealed :: "bytes \<Rightarrow> bytes option" where
  "unmarshal_sealed b = (case parse_json b of
     Some (JObj ms) \<Rightarrow> slice_field dec_bytes ''sealed'' ms
   | Some JNull \<Rightarrow> Some []
   | _ \<Rightarrow> None)"

text \<open>Decoding into a map: each member assigned in order, a null as the empty string.\<close>
definition dec_map_onto :: "str_map \<Rightarrow> json \<Rightarrow> str_map option" where
  "dec_map_onto m0 j = (case j of JObj ms \<Rightarrow>
       foldl (\<lambda>acc (k, v). case acc of None \<Rightarrow> None
                | Some m \<Rightarrow> (case v of JNull \<Rightarrow> Some (map_put k '''' m) | JStr s \<Rightarrow> Some (map_put k s m) | _ \<Rightarrow> None))
         (Some m0) ms
   | _ \<Rightarrow> None)"

text \<open>
  A struct field of map type: a further member of the same name is decoded into the map of the
  first, and a null member makes the map nil.
\<close>
definition map_field :: "string \<Rightarrow> (string \<times> json) list \<Rightarrow> str_map option" where
  "map_field name ms = foldl
     (\<lambda>acc v. case acc of None \<Rightarrow> None | Some m \<Rightarrow> (if v = JNull then Some [] else dec_map_onto m v))
     (Some []) (map snd (filter (\<lambda>(k, v). fold_key k = fold_key name) ms))"

definition zero_set :: SecretSet_msg where
  "zero_set = \<lparr>set_Name = '''', set_AsUser = '''', set_Version = 0, set_Values = []\<rparr>"

definition dec_set :: "json \<Rightarrow> SecretSet_msg option" where
  "dec_set j = (case j of JObj ms \<Rightarrow>
     (case (field dec_string '''' ''name'' ms, field dec_string '''' ''as_user'' ms,
            field dec_uint64 0 ''version'' ms, map_field ''values'' ms) of
        (Some n, Some a, Some v, Some vs) \<Rightarrow>
          Some \<lparr>set_Name = n, set_AsUser = a, set_Version = v, set_Values = vs\<rparr>
      | _ \<Rightarrow> None)
   | _ \<Rightarrow> None)"

definition unmarshal_sets :: "bytes \<Rightarrow> SecretSets option" where
  "unmarshal_sets b = (case parse_json b of
     Some (JObj ms) \<Rightarrow> map_option (\<lambda>ss. \<lparr>sets_Sets = ss\<rparr>) (foldl
       (\<lambda>acc v. case acc of None \<Rightarrow> None
          | Some a \<Rightarrow> (if v = JNull then Some None else map_option Some (dec_array dec_set zero_set v)))
       (Some None) (map snd (filter (\<lambda>(k, v). fold_key k = fold_key ''sets'') ms)))
   | Some JNull \<Rightarrow> Some \<lparr>sets_Sets = None\<rparr>
   | _ \<Rightarrow> None)"

text \<open>What a loop over the sets sees.\<close>
definition bundle_sets :: "SecretSets \<Rightarrow> SecretSet_msg list" where
  "bundle_sets b = (case sets_Sets b of None \<Rightarrow> [] | Some ss \<Rightarrow> ss)"

definition upgrade_json :: "Upgrade \<Rightarrow> json" where
  "upgrade_json u = JObj [(''version'', JStr (up_Version u)), (''sha256'', map_json (up_SHA256 u))]"

definition unmarshal_upgrade :: "bytes \<Rightarrow> Upgrade option" where
  "unmarshal_upgrade b = (case parse_json b of
     Some (JObj ms) \<Rightarrow> (case (field dec_string '''' ''version'' ms, map_field ''sha256'' ms) of
         (Some v, Some m) \<Rightarrow> Some \<lparr>up_Version = v, up_SHA256 = m\<rparr> | _ \<Rightarrow> None)
   | Some JNull \<Rightarrow> Some \<lparr>up_Version = '''', up_SHA256 = []\<rparr>
   | _ \<Rightarrow> None)"

section \<open>Maps\<close>

lemma map_put_fst: "set (map fst (map_put k v m)) = insert k (set (map fst m))"
  by (induction k v m rule: map_put.induct) auto

lemma map_put_ok: "map_ok m \<Longrightarrow> map_ok (map_put k v m)"
proof (induction k v m rule: map_put.induct)
  case (2 k v k' v' m)
  then show ?case
    using map_put_fst [of k v m] by (auto simp: map_ok_def)
qed (simp add: map_ok_def)

lemma map_put_of: "map_ok m \<Longrightarrow> map_of (map_put k v m) = (map_of m)(k \<mapsto> v)"
  by (induction k v m rule: map_put.induct) (auto simp: map_ok_def fun_eq_iff)

lemma map_put_last: "\<forall>k' \<in> set (map fst m). k' < k \<Longrightarrow> map_put k v m = m @ [(k, v)]"
  by (induction k v m rule: map_put.induct) auto

lemma dec_map_fold:
  assumes "map_ok (m0 @ m)"
  shows "foldl (\<lambda>acc (k, v). case acc of None \<Rightarrow> None
      | Some m \<Rightarrow> (case v of JNull \<Rightarrow> Some (map_put k '''' m) | JStr s \<Rightarrow> Some (map_put k s m) | _ \<Rightarrow> None))
    (Some m0) (map (\<lambda>(k, v). (k, JStr v)) m) = Some (m0 @ m)"
  using assms
proof (induction m arbitrary: m0)
  case (Cons p m)
  obtain k v where p: "p = (k, v)" by fastforce
  have "map_put k v m0 = m0 @ [(k, v)]"
    using Cons.prems by (intro map_put_last) (auto simp: map_ok_def sorted_wrt_append p)
  then show ?case using Cons.IH [of "m0 @ [(k, v)]"] Cons.prems by (simp add: p)
qed simp

lemma dec_map_json: "map_ok m \<Longrightarrow> dec_map_onto [] (map_json m) = Some m"
  using dec_map_fold [of "[]" m] by (simp add: dec_map_onto_def map_json_def)

section \<open>The bundle survives JSON\<close>

definition map_utf8 :: "str_map \<Rightarrow> bool" where
  "map_utf8 m \<longleftrightarrow> (\<forall>(k, v) \<in> set m. valid_utf8 k \<and> valid_utf8 v)"

definition set_ok :: "SecretSet_msg \<Rightarrow> bool" where
  "set_ok s \<longleftrightarrow> valid_utf8 (set_Name s) \<and> valid_utf8 (set_AsUser s) \<and> map_ok (set_Values s) \<and> map_utf8 (set_Values s)"

lemma set_fold_keys:
  "fold_key ''name'' = ''name''" "fold_key ''as_user'' = ''as_user''" "fold_key ''version'' = ''version''"
  "fold_key ''values'' = ''values''" "fold_key ''sets'' = ''sets''" "fold_key ''sealed'' = ''sealed''"
  "fold_key ''sha256'' = ''sha256''"
  by (simp_all add: lower_char_def in_range_def)

lemma dec_set_json: "set_ok s \<Longrightarrow> dec_set (set_json s) = Some s"
  by (simp add: dec_set_def set_json_def field_def map_field_def set_fold_keys dec_string_def dec_uint64_enc
      set_ok_def dec_map_json map_json_def del: fold_key.simps)
     (simp add: dec_map_json flip: map_json_def)

lemma names_utf8:
  "valid_utf8 ''name''" "valid_utf8 ''as_user''" "valid_utf8 ''version''" "valid_utf8 ''values''"
  by (rule valid_utf8_ascii; simp)+

lemma map_json_ok: "map_utf8 m \<Longrightarrow> json_ok (map_json m)"
  by (auto simp: map_utf8_def map_json_def)

lemma set_json_ok: "set_ok s \<Longrightarrow> json_ok (set_json s)"
  using json_ok_dec [of "unat (set_Version s)"]
  by (auto simp: set_json_def set_ok_def map_json_ok names_utf8 simp del: json_ok.simps(3))

lemma sets_roundtrip:
  assumes "\<forall>s \<in> set (bundle_sets ss). set_ok s"
  shows "unmarshal_sets (marshal_sets ss) = Some ss"
proof -
  have "json_ok (sets_json ss)"
    using assms by (auto simp: sets_json_def bundle_sets_def set_json_ok intro!: valid_utf8_ascii split: option.splits)
  then have p: "parse_json (enc (sets_json ss)) = Some (sets_json ss)" by (rule parse_enc)
  have d: "dec_slice dec_set zero_set (map set_json xs) = Some xs" if "\<forall>s \<in> set xs. set_ok s" for xs
    using that by (induction xs) (auto simp: dec_set_json, simp add: set_json_def)
  show ?thesis using assms
    by (cases "sets_Sets ss")
       (simp_all add: unmarshal_sets_def marshal_sets_def p,
        simp_all add: sets_json_def dec_array_def bundle_sets_def d)
qed

lemma sealed_roundtrip: "unmarshal_sealed (marshal_sealed b) = Some b"
proof -
  have "json_ok (JObj [(''sealed'', JStr (b64_encode b))])" by (auto intro!: valid_utf8_ascii)
  then have "parse_json (marshal_sealed b) = Some (JObj [(''sealed'', JStr (b64_encode b))])"
    unfolding marshal_sealed_def by (rule parse_enc)
  then show ?thesis by (simp add: unmarshal_sealed_def slice_field_def dec_bytes_def b64_roundtrip)
qed

end
