(* ===== verification/Server_Core.thy ===== *)
theory Server_Core
  imports DB_Secrets Hub Crypto Set_Protocol
begin

text \<open>
  The ground the control plane's handlers stand on: the world a request runs in (database,
  hub, clock, and the outcomes of its external calls and of its random reads), the call of a
  statement on the pool, transactions, requests and responses, and the helpers of \<open>http.go\<close>,
  \<open>transport.go\<close>, \<open>logging.go\<close>, \<open>store.go\<close> and \<open>token.go\<close>. The last section lifts
  \<open>db_step\<close> from statements to handlers.

  Every call to the database may fail before it has an effect or lose its reply after it: the
  oracle \<open>w_net\<close> says which, for the call numbered \<open>w_tick\<close>. Nothing is assumed of it. \<open>w_http\<close>
  answers the GET of a URL with a status and a body, or fails. \<open>w_checksums\<close> is the server's
  cache of release digests. A request runs at one instant, \<open>w_clock\<close>.
\<close>

section \<open>The world\<close>

datatype net = NetOk | NetFails | ReplyLost

record mail =
  mail_To :: string
  mail_Subject :: string
  mail_HTML :: string

record world =
  w_db :: db
  w_hub :: hub
  w_clock :: time
  w_tick :: nat
  w_net :: "nat \<Rightarrow> net"
  w_uuid :: "nat \<Rightarrow> uuid"
  w_rand :: "nat \<Rightarrow> (nat \<Rightarrow> char) option"
  w_mail :: "mail list"
  w_http :: "nat \<Rightarrow> string \<Rightarrow> (nat \<times> bytes) option"
  w_checksums :: "(string \<times> str_map) list"

type_synonym 'a action = "(world, 'a) state"

text \<open>A statement on the pool: one round trip to the database.\<close>
definition call :: "'a db_write \<Rightarrow> (dberr + 'a) action" where
  "call f = State (\<lambda>w.
     let w' = w\<lparr>w_tick := Suc (w_tick w)\<rparr>;
         (r, d) = f \<lparr>st_uuid = w_uuid w (w_tick w), st_now = w_clock w\<rparr> (w_db w)
     in case w_net w (w_tick w) of
          NetFails \<Rightarrow> (Inl ConnFault, w')
        | ReplyLost \<Rightarrow> (Inl ConnFault, w'\<lparr>w_db := d\<rparr>)
        | NetOk \<Rightarrow> (r, w'\<lparr>w_db := d\<rparr>))"

text \<open>The reading statements as calls: \<open>:many\<close>, \<open>:one\<close>, and those that read \<open>now()\<close>.\<close>
definition many :: "(db \<Rightarrow> 'a) \<Rightarrow> 'a db_write" where
  "many g = (\<lambda>st d. (Inr (g d), d))"

definition single :: "(db \<Rightarrow> dberr + 'a) \<Rightarrow> 'a db_write" where
  "single g = (\<lambda>st d. (g d, d))"

definition single_now :: "(time \<Rightarrow> db \<Rightarrow> dberr + 'a) \<Rightarrow> 'a db_write" where
  "single_now g = (\<lambda>st d. (g (st_now st) d, d))"

text \<open>\<open>time.Now()\<close>\<close>
definition now :: "time action" where
  "now = State (\<lambda>w. (w_clock w, w))"

text \<open>\<open>rand.Read\<close> into a buffer of \<open>n\<close> bytes.\<close>
definition drawn :: "nat \<Rightarrow> world \<Rightarrow> bytes option" where
  "drawn n w = map_option (\<lambda>f. map f [0..<n]) (w_rand w (w_tick w))"

definition rand_read :: "nat \<Rightarrow> (dberr + bytes) action" where
  "rand_read n = State (\<lambda>w. (case drawn n w of None \<Rightarrow> Inl ConnFault | Some b \<Rightarrow> Inr b,
     w\<lparr>w_tick := Suc (w_tick w)\<rparr>))"

text \<open>\<open>s.email.Send\<close>: like a statement, it may fail before or after its effect.\<close>
definition send_mail :: "mail \<Rightarrow> (dberr + unit) action" where
  "send_mail m = State (\<lambda>w.
     let w' = w\<lparr>w_tick := Suc (w_tick w)\<rparr>; sent = w'\<lparr>w_mail := w_mail w @ [m]\<rparr>
     in case w_net w (w_tick w) of
          NetFails \<Rightarrow> (Inl ConnFault, w')
        | ReplyLost \<Rightarrow> (Inl ConnFault, sent)
        | NetOk \<Rightarrow> (Inr (), sent))"

definition on_hub :: "(hub \<Rightarrow> hub) \<Rightarrow> unit action" where
  "on_hub f = State (\<lambda>w. ((), w\<lparr>w_hub := f (w_hub w)\<rparr>))"

section \<open>Transactions\<close>

text \<open>
  The state of a transaction's body: the world outside it and the transaction's view of the
  database. A statement that fails aborts the transaction; what follows fails, and so does the
  commit. A body that reads through the pool (\<open>outside\<close>) sees the committed database.
\<close>
record txworld =
  t_world :: world
  t_db :: db
  t_aborted :: bool

type_synonym 'a tx_action = "(txworld, 'a) state"

definition tx_call :: "'a db_write \<Rightarrow> (dberr + 'a) tx_action" where
  "tx_call f = State (\<lambda>t.
     let w = t_world t; t' = t\<lparr>t_world := w\<lparr>w_tick := Suc (w_tick w)\<rparr>\<rparr>;
         (r, d) = f \<lparr>st_uuid = w_uuid w (w_tick w), st_now = w_clock w\<rparr> (t_db t)
     in if t_aborted t \<or> w_net w (w_tick w) \<noteq> NetOk then (Inl ConnFault, t'\<lparr>t_aborted := True\<rparr>)
        else (case r of
            Inl e \<Rightarrow> (Inl e, t'\<lparr>t_aborted := (e \<noteq> ErrNoRows)\<rparr>)
          | Inr a \<Rightarrow> (Inr a, t'\<lparr>t_db := d\<rparr>)))"

definition outside :: "'a action \<Rightarrow> 'a tx_action" where
  "outside m = State (\<lambda>t. case run_state m (t_world t) of (a, w) \<Rightarrow> (a, t\<lparr>t_world := w\<rparr>))"

text \<open>
  \<open>tx, err := s.pool.Begin(ctx); defer tx.Rollback(ctx); q := db.New(tx); body; tx.Commit(ctx)\<close>:
  a body that returns early (\<open>Inl\<close>) rolls back; after the commit the handler goes on with \<open>k\<close>.
  A commit whose reply is lost has taken effect.
\<close>
definition with_tx :: "(dberr \<Rightarrow> 'r) \<Rightarrow> ('r + 'a) tx_action \<Rightarrow> (dberr \<Rightarrow> 'r) \<Rightarrow> ('a \<Rightarrow> 'r action) \<Rightarrow> 'r action" where
  "with_tx on_begin body on_commit k = State (\<lambda>w.
     case run_state (call (many (\<lambda>_. ()))) w of
       (Inl e, w1) \<Rightarrow> (on_begin e, w1)
     | (Inr _, w1) \<Rightarrow>
         (case run_state body \<lparr>t_world = w1, t_db = w_db w1, t_aborted = False\<rparr> of
            (Inl r, t) \<Rightarrow> (r, t_world t)
          | (Inr a, t) \<Rightarrow>
              (let w2 = t_world t; w3 = w2\<lparr>w_tick := Suc (w_tick w2)\<rparr> in
               if t_aborted t then (on_commit ConnFault, w3)
               else case w_net w2 (w_tick w2) of
                   NetFails \<Rightarrow> (on_commit ConnFault, w3)
                 | ReplyLost \<Rightarrow> (on_commit ConnFault, w3\<lparr>w_db := t_db t\<rparr>)
                 | NetOk \<Rightarrow> run_state (k a) (w3\<lparr>w_db := t_db t\<rparr>))))"

section \<open>The server\<close>

text \<open>
  What a handler reads of the server and of code outside the repository: the configuration,
  the keys (\<open>srv_master\<close> is \<open>None\<close> when no vault wrapper is configured), the cryptographic
  primitives, the database's collation and \<open>ilike\<close>, and \<open>pgtype.UUID.Scan\<close>.
\<close>
record server =
  srv_EncryptionEnabled :: bool
  srv_AppURL :: string
  srv_signer :: "bytes option"
  srv_master :: "bytes option"
  srv_HybridPrivateKey :: bytes
  srv_ed :: ed25519
  srv_sha256 :: "bytes \<Rightarrow> bytes"
  srv_gcm :: gcm
  srv_dh :: x25519
  srv_argon2 :: argon2
  srv_coll :: collation
  srv_ilike :: "string \<Rightarrow> string \<Rightarrow> bool"
  srv_scan :: "string \<Rightarrow> uuid option"

definition parseUUID :: "server \<Rightarrow> string \<Rightarrow> uuid option" where
  "parseUUID srv s = srv_scan srv s"

definition HashToken :: "server \<Rightarrow> string \<Rightarrow> string" where
  "HashToken srv raw = hex_encode (srv_sha256 srv raw)"

definition GenerateToken :: "server \<Rightarrow> (dberr + string \<times> string) action" where
  "GenerateToken srv = attempt (rand_read 32) (\<lambda>e. ret (Inl e))
     (\<lambda>b. let raw = raw_url_encode b in ret (Inr (raw, HashToken srv raw)))"

section \<open>Sealing\<close>

text \<open>\<open>hybrid.Seal\<close>: a bad recipient key fails before anything is drawn.\<close>
definition hybridSeal :: "server \<Rightarrow> bytes \<Rightarrow> bytes \<Rightarrow> (dberr + bytes) action" where
  "hybridSeal srv recipientPublic plaintext =
     (if length recipientPublic \<noteq> 32 then ret (Inl ConnFault)
      else attempt (rand_read 32) (\<lambda>e. ret (Inl e)) (\<lambda>ephemeral.
        attempt (rand_read NonceSize) (\<lambda>e. ret (Inl e)) (\<lambda>nonce.
          case hybrid_Seal (srv_dh srv) (srv_gcm srv) ephemeral nonce recipientPublic plaintext of
            None \<Rightarrow> ret (Inl ConnFault) | Some sealed \<Rightarrow> ret (Inr sealed))))"

text \<open>\<open>vault.Seal\<close> under the master key: the data key, the nonce, and the wrapper's nonce.\<close>
definition vaultSeal :: "server \<Rightarrow> bytes \<Rightarrow> bytes \<Rightarrow> (dberr + Sealed) action" where
  "vaultSeal srv master plaintext =
     attempt (rand_read 32) (\<lambda>e. ret (Inl e)) (\<lambda>dataKey.
     attempt (rand_read NonceSize) (\<lambda>e. ret (Inl e)) (\<lambda>nonce.
     attempt (rand_read NonceSize) (\<lambda>e. ret (Inl e)) (\<lambda>wrapNonce.
     ret (Inr (vault_Seal (srv_gcm srv) master dataKey nonce wrapNonce plaintext)))))"

text \<open>\<open>password.Hash\<close>\<close>
definition hashPassword :: "server \<Rightarrow> string \<Rightarrow> (dberr + string) action" where
  "hashPassword srv plain = attempt (rand_read pw_saltLen) (\<lambda>e. ret (Inl e))
     (\<lambda>salt. ret (Inr (password_Hash (srv_argon2 srv) salt plain)))"

section \<open>Requests and responses\<close>

text \<open>\<open>Body\<close> is the JSON of a value; \<open>SealedBody\<close> the same sealed to the client's key.\<close>
datatype 'v response = HttpError nat string | Body 'v | SealedBody bytes 'v | Status nat

definition serverError :: "string \<Rightarrow> 'v response" where
  "serverError msg = HttpError 500 msg"

text \<open>
  The body of a request, cut at one mebibyte, opened when encryption is on, parsed and decoded
  by \<open>dec\<close>, the decoder of the request's type. Handlers take its result.
\<close>
definition readRequest :: "server \<Rightarrow> (json \<Rightarrow> 'a option) \<Rightarrow> bytes \<Rightarrow> 'a option" where
  "readRequest srv dec raw =
     (let body = take (2 ^ 20) raw in
      case (if srv_EncryptionEnabled srv
            then hybrid_Open (srv_dh srv) (srv_gcm srv) (srv_HybridPrivateKey srv) body
            else Some body) of
        None \<Rightarrow> None
      | Some b \<Rightarrow> (case parse_json b of None \<Rightarrow> None | Some j \<Rightarrow> dec j))"

text \<open>
  The value stands for its JSON, which always encodes. Whether a sealed response can be made
  does not depend on the text: the key must have 32 bytes and agree with the ephemeral one.
\<close>
definition writeResponse :: "server \<Rightarrow> bytes option \<Rightarrow> 'v \<Rightarrow> 'v response action" where
  "writeResponse srv clientPublic v =
     (if \<not> srv_EncryptionEnabled srv then ret (Body v)
      else let pub = (case clientPublic of None \<Rightarrow> [] | Some k \<Rightarrow> k) in
        attempt (hybridSeal srv pub []) (\<lambda>_. ret (HttpError 500 ''internal error''))
          (\<lambda>_. ret (SealedBody pub v)))"

definition isUniqueViolation :: "dberr \<Rightarrow> bool" where
  "isUniqueViolation e \<longleftrightarrow> e = UniqueViolation"

text \<open>The session a request was authenticated as (\<open>authInfo\<close>).\<close>
record authInfo =
  a_SessionID :: uuid
  a_UserID :: uuid
  a_Role :: string
  a_ClientPublicKey :: "bytes option"

section \<open>Handlers keep what statements keep\<close>

text \<open>What the clock, the oracles and the history allow of two worlds of one run.\<close>
definition world_step :: "world \<Rightarrow> world \<Rightarrow> bool" where
  "world_step w w' \<longleftrightarrow> db_step (w_db w) (w_db w') \<and> w_clock w' = w_clock w \<and> w_tick w \<le> w_tick w' \<and>
     w_net w' = w_net w \<and> w_uuid w' = w_uuid w \<and> w_rand w' = w_rand w"

text \<open>The same for an action that leaves the database alone.\<close>
definition world_read :: "world \<Rightarrow> world \<Rightarrow> bool" where
  "world_read w w' \<longleftrightarrow> w_db w' = w_db w \<and> w_hub w' = w_hub w \<and> w_clock w' = w_clock w \<and>
     w_tick w \<le> w_tick w' \<and> w_net w' = w_net w \<and> w_uuid w' = w_uuid w \<and> w_rand w' = w_rand w"

definition tx_step :: "txworld \<Rightarrow> txworld \<Rightarrow> bool" where
  "tx_step t t' \<longleftrightarrow> world_read (t_world t) (t_world t') \<and> db_step (t_db t) (t_db t')"

interpretation ws: effect_order world_step
  by unfold_locales (auto simp: world_step_def intro: db_step_trans)

interpretation wr: effect_order world_read
  by unfold_locales (auto simp: world_read_def)

interpretation ts: effect_order tx_step
  by unfold_locales (auto simp: tx_step_def world_read_def intro: db_step_trans)

lemma world_read_step: "world_read w w' \<Longrightarrow> world_step w w'"
  by (simp add: world_read_def world_step_def)

lemma run_call:
  "run_state (call f) w =
     (let (r, d) = f \<lparr>st_uuid = w_uuid w (w_tick w), st_now = w_clock w\<rparr> (w_db w) in
      case w_net w (w_tick w) of
        NetFails \<Rightarrow> (Inl ConnFault, w\<lparr>w_tick := Suc (w_tick w)\<rparr>)
      | ReplyLost \<Rightarrow> (Inl ConnFault, w\<lparr>w_tick := Suc (w_tick w), w_db := d\<rparr>)
      | NetOk \<Rightarrow> (r, w\<lparr>w_tick := Suc (w_tick w), w_db := d\<rparr>))"
  by (simp add: call_def Let_def)

lemma eff_call [eff]: "(\<And>st d. db_step d (snd (f st d))) \<Longrightarrow> state_io_rel world_step (call f)"
  by (rule state_io_relI)
     (auto simp: run_call world_step_def split: prod.splits net.splits; metis snd_conv)

lemma eff_call_read: "(\<And>st d. snd (f st d) = d) \<Longrightarrow> state_io_rel world_read (call f)"
  by (rule state_io_relI)
     (auto simp: run_call world_read_def split: prod.splits net.splits; metis snd_conv)

lemma eff_tx_call [eff]: "(\<And>st d. db_step d (snd (f st d))) \<Longrightarrow> state_io_rel tx_step (tx_call f)"
  by (rule state_io_relI)
     (auto simp: tx_call_def tx_step_def world_read_def Let_def split: prod.splits sum.splits if_splits;
       metis snd_conv)

lemma eff_weaken: "state_io_rel world_read m \<Longrightarrow> state_io_rel world_step m"
  by (auto simp: state_io_rel_def intro: world_read_step)

lemma eff_outside: "state_io_rel world_read m \<Longrightarrow> state_io_rel tx_step (outside m)"
  by (auto simp: state_io_rel_def outside_def tx_step_def split: prod.splits) (metis snd_conv)

lemma reads_keep [simp]:
  "snd (many g st d) = d" "snd (single h st d) = d" "snd (single_now k st d) = d"
  by (simp_all add: many_def single_def single_now_def)

lemma reads_step [db_steps]:
  "db_step d (snd (many g st d))" "db_step d (snd (single h st d))" "db_step d (snd (single_now k st d))"
  by simp_all

lemma eff_reads [eff]:
  "state_io_rel world_read (call (many g))"
  "state_io_rel world_read (call (single h))"
  "state_io_rel world_read (call (single_now k))"
  by (rule eff_call_read, simp)+

lemma eff_now [eff]: "state_io_rel world_read now" "state_io_rel world_step now"
  by (simp_all add: state_io_rel_def now_def world_read_def world_step_def)

lemma eff_rand [eff]: "state_io_rel world_read (rand_read n)" "state_io_rel world_step (rand_read n)"
  by (simp_all add: state_io_rel_def rand_read_def world_read_def world_step_def)

lemma eff_on_hub [eff]: "state_io_rel world_step (on_hub f)"
  by (simp add: state_io_rel_def on_hub_def world_step_def)

lemma eff_send_mail [eff]: "state_io_rel world_read (send_mail m)" "state_io_rel world_step (send_mail m)"
  by (auto simp: state_io_rel_def send_mail_def world_read_def world_step_def Let_def split: net.splits)

lemma eff_GenerateToken [eff]:
  "state_io_rel world_read (GenerateToken srv)" "state_io_rel world_step (GenerateToken srv)"
  unfolding GenerateToken_def by (intro eff eff_weaken)+

lemma eff_seals [eff]:
  "state_io_rel world_read (hybridSeal srv k b)" "state_io_rel world_read (vaultSeal srv m b)"
  "state_io_rel world_read (hashPassword srv pw)"
  unfolding hybridSeal_def vaultSeal_def hashPassword_def by (intro eff)+

lemma eff_writeResponse [eff]: "state_io_rel world_read (writeResponse srv k v)"
  unfolding writeResponse_def by (intro eff)

lemmas eff_seals_step [eff] = eff_seals [THEN eff_weaken]
lemmas eff_writeResponse_step [eff] = eff_writeResponse [THEN eff_weaken]

text \<open>A transaction takes effect as a whole or not at all, whatever fails.\<close>
lemma eff_with_tx [eff]:
  assumes body: "state_io_rel tx_step body" and k: "\<And>a. state_io_rel world_step (k a)"
  shows "state_io_rel world_step (with_tx b body c k)"
proof (unfold state_io_rel_def, rule allI)
  fix w
  obtain r w1 where r: "run_state (call (many (\<lambda>_. ()))) w = (r, w1)" by fastforce
  have "state_io_rel world_step (call (many (\<lambda>_. ())))" by (intro eff db_steps)
  then have w1: "world_step w w1" using r by (auto dest: state_io_relD)
  let ?t0 = "\<lparr>t_world = w1, t_db = w_db w1, t_aborted = False\<rparr>"
  obtain s t where s: "run_state body ?t0 = (s, t)" by fastforce
  have t: "world_read w1 (t_world t)" "db_step (w_db w1) (t_db t)"
    using state_io_rel_run [OF body, of ?t0] s by (simp_all add: tx_step_def)
  have t1: "world_step w (t_world t)" using w1 world_read_step [OF t(1)] ws.eff_trans by blast
  have skip: "world_step w ((t_world t)\<lparr>w_tick := n\<rparr>)" if "w_tick (t_world t) \<le> n" for n
    using t1 that by (simp add: world_step_def)
  have commit: "world_step w ((t_world t)\<lparr>w_tick := n, w_db := t_db t\<rparr>)" if "w_tick (t_world t) \<le> n" for n
    using w1 t that by (auto simp: world_step_def world_read_def intro: db_step_trans)
  have k': "world_step v (snd (run_state (k a) v))" for a v
    using state_io_rel_run [OF k] .
  show "world_step w (snd (run_state (with_tx b body c k) w))"
    using w1 t1 skip [of "Suc (w_tick (t_world t))"] commit [of "Suc (w_tick (t_world t))"] k' r s
    by (auto simp: with_tx_def Let_def split: sum.splits net.splits intro: ws.eff_trans)
qed

end
