(* ===== verification/Samples.thy ===== *)
theory Samples
  imports Server_Core
begin

text \<open>
  A small deployment on which the witnesses run: two users (one admin), a host in a group, an
  SSH key, a direct grant on the host and one on the group, a live connection of the host's
  daemon, and a server whose cryptography is instantiated by simple executable functions.
\<close>

definition sample_ed :: ed25519 where
  "sample_ed = \<lparr>ed_Sign = (\<lambda>k m. k @ m), ed_Verify = (\<lambda>p m s. s = p @ m), ed_Public = (\<lambda>k. k)\<rparr>"

definition sample_argon2 :: argon2 where
  "sample_argon2 pw salt t m p n = take n (pw @ replicate n (CHR ''a''))"

definition sample_server :: server where
  "sample_server = \<lparr>srv_EncryptionEnabled = False, srv_AppURL = ''https://custos.example'',
     srv_signer = Some ''signer'', srv_master = Some (replicate 32 (CHR ''m'')),
     srv_HybridPrivateKey = replicate 32 (CHR ''h''), srv_ed = sample_ed, srv_sha256 = (\<lambda>b. b),
     srv_gcm = sample_gcm, srv_dh = sample_dh, srv_argon2 = sample_argon2, srv_coll = (\<lambda>s. s),
     srv_ilike = (=), srv_scan = (\<lambda>s. Some (of_nat (length s)))\<rparr>"

definition sample_admin :: User where
  "sample_admin = \<lparr>u_ID = 1, u_Email = ''root@x'', u_Name = ''Root'', u_DisplayName = None,
     u_Role = ''admin'', u_Status = ''active'', u_CreatedAt = 0\<rparr>"

definition sample_member :: User where
  "sample_member = \<lparr>u_ID = 2, u_Email = ''ada@x'', u_Name = ''Ada'', u_DisplayName = None,
     u_Role = ''member'', u_Status = ''active'', u_CreatedAt = 0\<rparr>"

definition sample_key :: PublicKey where
  "sample_key = \<lparr>pk_ID = 3, pk_UserID = 2, pk_Label = ''laptop'', pk_KeyType = ''ssh-ed25519'',
     pk_KeyBlob = ''AAAA'', pk_Fingerprint = ''SHA256:k'', pk_CreatedAt = 0\<rparr>"

definition sample_host :: Host where
  "sample_host = \<lparr>h_ID = 4, h_Name = ''web'', h_Hostname = ''web1'', h_IdentityKey = b64_encode (replicate 32 (CHR ''k'')),
     h_EncryptionKey = ''ek'', h_Accounts = [''deploy''], h_Status = ''active'',
     h_MachineID = Some ''m1'', h_LastSeq = 7, h_LastSetSeq = 3, h_AgentVersion = ''v1'',
     h_DesiredVersion = '''', h_EnrolledAt = 0, h_LastSeenAt = None\<rparr>"

definition sample_grant :: Grant where
  "sample_grant = \<lparr>g_ID = 5, g_UserID = 2, g_Permission = ''host.access'', g_TargetKind = ''host'',
     g_TargetID = Some 4, g_GrantedBy = Some 1, g_CreatedAt = 0, g_RevokedAt = None\<rparr>"

definition sample_db :: db where
  "sample_db = init_db\<lparr>users := [sample_admin, sample_member], public_keys := [sample_key],
     hosts := [sample_host], grants := [sample_grant],
     resource_groups := [\<lparr>rg_ID = 6, rg_Name = ''prod'', rg_Description = '''', rg_CreatedAt = 0\<rparr>],
     group_resources := [\<lparr>gr_GroupID = 6, gr_ResourceKind = ''host'', gr_ResourceID = 4, gr_AddedAt = 0\<rparr>]\<rparr>"

definition sample_hub :: hub where
  "sample_hub = register (uuidString (Some 4)) 0 (snd (make_chan newHub))"

definition sample_world :: world where
  "sample_world = \<lparr>w_db = sample_db, w_hub = sample_hub, w_clock = 1000, w_tick = 0,
     w_net = (\<lambda>_. NetOk), w_uuid = (\<lambda>n. of_nat (100 + n)), w_rand = (\<lambda>_. Some (\<lambda>_. CHR ''r'')), w_mail = [],
     w_http = (\<lambda>_ _. None), w_checksums = []\<rparr>"

definition sample_auth :: authInfo where
  "sample_auth = \<lparr>a_SessionID = 9, a_UserID = 1, a_Role = ''admin'', a_ClientPublicKey = None\<rparr>"

lemmas sample_rows = sample_admin_def sample_member_def sample_key_def sample_host_def sample_grant_def
lemmas sample_defs = sample_world_def sample_db_def sample_rows sample_server_def sample_ed_def
  sample_gcm_def sample_dh_def sample_argon2_def
  sample_auth_def init_db_def

lemma sample_crypto_ok: "gcm_ok sample_gcm" "dh_ok sample_dh" "argon2_ok sample_argon2"
  by (auto simp: gcm_ok_def dh_ok_def argon2_ok_def sample_gcm_def sample_dh_def sample_argon2_def)

lemma sample_schema_ok: "schema_ok sample_db"
  by (simp add: schema_ok_def table_ok_defs sample_db_def sample_rows init_db_def schema_consts
      active_machine_ids_def map_filter_def seeded_permissions_def)

lemma sample_hub_ok: "hub_ok sample_hub"
  unfolding sample_hub_def by (rule hub_ok_connect [OF hub_ok_new]) (simp add: make_chan_def newHub_def)

end
