(* ===== verification/Perms.thy ===== *)
theory Perms
  imports Samples
begin

text \<open>
  \<open>internal/controlplane/perms.go\<close>: the permission catalogue, which grants are valid, and the
  checks \<open>canGlobal\<close>, \<open>canSecret\<close>, \<open>canHost\<close>, \<open>canGroup\<close>, \<open>canSet\<close> that guard the handlers. A
  check that cannot reach the database answers no.
\<close>

section \<open>The catalogue\<close>

definition allGlobalPermissions :: "string list" where
  "allGlobalPermissions = [''group.create'', ''host.add'', ''secret.add'', ''set.add'']"
definition allGroupPermissions :: "string list" where
  "allGroupPermissions = [''group.read'', ''group.manage'']"
definition allHostPermissions :: "string list" where
  "allHostPermissions = [''host.access'', ''host.audit'', ''host.revoke'', ''host.upgrade'']"
definition allSecretPermissions :: "string list" where
  "allSecretPermissions = [''secret.read'', ''secret.update'', ''secret.delete'']"
definition allSetPermissions :: "string list" where
  "allSetPermissions = [''set.read'', ''set.manage'']"

lemmas catalogue = allGlobalPermissions_def allGroupPermissions_def allHostPermissions_def
  allSecretPermissions_def allSetPermissions_def

text \<open>\<open>permSet\<close>: the union of the lists.\<close>
definition permSet :: "string list list \<Rightarrow> string list" where
  "permSet ls = remdups (concat ls)"

definition grantablePermissions :: "string \<Rightarrow> string list" where
  "grantablePermissions kind =
     (if kind = ''global'' then permSet [allGlobalPermissions]
      else if kind = ''group'' then
        permSet [allGroupPermissions, allHostPermissions, allSecretPermissions, allSetPermissions]
      else if kind = ''host'' then permSet [allHostPermissions]
      else if kind = ''secret'' then permSet [allSecretPermissions]
      else if kind = ''set'' then permSet [allSetPermissions]
      else [])"

definition validGrant :: "string \<Rightarrow> string \<Rightarrow> bool" where
  "validGrant targetKind permission \<longleftrightarrow> permission \<in> set (grantablePermissions targetKind)"

section \<open>The checks\<close>

text \<open>\<open>return err == nil && ok\<close>\<close>
definition ok_or_false :: "dberr + bool \<Rightarrow> bool" where
  "ok_or_false r = (case r of Inl _ \<Rightarrow> False | Inr ok \<Rightarrow> ok)"

definition canGlobal :: "authInfo \<Rightarrow> string \<Rightarrow> bool action" where
  "canGlobal a permission =
     (if a_Role a = ''admin'' then ret True
      else do { r \<leftarrow> call (many (UserHasGlobalPermission (a_UserID a) permission)); ret (ok_or_false r) })"

definition canSecret :: "authInfo \<Rightarrow> string \<Rightarrow> uuid \<Rightarrow> bool action" where
  "canSecret a permission secretID =
     (if a_Role a = ''admin'' then ret True
      else do { r \<leftarrow> call (many (UserHasSecretPermission (a_UserID a) permission secretID));
                ret (ok_or_false r) })"

definition canHost :: "authInfo \<Rightarrow> string \<Rightarrow> uuid \<Rightarrow> bool action" where
  "canHost a permission hostID =
     (if a_Role a = ''admin'' then ret True
      else do { r \<leftarrow> call (many (UserHasHostPermission (a_UserID a) permission hostID));
                ret (ok_or_false r) })"

definition canGroup :: "authInfo \<Rightarrow> string \<Rightarrow> uuid \<Rightarrow> bool action" where
  "canGroup a permission groupID =
     (if a_Role a = ''admin'' then ret True
      else do { r \<leftarrow> call (many (UserHasGroupPermission (a_UserID a) permission groupID));
                ret (ok_or_false r) })"

definition canSet :: "authInfo \<Rightarrow> string \<Rightarrow> uuid \<Rightarrow> bool action" where
  "canSet a permission setID =
     (if a_Role a = ''admin'' then ret True
      else do { r \<leftarrow> call (many (UserHasSetPermission (a_UserID a) permission setID));
                ret (ok_or_false r) })"

lemmas can_defs = canGlobal_def canSecret_def canHost_def canGroup_def canSet_def

fun filterPermissions :: "string list \<Rightarrow> (string \<Rightarrow> bool action) \<Rightarrow> string list action" where
  "filterPermissions [] allowed = ret []"
| "filterPermissions (p # ps) allowed =
     do { ok \<leftarrow> allowed p; rest \<leftarrow> filterPermissions ps allowed; ret (if ok then p # rest else rest) }"

definition groupPermissions :: "authInfo \<Rightarrow> uuid \<Rightarrow> string list action" where
  "groupPermissions a groupID = filterPermissions allGroupPermissions (\<lambda>p. canGroup a p groupID)"

definition hostPermissions :: "authInfo \<Rightarrow> uuid \<Rightarrow> string list action" where
  "hostPermissions a hostID = filterPermissions allHostPermissions (\<lambda>p. canHost a p hostID)"

definition secretPermissions :: "authInfo \<Rightarrow> uuid \<Rightarrow> string list action" where
  "secretPermissions a secretID = filterPermissions allSecretPermissions (\<lambda>p. canSecret a p secretID)"

definition setPermissions :: "authInfo \<Rightarrow> uuid \<Rightarrow> string list action" where
  "setPermissions a setID = filterPermissions allSetPermissions (\<lambda>p. canSet a p setID)"

section \<open>The checks only read\<close>

lemma eff_can [eff]:
  "state_io_rel world_read (canGlobal a p)" "state_io_rel world_read (canSecret a p i)"
  "state_io_rel world_read (canHost a p i)" "state_io_rel world_read (canGroup a p i)"
  "state_io_rel world_read (canSet a p i)"
  unfolding can_defs by (intro eff)+

lemmas eff_can_step [eff] = eff_can [THEN eff_weaken]

lemma eff_filterPermissions: "(\<And>p. state_io_rel world_read (f p)) \<Longrightarrow> state_io_rel world_read (filterPermissions ps f)"
  by (induction ps) (auto intro!: eff)

lemma eff_permissions [eff]:
  "state_io_rel world_read (groupPermissions a i)" "state_io_rel world_read (hostPermissions a i)"
  "state_io_rel world_read (secretPermissions a i)" "state_io_rel world_read (setPermissions a i)"
  unfolding groupPermissions_def hostPermissions_def secretPermissions_def setPermissions_def
  by (intro eff_filterPermissions eff_can)+

lemmas eff_permissions_step [eff] = eff_permissions [THEN eff_weaken]

section \<open>A check that says yes has a reason\<close>

text \<open>What a check may rest on, in the database it read.\<close>
definition permitted :: "string \<Rightarrow> authInfo \<Rightarrow> string \<Rightarrow> uuid \<Rightarrow> db \<Rightarrow> bool" where
  "permitted kind a p i d \<longleftrightarrow> a_Role a = ''admin'' \<or>
     (if kind = ''group'' then UserHasGroupPermission (a_UserID a) p i d
      else has_grant kind (a_UserID a) p i d)"

lemma call_many_cases:
  "run_state (call (many g)) w = (Inr (g (w_db w)), w\<lparr>w_tick := Suc (w_tick w)\<rparr>) \<or>
   run_state (call (many g)) w = (Inl ConnFault, w\<lparr>w_tick := Suc (w_tick w)\<rparr>)"
  by (auto simp: run_call many_def split: net.splits)

lemma can_sound:
  "fst (run_state (canHost a p i) w) \<Longrightarrow> permitted ''host'' a p i (w_db w)"
  "fst (run_state (canSecret a p i) w) \<Longrightarrow> permitted ''secret'' a p i (w_db w)"
  "fst (run_state (canSet a p i) w) \<Longrightarrow> permitted ''set'' a p i (w_db w)"
  "fst (run_state (canGroup a p i) w) \<Longrightarrow> permitted ''group'' a p i (w_db w)"
  using call_many_cases [of "UserHasHostPermission (a_UserID a) p i" w]
    call_many_cases [of "UserHasSecretPermission (a_UserID a) p i" w]
    call_many_cases [of "UserHasSetPermission (a_UserID a) p i" w]
    call_many_cases [of "UserHasGroupPermission (a_UserID a) p i" w]
  by (auto simp: can_defs permitted_def ok_or_false_def UserHas_iff split: if_splits)

lemma validGrant_seeded:
  "validGrant k p \<Longrightarrow> k \<in> set target_kinds \<and> p \<in> set (map p_Key seeded_permissions)"
  by (auto simp: validGrant_def grantablePermissions_def permSet_def catalogue schema_consts
      seeded_permissions_def split: if_splits)

end
