(* ===== verification/Daemon_WS.thy ===== *)
theory Daemon_WS
  imports Perms
begin

text \<open>
  \<open>internal/controlplane/daemon_ws.go\<close> and the pushes of \<open>grants.go\<close> and \<open>users.go\<close>: the
  challenge a daemon answers, the snapshot of a host's access keys, its signed and sequenced
  envelope, its delivery to the host's live connection, and the messages a daemon reports.
\<close>

section \<open>Authentication of a daemon\<close>

definition challenge_json :: "bytes \<Rightarrow> json" where
  "challenge_json nonce = JObj [(''nonce'', JStr (b64_encode nonce))]"

definition unmarshal_auth :: "bytes \<Rightarrow> Auth option" where
  "unmarshal_auth b = (case parse_json b of
     Some (JObj ms) \<Rightarrow>
       (case (field dec_string '''' ''host_id'' ms, slice_field dec_bytes ''signature'' ms,
              field dec_string '''' ''version'' ms) of
          (Some h, Some s, Some v) \<Rightarrow> Some \<lparr>auth_HostID = h, auth_Signature = s, auth_Version = v\<rparr>
        | _ \<Rightarrow> None)
   | Some JNull \<Rightarrow> Some \<lparr>auth_HostID = '''', auth_Signature = '''', auth_Version = ''''\<rparr>
   | _ \<Rightarrow> None)"

text \<open>
  The peer answers the challenge as it likes, or not at all: \<open>reply\<close> is arbitrary. Errors all
  close the connection, so their text is dropped.
\<close>
definition authenticateDaemon :: "server \<Rightarrow> (Envelope \<Rightarrow> Envelope option) \<Rightarrow> (Host \<times> string) option action" where
  "authenticateDaemon srv reply = attempt (rand_read challengeSize) (\<lambda>_. ret None) (\<lambda>nonce.
     case reply \<lparr>env_Type = TypeChallenge, env_Data = enc (challenge_json nonce), env_Seq = 0, env_Sig = ''''\<rparr> of
       None \<Rightarrow> ret None
     | Some env \<Rightarrow>
         if env_Type env \<noteq> TypeAuth then ret None
         else (case unmarshal_auth (env_Data env) of None \<Rightarrow> ret None
           | Some auth \<Rightarrow>
               (case parseUUID srv (auth_HostID auth) of None \<Rightarrow> ret None
                | Some hostID \<Rightarrow> attempt (call (single (GetHostByID hostID))) (\<lambda>_. ret None) (\<lambda>host.
                    if h_Status host \<noteq> ''active'' then ret None
                    else if \<not> ident_Verify (srv_ed srv) (h_IdentityKey host) nonce (auth_Signature auth)
                    then ret None
                    else ret (Some (host, auth_Version auth))))))"

section \<open>Snapshots\<close>

definition access_entry :: "Host \<Rightarrow> HostAccessKeysRow \<Rightarrow> AccessEntry" where
  "access_entry host k = \<lparr>ae_UserID = uuidString (Some (hak_UserID k)), ae_KeyType = hak_KeyType k,
     ae_KeyBlob = hak_KeyBlob k, ae_Fingerprint = hak_Fingerprint k, ae_Accounts = h_Accounts host\<rparr>"

definition buildSnapshot :: "Host \<Rightarrow> (dberr + Snapshot) action" where
  "buildSnapshot host = attempt (call (many (HostAccessKeys (h_ID host)))) (\<lambda>e. ret (Inl e))
     (\<lambda>rows. ret (Inr \<lparr>snap_Entries = map (access_entry host) rows\<rparr>))"

text \<open>The signed envelope of a snapshot at a sequence number.\<close>
definition signed_snapshot :: "server \<Rightarrow> bytes \<Rightarrow> uuid \<Rightarrow> int \<Rightarrow> Snapshot \<Rightarrow> Envelope" where
  "signed_snapshot srv priv hostID seq snap =
     (let data = marshal_snapshot snap; s = of_int seq :: 64 word in
      \<lparr>env_Type = TypeSnapshot, env_Data = data, env_Seq = s,
       env_Sig = ident_Sign (srv_ed srv) priv (SnapshotSigningInput (uuidString (Some hostID)) s data)\<rparr>)"

definition snapshotEnvelope :: "server \<Rightarrow> uuid \<Rightarrow> Snapshot \<Rightarrow> (dberr + Envelope) action" where
  "snapshotEnvelope srv hostID snap = (case srv_signer srv of
     None \<Rightarrow> ret (Inr \<lparr>env_Type = TypeSnapshot, env_Data = marshal_snapshot snap, env_Seq = 0, env_Sig = ''''\<rparr>)
   | Some priv \<Rightarrow> attempt (call (NextHostSeq hostID)) (\<lambda>e. ret (Inl e))
       (\<lambda>seq. ret (Inr (signed_snapshot srv priv hostID seq snap))))"

section \<open>Pushes\<close>

definition pushSnapshot :: "server \<Rightarrow> uuid \<Rightarrow> unit action" where
  "pushSnapshot srv hostID =
     attempt (call (single (GetHostByID hostID))) (\<lambda>_. ret ()) (\<lambda>host.
     attempt (buildSnapshot host) (\<lambda>_. ret ()) (\<lambda>snapshot.
     attempt (snapshotEnvelope srv hostID snapshot) (\<lambda>_. ret ()) (\<lambda>env.
     on_hub (push (uuidString (Some hostID)) env))))"

definition pushToHosts :: "server \<Rightarrow> uuid list \<Rightarrow> unit action" where
  "pushToHosts srv hs = for_each (pushSnapshot srv) hs"

text \<open>\<open>hosts, _ := q\<close>: an error leaves the slice nil.\<close>
definition or_nil :: "dberr + 'a list \<Rightarrow> 'a list" where
  "or_nil r = (case r of Inl _ \<Rightarrow> [] | Inr xs \<Rightarrow> xs)"

text \<open>A null id names no host: its lookup finds no row.\<close>
definition pushIfHostGrant :: "server \<Rightarrow> string \<Rightarrow> string \<Rightarrow> uuid option \<Rightarrow> unit action" where
  "pushIfHostGrant srv permission targetKind targetID =
     (if permission \<noteq> ''host.access'' then ret ()
      else if targetKind = ''host'' then
        (case targetID of None \<Rightarrow> do { _ \<leftarrow> call (single (\<lambda>_. Inl ErrNoRows :: dberr + unit)); ret () }
         | Some h \<Rightarrow> for_each (pushSnapshot srv) [h])
      else if targetKind = ''group'' then
        attempt (call (many (\<lambda>d. case targetID of None \<Rightarrow> [] | Some g \<Rightarrow> GroupHostIDs g d)))
          (\<lambda>_. ret ()) (\<lambda>ids. for_each (pushSnapshot srv) ids)
      else ret ())"

section \<open>What a daemon reports\<close>

definition recordSecretRead :: "Host \<Rightarrow> SecretRead \<Rightarrow> unit action" where
  "recordSecretRead host rd = do {
     s \<leftarrow> call (single (GetSetByName (rd_SetName rd)));
     let setID = (case s of Inl _ \<Rightarrow> None | Inr ss \<Rightarrow> Some (ss_ID ss));
     _ \<leftarrow> call (InsertSetAudit setID (rd_SetName rd) None (Some (h_ID host)) ''machine_read'' None);
     _ \<leftarrow> call (TouchHostSeen (h_ID host));
     ret () }"

definition recordAccessLog :: "Host \<Rightarrow> AccessLog \<Rightarrow> unit action" where
  "recordAccessLog host lg = do {
     k \<leftarrow> call (single (GetPublicKeyByFingerprint (al_Fingerprint lg)));
     let keyID = (case k of Inl _ \<Rightarrow> None | Inr pk \<Rightarrow> Some (pk_ID pk));
     _ \<leftarrow> call (InsertSSHAccessLog (h_ID host) (h_Hostname host) keyID (al_Account lg) (al_Allowed lg)
            (al_At lg) (al_Fingerprint lg));
     _ \<leftarrow> call (TouchHostSeen (h_ID host));
     ret () }"

text \<open>One turn of \<open>readDaemon\<close>: a message whose payload does not decode is ignored.\<close>
datatype report = AccessLogReport "AccessLog option" | SecretReadReport "SecretRead option" | OtherReport

definition readDaemon :: "Host \<Rightarrow> report \<Rightarrow> unit action" where
  "readDaemon host m = (case m of
     AccessLogReport (Some lg) \<Rightarrow> recordAccessLog host lg
   | SecretReadReport (Some rd) \<Rightarrow> recordSecretRead host rd
   | _ \<Rightarrow> ret ())"

section \<open>Handlers keep the schema and the history\<close>

lemma eff_buildSnapshot [eff]: "state_io_rel world_read (buildSnapshot host)"
  unfolding buildSnapshot_def by (intro eff db_steps)

lemmas eff_buildSnapshot_step [eff] = eff_buildSnapshot [THEN eff_weaken]

lemma eff_snapshotEnvelope [eff]: "state_io_rel world_step (snapshotEnvelope srv h s)"
  unfolding snapshotEnvelope_def by (intro eff db_steps)

lemma eff_pushSnapshot [eff]: "state_io_rel world_step (pushSnapshot srv h)"
  unfolding pushSnapshot_def by (intro eff db_steps)

lemma eff_pushToHosts [eff]: "state_io_rel world_step (pushToHosts srv hs)"
  unfolding pushToHosts_def by (intro eff db_steps)

lemma eff_pushIfHostGrant [eff]: "state_io_rel world_step (pushIfHostGrant srv p k t)"
  unfolding pushIfHostGrant_def by (intro eff db_steps)

lemma eff_authenticateDaemon [eff]: "state_io_rel world_read (authenticateDaemon srv reply)"
  unfolding authenticateDaemon_def by (intro eff db_steps)

lemma eff_readDaemon [eff]: "state_io_rel world_step (readDaemon host m)"
proof -
  have "state_io_rel world_step (recordAccessLog host lg)" for lg
    unfolding recordAccessLog_def Let_def by (intro eff db_steps)
  moreover have "state_io_rel world_step (recordSecretRead host rd)" for rd
    unfolding recordSecretRead_def Let_def by (intro eff db_steps)
  ultimately show ?thesis
    by (auto simp: readDaemon_def intro: ws.eff_return split: report.splits option.splits)
qed

section \<open>Runs without faults\<close>

definition calm :: "world \<Rightarrow> bool" where
  "calm w \<longleftrightarrow> (\<forall>n. w_net w n = NetOk)"

lemma calm_call:
  "calm w \<Longrightarrow> run_state (call f) w =
     (let (r, d) = f \<lparr>st_uuid = w_uuid w (w_tick w), st_now = w_clock w\<rparr> (w_db w)
      in (r, w\<lparr>w_tick := Suc (w_tick w), w_db := d\<rparr>))"
  by (simp add: run_call calm_def)

lemma calm_read:
  "calm w \<Longrightarrow> run_state (call (many g)) w = (Inr (g (w_db w)), w\<lparr>w_tick := Suc (w_tick w)\<rparr>)"
  "calm w \<Longrightarrow> run_state (call (single h)) w = (h (w_db w), w\<lparr>w_tick := Suc (w_tick w)\<rparr>)"
  by (simp_all add: calm_call many_def single_def)

lemma calm_simps [simp]:
  "calm (w\<lparr>w_tick := n\<rparr>) = calm w" "calm (w\<lparr>w_db := d\<rparr>) = calm w" "calm (w\<lparr>w_hub := h\<rparr>) = calm w"
  by (simp_all add: calm_def)

lemma run_on_hub [simp]: "run_state (on_hub f) w = ((), w\<lparr>w_hub := f (w_hub w)\<rparr>)"
  by (simp add: on_hub_def)

section \<open>Properties\<close>

text \<open>C1: A snapshot that is built carries exactly the public keys of the active users who hold
  \<open>host.access\<close> on the host, directly or through a group, each with the accounts of the host:
  no key is missing and none is there without a grant, whatever faults the run meets.\<close>
theorem snapshot_exact:
  assumes "fst (run_state (buildSnapshot host) w) = Inr snap"
  shows "e \<in> set (snap_Entries snap) \<longleftrightarrow>
    (\<exists>k \<in> set (public_keys (w_db w)). e = access_entry host (access_key k) \<and>
       active_user (pk_UserID k) (w_db w) \<and>
       has_grant ''host'' (pk_UserID k) ''host.access'' (h_ID host) (w_db w))"
proof -
  have "snap = \<lparr>snap_Entries = map (access_entry host) (HostAccessKeys (h_ID host) (w_db w))\<rparr>"
    using assms call_many_cases [of "HostAccessKeys (h_ID host)" w]
    by (auto simp: buildSnapshot_def run_attempt)
  then show ?thesis by (simp add: image_iff Bex_def in_HostAccessKeys) blast
qed

theorem snapshot_exact_witness:
  "fst (run_state (buildSnapshot sample_host) sample_world) =
     Inr \<lparr>snap_Entries = [access_entry sample_host (access_key sample_key)]\<rparr> \<and>
   active_user (pk_UserID sample_key) (w_db sample_world) \<and>
   has_grant ''host'' (pk_UserID sample_key) ''host.access'' (h_ID sample_host) (w_db sample_world)"
proof -
  have r: "fst (run_state (buildSnapshot sample_host) sample_world) =
      Inr \<lparr>snap_Entries = [access_entry sample_host (access_key sample_key)]\<rparr>"
    by (simp add: buildSnapshot_def run_attempt calm_read calm_def sample_defs HostAccessKeys_def
        grant_covers_def)
  then show ?thesis
    using snapshot_exact [OF r, of "access_entry sample_host (access_key sample_key)"]
    by (simp add: sample_defs)
qed

text \<open>C3: A daemon that authenticates is the active host it claims to be: its reply to the fresh
  challenge carries a signature that verifies under the identity key the host enrolled with.\<close>
theorem authenticateDaemon_sound:
  assumes "fst (run_state (authenticateDaemon srv reply) w) = Some (host, v)"
  shows "\<exists>nonce env auth. drawn challengeSize w = Some nonce \<and>
    reply \<lparr>env_Type = TypeChallenge, env_Data = enc (challenge_json nonce), env_Seq = 0, env_Sig = ''''\<rparr> = Some env \<and>
    unmarshal_auth (env_Data env) = Some auth \<and>
    host \<in> set (hosts (w_db w)) \<and> h_Status host = ''active'' \<and>
    parseUUID srv (auth_HostID auth) = Some (h_ID host) \<and>
    ident_Verify (srv_ed srv) (h_IdentityKey host) nonce (auth_Signature auth)"
  using assms
  by (auto simp: authenticateDaemon_def run_attempt rand_read_def run_call single_def GetHostByID_def
      one_row_Inr dest!: find_Some_in split: option.splits if_splits sum.splits prod.splits net.splits)

definition sample_auth_json :: json where
  "sample_auth_json = JObj [(''host_id'', JStr ''host''),
     (''signature'', JStr (b64_encode (replicate 32 (CHR ''k'') @ ident_message (replicate 32 (CHR ''r''))))),
     (''version'', JStr ''v1'')]"

lemma sample_auth_json:
  "unmarshal_auth (enc sample_auth_json) = Some \<lparr>auth_HostID = ''host'',
     auth_Signature = replicate 32 (CHR ''k'') @ ident_message (replicate 32 (CHR ''r'')), auth_Version = ''v1''\<rparr>"
proof -
  have "parse_json (enc sample_auth_json) = Some sample_auth_json"
    by (intro parse_enc) (simp add: sample_auth_json_def valid_utf8_ascii)
  moreover have "fold_key ''host_id'' = ''host_id''" "fold_key ''signature'' = ''signature''"
    "fold_key ''version'' = ''version''"
    by (simp_all add: lower_char_def in_range_def)
  ultimately show ?thesis
    by (simp add: unmarshal_auth_def sample_auth_json_def field_def slice_field_def dec_string_def dec_bytes_def
        b64_roundtrip del: fold_key.simps)
qed

theorem authenticateDaemon_sound_witness:
  "fst (run_state (authenticateDaemon sample_server (\<lambda>_. Some \<lparr>env_Type = TypeAuth,
     env_Data = enc sample_auth_json, env_Seq = 0, env_Sig = []\<rparr>)) sample_world) = Some (sample_host, ''v1'') \<and>
   h_Status sample_host = ''active'' \<and> sample_host \<in> set (hosts (w_db sample_world))"
proof -
  have r: "fst (run_state (authenticateDaemon sample_server (\<lambda>_. Some \<lparr>env_Type = TypeAuth,
     env_Data = enc sample_auth_json, env_Seq = 0, env_Sig = []\<rparr>)) sample_world) = Some (sample_host, ''v1'')"
    by (simp add: authenticateDaemon_def run_attempt rand_read_def drawn_def challengeSize_def map_replicate_const calm_read calm_def sample_defs
        sample_auth_json parseUUID_def GetHostByID_def ident_Verify_def b64_roundtrip)
  then show ?thesis using authenticateDaemon_sound [OF r] by blast
qed

end
