(* ===== verification/Grants.thy ===== *)
theory Grants
  imports Daemon_WS
begin

text \<open>
  \<open>internal/controlplane/grants.go\<close> and the grant part of \<open>audit.go\<close> and \<open>reads.go\<close>: creating
  and revoking grants, each in one transaction with its audit row, the push of fresh snapshots
  to the affected hosts, and the listings. A handler takes the authenticated session and the
  decoded request, \<open>None\<close> when \<open>readRequest\<close> fails.
\<close>

section \<open>Requests and views\<close>

record createGrantRequest =
  cgr_UserID :: string
  cgr_Permission :: string
  cgr_TargetKind :: string
  cgr_TargetID :: string

record grantView =
  gv_ID :: string
  gv_UserID :: string
  gv_UserEmail :: string
  gv_Permission :: string
  gv_TargetKind :: string
  gv_TargetID :: string
  gv_CreatedAt :: time

record grantAuditEntry =
  gae_ID :: string
  gae_Action :: string
  gae_GrantID :: string
  gae_ActorID :: string
  gae_ActorEmail :: string
  gae_ActorName :: string
  gae_ActorDisplayName :: string
  gae_SubjectID :: string
  gae_SubjectEmail :: string
  gae_SubjectName :: string
  gae_SubjectDisplayName :: string
  gae_Permission :: string
  gae_TargetKind :: string
  gae_TargetID :: string
  gae_At :: time

definition textString :: "string option \<Rightarrow> string" where
  "textString t = (case t of None \<Rightarrow> '''' | Some s \<Rightarrow> s)"

section \<open>The audit row\<close>

text \<open>Read through the pool, not through the caller's transaction; an error gives the empty text.\<close>
definition emailOf :: "uuid \<Rightarrow> string action" where
  "emailOf uid = do { r \<leftarrow> call (single (GetUserByID uid));
     ret (case r of Inl _ \<Rightarrow> '''' | Inr u \<Rightarrow> u_Email u) }"

definition auditGrant :: "string \<Rightarrow> Grant \<Rightarrow> uuid \<Rightarrow> (dberr + unit) tx_action" where
  "auditGrant action grant actorID = do {
     actorEmail \<leftarrow> outside (emailOf actorID);
     subjectEmail \<leftarrow> outside (emailOf (g_UserID grant));
     tx_call (InsertGrantAudit action (Some (g_ID grant)) (Some actorID) actorEmail
       (Some (g_UserID grant)) subjectEmail (g_Permission grant) (g_TargetKind grant) (g_TargetID grant)) }"

definition grantOwner :: "uuid \<Rightarrow> string \<Rightarrow> uuid \<Rightarrow> string list \<Rightarrow> (dberr + unit) tx_action" where
  "grantOwner userID kind targetID perms =
     for_until_err (\<lambda>p. attempt (tx_call (CreateGrant userID p kind (Some targetID) (Some userID)))
       (\<lambda>e. ret (Inl e)) (\<lambda>_. ret (Inr ()))) perms"

section \<open>Creating and revoking\<close>

text \<open>The transaction of \<open>handleCreateGrant\<close>.\<close>
definition createGrantTx :: "authInfo \<Rightarrow> uuid \<Rightarrow> string \<Rightarrow> string \<Rightarrow> uuid option \<Rightarrow> (string response + Grant) tx_action" where
  "createGrantTx auth userID permission kind targetID =
     attempt (tx_call (CreateGrant userID permission kind targetID (Some (a_UserID auth))))
       (\<lambda>_. ret (Inl (HttpError 400 ''could not create grant''))) (\<lambda>grant.
     attempt (auditGrant ''grant'' grant (a_UserID auth))
       (\<lambda>_. ret (Inl (serverError ''could not record grant''))) (\<lambda>_. ret (Inr grant)))"

definition handleCreateGrant :: "server \<Rightarrow> authInfo \<Rightarrow> createGrantRequest option \<Rightarrow> string response action" where
  "handleCreateGrant srv auth body = (case body of None \<Rightarrow> ret (HttpError 400 ''invalid request'')
   | Some req \<Rightarrow>
     if cgr_UserID req = '''' \<or> cgr_Permission req = '''' \<or> cgr_TargetKind req = ''''
     then ret (HttpError 400 ''user_id, permission and target_kind are required'')
     else if \<not> validGrant (cgr_TargetKind req) (cgr_Permission req)
     then ret (HttpError 400 ''invalid permission for target_kind'')
     else (case parseUUID srv (cgr_UserID req) of None \<Rightarrow> ret (HttpError 400 ''invalid user_id'')
       | Some userID \<Rightarrow>
         if cgr_TargetKind req \<noteq> ''global'' \<and> parseUUID srv (cgr_TargetID req) = None
         then ret (HttpError 400 ''invalid target_id'')
         else
           let targetID = (if cgr_TargetKind req = ''global'' then None else parseUUID srv (cgr_TargetID req)) in
           with_tx (\<lambda>_. serverError ''could not create grant'')
             (createGrantTx auth userID (cgr_Permission req) (cgr_TargetKind req) targetID)
             (\<lambda>_. serverError ''could not create grant'')
             (\<lambda>grant. do {
                pushIfHostGrant srv (g_Permission grant) (g_TargetKind grant) (g_TargetID grant);
                writeResponse srv (a_ClientPublicKey auth) (uuidString (Some (g_ID grant))) })))"

text \<open>The transaction of \<open>handleRevokeGrant\<close>.\<close>
definition revokeGrantTx :: "authInfo \<Rightarrow> uuid \<Rightarrow> (unit response + Grant) tx_action" where
  "revokeGrantTx auth grantID =
     attempt (tx_call (RevokeGrant grantID))
       (\<lambda>e. ret (Inl (if e = ErrNoRows then HttpError 404 ''grant not found''
                      else serverError ''could not revoke grant''))) (\<lambda>grant.
     attempt (auditGrant ''revoke'' grant (a_UserID auth))
       (\<lambda>_. ret (Inl (serverError ''could not record revoke''))) (\<lambda>_. ret (Inr grant)))"

definition handleRevokeGrant :: "server \<Rightarrow> authInfo \<Rightarrow> string \<Rightarrow> unit response action" where
  "handleRevokeGrant srv auth idParam = (case parseUUID srv idParam of
     None \<Rightarrow> ret (HttpError 400 ''invalid grant id'')
   | Some grantID \<Rightarrow>
       with_tx (\<lambda>_. serverError ''could not revoke grant'') (revokeGrantTx auth grantID)
         (\<lambda>_. serverError ''could not revoke grant'')
         (\<lambda>grant. do {
            pushIfHostGrant srv (g_Permission grant) (g_TargetKind grant) (g_TargetID grant);
            ret (Status 204) }))"

section \<open>Listings\<close>

definition handleListGrants :: "server \<Rightarrow> authInfo \<Rightarrow> grantView list response action" where
  "handleListGrants srv auth = attempt (call (many ListGrants))
     (\<lambda>_. ret (serverError ''could not list grants''))
     (\<lambda>rows. writeResponse srv (a_ClientPublicKey auth)
        (map (\<lambda>g. \<lparr>gv_ID = uuidString (Some (lg_ID g)), gv_UserID = uuidString (Some (lg_UserID g)),
                   gv_UserEmail = lg_UserEmail g, gv_Permission = lg_Permission g,
                   gv_TargetKind = lg_TargetKind g, gv_TargetID = uuidString (lg_TargetID g),
                   gv_CreatedAt = lg_CreatedAt g\<rparr>) rows))"

definition grant_audit_entry :: "ListGrantAuditRow \<Rightarrow> grantAuditEntry" where
  "grant_audit_entry r = (let a = lga_Log r in
     \<lparr>gae_ID = uuidString (Some (gal_ID a)), gae_Action = gal_Action a,
      gae_GrantID = uuidString (gal_GrantID a), gae_ActorID = uuidString (gal_ActorID a),
      gae_ActorEmail = gal_ActorEmail a, gae_ActorName = textString (lga_ActorName r),
      gae_ActorDisplayName = textString (lga_ActorDisplayName r),
      gae_SubjectID = uuidString (gal_SubjectID a), gae_SubjectEmail = gal_SubjectEmail a,
      gae_SubjectName = textString (lga_SubjectName r),
      gae_SubjectDisplayName = textString (lga_SubjectDisplayName r),
      gae_Permission = gal_Permission a, gae_TargetKind = gal_TargetKind a,
      gae_TargetID = uuidString (gal_TargetID a), gae_At = gal_At a\<rparr>)"

definition handleGrantAudit :: "server \<Rightarrow> authInfo \<Rightarrow> grantAuditEntry list response action" where
  "handleGrantAudit srv auth = attempt (call (many ListGrantAudit))
     (\<lambda>_. ret (serverError ''could not load grant audit''))
     (\<lambda>rows. writeResponse srv (a_ClientPublicKey auth) (map grant_audit_entry rows))"

section \<open>Handlers keep the schema and the history\<close>

lemma eff_emailOf [eff]: "state_io_rel world_read (emailOf u)"
  unfolding emailOf_def by (intro eff)

lemma eff_auditGrant [eff]: "state_io_rel tx_step (auditGrant a g u)"
  unfolding auditGrant_def by (intro eff db_steps eff_outside)

lemma eff_grantOwner [eff]: "state_io_rel tx_step (grantOwner u k t ps)"
  unfolding grantOwner_def by (intro eff db_steps)

lemma eff_handleCreateGrant [eff]: "state_io_rel world_step (handleCreateGrant srv auth body)"
  unfolding handleCreateGrant_def createGrantTx_def by (intro eff db_steps)

lemma eff_handleRevokeGrant [eff]: "state_io_rel world_step (handleRevokeGrant srv auth i)"
  unfolding handleRevokeGrant_def revokeGrantTx_def by (intro eff db_steps)

lemma eff_grant_lists [eff]:
  "state_io_rel world_read (handleListGrants srv auth)"
  "state_io_rel world_read (handleGrantAudit srv auth)"
  unfolding handleListGrants_def handleGrantAudit_def by (intro eff)+

end
