(* ===== verification/Users.thy ===== *)
theory Users
  imports Grants
begin

text \<open>
  \<open>internal/controlplane/users.go\<close>: listing users, and suspending, activating and removing one,
  with the push of fresh snapshots to the hosts the user holds grants on.
\<close>

record userView =
  uv_ID :: string
  uv_Email :: string
  uv_Name :: string
  uv_DisplayName :: string
  uv_Role :: string
  uv_Status :: string
  uv_CreatedAt :: time

definition handleListUsers :: "server \<Rightarrow> authInfo \<Rightarrow> userView list response action" where
  "handleListUsers srv auth = attempt (call (many (ListUsers (srv_coll srv))))
     (\<lambda>_. ret (serverError ''could not list users''))
     (\<lambda>rows. writeResponse srv (a_ClientPublicKey auth)
        (map (\<lambda>u. \<lparr>uv_ID = uuidString (Some (u_ID u)), uv_Email = u_Email u, uv_Name = u_Name u,
                   uv_DisplayName = textString (u_DisplayName u), uv_Role = u_Role u,
                   uv_Status = u_Status u, uv_CreatedAt = u_CreatedAt u\<rparr>) rows))"

text \<open>The target of a status change, or the response that refuses it.\<close>
definition targetUser :: "server \<Rightarrow> authInfo \<Rightarrow> string \<Rightarrow> unit response + uuid" where
  "targetUser srv auth idParam = (case parseUUID srv idParam of
     None \<Rightarrow> Inl (HttpError 400 ''invalid user id'')
   | Some userID \<Rightarrow>
       if uuidString (Some userID) = uuidString (Some (a_UserID auth))
       then Inl (HttpError 400 ''you cannot change your own account status'')
       else Inr userID)"

definition handleSuspendUser :: "server \<Rightarrow> authInfo \<Rightarrow> string \<Rightarrow> unit response action" where
  "handleSuspendUser srv auth idParam = (case targetUser srv auth idParam of Inl r \<Rightarrow> ret r
   | Inr userID \<Rightarrow> do {
       hs \<leftarrow> call (many (UserGrantedHostIDs userID));
       attempt (call (SetUserStatus userID ''suspended''))
         (\<lambda>_. ret (serverError ''could not suspend user''))
         (\<lambda>n. if n = 0 then ret (HttpError 404 ''user not found'')
              else do {
                _ \<leftarrow> call (RevokeAllUserSessions userID);
                pushToHosts srv (or_nil hs);
                ret (Status 204) }) })"

definition handleActivateUser :: "server \<Rightarrow> authInfo \<Rightarrow> string \<Rightarrow> unit response action" where
  "handleActivateUser srv auth idParam = (case targetUser srv auth idParam of Inl r \<Rightarrow> ret r
   | Inr userID \<Rightarrow>
       attempt (call (SetUserStatus userID ''active''))
         (\<lambda>_. ret (serverError ''could not activate user''))
         (\<lambda>n. if n = 0 then ret (HttpError 404 ''user not found'')
              else do {
                hs \<leftarrow> call (many (UserGrantedHostIDs userID));
                pushToHosts srv (or_nil hs);
                ret (Status 204) }))"

text \<open>The transaction of \<open>handleRemoveUser\<close>.\<close>
definition removeUserTx :: "uuid \<Rightarrow> (unit response + unit) tx_action" where
  "removeUserTx userID = (let failed = (\<lambda>_. ret (Inl (serverError ''could not remove user''))) in
     attempt (tx_call (SetUserStatus userID ''removed'')) failed (\<lambda>n.
       if n = 0 then ret (Inl (HttpError 404 ''user not found''))
       else attempt (tx_call (DeleteUserIdentities userID)) failed (\<lambda>_.
            attempt (tx_call (RevokeAllUserGrants userID)) failed (\<lambda>_.
            attempt (tx_call (RevokeAllUserSessions userID)) failed (\<lambda>_. ret (Inr ()))))))"

definition handleRemoveUser :: "server \<Rightarrow> authInfo \<Rightarrow> string \<Rightarrow> unit response action" where
  "handleRemoveUser srv auth idParam = (case targetUser srv auth idParam of Inl r \<Rightarrow> ret r
   | Inr userID \<Rightarrow> do {
       hs \<leftarrow> call (many (UserGrantedHostIDs userID));
       with_tx (\<lambda>_. serverError ''could not remove user'') (removeUserTx userID)
         (\<lambda>_. serverError ''could not remove user'')
         (\<lambda>_. do { pushToHosts srv (or_nil hs); ret (Status 204) }) })"

section \<open>Handlers keep the schema and the history\<close>

lemma eff_handleListUsers [eff]: "state_io_rel world_read (handleListUsers srv auth)"
  unfolding handleListUsers_def by (intro eff)

lemma eff_user_status [eff]:
  "state_io_rel world_step (handleSuspendUser srv auth i)"
  "state_io_rel world_step (handleActivateUser srv auth i)"
  "state_io_rel world_step (handleRemoveUser srv auth i)"
  unfolding handleSuspendUser_def handleActivateUser_def handleRemoveUser_def removeUserTx_def Let_def
  by (intro eff db_steps)+

end
