(* ===== verification/Sshkey.thy ===== *)
theory Sshkey
  imports Go_Strings
begin

text \<open>
  \<open>internal/sshkey\<close>: parsing an \<open>authorized_keys\<close> line and the OpenSSH fingerprint of a key,
  shared by the control plane and the daemon. \<open>crypto/sha256\<close> is a parameter.
\<close>

definition ParseAuthorizedKey :: "string \<Rightarrow> (string \<times> string) option" where
  "ParseAuthorizedKey line = (case Fields line of
     t # b # _ \<Rightarrow> (case b64_decode b of None \<Rightarrow> None | Some _ \<Rightarrow> Some (t, b))
   | _ \<Rightarrow> None)"

definition Fingerprint :: "(bytes \<Rightarrow> bytes) \<Rightarrow> string \<Rightarrow> string option" where
  "Fingerprint sha256 blob = (case b64_decode blob of None \<Rightarrow> None
     | Some raw \<Rightarrow> Some (''SHA256:'' @ raw_std_encode (sha256 raw)))"

lemma ParseAuthorizedKey_line:
  assumes "no_space t" "no_space b" "t \<noteq> []" "b \<noteq> []" "b64_decode b \<noteq> None"
  shows "ParseAuthorizedKey (t @ '' '' @ b @ '' '' @ comment) = Some (t, b)"
    and "ParseAuthorizedKey (t @ '' '' @ b) = Some (t, b)"
  using assms by (auto simp: ParseAuthorizedKey_def Fields_line simp del: append.simps)

lemma raw_std_encode_inj: "raw_std_encode a = raw_std_encode b \<Longrightarrow> a = b"
  by (metis option.inject raw_std_roundtrip)

lemma Fingerprint_inj:
  assumes "Fingerprint h x = Some f" "Fingerprint h y = Some f"
  shows "\<exists>a b. b64_decode x = Some a \<and> b64_decode y = Some b \<and> h a = h b"
  using assms by (auto simp: Fingerprint_def dest: raw_std_encode_inj split: option.splits)

end
