(* ===== verification/Keys.thy ===== *)
theory Keys
  imports Grants Sshkey
begin

text \<open>
  \<open>internal/controlplane/keys.go\<close>: a user's own SSH keys. Adding and deleting a key push fresh
  snapshots to the hosts the user holds grants on.
\<close>

record addKeyRequest =
  akr_Label :: string
  akr_PublicKey :: string

record publicKeyView =
  pkv_ID :: string
  pkv_Label :: string
  pkv_Fingerprint :: string
  pkv_CreatedAt :: time

definition public_key_view :: "PublicKey \<Rightarrow> publicKeyView" where
  "public_key_view k = \<lparr>pkv_ID = uuidString (Some (pk_ID k)), pkv_Label = pk_Label k,
     pkv_Fingerprint = pk_Fingerprint k, pkv_CreatedAt = pk_CreatedAt k\<rparr>"

definition handleAddKey :: "server \<Rightarrow> authInfo \<Rightarrow> addKeyRequest option \<Rightarrow> publicKeyView response action" where
  "handleAddKey srv auth body = (case body of None \<Rightarrow> ret (HttpError 400 ''invalid request'')
   | Some req \<Rightarrow>
     (case ParseAuthorizedKey (akr_PublicKey req) of None \<Rightarrow> ret (HttpError 400 ''invalid public key'')
      | Some (keyType, blob) \<Rightarrow>
        (case Fingerprint (srv_sha256 srv) blob of None \<Rightarrow> ret (HttpError 400 ''invalid public key'')
         | Some fingerprint \<Rightarrow>
           attempt (call (CreatePublicKey (a_UserID auth) (akr_Label req) keyType blob fingerprint))
             (\<lambda>e. ret (if isUniqueViolation e then HttpError 409 ''key already registered''
                       else serverError ''could not add key''))
             (\<lambda>key. do {
                hs \<leftarrow> call (many (UserGrantedHostIDs (a_UserID auth)));
                pushToHosts srv (or_nil hs);
                writeResponse srv (a_ClientPublicKey auth) (public_key_view key) }))))"

definition handleListKeys :: "server \<Rightarrow> authInfo \<Rightarrow> publicKeyView list response action" where
  "handleListKeys srv auth = attempt (call (many (ListUserPublicKeys (a_UserID auth))))
     (\<lambda>_. ret (serverError ''could not list keys''))
     (\<lambda>rows. writeResponse srv (a_ClientPublicKey auth) (map public_key_view rows))"

definition handleDeleteKey :: "server \<Rightarrow> authInfo \<Rightarrow> string \<Rightarrow> unit response action" where
  "handleDeleteKey srv auth idParam = (case parseUUID srv idParam of
     None \<Rightarrow> ret (HttpError 400 ''invalid key id'')
   | Some keyID \<Rightarrow>
       attempt (call (DeletePublicKey keyID (a_UserID auth)))
         (\<lambda>_. ret (serverError ''could not delete key''))
         (\<lambda>n. if n = 0 then ret (HttpError 404 ''key not found'')
              else do {
                hs \<leftarrow> call (many (UserGrantedHostIDs (a_UserID auth)));
                pushToHosts srv (or_nil hs);
                ret (Status 204) }))"

section \<open>Handlers keep the schema and the history\<close>

lemma eff_keys [eff]:
  "state_io_rel world_step (handleAddKey srv auth body)"
  "state_io_rel world_step (handleDeleteKey srv auth i)"
  unfolding handleAddKey_def handleDeleteKey_def by (intro eff db_steps)+

lemma eff_handleListKeys [eff]: "state_io_rel world_read (handleListKeys srv auth)"
  unfolding handleListKeys_def by (intro eff)

end
