(* ===== verification/Auth.thy ===== *)
theory Auth
  imports Grants
begin

text \<open>
  \<open>internal/controlplane/auth.go\<close>, \<open>middleware.go\<close> and \<open>CreateAdmin\<close> of \<open>store.go\<close>: login with
  its lockout, refresh with token rotation, logout, and the middleware that resolves a bearer
  token to a session on every request.
\<close>

section \<open>Tokens and their lifetimes\<close>

definition accessTTL :: duration where "accessTTL = 15 * Minute"
definition refreshTTL :: duration where "refreshTTL = 30 * 24 * Hour"
definition maxLoginFailures :: int where "maxLoginFailures = 5"
definition loginWindow :: duration where "loginWindow = 15 * Minute"
definition lockDuration :: duration where "lockDuration = 15 * Minute"

record loginRequest =
  lr_Email :: string
  lr_Password :: string
  lr_ClientPublicKey :: "bytes option"

record tokenPair =
  tp_AccessToken :: string
  tp_RefreshToken :: string

record refreshRequest =
  rr_RefreshToken :: string
  rr_ClientPublicKey :: "bytes option"

text \<open>\<open>len(b) == 0\<close> of a slice that may be nil.\<close>
definition empty_slice :: "bytes option \<Rightarrow> bool" where
  "empty_slice b \<longleftrightarrow> b = None \<or> b = Some []"

text \<open>\<open>expiry\<close>\<close>
definition expiry :: "duration \<Rightarrow> time action" where
  "expiry dur = do { t \<leftarrow> now; ret (t + dur) }"

definition mintAccessToken :: "server \<Rightarrow> uuid \<Rightarrow> (dberr + string) tx_action" where
  "mintAccessToken srv sessionID = attempt (outside (GenerateToken srv)) (\<lambda>e. ret (Inl e)) (\<lambda>(raw, hash). do {
     x \<leftarrow> outside (expiry accessTTL);
     attempt (tx_call (CreateAccessToken sessionID hash x)) (\<lambda>e. ret (Inl e)) (\<lambda>_. ret (Inr raw)) })"

section \<open>Login\<close>

text \<open>How a login ends without tokens; \<open>LoginPanics\<close> is a panic of argon2 on a bad stored hash.\<close>
datatype login_error = TooManyAttempts | BadCredentials | LoginFails dberr | LoginPanics

text \<open>The count is an \<open>int32\<close> that is at most \<open>maxLoginFailures\<close>, so its increment does not wrap.\<close>
definition recordFailedLogin :: "Identity \<Rightarrow> unit action" where
  "recordFailedLogin i = do {
     t \<leftarrow> now;
     let streak = (case i_LastFailedAt i of
                     Some f \<Rightarrow> if t - f > loginWindow then 1 else i_FailedLogins i + 1
                   | None \<Rightarrow> i_FailedLogins i + 1);
     _ \<leftarrow> (if streak \<ge> maxLoginFailures
           then call (SetLoginFailure (i_ID i) 0 (Some (t + lockDuration)))
           else call (SetLoginFailure (i_ID i) streak None));
     ret () }"

text \<open>The transaction of \<open>login\<close>; the error of \<open>TouchIdentityLogin\<close> is not looked at.\<close>
definition loginTx :: "server \<Rightarrow> loginRequest \<Rightarrow> Identity \<Rightarrow> ((login_error + tokenPair) + tokenPair) tx_action" where
  "loginTx srv req i = (let fails = (\<lambda>e. ret (Inl (Inl (LoginFails e)))) in
     attempt (outside (GenerateToken srv)) fails (\<lambda>(rawRefresh, refreshHash). do {
       x \<leftarrow> outside (expiry refreshTTL);
       attempt (tx_call (CreateSession (i_UserID i) refreshHash (lr_ClientPublicKey req) x)) fails (\<lambda>sess.
       attempt (mintAccessToken srv (s_ID sess)) fails (\<lambda>rawAccess. do {
         _ \<leftarrow> tx_call (TouchIdentityLogin (i_ID i));
         ret (Inr \<lparr>tp_AccessToken = rawAccess, tp_RefreshToken = rawRefresh\<rparr>) })) }))"

text \<open>The check of a placeholder hash for unknown emails has no effect but time.\<close>
definition login :: "server \<Rightarrow> loginRequest \<Rightarrow> (login_error + tokenPair) action" where
  "login srv req = attempt (call (single (GetIdentity ''password'' (lr_Email req))))
     (\<lambda>e. ret (Inl (if e = ErrNoRows then BadCredentials else LoginFails e))) (\<lambda>i. do {
       t \<leftarrow> now;
       if (case i_LockedUntil i of None \<Rightarrow> False | Some u \<Rightarrow> t < u) then ret (Inl TooManyAttempts)
       else (case i_PasswordHash i of None \<Rightarrow> ret (Inl BadCredentials)
         | Some h \<Rightarrow>
           let v = password_Verify (srv_argon2 srv) h (lr_Password req) in
           if v = HashPanics then ret (Inl LoginPanics)
           else if v \<noteq> Checked True then do { recordFailedLogin i; ret (Inl BadCredentials) }
           else do {
             _ \<leftarrow> call (ResetLoginFailures (i_ID i));
             with_tx (\<lambda>e. Inl (LoginFails e)) (loginTx srv req i) (\<lambda>e. Inl (LoginFails e))
               (\<lambda>pair. ret (Inr pair)) }) })"

definition handleLogin :: "server \<Rightarrow> loginRequest option \<Rightarrow> tokenPair response action" where
  "handleLogin srv body = (case body of None \<Rightarrow> ret (HttpError 400 ''invalid request'')
   | Some req \<Rightarrow>
     if lr_Email req = '''' \<or> lr_Password req = ''''
     then ret (HttpError 400 ''email and password are required'')
     else if srv_EncryptionEnabled srv \<and> empty_slice (lr_ClientPublicKey req)
     then ret (HttpError 400 ''client_public_key is required'')
     else attempt (login srv req)
       (\<lambda>e. ret (case e of
            TooManyAttempts \<Rightarrow> HttpError 429 ''too many failed attempts; try again later''
          | BadCredentials \<Rightarrow> HttpError 401 ''invalid credentials''
          | LoginFails _ \<Rightarrow> serverError ''login failed''
          | LoginPanics \<Rightarrow> Status 500))
       (\<lambda>pair. writeResponse srv (lr_ClientPublicKey req) pair))"

section \<open>Refresh and logout\<close>

text \<open>The transaction of \<open>refresh\<close>.\<close>
definition refreshTx :: "server \<Rightarrow> refreshRequest \<Rightarrow> Session \<Rightarrow>
    ((login_error + tokenPair \<times> bytes option) + tokenPair \<times> bytes option) tx_action" where
  "refreshTx srv req sess = (let fails = (\<lambda>e. ret (Inl (Inl (LoginFails e)))) in
     attempt (if empty_slice (rr_ClientPublicKey req) then ret (Inr (s_ClientPublicKey sess))
              else attempt (tx_call (UpdateSessionClientKey (s_ID sess) (rr_ClientPublicKey req)))
                     (\<lambda>e. ret (Inl e)) (\<lambda>_. ret (Inr (rr_ClientPublicKey req))))
       fails (\<lambda>clientPublic.
     attempt (outside (GenerateToken srv)) fails (\<lambda>(rawRefresh, refreshHash).
     attempt (tx_call (RotateSessionToken (s_ID sess) refreshHash)) fails (\<lambda>_.
     attempt (mintAccessToken srv (s_ID sess)) fails (\<lambda>rawAccess.
       ret (Inr (\<lparr>tp_AccessToken = rawAccess, tp_RefreshToken = rawRefresh\<rparr>, clientPublic)))))))"

definition refresh :: "server \<Rightarrow> refreshRequest \<Rightarrow> (login_error + tokenPair \<times> bytes option) action" where
  "refresh srv req = attempt (call (single_now (GetSessionByTokenHash (HashToken srv (rr_RefreshToken req)))))
     (\<lambda>e. ret (Inl (if e = ErrNoRows then BadCredentials else LoginFails e)))
     (\<lambda>sess. with_tx (\<lambda>e. Inl (LoginFails e)) (refreshTx srv req sess) (\<lambda>e. Inl (LoginFails e))
        (\<lambda>pair. ret (Inr pair)))"

definition handleRefresh :: "server \<Rightarrow> refreshRequest option \<Rightarrow> tokenPair response action" where
  "handleRefresh srv body = (case body of None \<Rightarrow> ret (HttpError 400 ''invalid request'')
   | Some req \<Rightarrow>
     if rr_RefreshToken req = '''' then ret (HttpError 400 ''refresh_token is required'')
     else if srv_EncryptionEnabled srv \<and> empty_slice (rr_ClientPublicKey req)
     then ret (HttpError 400 ''client_public_key is required'')
     else attempt (refresh srv req)
       (\<lambda>e. ret (if e = BadCredentials then HttpError 401 ''invalid refresh token''
                 else serverError ''refresh failed''))
       (\<lambda>(pair, clientPublic). writeResponse srv clientPublic pair))"

definition handleLogout :: "authInfo \<Rightarrow> unit response action" where
  "handleLogout auth = attempt (call (RevokeSession (a_SessionID auth)))
     (\<lambda>_. ret (HttpError 500 ''logout failed'')) (\<lambda>_. ret (Status 204))"

section \<open>The middleware\<close>

definition bearerToken :: "string \<Rightarrow> string" where
  "bearerToken header = (case CutPrefix header ''Bearer '' of
     Some after \<Rightarrow> TrimSpace after | None \<Rightarrow> '''')"

definition requireAuth :: "server \<Rightarrow> string \<Rightarrow> (authInfo \<Rightarrow> 'v response action) \<Rightarrow> 'v response action" where
  "requireAuth srv header next =
     (let token = bearerToken header in
      if token = '''' then ret (HttpError 401 ''unauthorized'')
      else attempt (call (single_now (GetAccessContext (HashToken srv token))))
        (\<lambda>_. ret (HttpError 401 ''unauthorized''))
        (\<lambda>row. if ac_Status row \<noteq> ''active'' then ret (HttpError 403 ''forbidden'')
           else next \<lparr>a_SessionID = ac_SessionID row, a_UserID = ac_UserID row, a_Role = ac_Role row,
                       a_ClientPublicKey = ac_ClientPublicKey row\<rparr>))"

definition requireAdmin :: "server \<Rightarrow> string \<Rightarrow> (authInfo \<Rightarrow> 'v response action) \<Rightarrow> 'v response action" where
  "requireAdmin srv header next = requireAuth srv header
     (\<lambda>auth. if a_Role auth \<noteq> ''admin'' then ret (HttpError 403 ''forbidden'') else next auth)"

section \<open>The first administrator\<close>

datatype create_error = ErrEmailTaken | CreateFails dberr

text \<open>The transaction of \<open>CreateAdmin\<close>.\<close>
definition createAdminTx :: "string \<Rightarrow> string \<Rightarrow> (create_error option + unit) tx_action" where
  "createAdminTx email hash =
     attempt (tx_call (CreateUser email ''Admin'' None ''admin''))
       (\<lambda>e. ret (Inl (Some (if isUniqueViolation e then ErrEmailTaken else CreateFails e)))) (\<lambda>user.
     attempt (tx_call (CreateIdentity (u_ID user) ''password'' email (Some hash)))
       (\<lambda>e. ret (Inl (Some (CreateFails e)))) (\<lambda>_. ret (Inr ())))"

text \<open>\<open>None\<close> is the nil error.\<close>
definition CreateAdmin :: "server \<Rightarrow> string \<Rightarrow> string \<Rightarrow> create_error option action" where
  "CreateAdmin srv email plainPassword =
     attempt (hashPassword srv plainPassword) (\<lambda>e. ret (Some (CreateFails e))) (\<lambda>hash.
       with_tx (\<lambda>e. Some (CreateFails e)) (createAdminTx email hash) (\<lambda>e. Some (CreateFails e))
         (\<lambda>_. ret None))"

section \<open>Handlers keep the schema and the history\<close>

lemma eff_expiry [eff]: "state_io_rel world_read (expiry dur)"
  unfolding expiry_def by (intro eff)

lemma eff_mintAccessToken [eff]: "state_io_rel tx_step (mintAccessToken srv s)"
  unfolding mintAccessToken_def by (intro eff db_steps eff_outside)

lemma eff_recordFailedLogin [eff]: "state_io_rel world_step (recordFailedLogin i)"
  unfolding recordFailedLogin_def Let_def by (intro eff db_steps)

lemma eff_loginTx [eff]: "state_io_rel tx_step (loginTx srv req i)"
  unfolding loginTx_def Let_def by (intro eff db_steps eff_outside)

lemma eff_handleLogin [eff]: "state_io_rel world_step (handleLogin srv body)"
  unfolding handleLogin_def login_def Let_def by (intro eff db_steps)

lemma eff_refreshTx [eff]: "state_io_rel tx_step (refreshTx srv req sess)"
  unfolding refreshTx_def Let_def by (intro eff db_steps eff_outside)

lemma eff_handleRefresh [eff]: "state_io_rel world_step (handleRefresh srv body)"
  unfolding handleRefresh_def refresh_def by (intro eff db_steps)

lemma eff_handleLogout [eff]: "state_io_rel world_step (handleLogout auth)"
  unfolding handleLogout_def by (intro eff db_steps)

lemma eff_require [eff]:
  "(\<And>a. state_io_rel world_step (next a)) \<Longrightarrow> state_io_rel world_step (requireAuth srv h next)"
  "(\<And>a. state_io_rel world_step (next a)) \<Longrightarrow> state_io_rel world_step (requireAdmin srv h next)"
  unfolding requireAdmin_def requireAuth_def Let_def by (intro eff db_steps | assumption)+

lemma eff_CreateAdmin [eff]: "state_io_rel world_step (CreateAdmin srv email pw)"
  unfolding CreateAdmin_def createAdminTx_def by (intro eff db_steps)

end
