(* ===== verification/Reads.thy ===== *)
theory Reads
  imports Auth
begin

text \<open>
  \<open>internal/controlplane/reads.go\<close> (its grant listing is in \<open>Grants\<close>): the caller's profile and
  its update, and the list of hosts with their connection status.
\<close>

record meView =
  me_ID :: string
  me_Email :: string
  me_Name :: string
  me_DisplayName :: string
  me_Role :: string
  me_GlobalPermissions :: "string list"

record updateProfileRequest =
  upr_Name :: "string option"
  upr_DisplayName :: "string option"

record hostView =
  hv_ID :: string
  hv_Name :: string
  hv_Hostname :: string
  hv_Accounts :: "string list"
  hv_Status :: string
  hv_ConnectionStatus :: string
  hv_AgentVersion :: string
  hv_DesiredVersion :: string
  hv_EnrolledAt :: time
  hv_LastSeenAt :: "time option"
  hv_Permissions :: "string list"

section \<open>The profile\<close>

definition globalPermissionsFor :: "server \<Rightarrow> authInfo \<Rightarrow> (dberr + string list) action" where
  "globalPermissionsFor srv auth =
     (if a_Role auth = ''admin'' then
        attempt (call (many (ListGlobalPermissions (srv_coll srv)))) (\<lambda>e. ret (Inl e))
          (\<lambda>rows. ret (Inr (map p_Key rows)))
      else attempt (call (many (ListUserGlobalPermissions (srv_coll srv) (a_UserID auth)))) (\<lambda>e. ret (Inl e))
          (\<lambda>rows. ret (Inr (map ugp_Permission rows))))"

text \<open>The common end of \<open>handleMe\<close> and \<open>handleUpdateProfile\<close>.\<close>
definition profile_response :: "server \<Rightarrow> authInfo \<Rightarrow> meView response action" where
  "profile_response srv auth =
     attempt (call (single (GetUserByID (a_UserID auth)))) (\<lambda>_. ret (serverError ''could not load profile'')) (\<lambda>user.
     attempt (globalPermissionsFor srv auth) (\<lambda>_. ret (serverError ''could not load permissions'')) (\<lambda>ps.
     writeResponse srv (a_ClientPublicKey auth)
       \<lparr>me_ID = uuidString (Some (u_ID user)), me_Email = u_Email user, me_Name = u_Name user,
        me_DisplayName = textString (u_DisplayName user), me_Role = u_Role user,
        me_GlobalPermissions = ps\<rparr>))"

definition handleMe :: "server \<Rightarrow> authInfo \<Rightarrow> meView response action" where
  "handleMe srv auth = profile_response srv auth"

text \<open>A field of the request that is nil leaves its column; an empty display name clears it.\<close>
definition handleUpdateProfile :: "server \<Rightarrow> authInfo \<Rightarrow> updateProfileRequest option \<Rightarrow> meView response action" where
  "handleUpdateProfile srv auth body = (case body of None \<Rightarrow> ret (HttpError 400 ''invalid request'')
   | Some req \<Rightarrow>
     if upr_Name req = Some '''' then ret (HttpError 400 ''name cannot be empty'')
     else attempt (case upr_Name req of None \<Rightarrow> ret (Inr ())
                   | Some n \<Rightarrow> call (UpdateUserName (a_UserID auth) n))
       (\<lambda>_. ret (serverError ''could not update profile'')) (\<lambda>_.
     attempt (case upr_DisplayName req of None \<Rightarrow> ret (Inr ())
              | Some n \<Rightarrow> call (UpdateUserDisplayName (a_UserID auth) (if n = '''' then None else Some n)))
       (\<lambda>_. ret (serverError ''could not update profile'')) (\<lambda>_. profile_response srv auth)))"

section \<open>Hosts\<close>

definition hostStaleWindow :: duration where "hostStaleWindow = 5 * Minute"

definition the_hub :: "hub action" where
  "the_hub = State (\<lambda>w. (w_hub w, w))"

definition hostConnectionStatus :: "uuid \<Rightarrow> time option \<Rightarrow> string action" where
  "hostConnectionStatus i lastSeen = do {
     h \<leftarrow> the_hub;
     t \<leftarrow> now;
     ret (if online (uuidString (Some i)) h then ''online''
          else case lastSeen of None \<Rightarrow> ''offline''
            | Some s \<Rightarrow> if t - s \<le> hostStaleWindow then ''stale'' else ''offline'') }"

text \<open>One turn of the loops of \<open>handleListHosts\<close>.\<close>
definition host_view :: "authInfo \<Rightarrow> ListHostsRow \<Rightarrow> hostView action" where
  "host_view auth h = do {
     status \<leftarrow> hostConnectionStatus (lh_ID h) (lh_LastSeenAt h);
     ps \<leftarrow> hostPermissions auth (lh_ID h);
     ret \<lparr>hv_ID = uuidString (Some (lh_ID h)), hv_Name = lh_Name h, hv_Hostname = lh_Hostname h,
          hv_Accounts = lh_Accounts h, hv_Status = lh_Status h, hv_ConnectionStatus = status,
          hv_AgentVersion = lh_AgentVersion h, hv_DesiredVersion = lh_DesiredVersion h,
          hv_EnrolledAt = lh_EnrolledAt h, hv_LastSeenAt = lh_LastSeenAt h, hv_Permissions = ps\<rparr> }"

definition handleListHosts :: "server \<Rightarrow> authInfo \<Rightarrow> hostView list response action" where
  "handleListHosts srv auth =
     attempt (if a_Role auth = ''admin'' then call (many (ListHosts (srv_coll srv)))
              else call (many (ListReadableHosts (srv_coll srv) (a_UserID auth))))
       (\<lambda>_. ret (serverError ''could not list hosts'')) (\<lambda>rows. do {
         views \<leftarrow> for_collect (host_view auth) rows;
         writeResponse srv (a_ClientPublicKey auth) views })"

section \<open>Handlers keep the schema and the history\<close>

lemma eff_the_hub [eff]: "state_io_rel world_read the_hub"
  by (simp add: state_io_rel_def the_hub_def world_read_def)

lemma eff_hostConnectionStatus [eff]: "state_io_rel world_read (hostConnectionStatus i s)"
  unfolding hostConnectionStatus_def by (intro eff)

lemma eff_host_view [eff]: "state_io_rel world_read (host_view auth h)"
  unfolding host_view_def by (intro eff)

lemma eff_handleListHosts [eff]: "state_io_rel world_read (handleListHosts srv auth)"
  unfolding handleListHosts_def by (intro eff)

lemma eff_globalPermissionsFor [eff]: "state_io_rel world_read (globalPermissionsFor srv auth)"
  unfolding globalPermissionsFor_def by (intro eff)

lemma eff_profile_response [eff]: "state_io_rel world_read (profile_response srv auth)"
  unfolding profile_response_def by (intro eff)

lemmas eff_profile_response_step [eff] = eff_profile_response [THEN eff_weaken]

lemma eff_handleMe [eff]: "state_io_rel world_read (handleMe srv auth)"
  unfolding handleMe_def by (intro eff)

lemma eff_handleUpdateProfile [eff]: "state_io_rel world_step (handleUpdateProfile srv auth body)"
  unfolding handleUpdateProfile_def by (intro eff db_steps)

end
