(* ===== verification/Secrets.thy ===== *)
theory Secrets
  imports Reads
begin

text \<open>
  \<open>internal/controlplane/secrets.go\<close> and the secret part of \<open>audit.go\<close>: the vault's secrets. The
  password and the notes of a secret are one JSON text sealed at rest; only \<open>handleRevealSecret\<close>
  opens it, and it records the read.
\<close>

record secretFields =
  sf_Password :: string
  sf_Notes :: string

record createSecretRequest =
  csr_Label :: string
  csr_URL :: string
  csr_Username :: string
  csr_OTPRecipient :: string
  csr_Password :: string
  csr_Notes :: string

record actor =
  ac_ID :: string
  ac_Name :: string
  ac_DisplayName :: string
  ac_Email :: string

record secretView =
  sv_ID :: string
  sv_Label :: string
  sv_URL :: string
  sv_Username :: string
  sv_OTPRecipient :: string
  sv_CreatedBy :: "actor option"
  sv_UpdatedBy :: "actor option"
  sv_CreatedAt :: time
  sv_UpdatedAt :: time
  sv_Permissions :: "string list"

record secretDetailView = secretView +
  sdv_Password :: string
  sdv_Notes :: string

record auditEntry =
  aen_ID :: string
  aen_Action :: string
  aen_At :: time
  aen_SecretID :: string
  aen_SecretName :: string
  aen_UserID :: string
  aen_UserEmail :: string
  aen_UserName :: string
  aen_UserDisplayName :: string

definition pgText :: "string \<Rightarrow> string option" where
  "pgText s = (if s = '''' then None else Some s)"

definition actorOf :: "uuid option \<Rightarrow> string option \<Rightarrow> string option \<Rightarrow> string option \<Rightarrow> actor option" where
  "actorOf i name displayName email = (if i = None then None
     else Some \<lparr>ac_ID = uuidString i, ac_Name = textString name,
                ac_DisplayName = textString displayName, ac_Email = textString email\<rparr>)"

section \<open>The sealed fields\<close>

definition fields_empty :: "secretFields \<Rightarrow> bool" where
  "fields_empty f \<longleftrightarrow> sf_Password f = '''' \<and> sf_Notes f = ''''"

text \<open>\<open>json.Marshal\<close> of the fields: an empty one is omitted.\<close>
definition fields_json :: "secretFields \<Rightarrow> json" where
  "fields_json f = JObj
     ((if sf_Password f = '''' then [] else [(''password'', JStr (sf_Password f))]) @
      (if sf_Notes f = '''' then [] else [(''notes'', JStr (sf_Notes f))]))"

definition unmarshal_fields :: "bytes \<Rightarrow> secretFields option" where
  "unmarshal_fields b = (case parse_json b of
     Some (JObj ms) \<Rightarrow>
       (case (field dec_string '''' ''password'' ms, field dec_string '''' ''notes'' ms) of
          (Some p, Some n) \<Rightarrow> Some \<lparr>sf_Password = p, sf_Notes = n\<rparr>
        | _ \<Rightarrow> None)
   | Some JNull \<Rightarrow> Some \<lparr>sf_Password = '''', sf_Notes = ''''\<rparr>
   | _ \<Rightarrow> None)"

text \<open>The three columns, all null when there is nothing to seal.\<close>
definition sealFields :: "server \<Rightarrow> bytes \<Rightarrow> createSecretRequest \<Rightarrow>
    (dberr + bytes option \<times> bytes option \<times> bytes option) action" where
  "sealFields srv master req =
     (let f = \<lparr>sf_Password = csr_Password req, sf_Notes = csr_Notes req\<rparr> in
      if fields_empty f then ret (Inr (None, None, None))
      else attempt (vaultSeal srv master (enc (fields_json f))) (\<lambda>e. ret (Inl e))
        (\<lambda>s. ret (Inr (Some (sd_Ciphertext s), Some (sd_Nonce s), Some (sd_WrappedKey s)))))"

definition or_nil_bytes :: "bytes option \<Rightarrow> bytes" where
  "or_nil_bytes b = (case b of None \<Rightarrow> [] | Some x \<Rightarrow> x)"

definition openFields :: "server \<Rightarrow> bytes \<Rightarrow> bytes option \<Rightarrow> bytes option \<Rightarrow> bytes option \<Rightarrow> secretFields option" where
  "openFields srv master ct nonce wrapped = (case ct of
     None \<Rightarrow> Some \<lparr>sf_Password = '''', sf_Notes = ''''\<rparr>
   | Some c \<Rightarrow> (case vault_Open (srv_gcm srv) master
         \<lparr>sd_Ciphertext = c, sd_Nonce = or_nil_bytes nonce, sd_WrappedKey = or_nil_bytes wrapped\<rparr> of
       None \<Rightarrow> None | Some plaintext \<Rightarrow> unmarshal_fields plaintext))"

section \<open>Views\<close>

text \<open>\<open>secretViewFromGet\<close>, and the same view in the loops of \<open>handleListSecrets\<close>.\<close>
definition secret_view :: "authInfo \<Rightarrow> ListAllSecretsRow \<Rightarrow> secretView action" where
  "secret_view auth row = do {
     ps \<leftarrow> secretPermissions auth (ls_ID row);
     let e = ls_Editors row;
     ret \<lparr>sv_ID = uuidString (Some (ls_ID row)), sv_Label = ls_Label row, sv_URL = textString (ls_Url row),
          sv_Username = textString (ls_Username row), sv_OTPRecipient = textString (ls_OtpRecipient row),
          sv_CreatedBy = actorOf (ls_CreatedBy row) (ed_CreatedByName e) (ed_CreatedByDisplayName e) (ed_CreatedByEmail e),
          sv_UpdatedBy = actorOf (ls_UpdatedBy row) (ed_UpdatedByName e) (ed_UpdatedByDisplayName e) (ed_UpdatedByEmail e),
          sv_CreatedAt = ls_CreatedAt row, sv_UpdatedAt = ls_UpdatedAt row, sv_Permissions = ps\<rparr> }"

definition secretViewFromGet :: "authInfo \<Rightarrow> GetSecretRow \<Rightarrow> secretView action" where
  "secretViewFromGet auth row = secret_view auth (secret_row (fst row) (snd row))"

definition auditSecret :: "uuid option \<Rightarrow> string \<Rightarrow> string \<Rightarrow> uuid \<Rightarrow> unit action" where
  "auditSecret secretID label action userID =
     do { _ \<leftarrow> call (InsertSecretAudit secretID label action (Some userID)); ret () }"

definition respondSecret :: "server \<Rightarrow> authInfo \<Rightarrow> uuid \<Rightarrow> secretView response action" where
  "respondSecret srv auth i =
     attempt (call (single (GetSecret i))) (\<lambda>_. ret (serverError ''could not load secret'')) (\<lambda>row. do {
       v \<leftarrow> secretViewFromGet auth row;
       writeResponse srv (a_ClientPublicKey auth) v })"

section \<open>Handlers\<close>

text \<open>The transaction of \<open>handleCreateSecret\<close>.\<close>
definition createSecretTx :: "authInfo \<Rightarrow> createSecretRequest \<Rightarrow> bytes option \<times> bytes option \<times> bytes option \<Rightarrow>
    (secretView response + Secret) tx_action" where
  "createSecretTx auth req cols = (case cols of (ct, nonce, wrapped) \<Rightarrow>
     let fails = (\<lambda>_. ret (Inl (serverError ''could not create secret''))) in
     attempt (tx_call (CreateSecret (csr_Label req) (pgText (csr_URL req)) (pgText (csr_Username req))
         (pgText (csr_OTPRecipient req)) ct nonce wrapped (Some (a_UserID auth)) (Some (a_UserID auth)))) fails (\<lambda>secret.
     attempt (tx_call (InsertSecretAudit (Some (sec_ID secret)) (sec_Label secret) ''add'' (Some (a_UserID auth)))) fails (\<lambda>_.
     attempt (grantOwner (a_UserID auth) ''secret'' (sec_ID secret) [''secret.read'', ''secret.update'', ''secret.delete''])
       fails (\<lambda>_. ret (Inr secret)))))"

definition handleCreateSecret :: "server \<Rightarrow> authInfo \<Rightarrow> createSecretRequest option \<Rightarrow> secretView response action" where
  "handleCreateSecret srv auth body = (case srv_master srv of
     None \<Rightarrow> ret (HttpError 503 ''vault unavailable'')
   | Some master \<Rightarrow> do {
       ok \<leftarrow> canGlobal auth ''secret.add'';
       if \<not> ok then ret (HttpError 403 ''forbidden'')
       else (case body of None \<Rightarrow> ret (HttpError 400 ''invalid request'')
         | Some req \<Rightarrow>
           if csr_Label req = '''' then ret (HttpError 400 ''label is required'')
           else attempt (sealFields srv master req) (\<lambda>_. ret (serverError ''could not seal secret'')) (\<lambda>cols.
             with_tx (\<lambda>_. serverError ''could not create secret'') (createSecretTx auth req cols)
               (\<lambda>_. serverError ''could not create secret'') (\<lambda>secret. respondSecret srv auth (sec_ID secret)))) })"

definition handleListSecrets :: "server \<Rightarrow> authInfo \<Rightarrow> secretView list response action" where
  "handleListSecrets srv auth =
     attempt (if a_Role auth = ''admin'' then call (many (ListAllSecrets (srv_coll srv)))
              else call (many (ListReadableSecrets (srv_coll srv) (a_UserID auth))))
       (\<lambda>_. ret (serverError ''could not list secrets'')) (\<lambda>rows. do {
         views \<leftarrow> for_collect (secret_view auth) rows;
         writeResponse srv (a_ClientPublicKey auth) views })"

text \<open>What \<open>GetSecret\<close>'s errors become.\<close>
definition secret_lookup_error :: "string \<Rightarrow> dberr \<Rightarrow> 'v response" where
  "secret_lookup_error msg e = (if e = ErrNoRows then HttpError 404 ''secret not found'' else serverError msg)"

definition handleGetSecret :: "server \<Rightarrow> authInfo \<Rightarrow> string \<Rightarrow> secretView response action" where
  "handleGetSecret srv auth idParam = (case parseUUID srv idParam of
     None \<Rightarrow> ret (HttpError 400 ''invalid secret id'')
   | Some secretID \<Rightarrow> do {
       ok \<leftarrow> canSecret auth ''secret.read'' secretID;
       if \<not> ok then ret (HttpError 403 ''forbidden'')
       else attempt (call (single (GetSecret secretID)))
         (\<lambda>e. ret (secret_lookup_error ''could not read secret'' e)) (\<lambda>row. do {
           v \<leftarrow> secretViewFromGet auth row;
           writeResponse srv (a_ClientPublicKey auth) v }) })"

definition handleRevealSecret :: "server \<Rightarrow> authInfo \<Rightarrow> string \<Rightarrow> secretDetailView response action" where
  "handleRevealSecret srv auth idParam = (case srv_master srv of
     None \<Rightarrow> ret (HttpError 503 ''vault unavailable'')
   | Some master \<Rightarrow> (case parseUUID srv idParam of
       None \<Rightarrow> ret (HttpError 400 ''invalid secret id'')
     | Some secretID \<Rightarrow> do {
         ok \<leftarrow> canSecret auth ''secret.read'' secretID;
         if \<not> ok then ret (HttpError 403 ''forbidden'')
         else attempt (call (single (GetSecret secretID)))
           (\<lambda>e. ret (secret_lookup_error ''could not read secret'' e)) (\<lambda>row.
             let s = fst row in
             case openFields srv master (sec_Ciphertext s) (sec_Nonce s) (sec_WrappedKey s) of
               None \<Rightarrow> ret (serverError ''could not open secret'')
             | Some f \<Rightarrow> do {
                 auditSecret (Some (sec_ID s)) (sec_Label s) ''read'' (a_UserID auth);
                 v \<leftarrow> secretViewFromGet auth row;
                 writeResponse srv (a_ClientPublicKey auth)
                   (secretView.extend v \<lparr>sdv_Password = sf_Password f, sdv_Notes = sf_Notes f\<rparr>) }) }))"

definition handleUpdateSecret :: "server \<Rightarrow> authInfo \<Rightarrow> string \<Rightarrow> createSecretRequest option \<Rightarrow> secretView response action" where
  "handleUpdateSecret srv auth idParam body = (case srv_master srv of
     None \<Rightarrow> ret (HttpError 503 ''vault unavailable'')
   | Some master \<Rightarrow> (case parseUUID srv idParam of
       None \<Rightarrow> ret (HttpError 400 ''invalid secret id'')
     | Some secretID \<Rightarrow> do {
         ok \<leftarrow> canSecret auth ''secret.update'' secretID;
         if \<not> ok then ret (HttpError 403 ''forbidden'')
         else (case body of None \<Rightarrow> ret (HttpError 400 ''invalid request'')
           | Some req \<Rightarrow>
             if csr_Label req = '''' then ret (HttpError 400 ''label is required'')
             else attempt (sealFields srv master req) (\<lambda>_. ret (serverError ''could not seal secret''))
               (\<lambda>(ct, nonce, wrapped).
               attempt (call (UpdateSecret secretID (csr_Label req) (pgText (csr_URL req)) (pgText (csr_Username req))
                   (pgText (csr_OTPRecipient req)) ct nonce wrapped (Some (a_UserID auth))))
                 (\<lambda>e. ret (secret_lookup_error ''could not update secret'' e)) (\<lambda>secret. do {
                   auditSecret (Some (sec_ID secret)) (sec_Label secret) ''update'' (a_UserID auth);
                   respondSecret srv auth (sec_ID secret) }))) }))"

definition handleDeleteSecret :: "server \<Rightarrow> authInfo \<Rightarrow> string \<Rightarrow> unit response action" where
  "handleDeleteSecret srv auth idParam = (case parseUUID srv idParam of
     None \<Rightarrow> ret (HttpError 400 ''invalid secret id'')
   | Some secretID \<Rightarrow> do {
       ok \<leftarrow> canSecret auth ''secret.delete'' secretID;
       if \<not> ok then ret (HttpError 403 ''forbidden'')
       else attempt (call (single (GetSecret secretID)))
         (\<lambda>e. ret (secret_lookup_error ''could not delete secret'' e)) (\<lambda>row.
         attempt (call (DeleteSecret secretID)) (\<lambda>_. ret (serverError ''could not delete secret'')) (\<lambda>_. do {
           auditSecret None (sec_Label (fst row)) ''delete'' (a_UserID auth);
           ret (Status 204) })) })"

section \<open>The audit feeds\<close>

definition auditFeedLimit :: nat where "auditFeedLimit = 100"

definition audit_entry :: "ListSecretAuditRow \<Rightarrow> auditEntry" where
  "audit_entry a = \<lparr>aen_ID = uuidString (Some (lsa_ID a)), aen_Action = lsa_Action a, aen_At = lsa_At a,
     aen_SecretID = uuidString (lsa_SecretID a), aen_SecretName = lsa_SecretName a,
     aen_UserID = uuidString (lsa_UserID a), aen_UserEmail = textString (lsa_UserEmail a),
     aen_UserName = textString (lsa_UserName a), aen_UserDisplayName = textString (lsa_UserDisplayName a)\<rparr>"

definition handleSecretAudit :: "server \<Rightarrow> authInfo \<Rightarrow> string \<Rightarrow> auditEntry list response action" where
  "handleSecretAudit srv auth idParam = (case parseUUID srv idParam of
     None \<Rightarrow> ret (HttpError 400 ''invalid secret id'')
   | Some secretID \<Rightarrow> do {
       ok \<leftarrow> canSecret auth ''secret.read'' secretID;
       if \<not> ok then ret (HttpError 403 ''forbidden'')
       else attempt (call (many (ListSecretAudit secretID))) (\<lambda>_. ret (serverError ''could not load audit''))
         (\<lambda>rows. writeResponse srv (a_ClientPublicKey auth) (map audit_entry rows)) })"

definition handleAllAudit :: "server \<Rightarrow> authInfo \<Rightarrow> auditEntry list response action" where
  "handleAllAudit srv auth = attempt (call (many (ListAllSecretAudit auditFeedLimit)))
     (\<lambda>_. ret (serverError ''could not load audit''))
     (\<lambda>rows. writeResponse srv (a_ClientPublicKey auth) (map audit_entry rows))"

section \<open>Handlers keep the schema and the history\<close>

lemma eff_sealFields [eff]: "state_io_rel world_read (sealFields srv m req)"
  unfolding sealFields_def Let_def by (intro eff)

lemmas eff_sealFields_step [eff] = eff_sealFields [THEN eff_weaken]

lemma eff_secret_view [eff]: "state_io_rel world_read (secret_view auth row)"
  unfolding secret_view_def Let_def by (intro eff)

lemma eff_secretViewFromGet [eff]: "state_io_rel world_read (secretViewFromGet auth g)"
  unfolding secretViewFromGet_def by (intro eff)

lemma eff_respondSecret [eff]: "state_io_rel world_read (respondSecret srv auth i)"
  unfolding respondSecret_def by (intro eff)

lemmas eff_secret_views_step [eff] = eff_secret_view [THEN eff_weaken]
  eff_secretViewFromGet [THEN eff_weaken] eff_respondSecret [THEN eff_weaken]

lemma eff_auditSecret [eff]: "state_io_rel world_step (auditSecret i l a u)"
  unfolding auditSecret_def by (intro eff db_steps)

lemma eff_secret_reads [eff]:
  "state_io_rel world_read (handleListSecrets srv auth)"
  "state_io_rel world_read (handleGetSecret srv auth i)"
  "state_io_rel world_read (handleSecretAudit srv auth i)"
  "state_io_rel world_read (handleAllAudit srv auth)"
  unfolding handleListSecrets_def handleGetSecret_def handleSecretAudit_def handleAllAudit_def
  by (intro eff)+

lemma eff_createSecretTx [eff]: "state_io_rel tx_step (createSecretTx auth req cols)"
  unfolding createSecretTx_def Let_def by (intro eff db_steps)

lemma eff_secret_writes [eff]:
  "state_io_rel world_step (handleCreateSecret srv auth body)"
  "state_io_rel world_step (handleRevealSecret srv auth i)"
  "state_io_rel world_step (handleUpdateSecret srv auth i body)"
  "state_io_rel world_step (handleDeleteSecret srv auth i)"
  unfolding handleCreateSecret_def handleRevealSecret_def handleUpdateSecret_def handleDeleteSecret_def Let_def
  by (intro eff db_steps)+

end
