(* ===== verification/Secret_Sets.thy ===== *)
theory Secret_Sets
  imports Secrets Set_Protocol
begin

text \<open>
  \<open>internal/controlplane/secret_sets.go\<close>: sets of environment values that are bound to hosts. Each
  value is sealed at rest; the bundle of a host is opened, marshalled, sealed to the host's key,
  stamped and signed, and pushed to its live connection whenever a set it is bound to changes.
\<close>

record setEntryInput =
  sei_Key :: string
  sei_Value :: string

record createSetRequest =
  cst_Name :: string
  cst_Entries :: "setEntryInput list"

record updateSetRequest =
  ust_Name :: string

record setView =
  stv_ID :: string
  stv_Name :: string
  stv_Keys :: "string list"
  stv_CreatedAt :: time
  stv_UpdatedAt :: time
  stv_Permissions :: "string list"

record setListView =
  slv_ID :: string
  slv_Name :: string
  slv_KeyCount :: int
  slv_CreatedAt :: time
  slv_UpdatedAt :: time
  slv_Permissions :: "string list"

record setHostView = hostView +
  shv_AsUser :: string
  shv_BoundAt :: time

text \<open>The anonymous request struct of \<open>handleBindSet\<close>.\<close>
record bindSetRequest =
  bsr_SetID :: string
  bsr_AsUser :: string

record setAuditView =
  sav_Action :: string
  sav_SetName :: string
  sav_EntryKey :: string
  sav_HostID :: string
  sav_Actor :: string
  sav_ActorEmail :: string
  sav_ActorName :: string
  sav_ActorDisplayName :: string
  sav_At :: time

section \<open>Entries\<close>

text \<open>The error text, if any; \<open>seen\<close> are the keys so far.\<close>
fun validate_from :: "string list \<Rightarrow> setEntryInput list \<Rightarrow> string option" where
  "validate_from seen [] = None"
| "validate_from seen (e # es) =
     (if sei_Key e = '''' then Some ''entry key is required''
      else if sei_Key e \<in> set seen then Some (''duplicate key: '' @ sei_Key e)
      else validate_from (sei_Key e # seen) es)"

definition validateEntries :: "setEntryInput list \<Rightarrow> string option" where
  "validateEntries entries = validate_from [] entries"

definition entryKeys :: "setEntryInput list \<Rightarrow> string list" where
  "entryKeys entries = map sei_Key entries"

definition sealEntries :: "server \<Rightarrow> bytes \<Rightarrow> uuid \<Rightarrow> setEntryInput list \<Rightarrow> (dberr + unit) tx_action" where
  "sealEntries srv master setID entries = for_until_err (\<lambda>e.
     attempt (outside (vaultSeal srv master (sei_Value e))) (\<lambda>x. ret (Inl x)) (\<lambda>s.
     attempt (tx_call (CreateSetEntry setID (sei_Key e) (sd_Ciphertext s) (sd_Nonce s) (sd_WrappedKey s)))
       (\<lambda>x. ret (Inl x)) (\<lambda>_. ret (Inr ())))) entries"

section \<open>The bundle of a host\<close>

text \<open>The values of one set: the map its entries are decrypted into.\<close>
fun open_entries :: "server \<Rightarrow> bytes \<Rightarrow> SecretSetEntry list \<Rightarrow> str_map \<Rightarrow> str_map option" where
  "open_entries srv master [] m = Some m"
| "open_entries srv master (e # es) m =
     (case vault_Open (srv_gcm srv) master
         \<lparr>sd_Ciphertext = se_Ciphertext e, sd_Nonce = se_Nonce e, sd_WrappedKey = se_WrappedKey e\<rparr> of
        None \<Rightarrow> None
      | Some val \<Rightarrow> open_entries srv master es (map_put (se_Key e) val m))"

text \<open>One turn of the loop of \<open>buildSecretSets\<close>.\<close>
definition build_set :: "server \<Rightarrow> bytes \<Rightarrow> SetsForHostRow \<Rightarrow> (dberr + SecretSet_msg) action" where
  "build_set srv master row =
     attempt (call (many (GetSetEntries (srv_coll srv) (sfh_ID row)))) (\<lambda>e. ret (Inl e)) (\<lambda>entries.
       case open_entries srv master entries [] of
         None \<Rightarrow> ret (Inl ConnFault)
       | Some values \<Rightarrow> ret (Inr \<lparr>set_Name = sfh_Name row, set_AsUser = textString (sfh_AsUser row),
                              set_Version = of_int (sfh_UpdatedAt row), set_Values = values\<rparr>))"

fun build_sets :: "server \<Rightarrow> bytes \<Rightarrow> SetsForHostRow list \<Rightarrow> (dberr + SecretSet_msg list) action" where
  "build_sets srv master [] = ret (Inr [])"
| "build_sets srv master (row # rows) =
     attempt (build_set srv master row) (\<lambda>e. ret (Inl e)) (\<lambda>s.
     attempt (build_sets srv master rows) (\<lambda>e. ret (Inl e)) (\<lambda>ss. ret (Inr (s # ss))))"

definition buildSecretSets :: "server \<Rightarrow> Host \<Rightarrow> (dberr + SecretSets) action" where
  "buildSecretSets srv host = (case srv_master srv of None \<Rightarrow> ret (Inr \<lparr>sets_Sets = None\<rparr>)
   | Some master \<Rightarrow>
       attempt (call (many (SetsForHost (srv_coll srv) (h_ID host)))) (\<lambda>e. ret (Inl e)) (\<lambda>rows.
       attempt (build_sets srv master rows) (\<lambda>e. ret (Inl e)) (\<lambda>ss. ret (Inr \<lparr>sets_Sets = Some ss\<rparr>))))"

text \<open>The signed envelope of a sealed bundle at a sequence number.\<close>
definition signed_sets :: "server \<Rightarrow> bytes \<Rightarrow> uuid \<Rightarrow> int \<Rightarrow> bytes \<Rightarrow> Envelope" where
  "signed_sets srv priv hostID seq data = (let s = of_int seq :: 64 word in
     \<lparr>env_Type = TypeSecretSets, env_Data = data, env_Seq = s,
      env_Sig = ident_Sign (srv_ed srv) priv (SecretSetsSigningInput (uuidString (Some hostID)) s data)\<rparr>)"

definition secretSetsEnvelope :: "server \<Rightarrow> Host \<Rightarrow> SecretSets \<Rightarrow> (dberr + Envelope) action" where
  "secretSetsEnvelope srv host sets = (case b64_decode (h_EncryptionKey host) of
     None \<Rightarrow> ret (Inl ConnFault)
   | Some recipient \<Rightarrow>
       attempt (hybridSeal srv recipient (marshal_sets sets)) (\<lambda>e. ret (Inl e)) (\<lambda>sealed.
         let data = marshal_sealed sealed in
         case srv_signer srv of
           None \<Rightarrow> ret (Inr \<lparr>env_Type = TypeSecretSets, env_Data = data, env_Seq = 0, env_Sig = ''''\<rparr>)
         | Some priv \<Rightarrow> attempt (call (NextHostSetSeq (h_ID host))) (\<lambda>e. ret (Inl e))
             (\<lambda>seq. ret (Inr (signed_sets srv priv (h_ID host) seq data)))))"

definition pushSecretSets :: "server \<Rightarrow> uuid \<Rightarrow> unit action" where
  "pushSecretSets srv hostID =
     attempt (call (single (GetHostByID hostID))) (\<lambda>_. ret ()) (\<lambda>host.
       if h_EncryptionKey host = '''' then ret ()
       else attempt (buildSecretSets srv host) (\<lambda>_. ret ()) (\<lambda>sets.
            attempt (secretSetsEnvelope srv host sets) (\<lambda>_. ret ()) (\<lambda>env.
            on_hub (push (uuidString (Some hostID)) env))))"

definition pushSetToHosts :: "server \<Rightarrow> uuid \<Rightarrow> unit action" where
  "pushSetToHosts srv setID = attempt (call (many (HostsForSet setID))) (\<lambda>_. ret ())
     (\<lambda>hs. for_each (pushSecretSets srv) hs)"

section \<open>Creating, reading and renaming\<close>

definition set_view :: "authInfo \<Rightarrow> SecretSet \<Rightarrow> string list \<Rightarrow> setView action" where
  "set_view auth s keys = do {
     ps \<leftarrow> setPermissions auth (ss_ID s);
     ret \<lparr>stv_ID = uuidString (Some (ss_ID s)), stv_Name = ss_Name s, stv_Keys = keys,
          stv_CreatedAt = ss_CreatedAt s, stv_UpdatedAt = ss_UpdatedAt s, stv_Permissions = ps\<rparr> }"

text \<open>What \<open>GetSet\<close>'s errors become.\<close>
definition set_lookup_error :: "string \<Rightarrow> dberr \<Rightarrow> 'v response" where
  "set_lookup_error msg e = (if e = ErrNoRows then HttpError 404 ''set not found'' else serverError msg)"

text \<open>The transaction of \<open>handleCreateSet\<close>.\<close>
definition createSetTx :: "server \<Rightarrow> bytes \<Rightarrow> authInfo \<Rightarrow> createSetRequest \<Rightarrow> (setView response + SecretSet) tx_action" where
  "createSetTx srv master auth req = (let fails = (\<lambda>_. ret (Inl (serverError ''could not create set''))) in
     attempt (tx_call (CreateSet (cst_Name req) (Some (a_UserID auth))))
       (\<lambda>e. ret (Inl (if isUniqueViolation e then HttpError 409 ''a set with that name already exists''
                      else serverError ''could not create set''))) (\<lambda>s.
     attempt (sealEntries srv master (ss_ID s) (cst_Entries req))
       (\<lambda>_. ret (Inl (serverError ''could not seal entries''))) (\<lambda>_.
     attempt (tx_call (InsertSetAudit (Some (ss_ID s)) (ss_Name s) None None ''create'' (Some (a_UserID auth)))) fails (\<lambda>_.
     attempt (grantOwner (a_UserID auth) ''set'' (ss_ID s) [''set.read'', ''set.manage'']) fails
       (\<lambda>_. ret (Inr s))))))"

definition handleCreateSet :: "server \<Rightarrow> authInfo \<Rightarrow> createSetRequest option \<Rightarrow> setView response action" where
  "handleCreateSet srv auth body = (case srv_master srv of
     None \<Rightarrow> ret (HttpError 503 ''vault unavailable'')
   | Some master \<Rightarrow> do {
       ok \<leftarrow> canGlobal auth ''set.add'';
       if \<not> ok then ret (HttpError 403 ''forbidden'')
       else (case body of None \<Rightarrow> ret (HttpError 400 ''invalid request'')
         | Some req \<Rightarrow>
           if cst_Name req = '''' then ret (HttpError 400 ''name is required'')
           else (case validateEntries (cst_Entries req) of Some msg \<Rightarrow> ret (HttpError 400 msg)
             | None \<Rightarrow>
               with_tx (\<lambda>_. serverError ''could not create set'') (createSetTx srv master auth req)
                 (\<lambda>_. serverError ''could not create set'') (\<lambda>s. do {
                   v \<leftarrow> set_view auth s (entryKeys (cst_Entries req));
                   writeResponse srv (a_ClientPublicKey auth) v }))) })"

text \<open>One turn of the loops of \<open>handleListSets\<close>.\<close>
definition set_list_view :: "authInfo \<Rightarrow> ListSetsRow \<Rightarrow> setListView action" where
  "set_list_view auth row = do {
     ps \<leftarrow> setPermissions auth (lset_ID row);
     ret \<lparr>slv_ID = uuidString (Some (lset_ID row)), slv_Name = lset_Name row, slv_KeyCount = lset_KeyCount row,
          slv_CreatedAt = lset_CreatedAt row, slv_UpdatedAt = lset_UpdatedAt row, slv_Permissions = ps\<rparr> }"

definition handleListSets :: "server \<Rightarrow> authInfo \<Rightarrow> setListView list response action" where
  "handleListSets srv auth =
     attempt (if a_Role auth = ''admin'' then call (many (ListSets (srv_coll srv)))
              else call (many (ListReadableSets (srv_coll srv) (a_UserID auth))))
       (\<lambda>_. ret (serverError ''could not list sets'')) (\<lambda>rows. do {
         views \<leftarrow> for_collect (set_list_view auth) rows;
         writeResponse srv (a_ClientPublicKey auth) views })"

definition handleGetSet :: "server \<Rightarrow> authInfo \<Rightarrow> string \<Rightarrow> setView response action" where
  "handleGetSet srv auth idParam = (case parseUUID srv idParam of
     None \<Rightarrow> ret (HttpError 400 ''invalid set id'')
   | Some setID \<Rightarrow> do {
       ok \<leftarrow> canSet auth ''set.read'' setID;
       if \<not> ok then ret (HttpError 403 ''forbidden'')
       else attempt (call (single (GetSet setID))) (\<lambda>e. ret (set_lookup_error ''could not load set'' e)) (\<lambda>s.
            attempt (call (many (ListSetKeys (srv_coll srv) setID))) (\<lambda>_. ret (serverError ''could not load set'')) (\<lambda>keys. do {
              v \<leftarrow> set_view auth s keys;
              writeResponse srv (a_ClientPublicKey auth) v })) })"

text \<open>One turn of the loop of \<open>handleListSetHosts\<close>.\<close>
definition set_host_view :: "authInfo \<Rightarrow> ListHostsForSetRow \<Rightarrow> setHostView action" where
  "set_host_view auth h = do {
     v \<leftarrow> host_view auth (ListHostsRow.truncate h);
     ret (hostView.extend v \<lparr>shv_AsUser = textString (lhs_AsUser h), shv_BoundAt = lhs_BoundAt h\<rparr>) }"

definition handleListSetHosts :: "server \<Rightarrow> authInfo \<Rightarrow> string \<Rightarrow> setHostView list response action" where
  "handleListSetHosts srv auth idParam = (case parseUUID srv idParam of
     None \<Rightarrow> ret (HttpError 400 ''invalid set id'')
   | Some setID \<Rightarrow> do {
       ok \<leftarrow> canSet auth ''set.read'' setID;
       if \<not> ok then ret (HttpError 403 ''forbidden'')
       else attempt (call (single (GetSet setID))) (\<lambda>e. ret (set_lookup_error ''could not load set'' e)) (\<lambda>_.
            attempt (call (many (ListHostsForSet (srv_coll srv) setID)))
              (\<lambda>_. ret (serverError ''could not list set hosts'')) (\<lambda>rows. do {
              views \<leftarrow> for_collect (set_host_view auth) rows;
              writeResponse srv (a_ClientPublicKey auth) views })) })"

text \<open>The transaction of \<open>handleUpdateSet\<close>.\<close>
definition updateSetTx :: "authInfo \<Rightarrow> uuid \<Rightarrow> string \<Rightarrow> (setView response + SecretSet) tx_action" where
  "updateSetTx auth setID name =
     attempt (tx_call (UpdateSetName setID name))
       (\<lambda>e. ret (Inl (if isUniqueViolation e then HttpError 409 ''a set with that name already exists''
                      else serverError ''could not update set''))) (\<lambda>updated.
     attempt (tx_call (InsertSetAudit (Some (ss_ID updated)) (ss_Name updated) None None ''rename'' (Some (a_UserID auth))))
       (\<lambda>_. ret (Inl (serverError ''could not update set''))) (\<lambda>_. ret (Inr updated)))"

definition handleUpdateSet :: "server \<Rightarrow> authInfo \<Rightarrow> string \<Rightarrow> updateSetRequest option \<Rightarrow> setView response action" where
  "handleUpdateSet srv auth idParam body = (case parseUUID srv idParam of
     None \<Rightarrow> ret (HttpError 400 ''invalid set id'')
   | Some setID \<Rightarrow> do {
       ok \<leftarrow> canSet auth ''set.manage'' setID;
       if \<not> ok then ret (HttpError 403 ''forbidden'')
       else (case body of None \<Rightarrow> ret (HttpError 400 ''invalid request'')
         | Some req \<Rightarrow>
           if ust_Name req = '''' then ret (HttpError 400 ''name is required'')
           else attempt (call (single (GetSet setID))) (\<lambda>e. ret (set_lookup_error ''could not load set'' e)) (\<lambda>_.
             with_tx (\<lambda>_. serverError ''could not update set'') (updateSetTx auth setID (ust_Name req))
               (\<lambda>_. serverError ''could not update set'') (\<lambda>updated. do {
                 pushSetToHosts srv setID;
                 attempt (call (many (ListSetKeys (srv_coll srv) setID)))
                   (\<lambda>_. ret (serverError ''could not update set'')) (\<lambda>keys. do {
                   v \<leftarrow> set_view auth updated keys;
                   writeResponse srv (a_ClientPublicKey auth) v }) }))) })"

section \<open>Deleting and binding\<close>

text \<open>The transaction of \<open>handleDeleteSet\<close>.\<close>
definition deleteSetTx :: "authInfo \<Rightarrow> uuid \<Rightarrow> SecretSet \<Rightarrow> (unit response + unit) tx_action" where
  "deleteSetTx auth setID s = (let fails = (\<lambda>_. ret (Inl (serverError ''could not delete set''))) in
     attempt (tx_call (DeleteSet setID)) fails (\<lambda>_.
     attempt (tx_call (InsertSetAudit (Some (ss_ID s)) (ss_Name s) None None ''delete'' (Some (a_UserID auth))))
       fails (\<lambda>_. ret (Inr ()))))"

definition handleDeleteSet :: "server \<Rightarrow> authInfo \<Rightarrow> string \<Rightarrow> unit response action" where
  "handleDeleteSet srv auth idParam = (case parseUUID srv idParam of
     None \<Rightarrow> ret (HttpError 400 ''invalid set id'')
   | Some setID \<Rightarrow> do {
       ok \<leftarrow> canSet auth ''set.manage'' setID;
       if \<not> ok then ret (HttpError 403 ''forbidden'')
       else attempt (call (single (GetSet setID))) (\<lambda>e. ret (set_lookup_error ''could not delete set'' e)) (\<lambda>s. do {
         hs \<leftarrow> call (many (HostsForSet setID));
         with_tx (\<lambda>_. serverError ''could not delete set'') (deleteSetTx auth setID s)
           (\<lambda>_. serverError ''could not delete set'') (\<lambda>_. do {
             for_each (pushSecretSets srv) (or_nil hs);
             ret (Status 204) }) }) })"

text \<open>\<open>!s.canSet(set.read) || !s.canHost(host.access)\<close>: the second check only after the first.\<close>
definition may_bind :: "authInfo \<Rightarrow> uuid \<Rightarrow> uuid \<Rightarrow> bool action" where
  "may_bind auth setID hostID = do {
     a \<leftarrow> canSet auth ''set.read'' setID;
     if \<not> a then ret False else canHost auth ''host.access'' hostID }"

text \<open>The transaction of \<open>handleBindSet\<close>.\<close>
definition bindSetTx :: "authInfo \<Rightarrow> uuid \<Rightarrow> uuid \<Rightarrow> SecretSet \<Rightarrow> string \<Rightarrow> (unit response + unit) tx_action" where
  "bindSetTx auth hostID setID s asUser = (let fails = (\<lambda>_. ret (Inl (serverError ''could not bind set''))) in
     attempt (tx_call (BindSet hostID setID (pgText asUser) (Some (a_UserID auth)))) fails (\<lambda>_.
     attempt (tx_call (InsertSetAudit (Some setID) (ss_Name s) None (Some hostID) ''deliver'' (Some (a_UserID auth))))
       fails (\<lambda>_. ret (Inr ()))))"

definition handleBindSet :: "server \<Rightarrow> authInfo \<Rightarrow> string \<Rightarrow> bindSetRequest option \<Rightarrow> unit response action" where
  "handleBindSet srv auth idParam body = (case parseUUID srv idParam of
     None \<Rightarrow> ret (HttpError 400 ''invalid host id'')
   | Some hostID \<Rightarrow> (case body of None \<Rightarrow> ret (HttpError 400 ''invalid request'')
     | Some req \<Rightarrow> (case parseUUID srv (bsr_SetID req) of
         None \<Rightarrow> ret (HttpError 400 ''invalid set_id'')
       | Some setID \<Rightarrow> do {
           ok \<leftarrow> may_bind auth setID hostID;
           if \<not> ok then ret (HttpError 403 ''forbidden'')
           else attempt (call (single (GetSet setID))) (\<lambda>e. ret (set_lookup_error ''could not bind set'' e)) (\<lambda>s.
             with_tx (\<lambda>_. serverError ''could not bind set'') (bindSetTx auth hostID setID s (bsr_AsUser req))
               (\<lambda>_. serverError ''could not bind set'') (\<lambda>_. do {
                 pushSecretSets srv hostID;
                 ret (Status 204) })) })))"

definition handleUnbindSet :: "server \<Rightarrow> authInfo \<Rightarrow> string \<Rightarrow> string \<Rightarrow> unit response action" where
  "handleUnbindSet srv auth idParam setParam = (case parseUUID srv idParam of
     None \<Rightarrow> ret (HttpError 400 ''invalid host id'')
   | Some hostID \<Rightarrow> (case parseUUID srv setParam of
       None \<Rightarrow> ret (HttpError 400 ''invalid set id'')
     | Some setID \<Rightarrow> do {
         ok \<leftarrow> may_bind auth setID hostID;
         if \<not> ok then ret (HttpError 403 ''forbidden'')
         else attempt (call (UnbindSet hostID setID)) (\<lambda>_. ret (serverError ''could not unbind set'')) (\<lambda>n.
           if n = 0 then ret (HttpError 404 ''binding not found'')
           else do { pushSecretSets srv hostID; ret (Status 204) }) }))"

section \<open>Single entries\<close>

text \<open>The transaction of \<open>handleUpsertSetEntry\<close>.\<close>
definition upsertEntryTx :: "authInfo \<Rightarrow> uuid \<Rightarrow> SecretSet \<Rightarrow> string \<Rightarrow> Sealed \<Rightarrow> (unit response + unit) tx_action" where
  "upsertEntryTx auth setID s key sealed = (let fails = (\<lambda>_. ret (Inl (serverError ''could not update entry''))) in
     attempt (tx_call (UpsertSetEntry setID key (sd_Ciphertext sealed) (sd_Nonce sealed) (sd_WrappedKey sealed))) fails (\<lambda>_.
     attempt (tx_call (TouchSet setID)) fails (\<lambda>_.
     attempt (tx_call (InsertSetAudit (Some setID) (ss_Name s) (pgText key) None ''edit'' (Some (a_UserID auth))))
       fails (\<lambda>_. ret (Inr ())))))"

definition handleUpsertSetEntry :: "server \<Rightarrow> authInfo \<Rightarrow> string \<Rightarrow> string \<Rightarrow> string option \<Rightarrow> unit response action" where
  "handleUpsertSetEntry srv auth idParam key body = (case srv_master srv of
     None \<Rightarrow> ret (HttpError 503 ''vault unavailable'')
   | Some master \<Rightarrow> (case parseUUID srv idParam of
       None \<Rightarrow> ret (HttpError 400 ''invalid set id'')
     | Some setID \<Rightarrow>
       if key = '''' then ret (HttpError 400 ''key is required'')
       else do {
         ok \<leftarrow> canSet auth ''set.manage'' setID;
         if \<not> ok then ret (HttpError 403 ''forbidden'')
         else attempt (call (single (GetSet setID))) (\<lambda>e. ret (set_lookup_error ''could not load set'' e)) (\<lambda>s.
           case body of None \<Rightarrow> ret (HttpError 400 ''invalid request'')
           | Some val \<Rightarrow> attempt (vaultSeal srv master val) (\<lambda>_. ret (serverError ''could not seal value'')) (\<lambda>sealed.
               with_tx (\<lambda>_. serverError ''could not update entry'') (upsertEntryTx auth setID s key sealed)
                 (\<lambda>_. serverError ''could not update entry'') (\<lambda>_. do {
                   pushSetToHosts srv setID;
                   ret (Status 204) }))) }))"

text \<open>The transaction of \<open>handleDeleteSetEntry\<close>.\<close>
definition deleteEntryTx :: "authInfo \<Rightarrow> uuid \<Rightarrow> SecretSet \<Rightarrow> string \<Rightarrow> (unit response + unit) tx_action" where
  "deleteEntryTx auth setID s key = (let fails = (\<lambda>_. ret (Inl (serverError ''could not delete entry''))) in
     attempt (tx_call (DeleteSetEntry setID key)) fails (\<lambda>n.
       if n = 0 then ret (Inl (HttpError 404 ''entry not found''))
       else attempt (tx_call (TouchSet setID)) fails (\<lambda>_.
         attempt (tx_call (InsertSetAudit (Some setID) (ss_Name s) (pgText key) None ''edit'' (Some (a_UserID auth))))
           fails (\<lambda>_. ret (Inr ())))))"

definition handleDeleteSetEntry :: "server \<Rightarrow> authInfo \<Rightarrow> string \<Rightarrow> string \<Rightarrow> unit response action" where
  "handleDeleteSetEntry srv auth idParam key = (case parseUUID srv idParam of
     None \<Rightarrow> ret (HttpError 400 ''invalid set id'')
   | Some setID \<Rightarrow> do {
       ok \<leftarrow> canSet auth ''set.manage'' setID;
       if \<not> ok then ret (HttpError 403 ''forbidden'')
       else attempt (call (single (GetSet setID))) (\<lambda>e. ret (set_lookup_error ''could not load set'' e)) (\<lambda>s.
         with_tx (\<lambda>_. serverError ''could not delete entry'') (deleteEntryTx auth setID s key)
           (\<lambda>_. serverError ''could not delete entry'') (\<lambda>_. do {
             pushSetToHosts srv setID;
             ret (Status 204) })) })"

section \<open>The audit of a set\<close>

definition set_audit_view :: "ListSetAuditRow \<Rightarrow> setAuditView" where
  "set_audit_view row = \<lparr>sav_Action = lsta_Action row, sav_SetName = lsta_SetName row,
     sav_EntryKey = textString (lsta_EntryKey row), sav_HostID = uuidString (lsta_HostID row),
     sav_Actor = uuidString (lsta_Actor row), sav_ActorEmail = textString (lsta_ActorEmail row),
     sav_ActorName = textString (lsta_ActorName row),
     sav_ActorDisplayName = textString (lsta_ActorDisplayName row), sav_At = lsta_At row\<rparr>"

definition handleSetAudit :: "server \<Rightarrow> authInfo \<Rightarrow> string \<Rightarrow> setAuditView list response action" where
  "handleSetAudit srv auth idParam = (case parseUUID srv idParam of
     None \<Rightarrow> ret (HttpError 400 ''invalid set id'')
   | Some setID \<Rightarrow> do {
       ok \<leftarrow> canSet auth ''set.read'' setID;
       if \<not> ok then ret (HttpError 403 ''forbidden'')
       else attempt (call (single (GetSet setID))) (\<lambda>e. ret (set_lookup_error ''could not load set'' e)) (\<lambda>s.
            attempt (call (many (ListSetAudit setID (ss_Name s)))) (\<lambda>_. ret (serverError ''could not load audit''))
              (\<lambda>rows. writeResponse srv (a_ClientPublicKey auth) (map set_audit_view rows))) })"

section \<open>Handlers keep the schema and the history\<close>

lemma eff_sealEntries [eff]: "state_io_rel tx_step (sealEntries srv m i es)"
  unfolding sealEntries_def by (intro eff db_steps eff_outside)

lemma eff_build_set [eff]: "state_io_rel world_read (build_set srv m row)"
  unfolding build_set_def by (intro eff)

lemma eff_build_sets [eff]: "state_io_rel world_read (build_sets srv m rows)"
  by (induction rows) (auto intro!: eff)

lemma eff_buildSecretSets [eff]: "state_io_rel world_read (buildSecretSets srv host)"
  unfolding buildSecretSets_def by (intro eff)

lemmas eff_buildSecretSets_step [eff] = eff_buildSecretSets [THEN eff_weaken]

lemma eff_secretSetsEnvelope [eff]: "state_io_rel world_step (secretSetsEnvelope srv host ss)"
  unfolding secretSetsEnvelope_def Let_def by (intro eff db_steps)

lemma eff_pushSecretSets [eff]: "state_io_rel world_step (pushSecretSets srv h)"
  unfolding pushSecretSets_def by (intro eff db_steps)

lemma eff_pushSetToHosts [eff]: "state_io_rel world_step (pushSetToHosts srv s)"
  unfolding pushSetToHosts_def by (intro eff db_steps)

lemma eff_set_views [eff]:
  "state_io_rel world_read (set_view auth s ks)" "state_io_rel world_read (set_list_view auth row)"
  "state_io_rel world_read (set_host_view auth h)" "state_io_rel world_read (may_bind auth i j)"
  unfolding set_view_def set_list_view_def set_host_view_def may_bind_def by (intro eff)+

lemmas eff_set_views_step [eff] = eff_set_views [THEN eff_weaken]

lemma eff_set_reads [eff]:
  "state_io_rel world_read (handleListSets srv auth)" "state_io_rel world_read (handleGetSet srv auth i)"
  "state_io_rel world_read (handleListSetHosts srv auth i)" "state_io_rel world_read (handleSetAudit srv auth i)"
  unfolding handleListSets_def handleGetSet_def handleListSetHosts_def handleSetAudit_def by (intro eff)+

lemma eff_set_txs [eff]:
  "state_io_rel tx_step (createSetTx srv m auth req)" "state_io_rel tx_step (updateSetTx auth i n)"
  "state_io_rel tx_step (deleteSetTx auth i s)" "state_io_rel tx_step (bindSetTx auth h i s u)"
  "state_io_rel tx_step (upsertEntryTx auth i s k b)" "state_io_rel tx_step (deleteEntryTx auth i s k)"
  unfolding createSetTx_def updateSetTx_def deleteSetTx_def bindSetTx_def upsertEntryTx_def deleteEntryTx_def Let_def
  by (intro eff db_steps)+

lemma eff_set_writes [eff]:
  "state_io_rel world_step (handleCreateSet srv auth creq)"
  "state_io_rel world_step (handleUpdateSet srv auth i ureq)"
  "state_io_rel world_step (handleDeleteSet srv auth i)"
  "state_io_rel world_step (handleBindSet srv auth i breq)"
  "state_io_rel world_step (handleUnbindSet srv auth i j)"
  "state_io_rel world_step (handleUpsertSetEntry srv auth i k v)"
  "state_io_rel world_step (handleDeleteSetEntry srv auth i k)"
  unfolding handleCreateSet_def handleUpdateSet_def handleDeleteSet_def handleBindSet_def
    handleUnbindSet_def handleUpsertSetEntry_def handleDeleteSetEntry_def
  by (intro eff db_steps)+

end
