(* ===== verification/Resource_Groups.thy ===== *)
theory Resource_Groups
  imports Secret_Sets
begin

text \<open>
  \<open>internal/controlplane/groups.go\<close>: groups of hosts, secrets and sets. A grant on a group holds
  for what is in it, so a change of a group's hosts pushes their snapshots.
\<close>

record createGroupRequest =
  cgq_Name :: string
  cgq_Description :: string

record updateGroupRequest =
  ugq_Name :: string
  ugq_Description :: string

record groupView =
  grv_ID :: string
  grv_Name :: string
  grv_Description :: string
  grv_CreatedAt :: time
  grv_Permissions :: "string list"

record groupResourceView =
  grr_ResourceKind :: string
  grr_ResourceID :: string
  grr_AddedAt :: time
  grr_DisplayName :: string
  grr_Host :: "hostView option"
  grr_Secret :: "secretView option"
  grr_Set :: "setListView option"

record groupDetailView = groupView +
  gdv_Resources :: "groupResourceView list"

record groupMemberGrantView =
  gmg_ID :: string
  gmg_Permission :: string
  gmg_GrantedAt :: time

record groupMemberView =
  gmv_UserID :: string
  gmv_Email :: string
  gmv_Name :: string
  gmv_DisplayName :: string
  gmv_Role :: string
  gmv_Status :: string
  gmv_Permissions :: "string list"
  gmv_Grants :: "groupMemberGrantView list"

text \<open>The anonymous request struct of the two membership handlers.\<close>
record groupResourceRequest =
  grq_ResourceKind :: string
  grq_ResourceID :: string

section \<open>Views\<close>

definition toGroupView :: "authInfo \<Rightarrow> ResourceGroup \<Rightarrow> groupView action" where
  "toGroupView auth g = do {
     ps \<leftarrow> groupPermissions auth (rg_ID g);
     ret \<lparr>grv_ID = uuidString (Some (rg_ID g)), grv_Name = rg_Name g, grv_Description = rg_Description g,
          grv_CreatedAt = rg_CreatedAt g, grv_Permissions = ps\<rparr> }"

text \<open>The secret's view without its editors.\<close>
definition group_secret_view :: "authInfo \<Rightarrow> Secret \<Rightarrow> secretView action" where
  "group_secret_view auth s = do {
     ps \<leftarrow> secretPermissions auth (sec_ID s);
     ret \<lparr>sv_ID = uuidString (Some (sec_ID s)), sv_Label = sec_Label s, sv_URL = textString (sec_Url s),
          sv_Username = textString (sec_Username s), sv_OTPRecipient = textString (sec_OtpRecipient s),
          sv_CreatedBy = None, sv_UpdatedBy = None, sv_CreatedAt = sec_CreatedAt s,
          sv_UpdatedAt = sec_UpdatedAt s, sv_Permissions = ps\<rparr> }"

definition toGroupResourceView :: "authInfo \<Rightarrow> ListGroupResourcesRow \<Rightarrow> groupResourceView action" where
  "toGroupResourceView auth row =
     (let view = \<lparr>grr_ResourceKind = lgr_ResourceKind row, grr_ResourceID = uuidString (Some (lgr_ResourceID row)),
                  grr_AddedAt = lgr_AddedAt row, grr_DisplayName = '''', grr_Host = None, grr_Secret = None,
                  grr_Set = None\<rparr> in
      if lgr_ResourceKind row = ''host'' then
        (case lgr_Host row of None \<Rightarrow> ret view
         | Some h \<Rightarrow> do { v \<leftarrow> host_view auth h; ret (view\<lparr>grr_DisplayName := lh_Name h, grr_Host := Some v\<rparr>) })
      else if lgr_ResourceKind row = ''secret'' then
        (case lgr_Secret row of None \<Rightarrow> ret view
         | Some s \<Rightarrow> do { v \<leftarrow> group_secret_view auth s; ret (view\<lparr>grr_DisplayName := sec_Label s, grr_Secret := Some v\<rparr>) })
      else if lgr_ResourceKind row = ''set'' then
        (case lgr_Set row of None \<Rightarrow> ret view
         | Some s \<Rightarrow> do { v \<leftarrow> set_list_view auth s; ret (view\<lparr>grr_DisplayName := lset_Name s, grr_Set := Some v\<rparr>) })
      else ret view)"

text \<open>One turn of the loop of \<open>handleListGroupMembers\<close>; a user has one place in \<open>members\<close>.\<close>
definition add_member :: "groupMemberView list \<Rightarrow> ListGroupMembersRow \<Rightarrow> groupMemberView list" where
  "add_member members row =
     (let userID = uuidString (Some (gm_UserID row));
          ms = (if list_ex (\<lambda>m. gmv_UserID m = userID) members then members
                else members @ [\<lparr>gmv_UserID = userID, gmv_Email = gm_Email row, gmv_Name = gm_Name row,
                       gmv_DisplayName = textString (gm_DisplayName row), gmv_Role = gm_Role row,
                       gmv_Status = gm_Status row, gmv_Permissions = [], gmv_Grants = []\<rparr>])
      in update_where (\<lambda>m. gmv_UserID m = userID)
           (\<lambda>m. m\<lparr>gmv_Permissions := gmv_Permissions m @ [gm_Permission row],
                  gmv_Grants := gmv_Grants m @ [\<lparr>gmg_ID = uuidString (Some (gm_GrantID row)),
                    gmg_Permission = gm_Permission row, gmg_GrantedAt = gm_GrantedAt row\<rparr>]\<rparr>) ms)"

definition group_members :: "ListGroupMembersRow list \<Rightarrow> groupMemberView list" where
  "group_members rows = foldl add_member [] rows"

section \<open>Handlers\<close>

text \<open>The transaction of \<open>handleCreateGroup\<close>.\<close>
definition createGroupTx :: "authInfo \<Rightarrow> createGroupRequest \<Rightarrow> (groupView response + ResourceGroup) tx_action" where
  "createGroupTx auth req = (let fails = (\<lambda>_. ret (Inl (serverError ''could not create group''))) in
     attempt (tx_call (CreateGroup (cgq_Name req) (cgq_Description req))) fails (\<lambda>g.
     attempt (grantOwner (a_UserID auth) ''group'' (rg_ID g) [''group.read'', ''group.manage'']) fails
       (\<lambda>_. ret (Inr g))))"

definition handleCreateGroup :: "server \<Rightarrow> authInfo \<Rightarrow> createGroupRequest option \<Rightarrow> groupView response action" where
  "handleCreateGroup srv auth body = do {
     ok \<leftarrow> canGlobal auth ''group.create'';
     if \<not> ok then ret (HttpError 403 ''forbidden'')
     else (case body of None \<Rightarrow> ret (HttpError 400 ''invalid request'')
       | Some req \<Rightarrow>
         if cgq_Name req = '''' then ret (HttpError 400 ''name is required'')
         else with_tx (\<lambda>_. serverError ''could not create group'') (createGroupTx auth req)
           (\<lambda>_. serverError ''could not create group'') (\<lambda>g. do {
             v \<leftarrow> toGroupView auth g;
             writeResponse srv (a_ClientPublicKey auth) v })) }"

definition handleListGroups :: "server \<Rightarrow> authInfo \<Rightarrow> groupView list response action" where
  "handleListGroups srv auth =
     attempt (if a_Role auth = ''admin'' then call (many (ListGroups (srv_coll srv)))
              else call (many (ListReadableGroups (srv_coll srv) (a_UserID auth))))
       (\<lambda>_. ret (serverError ''could not list groups'')) (\<lambda>rows. do {
         views \<leftarrow> for_collect (toGroupView auth) rows;
         writeResponse srv (a_ClientPublicKey auth) views })"

definition resource_kind_ok :: "string \<Rightarrow> bool" where
  "resource_kind_ok kind \<longleftrightarrow> kind = ''host'' \<or> kind = ''secret'' \<or> kind = ''set''"

definition handleListGroupsForResource :: "server \<Rightarrow> authInfo \<Rightarrow> string \<Rightarrow> string \<Rightarrow> groupView list response action" where
  "handleListGroupsForResource srv auth kind idParam =
     (if \<not> resource_kind_ok kind then ret (HttpError 400 ''resource kind must be host, secret or set'')
      else (case parseUUID srv idParam of None \<Rightarrow> ret (HttpError 400 ''invalid resource id'')
        | Some resourceID \<Rightarrow>
          attempt (if a_Role auth = ''admin''
                   then call (many (ListGroupsForResource (srv_coll srv) kind resourceID))
                   else call (many (ListReadableGroupsForResource (srv_coll srv) (a_UserID auth) kind resourceID)))
            (\<lambda>_. ret (serverError ''could not list resource groups'')) (\<lambda>rows. do {
              views \<leftarrow> for_collect (toGroupView auth) rows;
              writeResponse srv (a_ClientPublicKey auth) views })))"

text \<open>What \<open>GetGroup\<close>'s errors become.\<close>
definition group_lookup_error :: "string \<Rightarrow> dberr \<Rightarrow> 'v response" where
  "group_lookup_error msg e = (if e = ErrNoRows then HttpError 404 ''group not found'' else serverError msg)"

definition handleListGroupMembers :: "server \<Rightarrow> authInfo \<Rightarrow> string \<Rightarrow> groupMemberView list response action" where
  "handleListGroupMembers srv auth idParam = (case parseUUID srv idParam of
     None \<Rightarrow> ret (HttpError 400 ''invalid group id'')
   | Some groupID \<Rightarrow> do {
       ok \<leftarrow> canGroup auth ''group.read'' groupID;
       if \<not> ok then ret (HttpError 403 ''forbidden'')
       else attempt (call (single (GetGroup groupID))) (\<lambda>e. ret (group_lookup_error ''could not load group'' e)) (\<lambda>_.
            attempt (call (many (ListGroupMembers (srv_coll srv) groupID)))
              (\<lambda>_. ret (serverError ''could not list group members''))
              (\<lambda>rows. writeResponse srv (a_ClientPublicKey auth) (group_members rows))) })"

definition handleGetGroup :: "server \<Rightarrow> authInfo \<Rightarrow> string \<Rightarrow> groupDetailView response action" where
  "handleGetGroup srv auth idParam = (case parseUUID srv idParam of
     None \<Rightarrow> ret (HttpError 400 ''invalid group id'')
   | Some groupID \<Rightarrow> do {
       ok \<leftarrow> canGroup auth ''group.read'' groupID;
       if \<not> ok then ret (HttpError 403 ''forbidden'')
       else attempt (call (single (GetGroup groupID))) (\<lambda>e. ret (group_lookup_error ''could not load group'' e)) (\<lambda>g.
            attempt (call (many (ListGroupResources groupID))) (\<lambda>_. ret (serverError ''could not load group'')) (\<lambda>rows. do {
              resources \<leftarrow> for_collect (toGroupResourceView auth) rows;
              v \<leftarrow> toGroupView auth g;
              writeResponse srv (a_ClientPublicKey auth) (groupView.extend v \<lparr>gdv_Resources = resources\<rparr>) })) })"

definition handleUpdateGroup :: "server \<Rightarrow> authInfo \<Rightarrow> string \<Rightarrow> updateGroupRequest option \<Rightarrow> groupView response action" where
  "handleUpdateGroup srv auth idParam body = (case parseUUID srv idParam of
     None \<Rightarrow> ret (HttpError 400 ''invalid group id'')
   | Some groupID \<Rightarrow> do {
       ok \<leftarrow> canGroup auth ''group.manage'' groupID;
       if \<not> ok then ret (HttpError 403 ''forbidden'')
       else (case body of None \<Rightarrow> ret (HttpError 400 ''invalid request'')
         | Some req \<Rightarrow>
           if ugq_Name req = '''' then ret (HttpError 400 ''name is required'')
           else attempt (call (UpdateGroup groupID (ugq_Name req) (ugq_Description req)))
             (\<lambda>e. ret (group_lookup_error ''could not update group'' e)) (\<lambda>g. do {
               v \<leftarrow> toGroupView auth g;
               writeResponse srv (a_ClientPublicKey auth) v })) })"

text \<open>The transaction of \<open>handleDeleteGroup\<close>.\<close>
definition deleteGroupTx :: "uuid \<Rightarrow> (unit response + unit) tx_action" where
  "deleteGroupTx groupID = (let fails = (\<lambda>_. ret (Inl (serverError ''could not delete group''))) in
     attempt (tx_call (RevokeGroupGrants groupID)) fails (\<lambda>_.
     attempt (tx_call (DeleteGroup groupID)) fails (\<lambda>n.
       if n = 0 then ret (Inl (HttpError 404 ''group not found'')) else ret (Inr ()))))"

definition handleDeleteGroup :: "server \<Rightarrow> authInfo \<Rightarrow> string \<Rightarrow> unit response action" where
  "handleDeleteGroup srv auth idParam = (case parseUUID srv idParam of
     None \<Rightarrow> ret (HttpError 400 ''invalid group id'')
   | Some groupID \<Rightarrow> do {
       ok \<leftarrow> canGroup auth ''group.manage'' groupID;
       if \<not> ok then ret (HttpError 403 ''forbidden'')
       else do {
         hs \<leftarrow> call (many (GroupHostIDs groupID));
         with_tx (\<lambda>_. serverError ''could not delete group'') (deleteGroupTx groupID)
           (\<lambda>_. serverError ''could not delete group'') (\<lambda>_. do {
             for_each (pushSnapshot srv) (or_nil hs);
             ret (Status 204) }) } })"

definition handleAddGroupResource :: "server \<Rightarrow> authInfo \<Rightarrow> string \<Rightarrow> groupResourceRequest option \<Rightarrow> unit response action" where
  "handleAddGroupResource srv auth idParam body = (case parseUUID srv idParam of
     None \<Rightarrow> ret (HttpError 400 ''invalid group id'')
   | Some groupID \<Rightarrow> do {
       ok \<leftarrow> canGroup auth ''group.manage'' groupID;
       if \<not> ok then ret (HttpError 403 ''forbidden'')
       else (case body of None \<Rightarrow> ret (HttpError 400 ''invalid request'')
         | Some req \<Rightarrow>
           if \<not> resource_kind_ok (grq_ResourceKind req)
           then ret (HttpError 400 ''resource_kind must be host, secret or set'')
           else (case parseUUID srv (grq_ResourceID req) of None \<Rightarrow> ret (HttpError 400 ''invalid resource_id'')
             | Some resourceID \<Rightarrow>
               attempt (call (AddGroupResource groupID (grq_ResourceKind req) resourceID))
                 (\<lambda>_. ret (serverError ''could not add resource'')) (\<lambda>_. do {
                   (if grq_ResourceKind req = ''host'' then pushSnapshot srv resourceID else ret ());
                   ret (Status 204) }))) })"

definition handleRemoveGroupResource :: "server \<Rightarrow> authInfo \<Rightarrow> string \<Rightarrow> groupResourceRequest option \<Rightarrow> unit response action" where
  "handleRemoveGroupResource srv auth idParam body = (case parseUUID srv idParam of
     None \<Rightarrow> ret (HttpError 400 ''invalid group id'')
   | Some groupID \<Rightarrow> do {
       ok \<leftarrow> canGroup auth ''group.manage'' groupID;
       if \<not> ok then ret (HttpError 403 ''forbidden'')
       else (case body of None \<Rightarrow> ret (HttpError 400 ''invalid request'')
         | Some req \<Rightarrow>
           if \<not> resource_kind_ok (grq_ResourceKind req)
           then ret (HttpError 400 ''resource_kind must be host, secret or set'')
           else (case parseUUID srv (grq_ResourceID req) of None \<Rightarrow> ret (HttpError 400 ''invalid resource_id'')
             | Some resourceID \<Rightarrow>
               attempt (call (RemoveGroupResource groupID (grq_ResourceKind req) resourceID))
                 (\<lambda>_. ret (serverError ''could not remove resource'')) (\<lambda>n.
                   if n = 0 then ret (HttpError 404 ''resource not in group'')
                   else do {
                     (if grq_ResourceKind req = ''host'' then pushSnapshot srv resourceID else ret ());
                     ret (Status 204) }))) })"

section \<open>Handlers keep the schema and the history\<close>

lemma eff_group_views [eff]:
  "state_io_rel world_read (toGroupView auth g)" "state_io_rel world_read (group_secret_view auth s)"
  unfolding toGroupView_def group_secret_view_def by (intro eff)+

lemma eff_toGroupResourceView [eff]: "state_io_rel world_read (toGroupResourceView auth row)"
  unfolding toGroupResourceView_def Let_def by (intro eff)

lemmas eff_group_views_step [eff] = eff_group_views [THEN eff_weaken] eff_toGroupResourceView [THEN eff_weaken]

lemma eff_group_reads [eff]:
  "state_io_rel world_read (handleListGroups srv auth)"
  "state_io_rel world_read (handleListGroupsForResource srv auth k i)"
  "state_io_rel world_read (handleListGroupMembers srv auth i)"
  "state_io_rel world_read (handleGetGroup srv auth i)"
  unfolding handleListGroups_def handleListGroupsForResource_def handleListGroupMembers_def handleGetGroup_def
  by (intro eff)+

lemma eff_group_txs [eff]:
  "state_io_rel tx_step (createGroupTx auth req)" "state_io_rel tx_step (deleteGroupTx i)"
  unfolding createGroupTx_def deleteGroupTx_def Let_def by (intro eff db_steps)+

lemma eff_group_writes [eff]:
  "state_io_rel world_step (handleCreateGroup srv auth creq)"
  "state_io_rel world_step (handleUpdateGroup srv auth i ureq)"
  "state_io_rel world_step (handleDeleteGroup srv auth i)"
  "state_io_rel world_step (handleAddGroupResource srv auth i rreq)"
  "state_io_rel world_step (handleRemoveGroupResource srv auth i rreq)"
  unfolding handleCreateGroup_def handleUpdateGroup_def handleDeleteGroup_def handleAddGroupResource_def
    handleRemoveGroupResource_def
  by (intro eff db_steps)+

end
