(* ===== verification/Go_Time.thy ===== *)
theory Go_Time
  imports Go_Strings
begin

text \<open>
  The part of Go's package \<open>time\<close> that the program uses beyond arithmetic: \<open>t.UTC().Format\<close> with the
  layout \<open>RFC3339Nano\<close> and \<open>time.Parse\<close> with the RFC 3339 layouts. An instant is its nanoseconds
  since the Unix epoch. The lemma: parsing what was formatted gives the instant back, for the
  years 0 to 9999 that the layout can carry.
\<close>

section \<open>The calendar\<close>

definition leap :: "int \<Rightarrow> bool" where
  "leap y \<longleftrightarrow> y mod 4 = 0 \<and> (y mod 100 \<noteq> 0 \<or> y mod 400 = 0)"

text \<open>Days from the first of January of the year 0 to that of \<open>y\<close>.\<close>
definition days_before_year :: "int \<Rightarrow> int" where
  "days_before_year y = 365 * y + (y + 3) div 4 - (y + 99) div 100 + (y + 399) div 400"

definition year_of :: "int \<Rightarrow> int" where
  "year_of z = (let c = (400 * z) div 146097 in
     if days_before_year (c + 1) \<le> z then c + 1 else if days_before_year c \<le> z then c else c - 1)"

definition month_days :: "int \<Rightarrow> int list" where
  "month_days y = [31, if leap y then 29 else 28, 31, 30, 31, 30, 31, 31, 30, 31, 30, 31]"

definition days_in :: "int \<Rightarrow> nat \<Rightarrow> int" where
  "days_in y m = month_days y ! (m - 1)"

definition days_before_month :: "int \<Rightarrow> nat \<Rightarrow> int" where
  "days_before_month y m = sum_list (take (m - 1) (month_days y))"

text \<open>The month of a day of the year, counted from zero: the last whose first day is not later.\<close>
definition month_of :: "int \<Rightarrow> int \<Rightarrow> nat" where
  "month_of y yday = length (takeWhile (\<lambda>m. days_before_month y m \<le> yday) [1..<13])"

text \<open>The day number of the epoch.\<close>
definition epoch_day :: int where "epoch_day = 719528"
definition day_ns :: int where "day_ns = 86400 * 1000000000"

section \<open>Formatting\<close>

definition pad :: "nat \<Rightarrow> nat \<Rightarrow> string" where
  "pad w n = (let ds = dec_digits n in replicate (w - length ds) (CHR ''0'') @ ds)"

definition fmt_int :: "nat \<Rightarrow> int \<Rightarrow> string" where
  "fmt_int w n = (if n < 0 then CHR ''-'' # pad w (nat (- n)) else pad w (nat n))"

text \<open>The fraction of a second without its trailing zeros, nothing when it is zero.\<close>
definition fmt_frac :: "int \<Rightarrow> string" where
  "fmt_frac ns = (if ns = 0 then []
     else CHR ''.'' # rev (dropWhile (\<lambda>c. c = CHR ''0'') (rev (pad 9 (nat ns)))))"

definition FormatRFC3339Nano :: "time \<Rightarrow> string" where
  "FormatRFC3339Nano t =
     (let z = t div day_ns + epoch_day; y = year_of z; yday = z - days_before_year y;
          m = month_of y yday; d = yday - days_before_month y m + 1;
          s = (t mod day_ns) div Second; ns = t mod Second
      in fmt_int 4 y @ ''-'' @ fmt_int 2 (int m) @ ''-'' @ fmt_int 2 d @ ''T'' @
         fmt_int 2 (s div 3600) @ '':'' @ fmt_int 2 (s div 60 mod 60) @ '':'' @ fmt_int 2 (s mod 60) @
         fmt_frac ns @ ''Z'')"

section \<open>Parsing\<close>

text \<open>\<open>getnum\<close>: two digits, or one when the field is not fixed.\<close>
definition getnum :: "bool \<Rightarrow> string \<Rightarrow> (nat \<times> string) option" where
  "getnum fixed s = (case s of [] \<Rightarrow> None
     | a # r \<Rightarrow> if \<not> is_digit a then None
         else (case r of
             b # r' \<Rightarrow> if is_digit b then Some (dec_val [a, b], r')
                      else if fixed then None else Some (dec_val [a], r)
           | [] \<Rightarrow> if fixed then None else Some (dec_val [a], [])))"

definition get4 :: "string \<Rightarrow> (nat \<times> string) option" where
  "get4 s = (if length s < 4 \<or> \<not> list_all is_digit (take 4 s) then None
     else Some (dec_val (take 4 s), drop 4 s))"

text \<open>\<open>parseNanoseconds\<close>: at most nine digits count, missing ones are zeros.\<close>
definition get_frac :: "string \<Rightarrow> nat \<times> string" where
  "get_frac s = (case s of
     c # d # r \<Rightarrow>
       if (c = CHR ''.'' \<or> c = CHR '','') \<and> is_digit d
       then let ds = takeWhile is_digit (d # r); k = take 9 ds
            in (dec_val (k @ replicate (9 - length k) (CHR ''0'')), drop (length ds) (d # r))
       else (0, s)
   | _ \<Rightarrow> (0, s))"

text \<open>The zone \<open>Z07:00\<close>: its offset in seconds.\<close>
definition get_zone :: "string \<Rightarrow> (int \<times> string) option" where
  "get_zone s = (case s of [] \<Rightarrow> None
     | c # r \<Rightarrow> if c = CHR ''Z'' then Some (0, r)
         else if length s < 6 \<or> s ! 3 \<noteq> CHR '':'' then None
         else (case (getnum True (take 2 (drop 1 s)), getnum True (take 2 (drop 4 s))) of
             (Some (hh, _), Some (mm, _)) \<Rightarrow>
               if hh > 24 \<or> mm > 60 then None
               else if c = CHR ''+'' then Some (int hh * 3600 + int mm * 60, drop 6 s)
               else if c = CHR ''-'' then Some (- (int hh * 3600 + int mm * 60), drop 6 s)
               else None
           | _ \<Rightarrow> None))"

definition lit :: "char \<Rightarrow> string \<Rightarrow> string option" where
  "lit c s = (case s of [] \<Rightarrow> None | d # r \<Rightarrow> if d = c then Some r else None)"

definition check :: "bool \<Rightarrow> unit option" where
  "check b = (if b then Some () else None)"

text \<open>The fields of the layout in order, with their ranges, then nothing more.\<close>
definition ParseRFC3339 :: "string \<Rightarrow> time option" where
  "ParseRFC3339 s0 = do {
     (y, s1) \<leftarrow> get4 s0;
     s2 \<leftarrow> lit (CHR ''-'') s1;
     (m, s3) \<leftarrow> getnum True s2;
     check (1 \<le> m \<and> m \<le> 12);
     s4 \<leftarrow> lit (CHR ''-'') s3;
     (d, s5) \<leftarrow> getnum True s4;
     s6 \<leftarrow> lit (CHR ''T'') s5;
     (hh, s7) \<leftarrow> getnum False s6;
     check (hh < 24);
     s8 \<leftarrow> lit (CHR '':'') s7;
     (mi, s9) \<leftarrow> getnum True s8;
     check (mi < 60);
     s10 \<leftarrow> lit (CHR '':'') s9;
     (se, s11) \<leftarrow> getnum True s10;
     check (se < 60);
     let (ns, s12) = get_frac s11;
     (off, s13) \<leftarrow> get_zone s12;
     check (s13 = []);
     check (1 \<le> d \<and> int d \<le> days_in (int y) m);
     Some ((days_before_year (int y) + days_before_month (int y) m + int d - 1 - epoch_day) * day_ns +
       (int hh * 3600 + int mi * 60 + int se - off) * Second + int ns) }"

text \<open>The zero \<open>time.Time\<close>: the first of January of the year 1.\<close>
definition zero_time :: time where
  "zero_time = (366 - epoch_day) * day_ns"

section \<open>The calendar is right\<close>

lemma div_bounds: "0 < n \<Longrightarrow> n * (x div n) \<le> x \<and> x < n * (x div n) + n" for x n :: int
  using mult_div_mod_eq [of n x] pos_mod_bound [of n x] pos_mod_sign [of n x] by linarith

lemma days_before_year_bounds:
  "146097 * y - 400 < 400 * days_before_year y" "400 * days_before_year y < 146097 * y + 800"
proof -
  define a b c where abc: "a = (y + 3) div 4" "b = (y + 99) div 100" "c = (y + 399) div 400"
  have "4 * a \<le> y + 3 \<and> y + 3 < 4 * a + 4" "100 * b \<le> y + 99 \<and> y + 99 < 100 * b + 100"
    "400 * c \<le> y + 399 \<and> y + 399 < 400 * c + 400"
    unfolding abc by (rule div_bounds; simp)+
  moreover have "days_before_year y = 365 * y + a - b + c" by (simp add: days_before_year_def abc)
  ultimately show "146097 * y - 400 < 400 * days_before_year y" "400 * days_before_year y < 146097 * y + 800"
    by linarith+
qed

lemma div_step:
  fixes y n m :: int
  assumes n: "0 < n" and m: "m = n - 1"
  shows "(y + n) div n - (y + m) div n = (if y mod n = 0 then 1 else 0)"
proof -
  define q r where "q = y div n" and r: "r = y mod n"
  then have y: "y = n * q + r" "0 \<le> r" "r < n" using n by simp_all
  have "(y + n) div n = q + 1"
    using y n by (intro int_div_pos_eq [where r = r]) (simp_all add: distrib_left)
  moreover have "(y + m) div n = q + 1" if "r \<noteq> 0"
    using that y n m by (intro int_div_pos_eq [where r = "r - 1"]) (simp_all add: distrib_left)
  moreover have "(y + m) div n = q" if "r = 0"
    using that y n m by (intro int_div_pos_eq [where r = "n - 1"]) simp_all
  ultimately show ?thesis unfolding r [symmetric] by auto
qed

lemma leap_days:
  fixes y :: int
  assumes "a' - a = (if p then 1 else 0)" "b' - b = (if h then 1 else 0)" "c' - c = (if t then 1 else 0)"
    and "t \<Longrightarrow> h" "h \<Longrightarrow> p"
  shows "365 * y + 365 + a' - b' + c' - (365 * y + a - b + c) = (if p \<and> (\<not> h \<or> t) then 366 else 365)"
  using assms by (auto split: if_splits)

lemma year_len: "days_before_year (y + 1) - days_before_year y = (if leap y then 366 else 365)"
proof -
  have m: "y mod 400 = 0 \<Longrightarrow> y mod 100 = 0" "y mod 100 = 0 \<Longrightarrow> y mod 4 = 0"
    unfolding mod_eq_0_iff_dvd by (erule dvd_trans [rotated], simp)+
  have d: "(y + 4) div 4 - (y + 3) div 4 = (if y mod 4 = 0 then 1 else 0)"
    "(y + 100) div 100 - (y + 99) div 100 = (if y mod 100 = 0 then 1 else 0)"
    "(y + 400) div 400 - (y + 399) div 400 = (if y mod 400 = 0 then 1 else 0)"
    by (rule div_step; simp)+
  have e: "days_before_year (y + 1) =
      365 * y + 365 + (y + 4) div 4 - (y + 100) div 100 + (y + 400) div 400"
    unfolding days_before_year_def by (simp only: add.assoc distrib_left) simp
  show ?thesis
    unfolding e leap_def unfolding days_before_year_def by (rule leap_days [OF d m])
qed

lemma year_of_bounds: "days_before_year (year_of z) \<le> z" "z < days_before_year (year_of z + 1)"
proof -
  define c where c: "c = (400 * z) div 146097"
  have "146097 * c \<le> 400 * z \<and> 400 * z < 146097 * c + 146097" unfolding c by (rule div_bounds) simp
  then have c': "146097 * c \<le> 400 * z" "400 * z < 146097 * c + 146097" by simp_all
  have "400 * days_before_year (c - 1) < 146097 * c - 145297"
    using days_before_year_bounds(2) [of "c - 1"] by (simp add: right_diff_distrib)
  then have "days_before_year (c - 1) \<le> z" using c' by linarith
  moreover have "146097 * c + 291794 < 400 * days_before_year (c + 2)"
    using days_before_year_bounds(1) [of "c + 2"] by (simp add: distrib_left)
  then have "z < days_before_year (c + 2)" using c' by linarith
  ultimately show "days_before_year (year_of z) \<le> z" "z < days_before_year (year_of z + 1)"
    by (auto simp: year_of_def Let_def c [symmetric] add.commute)
qed

lemma days_before_month_Suc:
  assumes "1 \<le> m" "m \<le> 12"
  shows "days_before_month y (m + 1) = days_before_month y m + days_in y m"
proof (cases m)
  case (Suc n)
  then have "n < length (month_days y)" using assms by (simp add: month_days_def)
  then show ?thesis using Suc by (simp add: days_before_month_def days_in_def take_Suc_conv_app_nth)
qed (use assms in simp)

lemma month_of_ok:
  assumes "0 \<le> yd" "yd < (if leap y then 366 else 365)"
  shows "1 \<le> month_of y yd \<and> month_of y yd \<le> 12 \<and> days_before_month y (month_of y yd) \<le> yd \<and>
    yd < days_before_month y (month_of y yd) + days_in y (month_of y yd)"
proof -
  let ?P = "\<lambda>m. days_before_month y m \<le> yd"
  let ?ms = "[1..<13] :: nat list"
  let ?k = "month_of y yd"
  have k: "?k = length (takeWhile ?P ?ms)" by (simp add: month_of_def)
  have le: "?k \<le> 12" using length_takeWhile_le [of ?P ?ms] by (simp add: k)
  have "?P 1" using assms(1) by (simp add: days_before_month_def)
  moreover have "?ms = 1 # [2..<13]" by (simp add: upt_conv_Cons)
  ultimately have ge: "1 \<le> ?k" by (simp add: k)
  have "?ms ! (?k - 1) = ?k" using ge le by (subst nth_upt) auto
  moreover have lt: "?k - 1 < length (takeWhile ?P ?ms)" using ge k by linarith
  moreover have "?P (takeWhile ?P ?ms ! (?k - 1))"
    using nth_mem [OF lt] set_takeWhileD [of _ ?P ?ms] by blast
  ultimately have P: "?P ?k" using takeWhile_nth [OF lt] by metis
  have "yd < days_before_month y (?k + 1)"
  proof (cases "?k = 12")
    case True
    have "days_before_month y 13 = (if leap y then 366 else 365)"
      by (simp add: days_before_month_def month_days_def)
    then show ?thesis using True assms(2) by simp
  next
    case False
    then have "?k < length ?ms" using le by simp
    moreover from this have "?ms ! ?k = ?k + 1" by (subst nth_upt) auto
    ultimately show ?thesis using nth_length_takeWhile [of ?P ?ms] unfolding k [symmetric] by simp
  qed
  then show ?thesis using P ge le days_before_month_Suc by simp
qed

section \<open>Digits\<close>

lemma length_dec_digits: "0 < w \<Longrightarrow> n < 10 ^ w \<Longrightarrow> length (dec_digits n) \<le> w"
proof (induction n arbitrary: w rule: dec_digits.induct)
  case (1 n)
  show ?case
  proof (cases "n < 10")
    case False
    obtain v where w: "w = Suc v" "0 < v" using False 1(2,3) by (cases w; cases "w - 1") auto
    then have "n div 10 < 10 ^ v" using 1(3) by (simp add: less_mult_imp_div_less mult.commute)
    then have "length (dec_digits (n div 10)) \<le> v" using False w(2) 1(1) by blast
    then show ?thesis using False w(1) by (subst dec_digits.simps) simp
  next
    case True
    then show ?thesis using 1(2) by (subst dec_digits.simps) simp
  qed
qed

lemma foldl_zeros: "foldl (\<lambda>a c. a * 10 + (byte c - 48)) 0 (replicate k (CHR ''0'')) = 0"
  by (induction k) simp_all

lemma dec_val_zeros: "dec_val (replicate k (CHR ''0'') @ l) = dec_val l"
  by (simp add: dec_val_def foldl_zeros)

lemma pad_ok:
  assumes "0 < w" "n < 10 ^ w"
  shows "length (pad w n) = w" "list_all is_digit (pad w n)" "dec_val (pad w n) = n"
proof -
  have "is_digit (CHR ''0'')" by (simp add: is_digit_def)
  then show "length (pad w n) = w" "list_all is_digit (pad w n)" "dec_val (pad w n) = n"
    using length_dec_digits [OF assms] dec_digits_digits [of n]
    by (simp_all add: pad_def Let_def dec_val_zeros dec_val_digits list_all_iff ball_Un)
qed

lemma getnum_pad: "n < 100 \<Longrightarrow> getnum b (pad 2 n @ r) = Some (n, r)"
proof -
  assume "n < 100"
  then have p: "length (pad 2 n) = 2" "list_all is_digit (pad 2 n)" "dec_val (pad 2 n) = n"
    using pad_ok [of 2 n] by simp_all
  then obtain x y where "pad 2 n = [x, y]" by (auto simp: numeral_2_eq_2 length_Suc_conv)
  then show ?thesis using p by (simp add: getnum_def)
qed

lemma get4_pad: "n < 10000 \<Longrightarrow> get4 (pad 4 n @ r) = Some (n, r)"
  using pad_ok [of 4 n] by (simp add: get4_def)

lemma strip_zeros:
  "\<exists>k. l = rev (dropWhile (\<lambda>c. c = CHR ''0'') (rev l)) @ replicate k (CHR ''0'')"
proof -
  let ?P = "\<lambda>c. c = CHR ''0''"
  have "takeWhile ?P (rev l) = replicate (length (takeWhile ?P (rev l))) (CHR ''0'')"
    by (intro replicate_length_same [symmetric]) (auto dest: set_takeWhileD)
  then have "rev l = replicate (length (takeWhile ?P (rev l))) (CHR ''0'') @ dropWhile ?P (rev l)"
    by (metis takeWhile_dropWhile_id)
  then show ?thesis by (metis rev_append rev_replicate rev_rev_ident)
qed

lemma dec_val_all_zero: "dec_val (replicate k (CHR ''0'')) = 0"
  using dec_val_zeros [of k "[]"] by (simp add: dec_val_def)

lemma get_frac_fmt:
  assumes "0 \<le> ns" "ns < 10 ^ 9"
  shows "get_frac (fmt_frac ns @ CHR ''Z'' # r) = (nat ns, CHR ''Z'' # r)"
proof (cases "ns = 0")
  case True
  then show ?thesis by (cases r) (simp_all add: fmt_frac_def get_frac_def)
next
  case False
  define p where pd: "p = pad 9 (nat ns)"
  define l where ld: "l = rev (dropWhile (\<lambda>c. c = CHR ''0'') (rev p))"
  have p: "length p = 9" "list_all is_digit p" "dec_val p = nat ns"
    using pad_ok [of 9 "nat ns"] assms by (simp_all add: pd)
  obtain k where k: "p = l @ replicate k (CHR ''0'')" using strip_zeros [of p] unfolding ld by blast
  have lk: "k = 9 - length l" "length l \<le> 9" using p(1) unfolding k by simp_all
  have dl: "list_all is_digit l" using p(2) unfolding k by simp
  have v: "dec_val (l @ replicate (9 - length l) (CHR ''0'')) = nat ns" using p(3) unfolding k lk(1) .
  have "l \<noteq> []" using v False assms by (auto simp: dec_val_all_zero)
  then obtain d ds where d: "l = d # ds" by (cases l) auto
  have "\<not> is_digit (CHR ''Z'')" by (simp add: is_digit_def)
  then have t: "takeWhile is_digit (l @ CHR ''Z'' # r) = l"
    using dl by (subst takeWhile_append2) (auto simp: list_all_iff)
  have "is_digit d" using dl d by simp
  then have "get_frac (CHR ''.'' # l @ CHR ''Z'' # r) =
      (let ds = takeWhile is_digit (l @ CHR ''Z'' # r); k = take 9 ds
       in (dec_val (k @ replicate (9 - length k) (CHR ''0'')), drop (length ds) (l @ CHR ''Z'' # r)))"
    by (simp add: get_frac_def d)
  also have "\<dots> = (nat ns, CHR ''Z'' # r)" using v lk(2) unfolding t Let_def by simp
  finally show ?thesis using False by (simp add: fmt_frac_def ld pd)
qed

section \<open>Formatting and parsing agree\<close>

lemma ParseRFC3339_fields:
  assumes "y < 10000" "1 \<le> m" "m \<le> 12" "1 \<le> d" "int d \<le> days_in (int y) m"
    and "hh < 24" "mi < 60" "se < 60" "0 \<le> ns" "ns < 10 ^ 9"
  shows "ParseRFC3339 (pad 4 y @ ''-'' @ pad 2 m @ ''-'' @ pad 2 d @ ''T'' @ pad 2 hh @ '':'' @
      pad 2 mi @ '':'' @ pad 2 se @ fmt_frac ns @ ''Z'') =
    Some ((days_before_year (int y) + days_before_month (int y) m + int d - 1 - epoch_day) * day_ns +
       (int hh * 3600 + int mi * 60 + int se) * Second + ns)"
proof -
  have "i < 12 \<Longrightarrow> month_days (int y) ! i \<le> 31" for i
    by (auto simp: month_days_def less_Suc_eq numeral_eq_Suc)
  then have "days_in (int y) m \<le> 31" using assms(2,3) by (simp add: days_in_def)
  then have "d < 100" using assms(5) by simp
  then show ?thesis
    using assms getnum_pad get4_pad get_frac_fmt [OF assms(9,10), of "[]"]
    by (simp add: ParseRFC3339_def check_def lit_def get_zone_def)
qed

lemma year_range:
  assumes "0 \<le> z" "z < days_before_year 10000"
  shows "0 \<le> year_of z" "year_of z < 10000"
proof -
  have mono: "days_before_year a \<le> days_before_year b" if "a \<le> b" for a b
  proof -
    have "days_before_year a \<le> days_before_year (a + int n)" for n
    proof (induction n)
      case (Suc n)
      then show ?case using year_len [of "a + int n"] 
        by (simp add: add.assoc [symmetric] add.commute [of 1] split: if_splits)
    qed simp
    from this [of "nat (b - a)"] show ?thesis using that by simp
  qed
  have "days_before_year 0 = 0" by (simp add: days_before_year_def)
  then show "0 \<le> year_of z"
    using year_of_bounds(2) [of z] mono [of "year_of z + 1" 0] assms(1) by (rule_tac ccontr) simp
  show "year_of z < 10000"
    using year_of_bounds(1) [of z] mono [of 10000 "year_of z"] assms(2) by (rule_tac ccontr) simp
qed

text \<open>The instants whose UTC year has four digits.\<close>
definition time_in_range :: "time \<Rightarrow> bool" where
  "time_in_range t \<longleftrightarrow> 0 \<le> t div day_ns + epoch_day \<and> t div day_ns + epoch_day < days_before_year 10000"

lemma second_split: "t mod day_ns = ((t mod day_ns) div Second) * Second + t mod Second"
proof -
  have "t mod Second = (t mod day_ns) mod Second"
    by (rule mod_mod_cancel [symmetric]) (simp add: day_ns_def Second_def)
  then show ?thesis by (metis div_mult_mod_eq)
qed

lemma clock_split:
  fixes s :: int
  assumes "0 \<le> s" "s < 86400"
  shows "s = (s div 3600) * 3600 + (s div 60 mod 60) * 60 + s mod 60"
    and "0 \<le> s div 3600" "s div 3600 < 24" "0 \<le> s div 60 mod 60" "s div 60 mod 60 < 60" "0 \<le> s mod 60" "s mod 60 < 60"
proof -
  define q where q: "q = s div 60"
  have h: "s div 3600 = q div 60" using zdiv_zmult2_eq [of 60 s 60] by (simp add: q)
  have b: "60 * q \<le> s \<and> s < 60 * q + 60" "60 * (q div 60) \<le> q \<and> q < 60 * (q div 60) + 60"
    unfolding q by (rule div_bounds; simp)+
  show "0 \<le> s div 3600" "s div 3600 < 24" using b assms unfolding h by linarith+
  show "s = (s div 3600) * 3600 + (s div 60 mod 60) * 60 + s mod 60"
    using mult_div_mod_eq [of 60 s] mult_div_mod_eq [of 60 q] unfolding h q [symmetric] by linarith
qed simp_all

lemma FormatRFC3339Nano_parse:
  assumes "time_in_range t"
  shows "ParseRFC3339 (FormatRFC3339Nano t) = Some t"
proof -
  define z y yd m d s ns where zd: "z = t div day_ns + epoch_day" and yd: "y = year_of z"
    and ydd: "yd = z - days_before_year y" and md: "m = month_of y yd"
    and dd: "d = yd - days_before_month y m + 1" and sd: "s = (t mod day_ns) div Second" and nd: "ns = t mod Second"
  have y: "0 \<le> y" "y < 10000" using year_range [of z] assms by (simp_all add: yd zd time_in_range_def)
  have "0 \<le> yd" "yd < (if leap y then 366 else 365)"
    using year_of_bounds [of z] year_len [of y] by (simp_all add: ydd yd split: if_splits)
  then have m: "1 \<le> m" "m \<le> 12" "days_before_month y m \<le> yd" "yd < days_before_month y m + days_in y m"
    using month_of_ok by (simp_all add: md)
  have d: "1 \<le> d" "d \<le> days_in y m" using m by (simp_all add: dd)
  have s: "0 \<le> s" "s < 86400"
    using pos_mod_bound [of day_ns t] pos_mod_sign [of day_ns t]
    by (simp_all add: sd pos_imp_zdiv_nonneg_iff div_pos_geq day_ns_def Second_def zdiv_mono1 less_mult_imp_div_less div_less_iff_less_mult)
  have ns: "0 \<le> ns" "ns < 10 ^ 9" by (simp_all add: nd Second_def)
  define hh mi se where hd: "hh = s div 3600" "mi = s div 60 mod 60" "se = s mod 60"
  have c: "hh * 3600 + mi * 60 + se = s" "0 \<le> hh" "hh < 24" "0 \<le> mi" "mi < 60" "0 \<le> se" "se < 60"
    unfolding hd by (rule clock_split(1) [OF s, symmetric] clock_split(2-7) [OF s])+
  have t: "(days_before_year y + days_before_month y m + d - 1 - epoch_day) * day_ns + s * Second + ns = t"
  proof -
    have "days_before_year y + days_before_month y m + d - 1 - epoch_day = t div day_ns"
      by (simp add: dd ydd zd)
    moreover have "s * Second + ns = t mod day_ns" unfolding sd nd by (rule second_split [symmetric])
    ultimately show ?thesis using div_mult_mod_eq [of t day_ns] by (metis add.assoc)
  qed
  have F: "FormatRFC3339Nano t = pad 4 (nat y) @ ''-'' @ pad 2 m @ ''-'' @ pad 2 (nat d) @ ''T'' @ pad 2 (nat hh) @ '':'' @
      pad 2 (nat mi) @ '':'' @ pad 2 (nat se) @ fmt_frac ns @ ''Z''"
    using y d c(2-7) unfolding FormatRFC3339Nano_def Let_def zd [symmetric] yd [symmetric] ydd [symmetric] md [symmetric]
      dd [symmetric] sd [symmetric] nd [symmetric] hd [symmetric]
    by (simp add: fmt_int_def)
  have i: "int (nat y) = y" "int (nat d) = d" "int (nat hh) * 3600 + int (nat mi) * 60 + int (nat se) = s"
    using y d c by linarith+
  have n: "nat y < 10000" "1 \<le> nat d" "nat hh < 24" "nat mi < 60" "nat se < 60"
    using y d c(2-7) by linarith+
  show ?thesis
    unfolding F using ParseRFC3339_fields [OF n(1) m(1,2) n(2) _ n(3-5) ns] d(2) unfolding i t by simp
qed

end
