(* ===== verification/Pagination.thy ===== *)
theory Pagination
  imports Reads Go_Time
begin

text \<open>
  \<open>internal/controlplane/pagination.go\<close>: the query parameters of the audit endpoints, and the keyset
  cursors that name the last row of a page. \<open>query\<close> is \<open>r.URL.Query().Get\<close>: the first value of a
  parameter, empty when it is absent. The lemmas: a cursor decodes to the row it was made from,
  and following cursors enumerates a sorted table once.
\<close>

definition defaultPageSize :: nat where "defaultPageSize = 10"
definition maxPageSize :: int where "maxPageSize = 100"

record 'v page =
  pg_Items :: "'v list"
  pg_NextCursor :: string

record atCursor =
  cur_At :: "time option"
  cur_ID :: "uuid option"

record userCursor =
  uc_Email :: string
  uc_ID :: "uuid option"

record auditFilters =
  af_From :: "time option"
  af_To :: "time option"
  af_Allowed :: "bool option"
  af_UserID :: "uuid option"
  af_Search :: "string option"

section \<open>Cursors\<close>

definition encodeCursor :: "time \<Rightarrow> uuid \<Rightarrow> string" where
  "encodeCursor at i = raw_url_encode (FormatRFC3339Nano at @ ''|'' @ uuidString (Some i))"

definition decodeCursor :: "server \<Rightarrow> string \<Rightarrow> string + atCursor" where
  "decodeCursor srv raw =
     (if raw = '''' then Inr \<lparr>cur_At = None, cur_ID = None\<rparr>
      else case raw_url_decode raw of None \<Rightarrow> Inl ''invalid cursor''
      | Some b \<Rightarrow> (case Cut b (CHR ''|'') of None \<Rightarrow> Inl ''invalid cursor''
        | Some (at, i) \<Rightarrow> (case ParseRFC3339 at of None \<Rightarrow> Inl ''invalid cursor''
          | Some t \<Rightarrow> (case parseUUID srv i of None \<Rightarrow> Inl ''invalid cursor''
            | Some uid \<Rightarrow> Inr \<lparr>cur_At = Some t, cur_ID = Some uid\<rparr>))))"

definition encodeUserCursor :: "string \<Rightarrow> uuid \<Rightarrow> string" where
  "encodeUserCursor email i = raw_url_encode (email @ [CHR 0x00] @ uuidString (Some i))"

definition decodeUserCursor :: "server \<Rightarrow> string \<Rightarrow> string + userCursor" where
  "decodeUserCursor srv raw =
     (if raw = '''' then Inr \<lparr>uc_Email = '''', uc_ID = None\<rparr>
      else case raw_url_decode raw of None \<Rightarrow> Inl ''invalid cursor''
      | Some b \<Rightarrow> (case Cut b (CHR 0x00) of None \<Rightarrow> Inl ''invalid cursor''
        | Some (email, i) \<Rightarrow>
            if email = '''' then Inl ''invalid cursor''
            else (case parseUUID srv i of None \<Rightarrow> Inl ''invalid cursor''
              | Some uid \<Rightarrow> Inr \<lparr>uc_Email = email, uc_ID = Some uid\<rparr>)))"

section \<open>Parameters\<close>

text \<open>\<open>?limit\<close>, common to \<open>pageParams\<close> and \<open>userPageParams\<close>.\<close>
definition page_limit :: "(string \<Rightarrow> string) \<Rightarrow> string + nat" where
  "page_limit query = (let raw = query ''limit'' in
     if raw = '''' then Inr defaultPageSize
     else case Atoi raw of None \<Rightarrow> Inl ''invalid limit''
       | Some n \<Rightarrow> if n < 1 then Inl ''invalid limit'' else Inr (nat (min n maxPageSize)))"

definition pageParams :: "server \<Rightarrow> (string \<Rightarrow> string) \<Rightarrow> string + nat \<times> atCursor" where
  "pageParams srv query = (case page_limit query of Inl e \<Rightarrow> Inl e
     | Inr limit \<Rightarrow> (case decodeCursor srv (query ''cursor'') of Inl e \<Rightarrow> Inl e | Inr c \<Rightarrow> Inr (limit, c)))"

definition userPageParams :: "server \<Rightarrow> (string \<Rightarrow> string) \<Rightarrow> string + nat \<times> userCursor" where
  "userPageParams srv query = (case page_limit query of Inl e \<Rightarrow> Inl e
     | Inr limit \<Rightarrow> (case decodeUserCursor srv (query ''cursor'') of Inl e \<Rightarrow> Inl e | Inr c \<Rightarrow> Inr (limit, c)))"

definition parseTimeParam :: "string \<Rightarrow> time option option" where
  "parseTimeParam raw = (if raw = '''' then Some None else map_option Some (ParseRFC3339 raw))"

text \<open>\<open>strconv.ParseBool\<close>\<close>
definition ParseBool :: "string \<Rightarrow> bool option" where
  "ParseBool s = (if s \<in> set [''1'', ''t'', ''T'', ''TRUE'', ''true'', ''True''] then Some True
     else if s \<in> set [''0'', ''f'', ''F'', ''FALSE'', ''false'', ''False''] then Some False else None)"

definition parseAuditFilters :: "server \<Rightarrow> (string \<Rightarrow> string) \<Rightarrow> string + auditFilters" where
  "parseAuditFilters srv query =
     (case parseTimeParam (query ''from'') of None \<Rightarrow> Inl ''invalid from''
      | Some from \<Rightarrow> (case parseTimeParam (query ''to'') of None \<Rightarrow> Inl ''invalid to''
      | Some to \<Rightarrow>
        let s = query ''success''; u = query ''user_id''; q = TrimSpace (query ''q'') in
        if s \<noteq> '''' \<and> ParseBool s = None then Inl ''invalid success''
        else if u \<noteq> '''' \<and> parseUUID srv u = None then Inl ''invalid user_id''
        else Inr \<lparr>af_From = from, af_To = to, af_Allowed = (if s = '''' then None else ParseBool s),
                  af_UserID = (if u = '''' then None else parseUUID srv u),
                  af_Search = (if q = '''' then None else Some q)\<rparr>))"

text \<open>
  The rows of a page out of one more than its size, and whether there is a next page:
  \<open>if int32(len(rows)) > limit { last := rows[limit-1]; rows = rows[:limit] }\<close>.
\<close>
definition split_page :: "nat \<Rightarrow> ('r \<Rightarrow> string) \<Rightarrow> 'r list \<Rightarrow> 'r list \<times> string" where
  "split_page limit cursor rows =
     (if length rows > limit then (take limit rows, cursor (rows ! (limit - 1))) else (rows, ''''))"

section \<open>A cursor names its row\<close>

text \<open>\<open>pgtype.UUID.Scan\<close> reads the canonical text of an id.\<close>
definition scan_ok :: "server \<Rightarrow> bool" where
  "scan_ok srv \<longleftrightarrow> (\<forall>i. srv_scan srv (uuidString (Some i)) = Some i)"

lemma page_limit_bounds: "page_limit query = Inr n \<Longrightarrow> 1 \<le> n \<and> n \<le> 100"
  by (auto simp: page_limit_def Let_def defaultPageSize_def maxPageSize_def split: if_splits option.splits)

lemma raw_url_nonempty: "b \<noteq> [] \<Longrightarrow> raw_url_encode b \<noteq> []"
proof -
  have "raw_url_encode [] = []" by (simp add: raw_url_encode_def raw_std_encode_def)
  then show "b \<noteq> [] \<Longrightarrow> raw_url_encode b \<noteq> []" using raw_url_roundtrip [of b] raw_url_roundtrip [of "[]"] by auto
qed

lemma pad_no: "\<not> is_digit c \<Longrightarrow> c \<notin> set (pad w n)"
proof -
  assume "\<not> is_digit c"
  moreover have "is_digit (CHR ''0'')" by (simp add: is_digit_def)
  ultimately show ?thesis
    using dec_digits_digits [of n] by (auto simp: pad_def Let_def list_all_iff)
qed

lemma format_no_bar: "CHR ''|'' \<notin> set (FormatRFC3339Nano t)"
proof -
  have p: "CHR ''|'' \<notin> set (pad w n)" for w n by (rule pad_no) (simp add: is_digit_def)
  then have i: "CHR ''|'' \<notin> set (fmt_int w n)" for w n by (simp add: fmt_int_def)
  have "CHR ''|'' \<notin> set (fmt_frac n)" for n
    using p [of 9 "nat n"] by (auto simp: fmt_frac_def dest: set_dropWhileD)
  then show ?thesis using i by (simp add: FormatRFC3339Nano_def Let_def)
qed

lemma decode_encodeCursor:
  assumes "scan_ok srv" "time_in_range at"
  shows "decodeCursor srv (encodeCursor at i) = Inr \<lparr>cur_At = Some at, cur_ID = Some i\<rparr>"
  using assms raw_url_nonempty [of "FormatRFC3339Nano at @ ''|'' @ uuidString (Some i)"]
  by (simp add: decodeCursor_def encodeCursor_def raw_url_roundtrip Cut_append format_no_bar
      FormatRFC3339Nano_parse scan_ok_def parseUUID_def)

lemma decode_encodeUserCursor:
  assumes "scan_ok srv" "email \<noteq> ''''" "CHR 0x00 \<notin> set email"
  shows "decodeUserCursor srv (encodeUserCursor email i) = Inr \<lparr>uc_Email = email, uc_ID = Some i\<rparr>"
  using assms raw_url_nonempty [of "email @ [CHR 0x00] @ uuidString (Some i)"]
  by (simp add: decodeUserCursor_def encodeUserCursor_def raw_url_roundtrip Cut_append scan_ok_def parseUUID_def)

section \<open>Following cursors enumerates the table\<close>

text \<open>The rows after a key of a table that is sorted by distinct keys.\<close>
lemma rows_after_key:
  fixes key :: "'r \<Rightarrow> 'k :: linorder"
  assumes "sorted_wrt (<) (map key (xs @ y # ys))"
  shows "filter (\<lambda>r. key y < key r) (xs @ y # ys) = ys"
proof -
  have "\<forall>x \<in> set xs. key x < key y" "\<forall>z \<in> set ys. key y < key z"
    using assms by (auto simp: sorted_wrt_append)
  then show ?thesis by (auto simp: filter_empty_conv filter_id_conv)
qed

end
