(* ===== verification/Enroll_Protocol.thy ===== *)
theory Enroll_Protocol
  imports Protocol Go_Time
begin

text \<open>
  The messages of \<open>internal/protocol\<close> that travel over HTTP: enrollment and decommissioning, used by
  the control plane's handlers and by the daemon's commands.
\<close>

record EnrollRequest =
  er_Token :: string
  er_Hostname :: string
  er_PublicKey :: string
  er_EncryptionKey :: string
  er_MachineID :: string
  er_PriorHostID :: string

record EnrollResponse =
  ers_HostID :: string
  ers_SigningPublicKey :: string

record DecommissionRequest =
  dr_At :: time
  dr_Signature :: bytes

definition DecommissionSigningInput :: "string \<Rightarrow> time \<Rightarrow> bytes" where
  "DecommissionSigningInput hostID at =
     ''custos-host-decommission:v1:'' @ hostID @ '':'' @ FormatRFC3339Nano at"

end
