(* ===== verification/Hosts.thy ===== *)
theory Hosts
  imports Resource_Groups Pagination Enroll_Protocol
begin

text \<open>
  \<open>internal/controlplane/hosts.go\<close>: the detail of a host, the log of logins on it, a forced refresh,
  and its end: revocation by a user and decommissioning by its own daemon. Revocation first sets
  the status, then sends an empty snapshot and cancels the connection.
\<close>

record hostDetailView = hostView +
  hdv_Connected :: bool
  hdv_Encryption :: bool
  hdv_Sets :: "string list"

record hostAuditView =
  hadv_Account :: string
  hadv_Allowed :: bool
  hadv_Fingerprint :: string
  hadv_At :: time
  hadv_UserID :: string
  hadv_UserEmail :: string
  hadv_UserName :: string
  hadv_UserDisplayName :: string
  hadv_UserRole :: string
  hadv_UserStatus :: string

record hostRefreshView =
  hrv_Connected :: bool
  hrv_KeyCount :: nat
  hrv_Seq :: "64 word"

text \<open>What \<open>GetHostByID\<close>'s errors become.\<close>
definition host_lookup_error :: "string \<Rightarrow> dberr \<Rightarrow> 'v response" where
  "host_lookup_error msg e = (if e = ErrNoRows then HttpError 404 ''host not found'' else serverError msg)"

section \<open>Reading a host\<close>

definition handleGetHost :: "server \<Rightarrow> authInfo \<Rightarrow> string \<Rightarrow> hostDetailView response action" where
  "handleGetHost srv auth idParam = (case parseUUID srv idParam of
     None \<Rightarrow> ret (HttpError 400 ''invalid host id'')
   | Some hostID \<Rightarrow> do {
       ok \<leftarrow> canHost auth ''host.access'' hostID;
       if \<not> ok then ret (HttpError 403 ''forbidden'')
       else attempt (call (single (GetHostByID hostID))) (\<lambda>e. ret (host_lookup_error ''could not load host'' e)) (\<lambda>host. do {
         rows \<leftarrow> call (many (SetsForHost (srv_coll srv) hostID));
         v \<leftarrow> host_view auth (host_row host);
         h \<leftarrow> the_hub;
         writeResponse srv (a_ClientPublicKey auth)
           (hostView.extend v \<lparr>hdv_Connected = online (uuidString (Some (h_ID host))) h,
              hdv_Encryption = (h_EncryptionKey host \<noteq> ''''), hdv_Sets = map sfh_Name (or_nil rows)\<rparr>) }) })"

definition host_audit_view :: "ListHostAccessLogsRow \<Rightarrow> hostAuditView" where
  "host_audit_view row = \<lparr>hadv_Account = hl_Account row, hadv_Allowed = hl_Allowed row,
     hadv_Fingerprint = hl_Fingerprint row, hadv_At = hl_At row, hadv_UserID = uuidString (hl_UserID row),
     hadv_UserEmail = hl_UserEmail row, hadv_UserName = hl_UserName row,
     hadv_UserDisplayName = hl_UserDisplayName row, hadv_UserRole = hl_UserRole row,
     hadv_UserStatus = hl_UserStatus row\<rparr>"

definition handleHostAudit :: "server \<Rightarrow> authInfo \<Rightarrow> string \<Rightarrow> (string \<Rightarrow> string) \<Rightarrow> hostAuditView page response action" where
  "handleHostAudit srv auth idParam query = (case parseUUID srv idParam of
     None \<Rightarrow> ret (HttpError 400 ''invalid host id'')
   | Some hostID \<Rightarrow> do {
       ok \<leftarrow> canHost auth ''host.access'' hostID;
       if \<not> ok then ret (HttpError 403 ''forbidden'')
       else (case pageParams srv query of Inl msg \<Rightarrow> ret (HttpError 400 msg)
         | Inr (limit, cur) \<Rightarrow> (case parseAuditFilters srv query of Inl msg \<Rightarrow> ret (HttpError 400 msg)
           | Inr f \<Rightarrow>
             attempt (call (many (ListHostAccessLogs (srv_ilike srv) hostID
                 \<lparr>hlp_CursorAt = cur_At cur, hlp_CursorID = cur_ID cur, hlp_From = af_From f, hlp_To = af_To f,
                  hlp_Allowed = af_Allowed f, hlp_UserID = af_UserID f, hlp_Search = af_Search f\<rparr> (limit + 1))))
               (\<lambda>_. ret (serverError ''could not load host audit'')) (\<lambda>rows.
                 case split_page limit (\<lambda>r. encodeCursor (hl_At r) (hl_ID r)) rows of (rs, next) \<Rightarrow>
                 writeResponse srv (a_ClientPublicKey auth)
                   \<lparr>pg_Items = map host_audit_view rs, pg_NextCursor = next\<rparr>))) })"

definition handleRefreshHost :: "server \<Rightarrow> authInfo \<Rightarrow> string \<Rightarrow> hostRefreshView response action" where
  "handleRefreshHost srv auth idParam = (case parseUUID srv idParam of
     None \<Rightarrow> ret (HttpError 400 ''invalid host id'')
   | Some hostID \<Rightarrow> do {
       ok \<leftarrow> canHost auth ''host.access'' hostID;
       if \<not> ok then ret (HttpError 403 ''forbidden'')
       else attempt (call (single (GetHostByID hostID))) (\<lambda>e. ret (host_lookup_error ''could not load host'' e)) (\<lambda>host.
         if h_Status host \<noteq> ''active'' then ret (HttpError 409 ''host not active'')
         else attempt (buildSnapshot host) (\<lambda>_. ret (serverError ''could not build snapshot'')) (\<lambda>snapshot.
           attempt (snapshotEnvelope srv hostID snapshot) (\<lambda>_. ret (serverError ''could not sign snapshot'')) (\<lambda>env. do {
             h \<leftarrow> the_hub;
             let connected = online (uuidString (Some hostID)) h;
             (if connected then on_hub (push (uuidString (Some hostID)) env) else ret ());
             writeResponse srv (a_ClientPublicKey auth)
               \<lparr>hrv_Connected = connected, hrv_KeyCount = length (snap_Entries snapshot), hrv_Seq = env_Seq env\<rparr> }))) })"

section \<open>The end of a host\<close>

definition revokeHost :: "server \<Rightarrow> uuid \<Rightarrow> (dberr + unit) action" where
  "revokeHost srv hostID =
     attempt (call (SetHostStatus hostID ''revoked'')) (\<lambda>e. ret (Inl e)) (\<lambda>n.
       if n = 0 then ret (Inl ErrNoRows)
       else attempt (snapshotEnvelope srv hostID \<lparr>snap_Entries = []\<rparr>) (\<lambda>e. ret (Inl e)) (\<lambda>purge. do {
         on_hub (disconnect (uuidString (Some hostID)) purge);
         ret (Inr ()) }))"

definition handleRevokeHost :: "server \<Rightarrow> authInfo \<Rightarrow> string \<Rightarrow> unit response action" where
  "handleRevokeHost srv auth idParam = (case parseUUID srv idParam of
     None \<Rightarrow> ret (HttpError 400 ''invalid host id'')
   | Some hostID \<Rightarrow> do {
       ok \<leftarrow> canHost auth ''host.revoke'' hostID;
       if \<not> ok then ret (HttpError 403 ''forbidden'')
       else attempt (revokeHost srv hostID) (\<lambda>e. ret (host_lookup_error ''could not revoke host'' e))
         (\<lambda>_. ret (Status 204)) })"

text \<open>No session: the daemon signs the request. The body is plain JSON, decoded by the caller.\<close>
definition handleDecommissionHost :: "server \<Rightarrow> string \<Rightarrow> DecommissionRequest option \<Rightarrow> unit response action" where
  "handleDecommissionHost srv idParam body = (case parseUUID srv idParam of
     None \<Rightarrow> ret (HttpError 400 ''invalid host id'')
   | Some hostID \<Rightarrow>
       attempt (call (single (GetHostByID hostID)))
         (\<lambda>e. ret (host_lookup_error ''could not decommission host'' e)) (\<lambda>host.
         if h_Status host \<noteq> ''active'' then ret (HttpError 409 ''host not active'')
         else (case body of None \<Rightarrow> ret (HttpError 400 ''invalid request'')
           | Some req \<Rightarrow> do {
               t \<leftarrow> now;
               if dr_At req = zero_time \<or> t - dr_At req > 5 * Minute \<or> dr_At req - t > 5 * Minute
               then ret (HttpError 401 ''stale decommission request'')
               else if \<not> ident_Verify (srv_ed srv) (h_IdentityKey host)
                      (DecommissionSigningInput (uuidString (Some hostID)) (dr_At req)) (dr_Signature req)
               then ret (HttpError 401 ''invalid signature'')
               else attempt (revokeHost srv hostID) (\<lambda>_. ret (serverError ''could not decommission host''))
                 (\<lambda>_. ret (Status 204)) })))"

section \<open>Handlers keep the schema and the history\<close>

lemma eff_host_reads [eff]:
  "state_io_rel world_read (handleGetHost srv auth i)"
  "state_io_rel world_read (handleHostAudit srv auth i q)"
  unfolding handleGetHost_def handleHostAudit_def by (intro eff)+

lemma eff_handleRefreshHost [eff]: "state_io_rel world_step (handleRefreshHost srv auth i)"
  unfolding handleRefreshHost_def Let_def by (intro eff db_steps eff_weaken [OF eff_the_hub])

lemma eff_revokeHost [eff]: "state_io_rel world_step (revokeHost srv i)"
  unfolding revokeHost_def by (intro eff db_steps)

lemma eff_host_writes [eff]:
  "state_io_rel world_step (handleRevokeHost srv auth i)"
  "state_io_rel world_step (handleDecommissionHost srv i req)"
  unfolding handleRevokeHost_def handleDecommissionHost_def by (intro eff db_steps)+

end
