(* ===== verification/Access_Audit.thy ===== *)
theory Access_Audit
  imports Hosts
begin

text \<open>
  \<open>internal/controlplane/access_audit.go\<close>: who can reach a secret or a host, and by which grants.
  The host's report is paged by user, so one user's paths are never split over two pages.
\<close>

record accessPath =
  ap_Via :: string
  ap_GrantID :: string
  ap_Permission :: string
  ap_GroupID :: string
  ap_GroupName :: string
  ap_GrantedAt :: time

record hostAccessEntry =
  hae_UserID :: string
  hae_Email :: string
  hae_Name :: string
  hae_DisplayName :: string
  hae_Role :: string
  hae_Status :: string
  hae_Fingerprints :: "string list"
  hae_Paths :: "accessPath list"

record accessEntry =
  ace_UserID :: string
  ace_Email :: string
  ace_Name :: string
  ace_DisplayName :: string
  ace_Role :: string
  ace_Status :: string
  ace_Via :: string
  ace_GrantID :: string
  ace_Permission :: string
  ace_Fingerprints :: "string list"
  ace_GroupID :: string
  ace_GroupName :: string
  ace_GrantedAt :: "time option"

record accessAuditView =
  aav_SecretID :: string
  aav_SecretName :: string
  aav_Entries :: "accessEntry list"

record hostAccessAuditView =
  hav_HostID :: string
  hav_HostName :: string
  hav_Entries :: "hostAccessEntry list"
  hav_NextCursor :: string

section \<open>Who can reach a secret\<close>

definition direct_entry :: "ListSecretDirectAccessRow \<Rightarrow> accessEntry" where
  "direct_entry d = \<lparr>ace_UserID = uuidString (Some (da_UserID d)), ace_Email = da_Email d, ace_Name = da_Name d,
     ace_DisplayName = textString (da_DisplayName d), ace_Role = da_Role d, ace_Status = da_Status d,
     ace_Via = ''direct'', ace_GrantID = uuidString (Some (da_GrantID d)), ace_Permission = da_Permission d,
     ace_Fingerprints = [], ace_GroupID = '''', ace_GroupName = '''', ace_GrantedAt = Some (da_CreatedAt d)\<rparr>"

definition group_entry :: "ListSecretGroupAccessRow \<Rightarrow> accessEntry" where
  "group_entry g = \<lparr>ace_UserID = uuidString (Some (da_UserID g)), ace_Email = da_Email g, ace_Name = da_Name g,
     ace_DisplayName = textString (da_DisplayName g), ace_Role = da_Role g, ace_Status = da_Status g,
     ace_Via = ''group'', ace_GrantID = uuidString (Some (da_GrantID g)), ace_Permission = da_Permission g,
     ace_Fingerprints = [], ace_GroupID = uuidString (Some (ga_GroupID g)), ace_GroupName = ga_GroupName g,
     ace_GrantedAt = Some (da_CreatedAt g)\<rparr>"

definition admin_entry :: "User \<Rightarrow> accessEntry" where
  "admin_entry a = \<lparr>ace_UserID = uuidString (Some (u_ID a)), ace_Email = u_Email a, ace_Name = u_Name a,
     ace_DisplayName = textString (u_DisplayName a), ace_Role = ''admin'', ace_Status = u_Status a,
     ace_Via = ''admin'', ace_GrantID = '''', ace_Permission = ''*'', ace_Fingerprints = [],
     ace_GroupID = '''', ace_GroupName = '''', ace_GrantedAt = None\<rparr>"

definition handleSecretAccessAudit :: "server \<Rightarrow> authInfo \<Rightarrow> string \<Rightarrow> accessAuditView response action" where
  "handleSecretAccessAudit srv auth idParam = (case parseUUID srv idParam of
     None \<Rightarrow> ret (HttpError 400 ''invalid secret id'')
   | Some secretID \<Rightarrow>
       attempt (call (single (GetSecret secretID))) (\<lambda>e. ret (secret_lookup_error ''could not load secret'' e)) (\<lambda>secret.
       attempt (call (many (ListSecretDirectAccess (srv_coll srv) secretID)))
         (\<lambda>_. ret (serverError ''could not load access'')) (\<lambda>direct.
       attempt (call (many (ListSecretGroupAccess (srv_coll srv) secretID)))
         (\<lambda>_. ret (serverError ''could not load access'')) (\<lambda>group.
       attempt (call (many (ListActiveAdmins (srv_coll srv))))
         (\<lambda>_. ret (serverError ''could not load access'')) (\<lambda>admins.
         writeResponse srv (a_ClientPublicKey auth)
           \<lparr>aav_SecretID = uuidString (Some (sec_ID (fst secret))), aav_SecretName = sec_Label (fst secret),
            aav_Entries = map direct_entry direct @ map group_entry group @ map admin_entry admins\<rparr>)))))"

section \<open>Who can reach a host\<close>

definition access_user_entry :: "ListHostAccessUsersRow \<Rightarrow> hostAccessEntry" where
  "access_user_entry user = \<lparr>hae_UserID = uuidString (Some (hau_UserID user)), hae_Email = hau_Email user,
     hae_Name = hau_Name user, hae_DisplayName = textString (hau_DisplayName user), hae_Role = hau_Role user,
     hae_Status = hau_Status user, hae_Fingerprints = hau_Fingerprints user, hae_Paths = []\<rparr>"

text \<open>The map \<open>byUser\<close>: a later user of the same id would overwrite an earlier one.\<close>
fun index_users :: "nat \<Rightarrow> ListHostAccessUsersRow list \<Rightarrow> string \<Rightarrow> nat option" where
  "index_users i [] uid = None"
| "index_users i (u # us) uid = (case index_users (Suc i) us uid of Some j \<Rightarrow> Some j
     | None \<Rightarrow> if uuidString (Some (hau_UserID u)) = uid then Some i else None)"

definition access_path :: "ListHostAccessPathsForUsersRow \<Rightarrow> accessPath" where
  "access_path row = \<lparr>ap_Via = hap_Via row, ap_GrantID = uuidString (Some (hap_GrantID row)),
     ap_Permission = hap_Permission row,
     ap_GroupID = (case hap_GroupID row of None \<Rightarrow> '''' | Some g \<Rightarrow> uuidString (Some g)),
     ap_GroupName = (case hap_GroupID row of None \<Rightarrow> '''' | Some g \<Rightarrow> hap_GroupName row),
     ap_GrantedAt = hap_CreatedAt row\<rparr>"

definition add_path :: "(string \<Rightarrow> nat option) \<Rightarrow> ListHostAccessPathsForUsersRow \<Rightarrow> hostAccessEntry list \<Rightarrow> hostAccessEntry list" where
  "add_path byUser row entries = (case byUser (uuidString (Some (hap_UserID row))) of
     None \<Rightarrow> entries
   | Some idx \<Rightarrow> entries[idx := (entries ! idx)\<lparr>hae_Paths := hae_Paths (entries ! idx) @ [access_path row]\<rparr>])"

definition handleHostAccessAudit :: "server \<Rightarrow> authInfo \<Rightarrow> string \<Rightarrow> (string \<Rightarrow> string) \<Rightarrow> hostAccessAuditView response action" where
  "handleHostAccessAudit srv auth idParam query = (case parseUUID srv idParam of
     None \<Rightarrow> ret (HttpError 400 ''invalid host id'')
   | Some hostID \<Rightarrow> do {
       ok \<leftarrow> canHost auth ''host.audit'' hostID;
       if \<not> ok then ret (HttpError 403 ''forbidden'')
       else attempt (call (single (GetHostByID hostID))) (\<lambda>e. ret (host_lookup_error ''could not load host'' e)) (\<lambda>host.
         case userPageParams srv query of Inl msg \<Rightarrow> ret (HttpError 400 msg)
         | Inr (limit, cur) \<Rightarrow>
           attempt (call (many (ListHostAccessUsers (srv_coll srv) hostID (uc_Email cur) (uc_ID cur) (limit + 1))))
             (\<lambda>_. ret (serverError ''could not load access'')) (\<lambda>rows.
             let (users, nextCursor) = split_page limit (\<lambda>u. encodeUserCursor (hau_Email u) (hau_UserID u)) rows;
                 entries = map access_user_entry users;
                 respond = (\<lambda>es. writeResponse srv (a_ClientPublicKey auth)
                   \<lparr>hav_HostID = uuidString (Some (h_ID host)), hav_HostName = h_Name host,
                    hav_Entries = es, hav_NextCursor = nextCursor\<rparr>) in
             if users = [] then respond entries
             else attempt (call (many (ListHostAccessPathsForUsers (srv_coll srv) hostID (map hau_UserID users))))
               (\<lambda>_. ret (serverError ''could not load access paths''))
               (\<lambda>paths. respond (fold (add_path (index_users 0 users)) paths entries)))) })"

lemma eff_access_audit [eff]:
  "state_io_rel world_read (handleSecretAccessAudit srv auth i)"
  "state_io_rel world_read (handleHostAccessAudit srv auth i q)"
  unfolding handleSecretAccessAudit_def handleHostAccessAudit_def Let_def by (intro eff)+

end
