(* ===== verification/Enroll.thy ===== *)
theory Enroll
  imports Hosts
begin

text \<open>
  \<open>internal/controlplane/enroll.go\<close> and \<open>enroll_tokens.go\<close>: a user with \<open>host.add\<close> mints a token that
  fixes the accounts of the host it will enroll; a daemon redeems it once for a host row.
\<close>

section \<open>Tokens\<close>

record createEnrollTokenRequest =
  cet_Accounts :: "string list"
  cet_Label :: string
  cet_TTLHours :: int

record createEnrollTokenResponse =
  cer_Token :: string
  cer_ExpiresAt :: time

text \<open>\<open>time.Duration(n) * time.Hour\<close>: the product of two \<open>int64\<close> wraps.\<close>
definition hours :: "int \<Rightarrow> duration" where
  "hours n = sint (word_of_int (n * Hour) :: 64 word)"

definition token_ttl :: "int \<Rightarrow> duration" where
  "token_ttl n = (let ttl = hours n in if ttl \<le> 0 then Hour else ttl)"

definition handleCreateEnrollToken ::
    "server \<Rightarrow> authInfo \<Rightarrow> createEnrollTokenRequest option \<Rightarrow> createEnrollTokenResponse response action" where
  "handleCreateEnrollToken srv auth body = do {
     ok \<leftarrow> canGlobal auth ''host.add'';
     if \<not> ok then ret (HttpError 403 ''forbidden'')
     else (case body of None \<Rightarrow> ret (HttpError 400 ''invalid request'')
       | Some req \<Rightarrow>
         if cet_Accounts req = [] then ret (HttpError 400 ''accounts are required'')
         else attempt (GenerateToken srv) (\<lambda>_. ret (serverError ''internal error'')) (\<lambda>(raw, hash). do {
           t \<leftarrow> now;
           let expiresAt = t + token_ttl (cet_TTLHours req);
           attempt (call (CreateEnrollmentToken hash (pgText (cet_Label req)) (cet_Accounts req)
               (Some (a_UserID auth)) expiresAt))
             (\<lambda>_. ret (serverError ''could not create token''))
             (\<lambda>_. writeResponse srv (a_ClientPublicKey auth)
                \<lparr>cer_Token = raw, cer_ExpiresAt = expiresAt\<rparr>) })) }"

section \<open>Enrollment\<close>

datatype enroll_error = InvalidToken | AlreadyEnrolled | EnrollFails dberr

text \<open>The two guards against enrolling a machine that has an active host.\<close>
definition machine_guard :: "string option \<Rightarrow> (enroll_error + unit) tx_action" where
  "machine_guard machineID = (if machineID = None then ret (Inr ())
     else attempt (tx_call (single (GetActiveHostByMachineID machineID)))
       (\<lambda>e. ret (if e = ErrNoRows then Inr () else Inl (EnrollFails e))) (\<lambda>_. ret (Inl AlreadyEnrolled)))"

definition prior_guard :: "server \<Rightarrow> string \<Rightarrow> (enroll_error + unit) tx_action" where
  "prior_guard srv prior = (if prior = '''' then ret (Inr ())
     else case parseUUID srv prior of None \<Rightarrow> ret (Inr ())
     | Some priorID \<Rightarrow> attempt (tx_call (single (GetHostByID priorID)))
         (\<lambda>e. ret (if e = ErrNoRows then Inr () else Inl (EnrollFails e)))
         (\<lambda>h. ret (if h_Status h = ''active'' then Inl AlreadyEnrolled else Inr ())))"

definition host_name :: "EnrollmentToken \<Rightarrow> EnrollRequest \<Rightarrow> string" where
  "host_name tok req = (case et_Label tok of
     Some l \<Rightarrow> if l \<noteq> '''' then l else er_Hostname req | None \<Rightarrow> er_Hostname req)"

text \<open>The transaction of \<open>enroll\<close>.\<close>
definition enrollTx :: "server \<Rightarrow> EnrollRequest \<Rightarrow> ((enroll_error + string) + string) tx_action" where
  "enrollTx srv req = (let fail = (\<lambda>e. ret (Inl (Inl e))) in
     attempt (tx_call (single (GetEnrollmentToken (HashToken srv (er_Token req)))))
       (\<lambda>e. fail (if e = ErrNoRows then InvalidToken else EnrollFails e)) (\<lambda>tok. do {
         t \<leftarrow> outside now;
         if et_UsedAt tok \<noteq> None \<or> et_ExpiresAt tok < t then fail InvalidToken
         else let machineID = pgText (er_MachineID req) in
           attempt (machine_guard machineID) fail (\<lambda>_.
           attempt (prior_guard srv (er_PriorHostID req)) fail (\<lambda>_.
           attempt (tx_call (CreateHost (host_name tok req) (er_Hostname req) (er_PublicKey req)
               (et_Accounts tok) machineID (er_EncryptionKey req)))
             (\<lambda>e. fail (if isUniqueViolation e then AlreadyEnrolled else EnrollFails e)) (\<lambda>host.
           attempt (tx_call (MarkTokenUsed (et_ID tok) (Some (h_ID host)))) (\<lambda>e. fail (EnrollFails e)) (\<lambda>_.
             ret (Inr (uuidString (Some (h_ID host)))))))) }))"

definition enroll :: "server \<Rightarrow> EnrollRequest \<Rightarrow> (enroll_error + string) action" where
  "enroll srv req = with_tx (\<lambda>e. Inl (EnrollFails e)) (enrollTx srv req) (\<lambda>e. Inl (EnrollFails e))
     (\<lambda>hostID. ret (Inr hostID))"

definition signingPublicKey :: "server \<Rightarrow> string" where
  "signingPublicKey srv = (case srv_signer srv of None \<Rightarrow> '''' | Some priv \<Rightarrow> ident_PublicKey (srv_ed srv) priv)"

definition handleEnroll :: "server \<Rightarrow> EnrollRequest option \<Rightarrow> EnrollResponse response action" where
  "handleEnroll srv body = (case body of None \<Rightarrow> ret (HttpError 400 ''invalid request'')
   | Some req \<Rightarrow>
     if er_Token req = '''' \<or> er_PublicKey req = ''''
     then ret (HttpError 400 ''token and public_key are required'')
     else attempt (enroll srv req)
       (\<lambda>e. ret (case e of InvalidToken \<Rightarrow> HttpError 401 ''invalid or expired token''
          | AlreadyEnrolled \<Rightarrow> HttpError 409 ''host already enrolled; revoke it before re-enrolling''
          | EnrollFails _ \<Rightarrow> serverError ''enrollment failed''))
       (\<lambda>hostID. ret (Body \<lparr>ers_HostID = hostID, ers_SigningPublicKey = signingPublicKey srv\<rparr>)))"

section \<open>Handlers keep the schema and the history\<close>

lemma eff_handleCreateEnrollToken [eff]: "state_io_rel world_step (handleCreateEnrollToken srv auth body)"
  unfolding handleCreateEnrollToken_def Let_def by (intro eff db_steps)

lemma eff_guards [eff]:
  "state_io_rel tx_step (machine_guard m)" "state_io_rel tx_step (prior_guard srv p)"
  unfolding machine_guard_def prior_guard_def by (intro eff db_steps)+

lemma eff_handleEnroll [eff]: "state_io_rel world_step (handleEnroll srv body)"
  unfolding handleEnroll_def enroll_def enrollTx_def Let_def by (intro eff db_steps eff_outside)

end
