(* ===== verification/Upgrades.thy ===== *)
theory Upgrades
  imports Enroll
begin

text \<open>
  \<open>internal/controlplane/upgrades.go\<close>: the digests of a release, read once from the published
  checksums and cached, and the upgrade order sent to one host or to the fleet. An order carries
  no signature; the digests in it are what the daemon checks its download against.
\<close>

definition upgradeRepo :: string where "upgradeRepo = ''tofunmiadewuyi/custos''"
definition upgradeArches :: "string list" where "upgradeArches = [''amd64'', ''arm64'']"

text \<open>The digits a text starts with, then \<open>k\<close> on the rest.\<close>
definition digits_then :: "(string \<Rightarrow> bool) \<Rightarrow> string \<Rightarrow> bool" where
  "digits_then k s \<longleftrightarrow> takeWhile is_digit s \<noteq> [] \<and> k (dropWhile is_digit s)"

definition dot_then :: "(string \<Rightarrow> bool) \<Rightarrow> string \<Rightarrow> bool" where
  "dot_then k s \<longleftrightarrow> (case s of c # r \<Rightarrow> c = CHR ''.'' \<and> k r | [] \<Rightarrow> False)"

text \<open>\<open>^v\d+\.\d+\.\d+$\<close>\<close>
definition versionRe :: "string \<Rightarrow> bool" where
  "versionRe s \<longleftrightarrow> (case CutPrefix s ''v'' of None \<Rightarrow> False
     | Some r \<Rightarrow> digits_then (dot_then (digits_then (dot_then (digits_then (\<lambda>r. r = []))))) r)"

section \<open>The digests of a release\<close>

text \<open>
  The lines \<open>bufio.Scanner\<close> yields: without the newline and a carriage return before it, no last
  empty line. A line that does not fit the scanner's 64 KiB buffer is an error.
\<close>
definition scan_lines :: "bytes \<Rightarrow> string list option" where
  "scan_lines b =
     (let ls = Split b (CHR 0x0A); kept = (if last ls = [] then butlast ls else ls) in
      if list_ex (\<lambda>l. length l \<ge> 65536) kept then None
      else Some (map (\<lambda>l. if l \<noteq> [] \<and> last l = CHR 0x0D then butlast l else l) kept))"

definition tarball :: "string \<Rightarrow> string \<Rightarrow> string" where
  "tarball version arch = ''custosd_'' @ version @ ''_linux_'' @ arch @ ''.tar.gz''"

definition checksum_line :: "string \<Rightarrow> string \<Rightarrow> str_map \<Rightarrow> str_map" where
  "checksum_line version line out = (case Fields line of
     [sha, file] \<Rightarrow> (case find (\<lambda>arch. tarball version arch = file) upgradeArches of
         Some arch \<Rightarrow> map_put arch sha out | None \<Rightarrow> out)
   | _ \<Rightarrow> out)"

definition parseChecksums :: "bytes \<Rightarrow> string \<Rightarrow> str_map option" where
  "parseChecksums body version = (case scan_lines body of None \<Rightarrow> None
     | Some ls \<Rightarrow> (let out = fold (checksum_line version) ls [] in if out = [] then None else Some out))"

definition checksums_url :: "string \<Rightarrow> string" where
  "checksums_url version = ''https://github.com/'' @ upgradeRepo @ ''/releases/download/custosd/'' @
     version @ ''/custosd_'' @ version @ ''_checksums.txt''"

text \<open>\<open>None\<close> is any error: of the request, of its status, or of the text.\<close>
definition resolveChecksums :: "string \<Rightarrow> str_map option action" where
  "resolveChecksums version = State (\<lambda>w. case map_of (w_checksums w) version of
     Some m \<Rightarrow> (Some m, w)
   | None \<Rightarrow> (let w' = w\<lparr>w_tick := Suc (w_tick w)\<rparr> in
       case w_http w (w_tick w) (checksums_url version) of
         None \<Rightarrow> (None, w')
       | Some (status, body) \<Rightarrow>
           if status \<noteq> 200 then (None, w')
           else (case parseChecksums body version of None \<Rightarrow> (None, w')
             | Some m \<Rightarrow> (Some m, w'\<lparr>w_checksums := (version, m) # w_checksums w\<rparr>))))"

definition buildUpgrade :: "string \<Rightarrow> Upgrade option action" where
  "buildUpgrade version = do { sums \<leftarrow> resolveChecksums version;
     ret (map_option (\<lambda>m. \<lparr>up_Version = version, up_SHA256 = m\<rparr>) sums) }"

section \<open>Sending the order\<close>

record upgradeOutcome =
  uo_HostID :: string
  uo_Hostname :: string
  uo_Outcome :: string

text \<open>\<open>protocol.NewEnvelope(protocol.TypeUpgrade, up)\<close>\<close>
definition upgrade_envelope :: "Upgrade \<Rightarrow> Envelope" where
  "upgrade_envelope up = \<lparr>env_Type = TypeUpgrade, env_Data = enc (upgrade_json up), env_Seq = 0, env_Sig = ''''\<rparr>"

definition pushUpgrade :: "uuid \<Rightarrow> string \<Rightarrow> string \<Rightarrow> string \<Rightarrow> Upgrade \<Rightarrow> upgradeOutcome action" where
  "pushUpgrade i hostname current target up =
     (let out = (\<lambda>s. \<lparr>uo_HostID = uuidString (Some i), uo_Hostname = hostname, uo_Outcome = s\<rparr>) in
      if current = target then ret (out ''already-current'')
      else attempt (call (SetHostDesiredVersion i target)) (\<lambda>_. ret (out ''error'')) (\<lambda>_. do {
        h \<leftarrow> the_hub;
        if online (uuidString (Some i)) h
        then do { on_hub (push (uuidString (Some i)) (upgrade_envelope up)); ret (out ''pushed'') }
        else ret (out ''offline-queued'') }))"

text \<open>The body of both requests: a version, or nothing that is one.\<close>
definition upgrade_version :: "string option \<Rightarrow> string option" where
  "upgrade_version body = (case body of None \<Rightarrow> None | Some v \<Rightarrow> if versionRe v then Some v else None)"

definition handleUpgradeHost :: "server \<Rightarrow> authInfo \<Rightarrow> string \<Rightarrow> string option \<Rightarrow> upgradeOutcome response action" where
  "handleUpgradeHost srv auth idParam body = (case parseUUID srv idParam of
     None \<Rightarrow> ret (HttpError 400 ''invalid host id'')
   | Some hostID \<Rightarrow> do {
       ok \<leftarrow> canHost auth ''host.upgrade'' hostID;
       if \<not> ok then ret (HttpError 403 ''forbidden'')
       else (case upgrade_version body of None \<Rightarrow> ret (HttpError 400 ''version must look like vX.Y.Z'')
         | Some version \<Rightarrow>
           attempt (call (single (GetHostByID hostID))) (\<lambda>_. ret (HttpError 404 ''host not found'')) (\<lambda>host.
             if h_Status host \<noteq> ''active'' then ret (HttpError 409 ''host not active'')
             else do {
               up \<leftarrow> buildUpgrade version;
               (case up of None \<Rightarrow> ret (serverError ''could not resolve release'')
                | Some u \<Rightarrow> do {
                    out \<leftarrow> pushUpgrade (h_ID host) (h_Hostname host) (h_AgentVersion host) version u;
                    writeResponse srv (a_ClientPublicKey auth) out }) })) })"

fun push_fleet :: "string \<Rightarrow> Upgrade \<Rightarrow> ListActiveHostsRow list \<Rightarrow> upgradeOutcome list action" where
  "push_fleet version up [] = ret []"
| "push_fleet version up (h # hs) = do {
     o1 \<leftarrow> pushUpgrade (lah_ID h) (lah_Hostname h) (lah_AgentVersion h) version up;
     rest \<leftarrow> push_fleet version up hs;
     ret (o1 # rest) }"

definition handleUpgradeFleet :: "server \<Rightarrow> authInfo \<Rightarrow> string option \<Rightarrow> upgradeOutcome list response action" where
  "handleUpgradeFleet srv auth body =
     (case upgrade_version body of None \<Rightarrow> ret (HttpError 400 ''version must look like vX.Y.Z'')
      | Some version \<Rightarrow> do {
          up \<leftarrow> buildUpgrade version;
          (case up of None \<Rightarrow> ret (serverError ''could not resolve release'')
           | Some u \<Rightarrow> attempt (call (many (ListActiveHosts (srv_coll srv))))
               (\<lambda>_. ret (serverError ''could not list hosts'')) (\<lambda>hosts. do {
                 results \<leftarrow> push_fleet version u hosts;
                 writeResponse srv (a_ClientPublicKey auth) results })) })"

section \<open>Handlers keep the schema and the history\<close>

lemma eff_resolveChecksums [eff]: "state_io_rel world_read (resolveChecksums v)"
  by (auto simp: state_io_rel_def resolveChecksums_def world_read_def Let_def
      split: option.splits prod.splits if_splits)

lemma eff_buildUpgrade [eff]: "state_io_rel world_read (buildUpgrade v)"
  unfolding buildUpgrade_def by (intro eff)

lemmas eff_buildUpgrade_step [eff] = eff_buildUpgrade [THEN eff_weaken]
lemmas eff_the_hub_step [eff] = eff_the_hub [THEN eff_weaken]

lemma eff_pushUpgrade [eff]: "state_io_rel world_step (pushUpgrade i h c t up)"
  unfolding pushUpgrade_def Let_def by (intro eff db_steps)

lemma eff_push_fleet [eff]: "state_io_rel world_step (push_fleet v up hs)"
  by (induction hs) (auto intro!: eff)

lemma eff_upgrade_handlers [eff]:
  "state_io_rel world_step (handleUpgradeHost srv auth i b)"
  "state_io_rel world_step (handleUpgradeFleet srv auth b)"
  unfolding handleUpgradeHost_def handleUpgradeFleet_def by (intro eff db_steps)+

end
