(* ===== verification/Daemon_Conn.thy ===== *)
theory Daemon_Conn
  imports Upgrades
begin

text \<open>
  \<open>handleDaemon\<close>, \<open>writeDaemon\<close> and \<open>flushDaemon\<close> of \<open>internal/controlplane/daemon_ws.go\<close>: the life of a
  daemon's connection. It authenticates, registers a fresh channel, queues the initial
  envelopes and starts the writer, which is the only writer to the socket. The writer is a step
  relation: it writes what is queued, pings, and when the connection is cancelled writes what is
  still queued and stops.
\<close>

section \<open>Opening the connection\<close>

text \<open>\<open>send <- env\<close> on a channel with room.\<close>
definition chan_send :: "nat \<Rightarrow> Envelope \<Rightarrow> hub \<Rightarrow> hub" where
  "chan_send i env h = h\<lparr>hub_chans := (hub_chans h)(i := (hub_chans h i)\<lparr>ch_buf := ch_buf (hub_chans h i) @ [env]\<rparr>)\<rparr>"

text \<open>\<open>send := make(chan ...); s.hub.register(hostID, send, cancel)\<close>\<close>
definition open_chan :: "string \<Rightarrow> nat action" where
  "open_chan hostID = State (\<lambda>w. case make_chan (w_hub w) of (i, h) \<Rightarrow> (i, w\<lparr>w_hub := register hostID i h\<rparr>))"

text \<open>The part of \<open>handleDaemon\<close> before the connection is registered.\<close>
definition admitDaemon :: "server \<Rightarrow> (Envelope \<Rightarrow> Envelope option) \<Rightarrow> Host option action" where
  "admitDaemon srv reply = do {
     r \<leftarrow> authenticateDaemon srv reply;
     (case r of None \<Rightarrow> ret None
      | Some (host, version) \<Rightarrow> do {
          _ \<leftarrow> call (TouchHostSeen (h_ID host));
          if version \<noteq> '''' \<and> version \<noteq> h_AgentVersion host
          then do { _ \<leftarrow> call (SetHostVersion (h_ID host) version); ret (Some (host\<lparr>h_AgentVersion := version\<rparr>)) }
          else ret (Some host) }) }"

definition initial_snapshot :: "server \<Rightarrow> Host \<Rightarrow> nat \<Rightarrow> unit action" where
  "initial_snapshot srv host send =
     attempt (buildSnapshot host) (\<lambda>_. ret ()) (\<lambda>snapshot.
     attempt (snapshotEnvelope srv (h_ID host) snapshot) (\<lambda>_. ret ()) (\<lambda>env. on_hub (chan_send send env)))"

definition initial_sets :: "server \<Rightarrow> Host \<Rightarrow> nat \<Rightarrow> unit action" where
  "initial_sets srv host send = (if h_EncryptionKey host = '''' then ret ()
     else attempt (buildSecretSets srv host) (\<lambda>_. ret ()) (\<lambda>sets.
          attempt (secretSetsEnvelope srv host sets) (\<lambda>_. ret ()) (\<lambda>env. on_hub (chan_send send env))))"

definition initial_upgrade :: "Host \<Rightarrow> nat \<Rightarrow> unit action" where
  "initial_upgrade host send = (if h_DesiredVersion host = '''' \<or> h_DesiredVersion host = h_AgentVersion host then ret ()
     else do { up \<leftarrow> buildUpgrade (h_DesiredVersion host);
               (case up of None \<Rightarrow> ret () | Some u \<Rightarrow> on_hub (chan_send send (upgrade_envelope u))) })"

text \<open>From the registration to the start of the writer; the result is the channel.\<close>
definition registerDaemon :: "server \<Rightarrow> Host \<Rightarrow> nat action" where
  "registerDaemon srv host = do {
     send \<leftarrow> open_chan (uuidString (Some (h_ID host)));
     initial_snapshot srv host send;
     initial_sets srv host send;
     initial_upgrade host send;
     ret send }"

text \<open>\<open>handleDaemon\<close> up to its read loop: the host and its channel, or nothing if it was turned away.\<close>
definition handleDaemon :: "server \<Rightarrow> (Envelope \<Rightarrow> Envelope option) \<Rightarrow> (Host \<times> nat) option action" where
  "handleDaemon srv reply = do {
     r \<leftarrow> admitDaemon srv reply;
     (case r of None \<Rightarrow> ret None
      | Some host \<Rightarrow> do { send \<leftarrow> registerDaemon srv host; ret (Some (host, send)) }) }"

text \<open>The deferred calls when the read loop ends.\<close>
definition closeDaemon :: "Host \<Rightarrow> nat \<Rightarrow> unit action" where
  "closeDaemon host send = on_hub (\<lambda>h.
     (unregister (uuidString (Some (h_ID host))) send h)\<lparr>hub_chans := (hub_chans h)
        (send := (hub_chans h send)\<lparr>ch_cancelled := True\<rparr>)\<rparr>)"

section \<open>The writer\<close>

text \<open>\<open>protocol.NewEnvelope(protocol.TypePing, nil)\<close>\<close>
definition ping :: Envelope where
  "ping = \<lparr>env_Type = TypePing, env_Data = '''', env_Seq = 0, env_Sig = ''''\<rparr>"

record writer =
  wr_chan :: chan
  wr_sent :: "Envelope list"
  wr_stopped :: bool

text \<open>\<open>flushDaemon\<close>: \<open>ok\<close> is how many writes succeed before one fails.\<close>
fun flushDaemon :: "nat \<Rightarrow> Envelope list \<Rightarrow> Envelope list" where
  "flushDaemon ok [] = []"
| "flushDaemon 0 (e # es) = []"
| "flushDaemon (Suc ok) (e # es) = e # flushDaemon ok es"

text \<open>
  A turn of \<open>writeDaemon\<close>: when several cases of the \<open>select\<close> are ready any may be taken. A failed
  write cancels the connection and ends the writer.
\<close>
inductive writeDaemon :: "writer \<Rightarrow> writer \<Rightarrow> bool" where
  wd_done: "\<not> wr_stopped w \<Longrightarrow> ch_cancelled (wr_chan w) \<Longrightarrow>
    writeDaemon w (w\<lparr>wr_sent := wr_sent w @ flushDaemon ok (ch_buf (wr_chan w)), wr_stopped := True,
      wr_chan := (wr_chan w)\<lparr>ch_buf := drop (Suc ok) (ch_buf (wr_chan w))\<rparr>\<rparr>)"
| wd_tick: "\<not> wr_stopped w \<Longrightarrow> writeDaemon w (w\<lparr>wr_sent := wr_sent w @ [ping]\<rparr>)"
| wd_tick_fails: "\<not> wr_stopped w \<Longrightarrow>
    writeDaemon w (w\<lparr>wr_chan := (wr_chan w)\<lparr>ch_cancelled := True\<rparr>, wr_stopped := True\<rparr>)"
| wd_send: "\<not> wr_stopped w \<Longrightarrow> chan_recv (wr_chan w) = Some (e, c) \<Longrightarrow>
    writeDaemon w (w\<lparr>wr_sent := wr_sent w @ [e], wr_chan := c\<rparr>)"
| wd_send_fails: "\<not> wr_stopped w \<Longrightarrow> chan_recv (wr_chan w) = Some (e, c) \<Longrightarrow>
    writeDaemon w (w\<lparr>wr_chan := c\<lparr>ch_cancelled := True\<rparr>, wr_stopped := True\<rparr>)"

text \<open>What the peer has got that is not a ping.\<close>
definition payload :: "Envelope list \<Rightarrow> Envelope list" where
  "payload es = filter (\<lambda>e. env_Type e \<noteq> TypePing) es"

section \<open>Handlers keep the schema and the history\<close>

lemma eff_authenticateDaemon_step [eff]: "state_io_rel world_step (authenticateDaemon srv reply)"
  by (rule eff_authenticateDaemon [THEN eff_weaken])

lemma eff_open_chan [eff]: "state_io_rel world_step (open_chan i)"
  by (auto simp: state_io_rel_def open_chan_def world_step_def split: prod.splits)

lemma eff_initial [eff]:
  "state_io_rel world_step (initial_snapshot srv host i)" "state_io_rel world_step (initial_sets srv host i)"
  "state_io_rel world_step (initial_upgrade host i)"
  unfolding initial_snapshot_def initial_sets_def initial_upgrade_def by (intro eff db_steps)+

lemma eff_handleDaemon [eff]:
  "state_io_rel world_step (admitDaemon srv reply)" "state_io_rel world_step (registerDaemon srv host)"
  "state_io_rel world_step (handleDaemon srv reply)" "state_io_rel world_step (closeDaemon host i)"
  unfolding handleDaemon_def admitDaemon_def registerDaemon_def closeDaemon_def by (intro eff db_steps)+

section \<open>The writer keeps the order\<close>

inductive_cases writeDaemonE: "writeDaemon w w'"

lemma flushDaemon_take: "flushDaemon n es = take n es"
  by (induction n es rule: flushDaemon.induct) auto

lemma payload_simps [simp]:
  "payload (a @ b) = payload a @ payload b" "payload [ping] = []" "payload [] = []"
  by (simp_all add: payload_def ping_def)

end
