(* ===== verification/Invitations.thy ===== *)
theory Invitations
  imports Daemon_Conn
begin

text \<open>
  \<open>internal/controlplane/invitations.go\<close> and \<open>password_reset.go\<close>: accounts made by invitation and
  passwords replaced by mail. Both hand out a random token, store its hash, and consume it in
  the transaction that uses it. \<open>email.Send\<close> is the effect \<open>send_mail\<close>.
\<close>

definition inviteTTL :: duration where "inviteTTL = 7 * 24 * Hour"
definition resetTTL :: duration where "resetTTL = Hour"

record createInvitationRequest =
  cir_Email :: string
  cir_Role :: string

record invitationView =
  ivw_ID :: string
  ivw_Email :: string
  ivw_Role :: string
  ivw_ExpiresAt :: time

record acceptInvitationRequest =
  air_Token :: string
  air_Name :: string
  air_DisplayName :: string
  air_Password :: string

record passwordResetConfirmRequest =
  prc_Token :: string
  prc_Password :: string

text \<open>A link of the application, with the token.\<close>
definition app_link :: "server \<Rightarrow> string \<Rightarrow> string \<Rightarrow> string" where
  "app_link srv path token = TrimRight (srv_AppURL srv) (CHR ''/'') @ path @ ''?token='' @ token"

section \<open>Invitations\<close>

definition sendInvite :: "server \<Rightarrow> string \<Rightarrow> string \<Rightarrow> (dberr + unit) action" where
  "sendInvite srv to token = send_mail
     \<lparr>mail_To = to, mail_Subject = ''You'' @ [CHR 0x27] @ ''re invited to custos'',
      mail_HTML = ''<p>You'' @ [CHR 0x27] @ ''ve been invited to custos.</p><p><a href='' @ [CHR 0x22] @
        app_link srv ''/accept'' token @ [CHR 0x22] @ ''>Accept your invitation</a></p>''\<rparr>"

definition invitation_view :: "Invitation \<Rightarrow> invitationView" where
  "invitation_view i = \<lparr>ivw_ID = uuidString (Some (inv_ID i)), ivw_Email = inv_Email i, ivw_Role = inv_Role i,
     ivw_ExpiresAt = inv_ExpiresAt i\<rparr>"

definition invitation_role :: "string \<Rightarrow> string" where
  "invitation_role r = (if r = '''' then ''member'' else r)"

definition handleCreateInvitation ::
    "server \<Rightarrow> authInfo \<Rightarrow> createInvitationRequest option \<Rightarrow> invitationView response action" where
  "handleCreateInvitation srv auth body =
     (if srv_AppURL srv = '''' then ret (HttpError 503 ''invites not configured (CUSTOS_APP_URL unset)'')
      else case body of None \<Rightarrow> ret (HttpError 400 ''invalid request'')
      | Some req \<Rightarrow>
        if cir_Email req = '''' then ret (HttpError 400 ''email is required'')
        else let role = invitation_role (cir_Role req) in
        if role \<noteq> ''admin'' \<and> role \<noteq> ''member'' then ret (HttpError 400 ''role must be admin or member'')
        else attempt (GenerateToken srv) (\<lambda>_. ret (serverError ''could not create invitation'')) (\<lambda>(raw, hash). do {
          x \<leftarrow> expiry inviteTTL;
          attempt (call (CreateInvitation (cir_Email req) role hash (Some (a_UserID auth)) x))
            (\<lambda>_. ret (serverError ''could not create invitation'')) (\<lambda>invite.
          attempt (sendInvite srv (cir_Email req) raw)
            (\<lambda>_. ret (serverError ''invitation created but email failed to send''))
            (\<lambda>_. writeResponse srv (a_ClientPublicKey auth) (invitation_view invite))) }))"

datatype accept_error = InvalidInvite | AcceptEmailTaken | AcceptFails dberr

text \<open>The transaction of \<open>acceptInvitation\<close>; \<open>None\<close> is the nil error.\<close>
definition acceptTx :: "acceptInvitationRequest \<Rightarrow> Invitation \<Rightarrow> string \<Rightarrow> (accept_error option + unit) tx_action" where
  "acceptTx req invite hash =
     attempt (tx_call (CreateUser (inv_Email invite) (air_Name req) (pgText (air_DisplayName req)) (inv_Role invite)))
       (\<lambda>e. ret (Inl (Some (if isUniqueViolation e then AcceptEmailTaken else AcceptFails e)))) (\<lambda>user.
     attempt (tx_call (CreateIdentity (u_ID user) ''password'' (inv_Email invite) (Some hash)))
       (\<lambda>e. ret (Inl (Some (AcceptFails e)))) (\<lambda>_.
     attempt (tx_call (MarkInvitationAccepted (inv_ID invite)))
       (\<lambda>e. ret (Inl (Some (AcceptFails e)))) (\<lambda>_. ret (Inr ()))))"

definition acceptInvitation :: "server \<Rightarrow> acceptInvitationRequest \<Rightarrow> accept_error option action" where
  "acceptInvitation srv req =
     attempt (call (single (GetInvitationByTokenHash (HashToken srv (air_Token req)))))
       (\<lambda>e. ret (Some (if e = ErrNoRows then InvalidInvite else AcceptFails e))) (\<lambda>invite. do {
         t \<leftarrow> now;
         if inv_AcceptedAt invite \<noteq> None \<or> inv_ExpiresAt invite < t then ret (Some InvalidInvite)
         else attempt (hashPassword srv (air_Password req)) (\<lambda>e. ret (Some (AcceptFails e))) (\<lambda>hash.
           with_tx (\<lambda>e. Some (AcceptFails e)) (acceptTx req invite hash) (\<lambda>e. Some (AcceptFails e)) (\<lambda>_. ret None)) })"

definition handleAcceptInvitation :: "server \<Rightarrow> acceptInvitationRequest option \<Rightarrow> unit response action" where
  "handleAcceptInvitation srv body = (case body of None \<Rightarrow> ret (HttpError 400 ''invalid request'')
   | Some req \<Rightarrow>
     if air_Token req = '''' \<or> air_Name req = '''' \<or> air_Password req = ''''
     then ret (HttpError 400 ''token, name and password are required'')
     else do { err \<leftarrow> acceptInvitation srv req;
       ret (case err of Some InvalidInvite \<Rightarrow> HttpError 401 ''invalid or expired invitation''
         | Some AcceptEmailTaken \<Rightarrow> HttpError 409 ''an account with that email already exists''
         | Some (AcceptFails _) \<Rightarrow> serverError ''could not accept invitation''
         | None \<Rightarrow> Status 204) })"

definition handleCancelInvitation :: "server \<Rightarrow> string \<Rightarrow> unit response action" where
  "handleCancelInvitation srv idParam = (case parseUUID srv idParam of
     None \<Rightarrow> ret (HttpError 400 ''invalid invitation id'')
   | Some i \<Rightarrow> attempt (call (DeleteInvitation i)) (\<lambda>_. ret (serverError ''could not cancel invitation''))
       (\<lambda>n. ret (if n = 0 then HttpError 404 ''invitation not found or already accepted'' else Status 204)))"

definition handleResendInvitation :: "server \<Rightarrow> authInfo \<Rightarrow> string \<Rightarrow> invitationView response action" where
  "handleResendInvitation srv auth idParam =
     (if srv_AppURL srv = '''' then ret (HttpError 503 ''invites not configured (CUSTOS_APP_URL unset)'')
      else case parseUUID srv idParam of None \<Rightarrow> ret (HttpError 400 ''invalid invitation id'')
      | Some i \<Rightarrow> attempt (GenerateToken srv) (\<lambda>_. ret (serverError ''could not resend invitation'')) (\<lambda>(raw, hash). do {
          x \<leftarrow> expiry inviteTTL;
          attempt (call (RefreshInvitationToken i hash x))
            (\<lambda>e. ret (if e = ErrNoRows then HttpError 404 ''invitation not found or already accepted''
                      else serverError ''could not resend invitation'')) (\<lambda>invite.
          attempt (sendInvite srv (inv_Email invite) raw)
            (\<lambda>_. ret (serverError ''invitation updated but email failed to send''))
            (\<lambda>_. writeResponse srv (a_ClientPublicKey auth) (invitation_view invite))) }))"

definition handleListInvitations :: "server \<Rightarrow> authInfo \<Rightarrow> invitationView list response action" where
  "handleListInvitations srv auth =
     attempt (call (single_now (\<lambda>t d. Inr (ListPendingInvitations t d))))
       (\<lambda>_. ret (serverError ''could not list invitations'')) (\<lambda>rows.
       writeResponse srv (a_ClientPublicKey auth)
         (map (\<lambda>r. \<lparr>ivw_ID = uuidString (Some (pi_ID r)), ivw_Email = pi_Email r, ivw_Role = pi_Role r,
                    ivw_ExpiresAt = pi_ExpiresAt r\<rparr>) rows))"

section \<open>Password reset\<close>

text \<open>Runs in the background, after the reply.\<close>
definition startPasswordReset :: "server \<Rightarrow> string \<Rightarrow> unit action" where
  "startPasswordReset srv addr =
     attempt (call (single (GetUserByEmail addr))) (\<lambda>_. ret ()) (\<lambda>user.
     attempt (GenerateToken srv) (\<lambda>_. ret ()) (\<lambda>(raw, hash). do {
       x \<leftarrow> expiry resetTTL;
       attempt (call (CreatePasswordReset (u_ID user) hash x)) (\<lambda>_. ret ()) (\<lambda>_. do {
         _ \<leftarrow> send_mail \<lparr>mail_To = addr, mail_Subject = ''Reset your custos password'',
                mail_HTML = ''<p>Reset your custos password:</p><p><a href='' @ [CHR 0x22] @
                  app_link srv ''/reset'' raw @ [CHR 0x22] @
                  ''>Choose a new password</a></p><p>This link expires in an hour.</p>''\<rparr>;
         ret () }) }))"

text \<open>The reply, and the background work it starts.\<close>
definition handlePasswordReset :: "server \<Rightarrow> string option \<Rightarrow> unit response \<times> unit action" where
  "handlePasswordReset srv body =
     (if srv_AppURL srv = '''' then (HttpError 503 ''password reset not configured (CUSTOS_APP_URL unset)'', ret ())
      else case body of None \<Rightarrow> (HttpError 400 ''invalid request'', ret ())
      | Some email \<Rightarrow>
        if email = '''' then (HttpError 400 ''email is required'', ret ())
        else (Status 204, startPasswordReset srv email))"

datatype reset_error = InvalidReset | ResetFails dberr

text \<open>The transaction of \<open>confirmPasswordReset\<close>.\<close>
definition resetTx :: "PasswordReset \<Rightarrow> string \<Rightarrow> (reset_error option + unit) tx_action" where
  "resetTx reset hash =
     attempt (tx_call (UpdatePasswordIdentity (pr_UserID reset) (Some hash)))
       (\<lambda>e. ret (Inl (Some (ResetFails e)))) (\<lambda>_.
     attempt (tx_call (MarkPasswordResetUsed (pr_ID reset))) (\<lambda>e. ret (Inl (Some (ResetFails e)))) (\<lambda>_.
     attempt (tx_call (RevokeAllUserSessions (pr_UserID reset))) (\<lambda>e. ret (Inl (Some (ResetFails e))))
       (\<lambda>_. ret (Inr ()))))"

definition confirmPasswordReset :: "server \<Rightarrow> passwordResetConfirmRequest \<Rightarrow> reset_error option action" where
  "confirmPasswordReset srv req =
     attempt (call (single (GetPasswordReset (HashToken srv (prc_Token req)))))
       (\<lambda>e. ret (Some (if e = ErrNoRows then InvalidReset else ResetFails e))) (\<lambda>reset. do {
         t \<leftarrow> now;
         if pr_UsedAt reset \<noteq> None \<or> pr_ExpiresAt reset < t then ret (Some InvalidReset)
         else attempt (hashPassword srv (prc_Password req)) (\<lambda>e. ret (Some (ResetFails e))) (\<lambda>hash.
           with_tx (\<lambda>e. Some (ResetFails e)) (resetTx reset hash) (\<lambda>e. Some (ResetFails e)) (\<lambda>_. ret None)) })"

definition handlePasswordResetConfirm :: "server \<Rightarrow> passwordResetConfirmRequest option \<Rightarrow> unit response action" where
  "handlePasswordResetConfirm srv body = (case body of None \<Rightarrow> ret (HttpError 400 ''invalid request'')
   | Some req \<Rightarrow>
     if prc_Token req = '''' \<or> prc_Password req = ''''
     then ret (HttpError 400 ''token and password are required'')
     else do { err \<leftarrow> confirmPasswordReset srv req;
       ret (case err of Some InvalidReset \<Rightarrow> HttpError 401 ''invalid or expired reset token''
         | Some (ResetFails _) \<Rightarrow> serverError ''could not reset password''
         | None \<Rightarrow> Status 204) })"

section \<open>Handlers keep the schema and the history\<close>

lemma eff_sendInvite [eff]: "state_io_rel world_step (sendInvite srv to tok)"
  unfolding sendInvite_def by (intro eff)

lemmas eff_expiry_step [eff] = eff_expiry [THEN eff_weaken]

lemma eff_invitation_handlers [eff]:
  "state_io_rel world_step (handleCreateInvitation srv auth c)"
  "state_io_rel world_step (handleCancelInvitation srv i)"
  "state_io_rel world_step (handleResendInvitation srv auth i)"
  "state_io_rel world_read (handleListInvitations srv auth)"
  unfolding handleCreateInvitation_def handleCancelInvitation_def handleResendInvitation_def
    handleListInvitations_def Let_def by (intro eff db_steps)+

lemma eff_handleAcceptInvitation [eff]: "state_io_rel world_step (handleAcceptInvitation srv a)"
  unfolding handleAcceptInvitation_def acceptInvitation_def acceptTx_def by (intro eff db_steps)

lemma eff_handlePasswordReset [eff]: "state_io_rel world_step (snd (handlePasswordReset srv b))"
  by (auto simp: handlePasswordReset_def startPasswordReset_def split: option.splits intro!: eff db_steps)

lemma eff_handlePasswordResetConfirm [eff]: "state_io_rel world_step (handlePasswordResetConfirm srv b)"
  unfolding handlePasswordResetConfirm_def confirmPasswordReset_def resetTx_def by (intro eff db_steps)

end
