(* ===== verification/Config.thy ===== *)
theory Config
  imports Invitations
begin

text \<open>
  \<open>internal/controlplane/config.go\<close> and \<open>NewServer\<close> of \<open>server.go\<close>: the configuration read from the
  environment (\<open>getenv\<close> is \<open>os.Getenv\<close>) and the server made of it. A configuration that loads gives
  a server with a vault; a signing key that is present but malformed gives one that does not sign.
\<close>

definition defaultListenAddr :: string where "defaultListenAddr = '':8080''"
definition keySize :: nat where "keySize = 32"

record Config =
  cfg_DatabaseURL :: string
  cfg_ListenAddr :: string
  cfg_MasterKey :: "bytes option"
  cfg_SigningKey :: string
  cfg_HybridPrivateKey :: "bytes option"
  cfg_EncryptionEnabled :: bool
  cfg_ResendAPIKey :: string
  cfg_EmailFrom :: string
  cfg_AppURL :: string
  cfg_CorsOrigins :: "string list"

text \<open>Unset is no key and no error.\<close>
definition decodeKey :: "(string \<Rightarrow> string) \<Rightarrow> string \<Rightarrow> string + bytes option" where
  "decodeKey getenv env =
     (if getenv env = '''' then Inr None
      else case b64_decode (getenv env) of
        None \<Rightarrow> Inl (env @ '': invalid base64'')
      | Some key \<Rightarrow>
          if length key \<noteq> keySize
          then Inl (env @ '': must decode to '' @ dec_digits keySize @ '' bytes, got '' @ dec_digits (length key))
          else Inr (Some key))"

definition splitCSV :: "string \<Rightarrow> string list" where
  "splitCSV s = filter (\<lambda>p. p \<noteq> '''') (map TrimSpace (Split s (CHR '','')))"

text \<open>\<open>strings.ToLower\<close> on the ASCII letters; no other letter lowers to one of these words.\<close>
definition envEnabled :: "(string \<Rightarrow> string) \<Rightarrow> string \<Rightarrow> bool \<Rightarrow> bool" where
  "envEnabled getenv key def =
     (let v = map lower_char (TrimSpace (getenv key)) in
      if v = '''' then def else v \<notin> set [''0'', ''false'', ''off'', ''no''])"

fun join :: "string \<Rightarrow> string list \<Rightarrow> string" where
  "join sep [] = ''''"
| "join sep [s] = s"
| "join sep (s # t # r) = s @ sep @ join sep (t # r)"

definition LoadConfig :: "(string \<Rightarrow> string) \<Rightarrow> string + Config" where
  "LoadConfig getenv =
     (let databaseURL = getenv ''CUSTOS_DATABASE_URL'';
          listenAddr = (if getenv ''CUSTOS_LISTEN_ADDR'' = '''' then defaultListenAddr else getenv ''CUSTOS_LISTEN_ADDR'') in
      case decodeKey getenv ''CUSTOS_MASTER_KEY'' of Inl e \<Rightarrow> Inl e
      | Inr masterKey \<Rightarrow>
          (let signingKey = getenv ''CUSTOS_SIGNING_PRIVATE_KEY'';
               enabled = envEnabled getenv ''CUSTOS_ENCRYPTION'' True in
           case decodeKey getenv ''CUSTOS_CLIENT_PRIVATE_KEY'' of Inl e \<Rightarrow> Inl e
           | Inr clientKey \<Rightarrow>
               (let missing = (if databaseURL = '''' then [''CUSTOS_DATABASE_URL''] else []) @
                      (if masterKey = None then [''CUSTOS_MASTER_KEY''] else []) @
                      (if signingKey = '''' then [''CUSTOS_SIGNING_PRIVATE_KEY''] else []) @
                      (if enabled \<and> clientKey = None then [''CUSTOS_CLIENT_PRIVATE_KEY''] else []) in
                if missing \<noteq> [] then Inl (''missing required env vars: '' @ join '', '' missing)
                else Inr \<lparr>cfg_DatabaseURL = databaseURL, cfg_ListenAddr = listenAddr, cfg_MasterKey = masterKey,
                  cfg_SigningKey = signingKey, cfg_HybridPrivateKey = clientKey, cfg_EncryptionEnabled = enabled,
                  cfg_ResendAPIKey = getenv ''RESEND_API_KEY'', cfg_EmailFrom = getenv ''CUSTOS_EMAIL_FROM'',
                  cfg_AppURL = getenv ''CUSTOS_APP_URL'', cfg_CorsOrigins = splitCSV (getenv ''CUSTOS_CORS_ORIGINS'')\<rparr>)))"

text \<open>\<open>ext\<close> carries what is not configuration: the primitives and the database's functions.\<close>
definition NewServer :: "Config \<Rightarrow> server \<Rightarrow> server" where
  "NewServer cfg ext = ext\<lparr>srv_EncryptionEnabled := cfg_EncryptionEnabled cfg, srv_AppURL := cfg_AppURL cfg,
     srv_signer := LoadKeyPair (cfg_SigningKey cfg),
     srv_master := Option.bind (cfg_MasterKey cfg) NewAESWrapper,
     srv_HybridPrivateKey := (case cfg_HybridPrivateKey cfg of None \<Rightarrow> [] | Some k \<Rightarrow> k)\<rparr>"

lemma decodeKey_size: "decodeKey getenv env = Inr (Some k) \<Longrightarrow> length k = 32"
  by (auto simp: decodeKey_def keySize_def split: if_splits option.splits)

end
