(* ===== verification/Rate_Limit.thy ===== *)
theory Rate_Limit
  imports Go_Strings
begin

text \<open>
  \<open>internal/controlplane/ratelimit.go\<close>: a token bucket per client address, with stale addresses
  evicted under the lock. The bucket itself is \<open>golang.org/x/time/rate\<close>, a parameter. The theorem:
  eviction is never visible, every client is limited by a bucket fed by its own requests alone.
\<close>

text \<open>\<open>rate.NewLimiter\<close> (by the time a token takes and the burst) and \<open>(*Limiter).Allow\<close> at a time.\<close>
record 'l limiter_ops =
  lim_New :: "duration \<Rightarrow> nat \<Rightarrow> 'l"
  lim_Allow :: "time \<Rightarrow> 'l \<Rightarrow> bool \<times> 'l"

definition rlCleanupEvery :: duration where "rlCleanupEvery = 5 * Minute"
definition rlStaleAfter :: duration where "rlStaleAfter = 10 * Minute"

record 'l visitor =
  vis_limiter :: 'l
  vis_lastSeen :: time

record 'l rateLimiter =
  rl_visitors :: "string \<Rightarrow> 'l visitor option"
  rl_rate :: duration
  rl_burst :: nat
  rl_lastCleanup :: time

definition newRateLimiter :: "duration \<Rightarrow> nat \<Rightarrow> time \<Rightarrow> 'l rateLimiter" where
  "newRateLimiter every burst t =
     \<lparr>rl_visitors = (\<lambda>_. None), rl_rate = every, rl_burst = burst, rl_lastCleanup = t\<rparr>"

text \<open>The limiter of an address and the table with its visit recorded.\<close>
definition limiterFor :: "'l limiter_ops \<Rightarrow> string \<Rightarrow> time \<Rightarrow> 'l rateLimiter \<Rightarrow> 'l \<times> 'l rateLimiter" where
  "limiterFor ops ip t rl =
     (let rl1 = (if t - rl_lastCleanup rl > rlCleanupEvery
                 then rl\<lparr>rl_visitors := (\<lambda>k. case rl_visitors rl k of None \<Rightarrow> None
                          | Some v \<Rightarrow> if t - vis_lastSeen v > rlStaleAfter then None else Some v),
                         rl_lastCleanup := t\<rparr>
                 else rl);
          l = (case rl_visitors rl1 ip of Some v \<Rightarrow> vis_limiter v | None \<Rightarrow> lim_New ops (rl_rate rl1) (rl_burst rl1))
      in (l, rl1\<lparr>rl_visitors := (rl_visitors rl1)(ip \<mapsto> \<lparr>vis_limiter = l, vis_lastSeen = t\<rparr>)\<rparr>))"

text \<open>
  The middleware's decision on a request of an address: \<open>Allow\<close> changes the limiter in place.
\<close>
definition rl_middleware :: "'l limiter_ops \<Rightarrow> string \<Rightarrow> time \<Rightarrow> 'l rateLimiter \<Rightarrow> bool \<times> 'l rateLimiter" where
  "rl_middleware ops ip t rl =
     (let (l, rl1) = limiterFor ops ip t rl; (ok, l') = lim_Allow ops t l
      in (ok, rl1\<lparr>rl_visitors := (rl_visitors rl1)(ip \<mapsto> \<lparr>vis_limiter = l', vis_lastSeen = t\<rparr>)\<rparr>))"

fun rl_decisions :: "'l limiter_ops \<Rightarrow> (string \<times> time) list \<Rightarrow> 'l rateLimiter \<Rightarrow> bool list" where
  "rl_decisions ops [] rl = []"
| "rl_decisions ops ((ip, t) # rs) rl = (case rl_middleware ops ip t rl of (ok, rl') \<Rightarrow> ok # rl_decisions ops rs rl')"

text \<open>\<open>net.SplitHostPort\<close>: the host.\<close>
definition SplitHostPort :: "string \<Rightarrow> string option" where
  "SplitHostPort s =
     (if CHR '':'' \<notin> set s then None
      else let i = length s - 1 - length (takeWhile (\<lambda>c. c \<noteq> CHR '':'') (rev s)) in
      if hd s = CHR ''['' then
        (if CHR '']'' \<notin> set s then None
         else let e = length (takeWhile (\<lambda>c. c \<noteq> CHR '']'') s) in
           if e + 1 \<noteq> i then None
           else if CHR ''['' \<in> set (drop 1 s) \<or> CHR '']'' \<in> set (drop (e + 1) s) then None
           else Some (take (e - 1) (drop 1 s)))
      else if CHR '':'' \<in> set (take i s) then None
      else if CHR ''['' \<in> set s \<or> CHR '']'' \<in> set s then None
      else Some (take i s))"

text \<open>\<open>header\<close> is \<open>r.Header.Get\<close>.\<close>
definition clientIP :: "(string \<Rightarrow> string) \<Rightarrow> string \<Rightarrow> string" where
  "clientIP header remoteAddr =
     (if header ''CF-Connecting-IP'' \<noteq> '''' then header ''CF-Connecting-IP''
      else if header ''X-Real-IP'' \<noteq> '''' then header ''X-Real-IP''
      else let xff = header ''X-Forwarded-For'' in
      if xff \<noteq> '''' then TrimSpace (takeWhile (\<lambda>c. c \<noteq> CHR '','') xff)
      else case SplitHostPort remoteAddr of None \<Rightarrow> remoteAddr | Some h \<Rightarrow> h)"

section \<open>Eviction is invisible\<close>

text \<open>A bucket that has seen requests at the given times.\<close>
definition bucket :: "'l limiter_ops \<Rightarrow> duration \<Rightarrow> nat \<Rightarrow> time list \<Rightarrow> 'l" where
  "bucket ops every burst ts = foldl (\<lambda>l t. snd (lim_Allow ops t l)) (lim_New ops every burst) ts"

text \<open>What a token bucket documents: idle for longer than it takes to fill, it is as good as new.\<close>
definition refills :: "'l limiter_ops \<Rightarrow> duration \<Rightarrow> nat \<Rightarrow> bool" where
  "refills ops every burst \<longleftrightarrow> (\<forall>ts t t'. sorted (ts @ [t]) \<longrightarrow> t' - t > every * int burst \<longrightarrow>
     lim_Allow ops t' (bucket ops every burst (ts @ [t])) = lim_Allow ops t' (lim_New ops every burst))"

definition times_of :: "string \<Rightarrow> (string \<times> time) list \<Rightarrow> time list" where
  "times_of ip rs = map snd (filter (\<lambda>r. fst r = ip) rs)"

text \<open>The specification: each request judged by a bucket of the earlier requests of its address.\<close>
definition own_bucket_decisions :: "'l limiter_ops \<Rightarrow> duration \<Rightarrow> nat \<Rightarrow> (string \<times> time) list \<Rightarrow> (string \<times> time) list \<Rightarrow> bool list" where
  "own_bucket_decisions ops every burst past rs = map (\<lambda>n. let (ip, t) = rs ! n in
     fst (lim_Allow ops t (bucket ops every burst (times_of ip (past @ take n rs))))) [0..<length rs]"

lemma own_bucket_Cons:
  "own_bucket_decisions ops every burst past ((ip, t) # rs) =
     fst (lim_Allow ops t (bucket ops every burst (times_of ip past))) #
     own_bucket_decisions ops every burst (past @ [(ip, t)]) rs"
proof -
  have "[0..<length ((ip, t) # rs)] = 0 # map Suc [0..<length rs]"
    by (metis length_Cons list.map(1) map_Suc_upt upt_conv_Cons zero_less_Suc)
  then show ?thesis by (simp add: own_bucket_decisions_def comp_def del: upt_Suc)
qed

text \<open>
  The table against the history: an entry is the bucket of its address, and an address without
  one has never been seen or has been idle for longer than the staleness bound.
\<close>
definition table_ok :: "'l limiter_ops \<Rightarrow> (string \<times> time) list \<Rightarrow> time \<Rightarrow> 'l rateLimiter \<Rightarrow> bool" where
  "table_ok ops past t rl \<longleftrightarrow> (\<forall>ip. let ts = times_of ip past in
     case rl_visitors rl ip of
       Some v \<Rightarrow> ts \<noteq> [] \<and> vis_limiter v = bucket ops (rl_rate rl) (rl_burst rl) ts \<and> vis_lastSeen v = last ts
     | None \<Rightarrow> ts = [] \<or> t - last ts > rlStaleAfter)"

lemma times_of_snoc: "times_of ip (past @ [(a, t)]) = times_of ip past @ (if a = ip then [t] else [])"
  by (simp add: times_of_def)

lemma bucket_snoc: "bucket ops e b (ts @ [t]) = snd (lim_Allow ops t (bucket ops e b ts))"
  by (simp add: bucket_def)

lemma table_ok_later: "table_ok ops past t rl \<Longrightarrow> t \<le> t' \<Longrightarrow> table_ok ops past t' rl"
  unfolding table_ok_def Let_def by (erule all_forward) (auto split: option.splits)

lemma middleware_step:
  assumes "refills ops (rl_rate rl) (rl_burst rl)" "rl_rate rl * int (rl_burst rl) \<le> rlStaleAfter"
    and tab: "table_ok ops past t rl" and sorted: "sorted (times_of ip past @ [t])"
  shows "\<exists>rl'. rl_middleware ops ip t rl =
      (fst (lim_Allow ops t (bucket ops (rl_rate rl) (rl_burst rl) (times_of ip past))), rl') \<and>
    rl_rate rl' = rl_rate rl \<and> rl_burst rl' = rl_burst rl \<and> table_ok ops (past @ [(ip, t)]) t rl'"
proof -
  let ?B = "bucket ops (rl_rate rl) (rl_burst rl)" and ?ts = "times_of ip past"
  obtain l rl1 where l: "limiterFor ops ip t rl = (l, rl1)" by fastforce
  have keep: "rl_rate rl1 = rl_rate rl" "rl_burst rl1 = rl_burst rl"
    using l by (auto simp: limiterFor_def Let_def split: if_splits)
  have fresh: "lim_Allow ops t (?B ?ts) = lim_Allow ops t (lim_New ops (rl_rate rl) (rl_burst rl))"
    if idle: "?ts = [] \<or> t - last ?ts > rlStaleAfter"
  proof (cases "?ts = []")
    case False
    then obtain us u where us: "?ts = us @ [u]" by (metis rev_exhaust)
    have "sorted (us @ [u])" using sorted us by (simp add: sorted_append)
    then show ?thesis using assms(1,2) idle us by (simp add: refills_def)
  qed (simp add: bucket_def)
  have same: "lim_Allow ops t l = lim_Allow ops t (?B ?ts)"
  proof -
    consider "l = ?B ?ts" | "l = lim_New ops (rl_rate rl) (rl_burst rl)" "?ts = [] \<or> t - last ?ts > rlStaleAfter"
      using l tab [unfolded table_ok_def Let_def, rule_format, of ip]
      by (auto simp: limiterFor_def Let_def split: option.splits if_splits)
    then show ?thesis using fresh by cases simp_all
  qed
  have others: "case rl_visitors rl1 a of
       Some v \<Rightarrow> times_of a past \<noteq> [] \<and> vis_limiter v = ?B (times_of a past) \<and> vis_lastSeen v = last (times_of a past)
     | None \<Rightarrow> times_of a past = [] \<or> t - last (times_of a past) > rlStaleAfter" if "a \<noteq> ip" for a
    using l tab [unfolded table_ok_def Let_def, rule_format, of a] that
    by (auto simp: limiterFor_def Let_def split: option.splits if_splits)
  obtain ok l' where al: "lim_Allow ops t l = (ok, l')" by fastforce
  then have al': "fst (lim_Allow ops t (?B ?ts)) = ok" "snd (lim_Allow ops t (?B ?ts)) = l'"
    using same by (metis fst_conv, metis snd_conv)
  let ?rl' = "rl1\<lparr>rl_visitors := (rl_visitors rl1)(ip \<mapsto> \<lparr>vis_limiter = l', vis_lastSeen = t\<rparr>)\<rparr>"
  have "table_ok ops (past @ [(ip, t)]) t ?rl'"
    unfolding table_ok_def Let_def
  proof
    fix a
    show "case rl_visitors ?rl' a of
        None \<Rightarrow> times_of a (past @ [(ip, t)]) = [] \<or> rlStaleAfter < t - last (times_of a (past @ [(ip, t)]))
      | Some v \<Rightarrow> times_of a (past @ [(ip, t)]) \<noteq> [] \<and>
          vis_limiter v = bucket ops (rl_rate ?rl') (rl_burst ?rl') (times_of a (past @ [(ip, t)])) \<and>
          vis_lastSeen v = last (times_of a (past @ [(ip, t)]))"
      using others [of a] al'(2) by (cases "a = ip") (auto simp: times_of_snoc bucket_snoc keep split: option.splits)
  qed
  then show ?thesis using l al al'(1) keep by (auto simp: rl_middleware_def)
qed

lemma decisions_own_bucket:
  assumes "refills ops (rl_rate rl) (rl_burst rl)" "rl_rate rl * int (rl_burst rl) \<le> rlStaleAfter"
    and "table_ok ops past t0 rl" "sorted (map snd past @ t0 # map snd rs)"
  shows "rl_decisions ops rs rl = own_bucket_decisions ops (rl_rate rl) (rl_burst rl) past rs"
  using assms
proof (induction rs arbitrary: rl past t0)
  case (Cons r rs)
  obtain ip t where r: "r = (ip, t)" by fastforce
  have "sorted (map snd past)" "\<forall>p \<in> set past. snd p \<le> t" "t0 \<le> t"
    using Cons.prems(4) r by (force simp: sorted_append)+
  then have "sorted (times_of ip past @ [t])"
    by (auto simp: times_of_def sorted_append intro: sorted_filter)
  moreover have "table_ok ops past t rl" using Cons.prems(3) \<open>t0 \<le> t\<close> by (rule table_ok_later)
  ultimately obtain rl' where rl': "rl_middleware ops ip t rl =
      (fst (lim_Allow ops t (bucket ops (rl_rate rl) (rl_burst rl) (times_of ip past))), rl')"
    "rl_rate rl' = rl_rate rl" "rl_burst rl' = rl_burst rl" "table_ok ops (past @ [(ip, t)]) t rl'"
    using middleware_step [OF Cons.prems(1,2)] by blast
  have "sorted (map snd (past @ [(ip, t)]) @ t # map snd rs)"
    using Cons.prems(4) r by (auto simp: sorted_append)
  then show ?case
    using Cons.IH [of rl' "past @ [(ip, t)]" t] rl' Cons.prems(1,2) by (simp add: r own_bucket_Cons)
qed (simp add: own_bucket_decisions_def)

section \<open>The server's limiter\<close>

text \<open>A token bucket counted in nanoseconds of refill: what is in it, and when it was last used.\<close>
definition sample_bucket :: "(int \<times> time) limiter_ops" where
  "sample_bucket = \<lparr>lim_New = (\<lambda>every burst. (every * int burst, 0)),
     lim_Allow = (\<lambda>t (tokens, at). let full = 60 * Second; n = min full (max 0 tokens + max 0 (t - at)) in
       if n \<ge> 6 * Second then (True, (n - 6 * Second, t)) else (False, (n, t)))\<rparr>"

lemma sample_bucket_last:
  "snd (snd (lim_Allow sample_bucket t l)) = t"
  by (cases l) (simp add: sample_bucket_def Let_def)

lemma sample_bucket_full:
  "t' - snd l > 60 * Second \<Longrightarrow> lim_Allow sample_bucket t' l = (True, (54 * Second, t'))"
  by (cases l) (simp add: sample_bucket_def Let_def Second_def)

lemma sample_bucket_refills: "refills sample_bucket (6 * Second) 10"
proof -
  have new: "lim_Allow sample_bucket t' (lim_New sample_bucket (6 * Second) 10) = (True, (54 * Second, t'))" for t'
    by (simp add: sample_bucket_def Let_def Second_def)
  show ?thesis
    unfolding refills_def
    by (auto simp: new bucket_snoc sample_bucket_last intro!: sample_bucket_full)
qed

text \<open>C5: The limiter of the public routes (a token every six seconds, a burst of ten) decides every
  request exactly as a private token bucket of the request's address would, one that is never
  evicted and that other addresses never touch: dropping the entries idle for ten minutes
  cannot be seen, for any sequence of requests in the order of a monotone clock. Assumed of
  \<open>golang.org/x/time/rate\<close>: a bucket idle for the minute it takes to fill acts as a new one.
\<close>
theorem rate_limit_per_client:
  assumes "refills ops (6 * Second) 10" and "sorted (t0 # map snd rs)"
  shows "rl_decisions ops rs (newRateLimiter (6 * Second) 10 t0) = own_bucket_decisions ops (6 * Second) 10 [] rs"
proof -
  let ?rl = "newRateLimiter (6 * Second) 10 t0"
  have "table_ok ops [] t0 ?rl" by (simp add: table_ok_def newRateLimiter_def times_of_def)
  then show ?thesis
    using decisions_own_bucket [of ops ?rl "[]" t0 rs] assms
    by (simp add: newRateLimiter_def rlStaleAfter_def Minute_def Second_def)
qed

theorem rate_limit_per_client_witness:
  "rl_decisions sample_bucket [(''10.0.0.1'', 5), (''10.0.0.1'', 7), (''10.0.0.2'', 1000000000000), (''10.0.0.1'', 1000000000001)]
     (newRateLimiter (6 * Second) 10 0) = [True, True, True, True]"
  using rate_limit_per_client [OF sample_bucket_refills, of 0 "[(''10.0.0.1'', 5), (''10.0.0.1'', 7), (''10.0.0.2'', 1000000000000), (''10.0.0.1'', 1000000000001)]"]
  by (simp add: own_bucket_decisions_def times_of_def bucket_def sample_bucket_def Let_def Second_def
      upt_conv_Cons numeral_nat)

end
