(* ===== verification/Routes.thy ===== *)
theory Routes
  imports Users Keys Access_Audit Config Rate_Limit Daemon_Conn Invitations Enroll Upgrades
begin

text \<open>
  \<open>internal/controlplane/server.go\<close>: the routes of the API, their tiers and the dispatch of a request
  through the middleware of its tier to its handler. A request is one constructor per route, with
  the path parameters, the query and the decoded body the handler reads; the values of the
  responses are dropped. The run of the whole control plane is the step relation \<open>api_step\<close>:
  requests, daemons that connect, report and leave, their writers, the creation of an admin from
  the command line and the clock, in any order. The theorems: no path belongs to two routes; a
  request without a live session (an admin's on the admin routes) changes nothing; the schema and
  the history survive every run.
\<close>

section \<open>Requests\<close>

datatype public_request =
    PostEnroll "EnrollRequest option" | PostDecommission string "DecommissionRequest option"
  | PostLogin "loginRequest option" | PostRefresh "refreshRequest option"
  | PostAccept "acceptInvitationRequest option" | PostReset "string option"
  | PostResetConfirm "passwordResetConfirmRequest option"

datatype account_request =
    GetMe | PatchMe "updateProfileRequest option" | PostLogout | PostEnrollToken "createEnrollTokenRequest option"
  | PostKey "addKeyRequest option" | GetKeys | DeleteKey string

datatype secret_request =
    PostSecret "createSecretRequest option" | GetSecrets | GetSecretR string | GetReveal string
  | GetSecretAudit string | PutSecret string "createSecretRequest option" | DeleteSecretR string

datatype group_request =
    PostGroup "createGroupRequest option" | GetGroups | GetGroupsFor string string | GetMembers string
  | GetGroupR string | PutGroup string "updateGroupRequest option" | DeleteGroupR string
  | PostGroupResource string "groupResourceRequest option" | DeleteGroupResource string "groupResourceRequest option"

datatype set_request =
    PostSet "createSetRequest option" | GetSets | GetSetR string | GetSetHosts string | GetSetAudit string
  | PutSet string "updateSetRequest option" | DeleteSetR string | PutEntry string string "string option"
  | DeleteEntry string string

datatype host_request =
    GetHosts | GetHostR string | GetHostAudit string "string \<Rightarrow> string"
  | GetHostAccess string "string \<Rightarrow> string" | PostHostRefresh string | PostHostRevoke string
  | PostHostUpgrade string "string option" | PostBind string "bindSetRequest option" | DeleteBind string string

datatype admin_request =
    PostFleet "string option" | GetAudit | GetGrantAudit | GetSecretAccess string
  | PostInvitation "createInvitationRequest option" | GetInvitations | DeleteInvitationR string | PostResend string
  | GetUsers | PostSuspend string | PostActivate string | DeleteUser string | GetGrants
  | PostGrant "createGrantRequest option" | DeleteGrant string

datatype user_request =
    Account account_request | Secret secret_request | Group group_request | Set set_request | OnHost host_request

datatype api_request = Healthz | PublicR public_request | UserR user_request | AdminR admin_request

section \<open>Routes\<close>

text \<open>A response without its value.\<close>
definition erase :: "'v response action \<Rightarrow> unit response action" where
  "erase m = do { r \<leftarrow> m; ret (map_response (\<lambda>_. ()) r) }"

definition publicRoutes :: "server \<Rightarrow> public_request \<Rightarrow> unit response action" where
  "publicRoutes srv req = (case req of
     PostEnroll b \<Rightarrow> erase (handleEnroll srv b)
   | PostDecommission i b \<Rightarrow> erase (handleDecommissionHost srv i b)
   | PostLogin b \<Rightarrow> erase (handleLogin srv b) | PostRefresh b \<Rightarrow> erase (handleRefresh srv b)
   | PostAccept b \<Rightarrow> erase (handleAcceptInvitation srv b)
   | PostReset b \<Rightarrow> do { _ \<leftarrow> snd (handlePasswordReset srv b); ret (fst (handlePasswordReset srv b)) }
   | PostResetConfirm b \<Rightarrow> erase (handlePasswordResetConfirm srv b))"

definition account_routes :: "server \<Rightarrow> authInfo \<Rightarrow> account_request \<Rightarrow> unit response action" where
  "account_routes srv a req = (case req of
     GetMe \<Rightarrow> erase (handleMe srv a) | PatchMe b \<Rightarrow> erase (handleUpdateProfile srv a b)
   | PostLogout \<Rightarrow> erase (handleLogout a)
   | PostEnrollToken b \<Rightarrow> erase (handleCreateEnrollToken srv a b)
   | PostKey b \<Rightarrow> erase (handleAddKey srv a b) | GetKeys \<Rightarrow> erase (handleListKeys srv a)
   | DeleteKey i \<Rightarrow> erase (handleDeleteKey srv a i))"

definition secret_routes :: "server \<Rightarrow> authInfo \<Rightarrow> secret_request \<Rightarrow> unit response action" where
  "secret_routes srv a req = (case req of
     PostSecret b \<Rightarrow> erase (handleCreateSecret srv a b)
   | GetSecrets \<Rightarrow> erase (handleListSecrets srv a)
   | GetSecretR i \<Rightarrow> erase (handleGetSecret srv a i)
   | GetReveal i \<Rightarrow> erase (handleRevealSecret srv a i)
   | GetSecretAudit i \<Rightarrow> erase (handleSecretAudit srv a i)
   | PutSecret i b \<Rightarrow> erase (handleUpdateSecret srv a i b)
   | DeleteSecretR i \<Rightarrow> erase (handleDeleteSecret srv a i))"

definition group_routes :: "server \<Rightarrow> authInfo \<Rightarrow> group_request \<Rightarrow> unit response action" where
  "group_routes srv a req = (case req of
     PostGroup b \<Rightarrow> erase (handleCreateGroup srv a b)
   | GetGroups \<Rightarrow> erase (handleListGroups srv a)
   | GetGroupsFor k i \<Rightarrow> erase (handleListGroupsForResource srv a k i)
   | GetMembers i \<Rightarrow> erase (handleListGroupMembers srv a i)
   | GetGroupR i \<Rightarrow> erase (handleGetGroup srv a i)
   | PutGroup i b \<Rightarrow> erase (handleUpdateGroup srv a i b)
   | DeleteGroupR i \<Rightarrow> erase (handleDeleteGroup srv a i)
   | PostGroupResource i b \<Rightarrow> erase (handleAddGroupResource srv a i b)
   | DeleteGroupResource i b \<Rightarrow> erase (handleRemoveGroupResource srv a i b))"

definition set_routes :: "server \<Rightarrow> authInfo \<Rightarrow> set_request \<Rightarrow> unit response action" where
  "set_routes srv a req = (case req of
     PostSet b \<Rightarrow> erase (handleCreateSet srv a b) | GetSets \<Rightarrow> erase (handleListSets srv a)
   | GetSetR i \<Rightarrow> erase (handleGetSet srv a i)
   | GetSetHosts i \<Rightarrow> erase (handleListSetHosts srv a i)
   | GetSetAudit i \<Rightarrow> erase (handleSetAudit srv a i)
   | PutSet i b \<Rightarrow> erase (handleUpdateSet srv a i b)
   | DeleteSetR i \<Rightarrow> erase (handleDeleteSet srv a i)
   | PutEntry i k b \<Rightarrow> erase (handleUpsertSetEntry srv a i k b)
   | DeleteEntry i k \<Rightarrow> erase (handleDeleteSetEntry srv a i k))"

definition host_routes :: "server \<Rightarrow> authInfo \<Rightarrow> host_request \<Rightarrow> unit response action" where
  "host_routes srv a req = (case req of
     GetHosts \<Rightarrow> erase (handleListHosts srv a) | GetHostR i \<Rightarrow> erase (handleGetHost srv a i)
   | GetHostAudit i q \<Rightarrow> erase (handleHostAudit srv a i q)
   | GetHostAccess i q \<Rightarrow> erase (handleHostAccessAudit srv a i q)
   | PostHostRefresh i \<Rightarrow> erase (handleRefreshHost srv a i)
   | PostHostRevoke i \<Rightarrow> erase (handleRevokeHost srv a i)
   | PostHostUpgrade i b \<Rightarrow> erase (handleUpgradeHost srv a i b)
   | PostBind i b \<Rightarrow> erase (handleBindSet srv a i b)
   | DeleteBind i j \<Rightarrow> erase (handleUnbindSet srv a i j))"

definition userRoutes :: "server \<Rightarrow> authInfo \<Rightarrow> user_request \<Rightarrow> unit response action" where
  "userRoutes srv a req = (case req of
     Account r \<Rightarrow> account_routes srv a r | Secret r \<Rightarrow> secret_routes srv a r | Group r \<Rightarrow> group_routes srv a r
   | Set r \<Rightarrow> set_routes srv a r | OnHost r \<Rightarrow> host_routes srv a r)"

definition adminRoutes :: "server \<Rightarrow> authInfo \<Rightarrow> admin_request \<Rightarrow> unit response action" where
  "adminRoutes srv a req = (case req of
     PostFleet b \<Rightarrow> erase (handleUpgradeFleet srv a b)
   | GetAudit \<Rightarrow> erase (handleAllAudit srv a) | GetGrantAudit \<Rightarrow> erase (handleGrantAudit srv a)
   | GetSecretAccess i \<Rightarrow> erase (handleSecretAccessAudit srv a i)
   | PostInvitation b \<Rightarrow> erase (handleCreateInvitation srv a b)
   | GetInvitations \<Rightarrow> erase (handleListInvitations srv a)
   | DeleteInvitationR i \<Rightarrow> erase (handleCancelInvitation srv i)
   | PostResend i \<Rightarrow> erase (handleResendInvitation srv a i)
   | GetUsers \<Rightarrow> erase (handleListUsers srv a)
   | PostSuspend i \<Rightarrow> erase (handleSuspendUser srv a i)
   | PostActivate i \<Rightarrow> erase (handleActivateUser srv a i)
   | DeleteUser i \<Rightarrow> erase (handleRemoveUser srv a i)
   | GetGrants \<Rightarrow> erase (handleListGrants srv a)
   | PostGrant b \<Rightarrow> erase (handleCreateGrant srv a b)
   | DeleteGrant i \<Rightarrow> erase (handleRevokeGrant srv a i))"

section \<open>Patterns\<close>

text \<open>The methods and patterns of the routes, with the prefix of their \<open>r.Route\<close>.\<close>
definition public_patterns :: "(string \<times> string) list" where
  "public_patterns = [
    (''POST'', ''/enroll''), (''POST'', ''/hosts/{id}/decommission''), (''POST'', ''/login''),
    (''POST'', ''/refresh''), (''POST'', ''/invitations/accept''), (''POST'', ''/password-reset''),
    (''POST'', ''/password-reset/confirm'')]"

definition user_patterns :: "(string \<times> string) list" where
  "user_patterns = [
    (''GET'', ''/me''), (''PATCH'', ''/me''), (''POST'', ''/logout''), (''POST'', ''/enroll-tokens''),
    (''POST'', ''/keys''), (''GET'', ''/keys''), (''DELETE'', ''/keys/{id}''), (''POST'', ''/secrets''),
    (''GET'', ''/secrets''), (''GET'', ''/secrets/{id}''), (''GET'', ''/secrets/{id}/reveal''),
    (''GET'', ''/secrets/{id}/audit''), (''PUT'', ''/secrets/{id}''), (''DELETE'', ''/secrets/{id}''),
    (''POST'', ''/groups''), (''GET'', ''/groups''), (''GET'', ''/groups/resources/{kind}/{resourceID}''),
    (''GET'', ''/groups/{id}/members''), (''GET'', ''/groups/{id}''), (''PUT'', ''/groups/{id}''),
    (''DELETE'', ''/groups/{id}''), (''POST'', ''/groups/{id}/resources''),
    (''DELETE'', ''/groups/{id}/resources''), (''POST'', ''/sets''), (''GET'', ''/sets''),
    (''GET'', ''/sets/{id}''), (''GET'', ''/sets/{id}/hosts''), (''GET'', ''/sets/{id}/audit''),
    (''PUT'', ''/sets/{id}''), (''DELETE'', ''/sets/{id}''), (''PUT'', ''/sets/{id}/entries/{key}''),
    (''DELETE'', ''/sets/{id}/entries/{key}''), (''GET'', ''/hosts''), (''GET'', ''/hosts/{id}''),
    (''GET'', ''/hosts/{id}/audit''), (''GET'', ''/hosts/{id}/access-audit''),
    (''POST'', ''/hosts/{id}/refresh''), (''POST'', ''/hosts/{id}/revoke''),
    (''POST'', ''/hosts/{id}/upgrade''), (''POST'', ''/hosts/{id}/sets''),
    (''DELETE'', ''/hosts/{id}/sets/{setId}'')]"

definition admin_patterns :: "(string \<times> string) list" where
  "admin_patterns = [
    (''POST'', ''/upgrade''), (''GET'', ''/audit''), (''GET'', ''/grant-audit''),
    (''GET'', ''/secrets/{id}/access-audit''), (''POST'', ''/invitations''), (''GET'', ''/invitations''),
    (''DELETE'', ''/invitations/{id}''), (''POST'', ''/invitations/{id}/resend''), (''GET'', ''/users''),
    (''POST'', ''/users/{id}/suspend''), (''POST'', ''/users/{id}/activate''), (''DELETE'', ''/users/{id}''),
    (''GET'', ''/grants''), (''POST'', ''/grants''), (''DELETE'', ''/grants/{id}'')]"

datatype tier = Open | Public | User | Admin

definition routes :: "(tier \<times> string \<times> string) list" where
  "routes = [(Open, ''GET'', ''/healthz''), (Open, ''GET'', ''/daemon'')] @
     map (Pair Public) public_patterns @ map (Pair User) user_patterns @ map (Pair Admin) admin_patterns"

text \<open>A segment of a pattern in braces is a parameter: it matches any one segment of a path.\<close>
definition is_param :: "string \<Rightarrow> bool" where
  "is_param s = (s \<noteq> [] \<and> hd s = CHR ''{'')"

definition segments :: "string \<Rightarrow> string list" where
  "segments p = Split p (CHR ''/'')"

fun matches :: "string list \<Rightarrow> string list \<Rightarrow> bool" where
  "matches [] [] = True"
| "matches (p # ps) (s # ss) = ((is_param p \<or> p = s) \<and> matches ps ss)"
| "matches _ _ = False"

fun overlap :: "string list \<Rightarrow> string list \<Rightarrow> bool" where
  "overlap [] [] = True"
| "overlap (p # ps) (q # qs) = ((is_param p \<or> is_param q \<or> p = q) \<and> overlap ps qs)"
| "overlap _ _ = False"

definition clash :: "tier \<times> string \<times> string \<Rightarrow> tier \<times> string \<times> string \<Rightarrow> bool" where
  "clash r r' = (fst (snd r) = fst (snd r') \<and> overlap (segments (snd (snd r))) (segments (snd (snd r'))))"

fun pairwise_apart :: "(tier \<times> string \<times> string) list \<Rightarrow> bool" where
  "pairwise_apart [] = True"
| "pairwise_apart (r # rs) = (list_all (\<lambda>r'. \<not> clash r r') rs \<and> pairwise_apart rs)"

section \<open>The handler\<close>

text \<open>\<open>Handler\<close>: \<open>allowed\<close> is the verdict of the rate limiter on the client of a public request.\<close>
definition Handler :: "server \<Rightarrow> bool \<Rightarrow> string \<Rightarrow> api_request \<Rightarrow> unit response action" where
  "Handler srv allowed header req = (case req of
     Healthz \<Rightarrow> ret (Body ())
   | PublicR r \<Rightarrow> if allowed then publicRoutes srv r else ret (HttpError 429 ''too many requests'')
   | UserR r \<Rightarrow> requireAuth srv header (\<lambda>a. userRoutes srv a r)
   | AdminR r \<Rightarrow> requireAdmin srv header (\<lambda>a. adminRoutes srv a r))"

text \<open>One step of the control plane.\<close>
inductive api_step :: "server \<Rightarrow> world \<Rightarrow> world \<Rightarrow> bool" for srv where
  a_request: "api_step srv w (snd (run_state (Handler srv allowed header req) w))"
| a_connect: "api_step srv w (snd (run_state (handleDaemon srv reply) w))"
| a_report: "api_step srv w (snd (run_state (readDaemon host m) w))"
| a_close: "api_step srv w (snd (run_state (closeDaemon host send) w))"
| a_write: "writeDaemon \<lparr>wr_chan = hub_chans (w_hub w) i, wr_sent = s, wr_stopped = False\<rparr> v \<Longrightarrow>
    api_step srv w (w\<lparr>w_hub := (w_hub w)\<lparr>hub_chans := (hub_chans (w_hub w))(i := wr_chan v)\<rparr>\<rparr>)"
| a_createadmin: "api_step srv w (snd (run_state (CreateAdmin srv email pw) w))"
| a_clock: "w_clock w \<le> t \<Longrightarrow> api_step srv w (w\<lparr>w_clock := t\<rparr>)"

section \<open>Every step keeps the schema and the history\<close>

lemma eff_erase [eff]: "state_io_rel world_step m \<Longrightarrow> state_io_rel world_step (erase m)"
  unfolding erase_def by (intro eff)

lemma eff_erase_read [eff]: "state_io_rel world_read m \<Longrightarrow> state_io_rel world_step (erase m)"
  by (intro eff_erase eff_weaken)

lemma eff_publicRoutes [eff]: "state_io_rel world_step (publicRoutes srv r)"
  by (cases r) (simp_all add: publicRoutes_def, (intro eff eff_weaken)+)

lemma eff_account_routes [eff]: "state_io_rel world_step (account_routes srv a r)"
  by (cases r) (simp_all add: account_routes_def, (rule eff_erase eff_erase_read, rule eff)+)

lemma eff_secret_routes [eff]: "state_io_rel world_step (secret_routes srv a r)"
  by (cases r) (simp_all add: secret_routes_def, (rule eff_erase eff_erase_read, rule eff)+)

lemma eff_group_routes [eff]: "state_io_rel world_step (group_routes srv a r)"
  by (cases r) (simp_all add: group_routes_def, (rule eff_erase eff_erase_read, rule eff)+)

lemma eff_set_routes [eff]: "state_io_rel world_step (set_routes srv a r)"
  by (cases r) (simp_all add: set_routes_def, (rule eff_erase eff_erase_read, rule eff)+)

lemma eff_host_routes [eff]: "state_io_rel world_step (host_routes srv a r)"
  by (cases r) (simp_all add: host_routes_def, (rule eff_erase eff_erase_read, rule eff)+)

lemma eff_adminRoutes [eff]: "state_io_rel world_step (adminRoutes srv a r)"
  by (cases r) (simp_all add: adminRoutes_def, (rule eff_erase eff_erase_read, rule eff)+)

lemma eff_userRoutes [eff]: "state_io_rel world_step (userRoutes srv a r)"
  by (cases r) (simp_all add: userRoutes_def eff)

lemma eff_Handler [eff]: "state_io_rel world_step (Handler srv allowed header req)"
  by (cases req) (auto simp: Handler_def intro!: eff)

lemma api_step_db: "api_step srv w w' \<Longrightarrow> db_step (w_db w) (w_db w')"
proof (induction rule: api_step.induct)
  case (a_request w allowed header req)
  then show ?case using state_io_rel_run [OF eff_Handler] by (simp add: world_step_def)
next
  case (a_connect w reply)
  then show ?case using state_io_rel_run [OF eff_handleDaemon(3)] by (simp add: world_step_def)
next
  case (a_report w host m)
  then show ?case using state_io_rel_run [OF eff_readDaemon] by (simp add: world_step_def)
next
  case (a_close w host send)
  then show ?case using state_io_rel_run [OF eff_handleDaemon(4)] by (simp add: world_step_def)
next
  case (a_createadmin w email pw)
  then show ?case using state_io_rel_run [OF eff_CreateAdmin] by (simp add: world_step_def)
qed simp_all

lemma api_steps_db: "(api_step srv)\<^sup>*\<^sup>* w w' \<Longrightarrow> db_step (w_db w) (w_db w')"
  by (induction rule: rtranclp_induct) (auto intro: db_step_trans api_step_db)

section \<open>No path belongs to two routes\<close>

lemma matches_overlap: "matches ps ss \<Longrightarrow> matches qs ss \<Longrightarrow> overlap ps qs"
  by (induction ps ss arbitrary: qs rule: matches.induct) (case_tac qs; auto)+

lemma pairwise_apart_unique:
  "pairwise_apart rs \<Longrightarrow> length (filter (\<lambda>(t, m, p). m = meth \<and> matches (segments p) path) rs) \<le> 1"
proof (induction rs)
  case (Cons r rs)
  have "filter (\<lambda>(t, m, p). m = meth \<and> matches (segments p) path) rs = []"
    if "fst (snd r) = meth" "matches (segments (snd (snd r))) path"
    using Cons.prems that by (fastforce simp: filter_empty_conv list_all_iff clash_def dest: matches_overlap)
  then show ?case using Cons by (auto split: prod.splits)
qed simp

lemma routes_apart: "pairwise_apart routes"
  by code_simp

section \<open>Sessions\<close>

definition live_session :: "string \<Rightarrow> time \<Rightarrow> db \<Rightarrow> Session \<Rightarrow> User \<Rightarrow> bool" where
  "live_session hash t d s v \<longleftrightarrow> v \<in> set (users d) \<and> s \<in> set (sessions d) \<and> u_ID v = s_UserID s \<and>
     s_RevokedAt s = None \<and> t < s_ExpiresAt s \<and>
     (\<exists>a \<in> set (access_tokens d). at_TokenHash a = hash \<and> t < at_ExpiresAt a \<and> at_SessionID a = s_ID s)"

lemma one_row_Inr_mem: "one_row rs = Inr r \<Longrightarrow> r \<in> set rs"
  by (cases rs) auto

lemma GetAccessContext_live:
  "GetAccessContext hash t d = Inr row \<Longrightarrow>
     \<exists>s v. live_session hash t d s v \<and> u_Role v = ac_Role row \<and> u_Status v = ac_Status row \<and> u_ID v = ac_UserID row \<and>
       s_ID s = ac_SessionID row"
  unfolding GetAccessContext_def by (drule one_row_Inr_mem) (fastforce simp: live_session_def split: if_splits)

lemma requireAuth_cases:
  assumes "run_state (requireAuth srv header next) w = (r, w')"
  obtains "r = HttpError 401 ''unauthorized''" "w' = w\<lparr>w_tick := w_tick w'\<rparr>"
  | s v where "live_session (HashToken srv (bearerToken header)) (w_clock w) (w_db w) s v" "u_Status v \<noteq> ''active''"
      "r = HttpError 403 ''forbidden''" "w' = w\<lparr>w_tick := w_tick w'\<rparr>"
  | auth s v where "live_session (HashToken srv (bearerToken header)) (w_clock w) (w_db w) s v" "u_Status v = ''active''"
      "a_UserID auth = u_ID v" "a_Role auth = u_Role v" "a_SessionID auth = s_ID s"
      "run_state (next auth) (w\<lparr>w_tick := Suc (w_tick w)\<rparr>) = (r, w')"
proof (cases "bearerToken header = ''''")
  case True
  then show thesis using assms that(1) by (auto simp: requireAuth_def)
next
  case False
  let ?g = "GetAccessContext (HashToken srv (bearerToken header)) (w_clock w) (w_db w)"
  have c: "run_state (call (single_now (GetAccessContext (HashToken srv (bearerToken header))))) w =
      (if w_net w (w_tick w) = NetOk then ?g else Inl ConnFault, w\<lparr>w_tick := Suc (w_tick w)\<rparr>)"
    by (simp add: run_call single_now_def split: net.splits)
  show thesis
  proof (cases "if w_net w (w_tick w) = NetOk then ?g else Inl ConnFault")
    case (Inl e)
    then show thesis using assms that(1) False c by (auto simp: requireAuth_def run_attempt)
  next
    case (Inr row)
    then obtain s v where l: "live_session (HashToken srv (bearerToken header)) (w_clock w) (w_db w) s v"
        "u_Role v = ac_Role row" "u_Status v = ac_Status row" "u_ID v = ac_UserID row" "s_ID s = ac_SessionID row"
      using GetAccessContext_live by (metis sum.distinct(1))
    show thesis
    proof (cases "ac_Status row = ''active''")
      case True
      then show thesis using assms False c Inr
        by (intro that(3) [of s v "\<lparr>a_SessionID = ac_SessionID row, a_UserID = ac_UserID row, a_Role = ac_Role row,
              a_ClientPublicKey = ac_ClientPublicKey row\<rparr>"]) (simp_all add: l requireAuth_def run_attempt)
    next
      case False': False
      then show thesis using assms False c Inr
        by (intro that(2) [OF l(1)]) (auto simp: l requireAuth_def run_attempt)
    qed
  qed
qed

section \<open>An admin who is signed in\<close>

definition sample_session :: Session where
  "sample_session = \<lparr>s_ID = 70, s_UserID = 1, s_TokenHash = ''refresh'', s_ClientPublicKey = None, s_CreatedAt = 0,
     s_ExpiresAt = 9000, s_RevokedAt = None\<rparr>"

definition sample_token :: AccessToken where
  "sample_token = \<lparr>at_ID = 71, at_SessionID = 70, at_TokenHash = ''746f6b'', at_ExpiresAt = 2000, at_CreatedAt = 0\<rparr>"

definition signed_in :: world where
  "signed_in = sample_world\<lparr>w_db := sample_db\<lparr>sessions := [sample_session], access_tokens := [sample_token]\<rparr>\<rparr>"

text \<open>An admin is created and someone tries to sign in with no body.\<close>
definition sample_after :: world where
  "sample_after = snd (run_state (Handler sample_server True '''' (PublicR (PostLogin None)))
     (snd (run_state (CreateAdmin sample_server ''root@y'' ''correct horse'') sample_world)))"

lemma sample_bearer: "HashToken sample_server (bearerToken ''Bearer tok'') = ''746f6b''" "bearerToken ''Bearer tok'' \<noteq> []"
  by code_simp+

lemma signed_in_admin:
  "GetAccessContext ''746f6b'' (w_clock signed_in) (w_db signed_in) = Inr
     \<lparr>ac_SessionID = 70, ac_ClientPublicKey = None, ac_UserID = 1, ac_Role = ''admin'', ac_Status = ''active''\<rparr>"
  by (simp add: GetAccessContext_def signed_in_def sample_world_def sample_db_def sample_session_def
      sample_token_def sample_admin_def sample_member_def)

lemma signed_in_simps [simp]:
  "w_net signed_in n = NetOk" "invitations (w_db signed_in) = []" "parseUUID sample_server s = Some (of_nat (length s))"
  by (simp_all add: signed_in_def sample_world_def sample_db_def init_db_def parseUUID_def sample_server_def)

lemma signed_in_cancel:
  "fst (run_state (Handler sample_server True ''Bearer tok'' (AdminR (DeleteInvitationR ''7''))) signed_in) =
     HttpError 404 ''invitation not found or already accepted''"
  by (simp add: Handler_def requireAdmin_def requireAuth_def run_attempt run_call single_now_def sample_bearer
      signed_in_admin Let_def adminRoutes_def erase_def handleCancelInvitation_def DeleteInvitation_def count_where_def)

section \<open>Properties\<close>


text \<open>C7: A request on a route of the user tier that is answered with anything but 401 or 403, or that
  changes anything at all, carries the token of a live session: the token is in the database and
  not expired, its session neither revoked nor expired, its user active; on the admin tier the user
  is an admin.\<close>
theorem tiers_enforced:
  assumes "run_state (Handler srv allowed header req) w = (r, w')"
    and "req = UserR u \<or> req = AdminR a"
    and "r \<notin> {HttpError 401 ''unauthorized'', HttpError 403 ''forbidden''} \<or> w' \<noteq> w\<lparr>w_tick := w_tick w'\<rparr>"
  shows "\<exists>s v. live_session (HashToken srv (bearerToken header)) (w_clock w) (w_db w) s v \<and> u_Status v = ''active'' \<and>
    (req = AdminR a \<longrightarrow> u_Role v = ''admin'')"
  using assms
  by (auto simp: Handler_def requireAdmin_def elim!: requireAuth_cases split: if_splits) blast+

theorem tiers_enforced_witness:
  "fst (run_state (Handler sample_server True ''Bearer tok'' (AdminR (DeleteInvitationR ''7''))) signed_in) =
     HttpError 404 ''invitation not found or already accepted'' \<and>
   (\<exists>s v. live_session ''746f6b'' (w_clock signed_in) (w_db signed_in) s v \<and> u_Role v = ''admin'')"
proof -
  obtain r w' where r: "run_state (Handler sample_server True ''Bearer tok'' (AdminR (DeleteInvitationR ''7''))) signed_in = (r, w')"
    by fastforce
  show ?thesis using signed_in_cancel r tiers_enforced [OF r, where a = "DeleteInvitationR ''7''"]
    by (auto simp: sample_bearer)
qed

text \<open>C8: Whatever requests, daemons, writers and clock readings come in whatever order, with whatever
  faults of the network to the database, the constraints of the schema go on to hold and history
  is never rewritten: no audit row is lost or altered, no revoked grant or session comes back, a
  host keeps its keys, its accounts and its machine, no sequence number decreases, no used reset
  or enrollment token becomes usable.\<close>
theorem reachable_schema_and_history:
  assumes "(api_step srv)\<^sup>*\<^sup>* w w'" "schema_ok (w_db w)"
  shows "schema_ok (w_db w') \<and> history_le (w_db w) (w_db w')"
  using api_steps_db [OF assms(1)] assms(2) by (simp add: db_step_def)

theorem reachable_schema_and_history_witness:
  "(api_step sample_server)\<^sup>*\<^sup>* sample_world sample_after \<and> schema_ok (w_db sample_after) \<and>
   history_le (w_db sample_world) (w_db sample_after)"
proof -
  have r: "(api_step sample_server)\<^sup>*\<^sup>* sample_world sample_after"
    unfolding sample_after_def by (rule rtranclp.rtrancl_into_rtrancl [OF r_into_rtranclp]) (rule api_step.intros)+
  have "schema_ok (w_db sample_world)" using sample_schema_ok by (simp add: sample_world_def)
  then show ?thesis using reachable_schema_and_history [OF r] r by blast
qed

end
