(* ===== verification/Transactions.thy ===== *)
theory Transactions
  imports Daemon_WS
begin

text \<open>
  Laws of statements and transactions for the properties of the handlers: what a run of a
  statement, of a transaction's body and of a whole transaction can have done to the database,
  under any faults of the network. A part of the database that no statement of a handler touches is
  kept by it (\<open>keeps_view\<close>).
\<close>

section \<open>Statements\<close>

lemma tx_call_Inr:
  assumes "run_state (tx_call f) t = (Inr a, t')"
  shows "\<not> t_aborted t \<and> \<not> t_aborted t' \<and> w_clock (t_world t') = w_clock (t_world t) \<and> w_db (t_world t') = w_db (t_world t) \<and>
    (\<exists>st. st_now st = w_clock (t_world t) \<and> f st (t_db t) = (Inr a, t_db t'))"
  using assms by (auto simp: tx_call_def Let_def split: prod.splits if_splits sum.splits) (metis stmt.select_convs(2))

lemma tx_call_ran:
  assumes "run_state (tx_call f) t = (Inr a, t')"
  obtains st where "st_now st = w_clock (t_world t)" "t_db t' = snd (f st (t_db t))" "fst (f st (t_db t)) = Inr a"
  using tx_call_Inr [OF assms] by (metis fst_conv snd_conv)

lemma tx_call_Inl: "run_state (tx_call f) t = (Inl e, t') \<Longrightarrow> t_db t' = t_db t"
  by (auto simp: tx_call_def Let_def split: prod.splits if_splits sum.splits)

lemma attempt_Inr_tx:
  assumes "run_state (attempt m h k) t = (Inr y, t')" and "\<And>e t1. fst (run_state (h e) t1) \<noteq> Inr y"
  obtains x t1 where "run_state m t = (Inr x, t1)" "run_state (k x) t1 = (Inr y, t')"
  using assms by (auto simp: run_attempt split: sum.splits prod.splits) (metis fst_conv)

section \<open>Transactions\<close>

lemma with_tx_cases:
  assumes "run_state (with_tx b body c k) w = (r, w')" and body: "state_io_rel tx_step body"
  obtains (begin_fails) e where "r = b e" "world_read w w'"
  | (rollback) w1 t where "world_read w w1" "w_tick w1 = Suc (w_tick w)"
      "run_state body \<lparr>t_world = w1, t_db = w_db w, t_aborted = False\<rparr> = (Inl r, t)"
      "w' = t_world t" "world_read w w'"
  | (uncommitted) a e where "r = c e" "world_read w w'"
  | (lost) w1 t a e where "world_read w w1" "w_tick w1 = Suc (w_tick w)"
      "run_state body \<lparr>t_world = w1, t_db = w_db w, t_aborted = False\<rparr> = (Inr a, t)"
      "r = c e" "w_db w' = t_db t" "w_hub w' = w_hub w" "w_clock w' = w_clock w" "\<not> calm w"
  | (committed) w1 t a w2 where "world_read w w1" "w_tick w1 = Suc (w_tick w)"
      "run_state body \<lparr>t_world = w1, t_db = w_db w, t_aborted = False\<rparr> = (Inr a, t)"
      "run_state (k a) w2 = (r, w')" "w_db w2 = t_db t" "world_read w (w2\<lparr>w_db := w_db w\<rparr>)"
proof -
  obtain r1 w1 where b: "run_state (call (many (\<lambda>_. ()))) w = (r1, w1)" by fastforce
  have w1: "world_read w w1" "w_tick w1 = Suc (w_tick w)"
    using state_io_rel_run [OF eff_reads(1) [of "\<lambda>_. ()"], of w] b
    by (auto simp: run_call many_def split: net.splits prod.splits)
  obtain s t where s: "run_state body \<lparr>t_world = w1, t_db = w_db w1, t_aborted = False\<rparr> = (s, t)" by fastforce
  have t: "world_read w1 (t_world t)" using state_io_rel_run [OF body] s by (metis snd_conv tx_step_def txworld.select_convs(1))
  have wt: "world_read w (t_world t)" using w1(1) t by (rule wr.eff_trans)
  have d: "w_db w1 = w_db w" using w1(1) by (simp add: world_read_def)
  show thesis
  proof (cases r1)
    case (Inl e)
    with assms(1) b have "r = b e" "w' = w1" by (auto simp: with_tx_def)
    with w1(1) show thesis by (intro begin_fails) auto
  next
    case r1: (Inr u)
    show thesis
    proof (cases s)
      case (Inl r')
      then have "run_state body \<lparr>t_world = w1, t_db = w_db w, t_aborted = False\<rparr> = (Inl r, t)" "w' = t_world t"
        using assms(1) b r1 s d by (auto simp: with_tx_def)
      with rollback w1 wt show thesis by blast
    next
      case (Inr a)
      let ?w3 = "(t_world t)\<lparr>w_tick := Suc (w_tick (t_world t))\<rparr>"
      have w3: "world_read w ?w3" "world_read w (?w3\<lparr>w_db := t_db t, w_db := w_db w\<rparr>)"
        using wt by (auto simp: world_read_def)
      have run: "run_state body \<lparr>t_world = w1, t_db = w_db w, t_aborted = False\<rparr> = (Inr a, t)" using s Inr d by simp
      have "r = c ConnFault \<and> w' = ?w3 \<or> r = c ConnFault \<and> w' = ?w3\<lparr>w_db := t_db t\<rparr> \<and> w_net (t_world t) (w_tick (t_world t)) \<noteq> NetOk \<or>
          run_state (k a) (?w3\<lparr>w_db := t_db t\<rparr>) = (r, w')"
        using assms(1) b r1 s Inr by (auto simp: with_tx_def Let_def split: if_splits net.splits)
      then show thesis
      proof (elim disjE conjE)
        assume "r = c ConnFault" "w' = ?w3"
        then show thesis using uncommitted w3(1) by blast
      next
        assume "r = c ConnFault" "w' = ?w3\<lparr>w_db := t_db t\<rparr>" "w_net (t_world t) (w_tick (t_world t)) \<noteq> NetOk"
        then show thesis using lost [OF w1 run] wt by (auto simp: world_read_def calm_def)
      next
        assume "run_state (k a) (?w3\<lparr>w_db := t_db t\<rparr>) = (r, w')"
        then show thesis using committed [OF w1 run] w3(2) by auto
      qed
    qed
  qed
qed

lemma tx_schema: "state_io_rel tx_step body \<Longrightarrow> run_state body t = (r, t') \<Longrightarrow> schema_ok (t_db t) \<Longrightarrow> schema_ok (t_db t')"
  using state_io_rel_run [of tx_step body t] by (auto simp: tx_step_def intro: db_step_schema)

section \<open>Parts of the database a handler keeps\<close>

named_theorems views \<open>statements keep a view of the database\<close>

definition keeps_view :: "(db \<Rightarrow> 'v) \<Rightarrow> world \<Rightarrow> world \<Rightarrow> bool" where
  "keeps_view V w w' \<longleftrightarrow> db_step (w_db w) (w_db w') \<and> (schema_ok (w_db w) \<longrightarrow> V (w_db w') = V (w_db w))"

definition tx_view :: "(db \<Rightarrow> 'v) \<Rightarrow> txworld \<Rightarrow> txworld \<Rightarrow> bool" where
  "tx_view V t t' \<longleftrightarrow> tx_step t t' \<and> (schema_ok (t_db t) \<longrightarrow> V (t_db t') = V (t_db t))"

interpretation kv: effect_order "keeps_view V" for V
  by unfold_locales (auto simp: keeps_view_def intro: db_step_trans dest: db_step_schema)

interpretation tv: effect_order "tx_view V" for V
proof unfold_locales
  show "tx_view V s u" if "tx_view V s t" "tx_view V t u" for s t u
    using that ts.eff_trans [of s t u] db_step_schema [of "t_db s" "t_db t"] by (simp add: tx_view_def tx_step_def)
qed (auto simp: tx_view_def ts.eff_refl)

lemma read_view: "world_read w w' \<Longrightarrow> keeps_view V w w'"
  by (simp add: keeps_view_def world_read_def)

lemma view_read: "state_io_rel world_read m \<Longrightarrow> state_io_rel (keeps_view V) m"
  by (auto simp: state_io_rel_def keeps_view_def world_read_def)

lemma view_call [eff]:
  assumes "\<And>st d. db_step d (snd (f st d))" "\<And>st d. schema_ok d \<Longrightarrow> V (snd (f st d)) = V d"
  shows "state_io_rel (keeps_view V) (call f)"
proof (rule state_io_relI)
  fix w r w' assume "run_state (call f) w = (r, w')"
  then have "w_db w' \<in> {w_db w, snd (f \<lparr>st_uuid = w_uuid w (w_tick w), st_now = w_clock w\<rparr> (w_db w))}"
    by (auto simp: run_call split: prod.splits net.splits)
  then show "keeps_view V w w'" using assms by (auto simp: keeps_view_def)
qed

lemma view_tx_call [eff]:
  assumes "\<And>st d. db_step d (snd (f st d))" "\<And>st d. schema_ok d \<Longrightarrow> V (snd (f st d)) = V d"
  shows "state_io_rel (tx_view V) (tx_call f)"
proof (rule state_io_relI)
  fix t r t' assume r: "run_state (tx_call f) t = (r, t')"
  have "t_db t' = t_db t \<or> (\<exists>st. t_db t' = snd (f st (t_db t)))"
  proof (cases r)
    case (Inl e)
    then show ?thesis using tx_call_Inl [of f t e t'] r by simp
  next
    case (Inr a)
    then obtain st where "f st (t_db t) = (Inr a, t_db t')" using tx_call_Inr [of f t a t'] r by auto
    then show ?thesis by (metis snd_conv)
  qed
  moreover have "tx_step t t'" using state_io_rel_run [OF eff_tx_call [of f, OF assms(1)], of t] r by simp
  ultimately show "tx_view V t t'" using assms(2) by (auto simp: tx_view_def)
qed

lemma view_outside: "state_io_rel world_read m \<Longrightarrow> state_io_rel (tx_view V) (outside m)"
  using eff_outside [of m] by (auto simp: state_io_rel_def tx_view_def outside_def split: prod.splits)

lemma view_on_hub [eff]: "state_io_rel (keeps_view V) (on_hub f)"
  by (simp add: state_io_rel_def keeps_view_def)

lemma view_with_tx [eff]:
  assumes "state_io_rel (tx_view V) body" and k: "\<And>a. state_io_rel (keeps_view V) (k a)"
  shows "state_io_rel (keeps_view V) (with_tx b body c k)"
proof (rule state_io_relI)
  fix w r w' assume r: "run_state (with_tx b body c k) w = (r, w')"
  have body: "state_io_rel tx_step body" using assms(1) by (auto simp: state_io_rel_def tx_view_def)
  have tx: "db_step (w_db w) (t_db t) \<and> (schema_ok (w_db w) \<longrightarrow> V (t_db t) = V (w_db w))"
    if "run_state body \<lparr>t_world = w1, t_db = w_db w, t_aborted = False\<rparr> = (s, t)" for w1 s t
    using state_io_rel_run [OF assms(1), of "\<lparr>t_world = w1, t_db = w_db w, t_aborted = False\<rparr>"] that
    by (simp add: tx_view_def tx_step_def)
  from r body show "keeps_view V w w'"
  proof (cases rule: with_tx_cases)
    case (lost w1 t a e)
    show ?thesis using tx [OF lost(3)] lost(5) by (simp add: keeps_view_def)
  next
    case (committed w1 t a w2)
    have "keeps_view V w w2" using tx [OF committed(3)] committed(5) by (simp add: keeps_view_def)
    moreover have "keeps_view V w2 w'" using state_io_rel_run [OF k [of a], of w2] committed(4) by simp
    ultimately show ?thesis by (rule kv.eff_trans)
  qed (rule read_view, assumption)+
qed

lemma views_read [views]: "V (snd (many g st d)) = V d" "V (snd (single h st d)) = V d" "V (snd (single_now k st d)) = V d"
  by simp_all

end
