(* ===== verification/Logins.thy ===== *)
theory Logins
  imports Routes Transactions
begin

text \<open>
  Which requests can change who may log in to a host: the view \<open>logins\<close> of the database gives for each
  host the keys of its snapshot. Every statement outside a small set keeps it, and so does every
  handler that is made of such statements.
\<close>

definition logins :: "db \<Rightarrow> uuid \<Rightarrow> HostAccessKeysRow set" where
  "logins d h = set (HostAccessKeys h d)"

lemma in_logins:
  "r \<in> logins d h \<longleftrightarrow> (\<exists>k \<in> set (public_keys d). r = access_key k \<and> active_user (pk_UserID k) d \<and>
     has_grant ''host'' (pk_UserID k) ''host.access'' h d)"
  by (simp add: logins_def in_HostAccessKeys)

section \<open>Statements that keep the logins\<close>

lemma logins_cong:
  assumes "public_keys d' = public_keys d" "grants d' = grants d" "group_resources d' = group_resources d"
    "\<And>k. k \<in> set (public_keys d) \<Longrightarrow> active_user (pk_UserID k) d' = active_user (pk_UserID k) d"
  shows "logins d' = logins d"
proof -
  have "has_grant ''host'' u p h d' = has_grant ''host'' u p h d" for u p h
    using assms(2,3) by (simp add: has_grant_def grant_covers_def groups_of_def)
  then show ?thesis using assms(1,4) by (auto simp: fun_eq_iff set_eq_iff in_logins)
qed

lemma logins_tables:
  "public_keys d' = public_keys d \<Longrightarrow> grants d' = grants d \<Longrightarrow> group_resources d' = group_resources d \<Longrightarrow> users d' = users d \<Longrightarrow>
     logins d' = logins d"
  by (rule logins_cong) (simp_all add: active_user_def)

lemma logins_other [views]:
  "logins (snd (InsertGrantAudit a g ai ae si se p tk t st d)) = logins d"
  "logins (snd (CreateGroup n ds st d)) = logins d"
  "logins (snd (UpdateGroup rid n ds st d)) = logins d"
  "logins (snd (CreateHost n hn ik acs m ek st d)) = logins d"
  "logins (snd (NextHostSeq rid st d)) = logins d"
  "logins (snd (NextHostSetSeq rid st d)) = logins d"
  "logins (snd (SetHostStatus rid s st d)) = logins d"
  "logins (snd (TouchHostSeen rid st d)) = logins d"
  "logins (snd (SetHostVersion rid v st d)) = logins d"
  "logins (snd (SetHostDesiredVersion rid v st d)) = logins d"
  "logins (snd (CreateEnrollmentToken h l acs b x st d)) = logins d"
  "logins (snd (MarkTokenUsed rid ho st d)) = logins d"
  "logins (snd (InsertSSHAccessLog hid n ko acc al at f st d)) = logins d"
  by (rule logins_tables; simp add: InsertGrantAudit_def CreateGroup_def UpdateGroup_def CreateHost_def NextHostSeq_def
      NextHostSetSeq_def SetHostStatus_def TouchHostSeen_def SetHostVersion_def SetHostDesiredVersion_def CreateEnrollmentToken_def
      MarkTokenUsed_def InsertSSHAccessLog_def insert_row_def Let_def)+

lemma logins_identity [views]:
  "logins (snd (DeleteUserIdentities u st d)) = logins d"
  "logins (snd (CreateIdentity u p e h st d)) = logins d"
  "logins (snd (TouchIdentityLogin rid st d)) = logins d"
  "logins (snd (UpdatePasswordIdentity u h st d)) = logins d"
  "logins (snd (SetLoginFailure rid fails l st d)) = logins d"
  "logins (snd (ResetLoginFailures rid st d)) = logins d"
  "logins (snd (CreateSession u th k x st d)) = logins d"
  "logins (snd (UpdateSessionClientKey rid k st d)) = logins d"
  "logins (snd (RevokeSession rid st d)) = logins d"
  "logins (snd (RevokeAllUserSessions u st d)) = logins d"
  "logins (snd (RotateSessionToken rid th st d)) = logins d"
  "logins (snd (CreateAccessToken rid th x st d)) = logins d"
  "logins (snd (CreateInvitation e r th b x st d)) = logins d"
  "logins (snd (MarkInvitationAccepted rid st d)) = logins d"
  "logins (snd (RefreshInvitationToken rid th x st d)) = logins d"
  "logins (snd (DeleteInvitation rid st d)) = logins d"
  "logins (snd (CreatePasswordReset u th x st d)) = logins d"
  "logins (snd (MarkPasswordResetUsed rid st d)) = logins d"
  by (rule logins_tables; simp add: DeleteUserIdentities_def CreateIdentity_def TouchIdentityLogin_def UpdatePasswordIdentity_def
      SetLoginFailure_def ResetLoginFailures_def CreateSession_def UpdateSessionClientKey_def RevokeSession_def RevokeAllUserSessions_def
      RotateSessionToken_def CreateAccessToken_def CreateInvitation_def MarkInvitationAccepted_def RefreshInvitationToken_def
      DeleteInvitation_def CreatePasswordReset_def MarkPasswordResetUsed_def insert_row_def Let_def)+

lemma logins_secrets [views]:
  "logins (snd (CreateSecret l ur un otp c nn wr cb ub st d)) = logins d"
  "logins (snd (UpdateSecret rid l ur un otp c nn wr ub st d)) = logins d"
  "logins (snd (DeleteSecret rid st d)) = logins d"
  "logins (snd (InsertSecretAudit so n a uo st d)) = logins d"
  "logins (snd (CreateSet n uo st d)) = logins d"
  "logins (snd (TouchSet rid st d)) = logins d"
  "logins (snd (UpdateSetName rid n st d)) = logins d"
  "logins (snd (CreateSetEntry s k ct nc wp st d)) = logins d"
  "logins (snd (UpsertSetEntry s k ct nc wp st d)) = logins d"
  "logins (snd (DeleteSetEntries s st d)) = logins d"
  "logins (snd (DeleteSetEntry s k st d)) = logins d"
  "logins (snd (BindSet hid s au go st d)) = logins d"
  "logins (snd (UnbindSet hid s st d)) = logins d"
  "logins (snd (DeleteSet s st d)) = logins d"
  "logins (snd (InsertSetAudit so n eo ho a ao st d)) = logins d"
  by (rule logins_tables; simp add: CreateSecret_def UpdateSecret_def DeleteSecret_def InsertSecretAudit_def CreateSet_def TouchSet_def
      UpdateSetName_def CreateSetEntry_def UpsertSetEntry_def DeleteSetEntries_def DeleteSetEntry_def BindSet_def UnbindSet_def
      DeleteSet_def InsertSetAudit_def insert_row_def Let_def)+

lemma active_user_update:
  "(\<And>u. u_ID (f u) = u_ID u \<and> u_Status (f u) = u_Status u) \<Longrightarrow>
     active_user i (d\<lparr>users := update_where P f (users d)\<rparr>) = active_user i d"
  by (simp add: active_user_def bex_update_where if_distrib cong: if_cong)

lemma logins_names [views]:
  "logins (snd (UpdateUserName rid n st d)) = logins d" "logins (snd (UpdateUserDisplayName rid dn st d)) = logins d"
  unfolding UpdateUserName_def UpdateUserDisplayName_def snd_conv
  by (rule logins_cong; simp add: active_user_update)+

lemma logins_CreateUser [views]: "schema_ok d \<Longrightarrow> logins (snd (CreateUser e n dn r st d)) = logins d"
  by (rule logins_cong) (auto simp: CreateUser_def insert_row_def Let_def active_user_def schema_ok_def keys_ok_def)

lemma logins_CreateGrant: "p \<noteq> ''host.access'' \<Longrightarrow> logins (snd (CreateGrant u p k t b st d)) = logins d"
  by (auto simp: CreateGrant_def insert_row_def Let_def fun_eq_iff set_eq_iff in_logins active_user_def has_grant_def
      grant_covers_def groups_of_def)

section \<open>Handlers that keep the logins\<close>

lemmas view_helpers [eff] = eff_now(1) [THEN view_read] eff_rand(1) [THEN view_read] eff_send_mail(1) [THEN view_read]
  eff_GenerateToken(1) [THEN view_read] eff_seals [THEN view_read] eff_writeResponse [THEN view_read] eff_can [THEN view_read]
  eff_permissions [THEN view_read] eff_buildSnapshot [THEN view_read] eff_expiry [THEN view_read] eff_profile_response [THEN view_read]
  eff_group_views [THEN view_read] eff_toGroupResourceView [THEN view_read] eff_buildSecretSets [THEN view_read]
  eff_set_views [THEN view_read] eff_sealFields [THEN view_read] eff_secret_view [THEN view_read]
  eff_secretViewFromGet [THEN view_read] eff_respondSecret [THEN view_read] eff_the_hub [THEN view_read] eff_buildUpgrade [THEN view_read]

lemma eff_erase_view [eff]: "state_io_rel (keeps_view V) m \<Longrightarrow> state_io_rel (keeps_view V) (erase m)"
  unfolding erase_def by (intro eff)

lemma logins_mintAccessToken [eff]: "state_io_rel (tx_view logins) (mintAccessToken srv s)"
  unfolding mintAccessToken_def by (intro eff db_steps views view_outside)

lemma logins_recordFailedLogin [eff]: "state_io_rel (keeps_view logins) (recordFailedLogin i)"
  unfolding recordFailedLogin_def Let_def by (intro eff db_steps views)

lemma logins_loginTx [eff]: "state_io_rel (tx_view logins) (loginTx srv req i)"
  unfolding loginTx_def Let_def by (intro eff db_steps views view_outside)

lemma logins_handleLogin [eff]: "state_io_rel (keeps_view logins) (handleLogin srv body)"
  unfolding handleLogin_def login_def Let_def by (intro eff db_steps views)

lemma logins_refreshTx [eff]: "state_io_rel (tx_view logins) (refreshTx srv req sess)"
  unfolding refreshTx_def Let_def by (intro eff db_steps views view_outside)

lemma logins_handleRefresh [eff]: "state_io_rel (keeps_view logins) (handleRefresh srv body)"
  unfolding handleRefresh_def refresh_def by (intro eff db_steps views)

lemma logins_handleLogout [eff]: "state_io_rel (keeps_view logins) (handleLogout auth)"
  unfolding handleLogout_def by (intro eff db_steps views)

lemma logins_handleUpdateProfile [eff]: "state_io_rel (keeps_view logins) (handleUpdateProfile srv auth body)"
  unfolding handleUpdateProfile_def by (intro eff db_steps views)

lemma logins_handleCreateEnrollToken [eff]: "state_io_rel (keeps_view logins) (handleCreateEnrollToken srv auth body)"
  unfolding handleCreateEnrollToken_def Let_def by (intro eff db_steps views)

lemma logins_guards [eff]:
  "state_io_rel (tx_view logins) (machine_guard m)" "state_io_rel (tx_view logins) (prior_guard srv p)"
  unfolding machine_guard_def prior_guard_def by (intro eff db_steps views)+

lemma logins_handleEnroll [eff]: "state_io_rel (keeps_view logins) (handleEnroll srv body)"
  unfolding handleEnroll_def enroll_def enrollTx_def Let_def by (intro eff db_steps views view_outside)

lemma logins_invitations [eff]:
  "state_io_rel (keeps_view logins) (handleCreateInvitation srv auth c)"
  "state_io_rel (keeps_view logins) (handleCancelInvitation srv i)"
  "state_io_rel (keeps_view logins) (handleResendInvitation srv auth i)"
  unfolding handleCreateInvitation_def handleCancelInvitation_def handleResendInvitation_def sendInvite_def Let_def
  by (intro eff db_steps views)+

lemma logins_handleAcceptInvitation [eff]: "state_io_rel (keeps_view logins) (handleAcceptInvitation srv a)"
  unfolding handleAcceptInvitation_def acceptInvitation_def acceptTx_def by (intro eff db_steps views)

lemma logins_handlePasswordReset [eff]: "state_io_rel (keeps_view logins) (snd (handlePasswordReset srv b))"
  by (auto simp: handlePasswordReset_def startPasswordReset_def split: option.splits intro!: eff db_steps views)

lemma logins_handlePasswordResetConfirm [eff]: "state_io_rel (keeps_view logins) (handlePasswordResetConfirm srv b)"
  unfolding handlePasswordResetConfirm_def confirmPasswordReset_def resetTx_def by (intro eff db_steps views)

lemma logins_CreateAdmin [eff]: "state_io_rel (keeps_view logins) (CreateAdmin srv email pw)"
  unfolding CreateAdmin_def createAdminTx_def by (intro eff db_steps views)

lemma logins_grantOwner [eff]: "''host.access'' \<notin> set ps \<Longrightarrow> state_io_rel (tx_view logins) (grantOwner u k t ps)"
  unfolding grantOwner_def by (intro eff db_steps logins_CreateGrant) auto

lemma logins_auditSecret [eff]: "state_io_rel (keeps_view logins) (auditSecret i l a u)"
  unfolding auditSecret_def by (intro eff db_steps views)

lemma logins_createSecretTx [eff]: "state_io_rel (tx_view logins) (createSecretTx auth req cols)"
  unfolding createSecretTx_def Let_def by (intro eff db_steps views) simp

lemma logins_secret_writes [eff]:
  "state_io_rel (keeps_view logins) (handleCreateSecret srv auth body)"
  "state_io_rel (keeps_view logins) (handleRevealSecret srv auth i)"
  "state_io_rel (keeps_view logins) (handleUpdateSecret srv auth i body)"
  "state_io_rel (keeps_view logins) (handleDeleteSecret srv auth i)"
  unfolding handleCreateSecret_def handleRevealSecret_def handleUpdateSecret_def handleDeleteSecret_def Let_def
  by (intro eff db_steps views)+

lemma logins_sealEntries [eff]: "state_io_rel (tx_view logins) (sealEntries srv m i es)"
  unfolding sealEntries_def by (intro eff db_steps views view_outside)

lemma logins_set_pushes [eff]:
  "state_io_rel (keeps_view logins) (secretSetsEnvelope srv host ss)" "state_io_rel (keeps_view logins) (pushSecretSets srv h)"
  "state_io_rel (keeps_view logins) (pushSetToHosts srv s)"
  unfolding pushSetToHosts_def pushSecretSets_def secretSetsEnvelope_def Let_def by (intro eff db_steps views)+

lemma logins_createSetTx [eff]: "state_io_rel (tx_view logins) (createSetTx srv m auth req)"
  unfolding createSetTx_def Let_def by (intro eff db_steps views) simp

lemma logins_set_txs [eff]:
  "state_io_rel (tx_view logins) (updateSetTx auth i n)"
  "state_io_rel (tx_view logins) (deleteSetTx auth i s)" "state_io_rel (tx_view logins) (bindSetTx auth h i s u)"
  "state_io_rel (tx_view logins) (upsertEntryTx auth i s k b)" "state_io_rel (tx_view logins) (deleteEntryTx auth i s k)"
  unfolding updateSetTx_def deleteSetTx_def bindSetTx_def upsertEntryTx_def deleteEntryTx_def Let_def
  by (intro eff db_steps views)+

lemma logins_set_writes [eff]:
  "state_io_rel (keeps_view logins) (handleCreateSet srv auth creq)"
  "state_io_rel (keeps_view logins) (handleUpdateSet srv auth i ureq)"
  "state_io_rel (keeps_view logins) (handleDeleteSet srv auth i)"
  "state_io_rel (keeps_view logins) (handleBindSet srv auth i breq)"
  "state_io_rel (keeps_view logins) (handleUnbindSet srv auth i j)"
  "state_io_rel (keeps_view logins) (handleUpsertSetEntry srv auth i k v)"
  "state_io_rel (keeps_view logins) (handleDeleteSetEntry srv auth i k)"
  unfolding handleCreateSet_def handleUpdateSet_def handleDeleteSet_def handleBindSet_def
    handleUnbindSet_def handleUpsertSetEntry_def handleDeleteSetEntry_def
  by (intro eff db_steps views)+

lemma logins_createGroupTx [eff]: "state_io_rel (tx_view logins) (createGroupTx auth req)"
  unfolding createGroupTx_def Let_def by (intro eff db_steps views) simp

lemma logins_group_writes [eff]:
  "state_io_rel (keeps_view logins) (handleCreateGroup srv auth creq)"
  "state_io_rel (keeps_view logins) (handleUpdateGroup srv auth i ureq)"
  unfolding handleCreateGroup_def handleUpdateGroup_def by (intro eff db_steps views)+

lemma logins_pushSnapshot [eff]:
  "state_io_rel (keeps_view logins) (snapshotEnvelope srv h s)" "state_io_rel (keeps_view logins) (pushSnapshot srv h)"
  unfolding pushSnapshot_def snapshotEnvelope_def by (intro eff db_steps views)+

lemma logins_hosts [eff]:
  "state_io_rel (keeps_view logins) (handleRefreshHost srv auth i)" "state_io_rel (keeps_view logins) (revokeHost srv hid)"
  "state_io_rel (keeps_view logins) (handleRevokeHost srv auth i)" "state_io_rel (keeps_view logins) (handleDecommissionHost srv i req)"
  unfolding handleRefreshHost_def handleRevokeHost_def handleDecommissionHost_def revokeHost_def Let_def by (intro eff db_steps views)+

lemma logins_push_fleet [eff]: "state_io_rel (keeps_view logins) (push_fleet v up hs)"
  by (induction hs) (auto simp: pushUpgrade_def Let_def intro!: eff db_steps views)

lemma logins_upgrades [eff]:
  "state_io_rel (keeps_view logins) (handleUpgradeHost srv auth i b)" "state_io_rel (keeps_view logins) (handleUpgradeFleet srv auth b)"
  unfolding handleUpgradeHost_def handleUpgradeFleet_def pushUpgrade_def Let_def by (intro eff db_steps views)+

lemma logins_open_chan [eff]: "state_io_rel (keeps_view V) (open_chan i)"
  by (auto simp: state_io_rel_def open_chan_def keeps_view_def split: prod.splits)

lemma logins_readDaemon [eff]: "state_io_rel (keeps_view logins) (readDaemon host m)"
  unfolding readDaemon_def recordAccessLog_def recordSecretRead_def Let_def
  by (cases m) (auto split: option.splits intro!: eff db_steps views)

lemma logins_handleDaemon [eff]:
  "state_io_rel (keeps_view logins) (admitDaemon srv reply)" "state_io_rel (keeps_view logins) (initial_snapshot srv host i)"
  "state_io_rel (keeps_view logins) (initial_sets srv host i)" "state_io_rel (keeps_view logins) (initial_upgrade host i)"
  "state_io_rel (keeps_view logins) (registerDaemon srv host)" "state_io_rel (keeps_view logins) (handleDaemon srv reply)"
  "state_io_rel (keeps_view logins) (closeDaemon host i)"
  unfolding handleDaemon_def admitDaemon_def registerDaemon_def closeDaemon_def initial_snapshot_def initial_sets_def initial_upgrade_def
  by (intro eff db_steps views view_read [OF eff_authenticateDaemon])+

end
