(* ===== verification/Lifecycle.thy ===== *)
theory Lifecycle
  imports Routes Transactions
begin

text \<open>
  What is done stays done, over whole runs of the control plane: a grant or a revocation and its audit
  row come together or not at all; a session that was logged out is never accepted again; an
  enrollment token and a password reset work once.
\<close>

section \<open>Grants and their audit rows\<close>

definition records :: "string \<Rightarrow> uuid \<Rightarrow> Grant \<Rightarrow> GrantAuditLog \<Rightarrow> bool" where
  "records action actor g row \<longleftrightarrow> gal_Action row = action \<and> gal_GrantID row = Some (g_ID g) \<and>
     gal_ActorID row = Some actor \<and> gal_SubjectID row = Some (g_UserID g) \<and> gal_Permission row = g_Permission g \<and>
     gal_TargetKind row = g_TargetKind g \<and> gal_TargetID row = g_TargetID g"

abbreviation grant_tables :: "db \<Rightarrow> Grant list \<times> GrantAuditLog list" where
  "grant_tables d \<equiv> (grants d, grant_audit_logs d)"

lemma outside_db: "state_io_rel world_read m \<Longrightarrow> run_state (outside m) t = (r, t') \<Longrightarrow> t_db t' = t_db t"
  by (auto simp: outside_def split: prod.splits)

lemma auditGrant_Inr:
  assumes "run_state (auditGrant action g actor) t = (Inr (), t')"
  shows "\<exists>row. records action actor g row \<and> t_db t' = (t_db t)\<lparr>grant_audit_logs := grant_audit_logs (t_db t) @ [row]\<rparr>"
proof -
  obtain e1 t1 e2 t2 where e: "run_state (outside (emailOf actor)) t = (e1, t1)"
    "run_state (outside (emailOf (g_UserID g))) t1 = (e2, t2)"
    by fastforce
  with assms have c: "run_state (tx_call (InsertGrantAudit action (Some (g_ID g)) (Some actor) e1 (Some (g_UserID g)) e2
      (g_Permission g) (g_TargetKind g) (g_TargetID g))) t2 = (Inr (), t')"
    by (simp add: auditGrant_def)
  have d: "t_db t2 = t_db t" using e outside_db eff_emailOf by metis
  obtain st where "InsertGrantAudit action (Some (g_ID g)) (Some actor) e1 (Some (g_UserID g)) e2
      (g_Permission g) (g_TargetKind g) (g_TargetID g) st (t_db t) = (Inr (), t_db t')"
    using tx_call_Inr [OF c] d by auto
  then have "t_db t' = (t_db t)\<lparr>grant_audit_logs := grant_audit_logs (t_db t) @ [\<lparr>gal_ID = st_uuid st, gal_Action = action,
      gal_GrantID = Some (g_ID g), gal_ActorID = Some actor, gal_ActorEmail = e1, gal_SubjectID = Some (g_UserID g),
      gal_SubjectEmail = e2, gal_Permission = g_Permission g, gal_TargetKind = g_TargetKind g, gal_TargetID = g_TargetID g,
      gal_At = st_now st\<rparr>]\<rparr>" (is "_ = (t_db t)\<lparr>grant_audit_logs := _ @ [?row]\<rparr>")
    by (auto simp: InsertGrantAudit_def insert_row_def split: if_splits)
  moreover have "records action actor g ?row" by (simp add: records_def)
  ultimately show ?thesis by blast
qed

lemma createGrantTx_Inr:
  assumes "run_state (createGrantTx auth u p k i) t = (Inr g, t')"
  shows "\<exists>row. records ''grant'' (a_UserID auth) g row \<and> g_UserID g = u \<and> g_Permission g = p \<and> g_TargetKind g = k \<and>
    g_TargetID g = i \<and> g_RevokedAt g = None \<and> g_ID g \<notin> set (map g_ID (grants (t_db t))) \<and>
    grant_tables (t_db t') = (grants (t_db t) @ [g], grant_audit_logs (t_db t) @ [row])"
proof -
  from assms obtain g1 t1 t2 where s: "run_state (tx_call (CreateGrant u p k i (Some (a_UserID auth)))) t = (Inr g1, t1)"
    "run_state (auditGrant ''grant'' g1 (a_UserID auth)) t1 = (Inr (), t2)" "g1 = g" "t2 = t'"
    unfolding createGrantTx_def by (auto simp: run_attempt split: sum.splits prod.splits)
  obtain st where "CreateGrant u p k i (Some (a_UserID auth)) st (t_db t) = (Inr g, t_db t1)"
    using tx_call_Inr [OF s(1)] s(3) by auto
  then have g: "g_UserID g = u" "g_Permission g = p" "g_TargetKind g = k" "g_TargetID g = i" "g_RevokedAt g = None"
      "g_ID g \<notin> set (map g_ID (grants (t_db t)))" and d: "t_db t1 = (t_db t)\<lparr>grants := grants (t_db t) @ [g]\<rparr>"
    by (auto simp: CreateGrant_def insert_row_def Let_def split: if_splits)
  obtain row where "records ''grant'' (a_UserID auth) g row"
      "t_db t' = (t_db t1)\<lparr>grant_audit_logs := grant_audit_logs (t_db t1) @ [row]\<rparr>"
    using auditGrant_Inr [OF s(2)] s(3,4) by auto
  with g d show ?thesis by (intro exI [of _ row]) simp
qed

lemma revokeGrantTx_Inr:
  assumes "run_state (revokeGrantTx auth i) t = (Inr g, t')"
  shows "\<exists>row at. records ''revoke'' (a_UserID auth) g row \<and> g_ID g = i \<and>
    (\<exists>g0 \<in> set (grants (t_db t)). g_RevokedAt g0 = None \<and> g = g0\<lparr>g_RevokedAt := Some at\<rparr>) \<and>
    grant_tables (t_db t') = (update_where (\<lambda>g. g_ID g = i \<and> g_RevokedAt g = None) (g_RevokedAt_update (\<lambda>_. Some at)) (grants (t_db t)),
      grant_audit_logs (t_db t) @ [row])"
proof -
  from assms obtain g1 t1 t2 where s: "run_state (tx_call (RevokeGrant i)) t = (Inr g1, t1)"
    "run_state (auditGrant ''revoke'' g1 (a_UserID auth)) t1 = (Inr (), t2)" "g1 = g" "t2 = t'"
    unfolding revokeGrantTx_def by (auto simp: run_attempt split: sum.splits prod.splits)
  obtain st where "RevokeGrant i st (t_db t) = (Inr g, t_db t1)" using tx_call_Inr [OF s(1)] s(3) by auto
  then have g: "\<exists>g0 \<in> set (grants (t_db t)). g_ID g0 = i \<and> g_RevokedAt g0 = None \<and> g = g0\<lparr>g_RevokedAt := Some (st_now st)\<rparr>"
    and d: "t_db t1 = (t_db t)\<lparr>grants := update_where (\<lambda>g. g_ID g = i \<and> g_RevokedAt g = None)
      (g_RevokedAt_update (\<lambda>_. Some (st_now st))) (grants (t_db t))\<rparr>"
    by (auto simp: RevokeGrant_def Let_def dest!: one_row_Inr_mem)
  obtain row where "records ''revoke'' (a_UserID auth) g row"
      "t_db t' = (t_db t1)\<lparr>grant_audit_logs := grant_audit_logs (t_db t1) @ [row]\<rparr>"
    using auditGrant_Inr [OF s(2)] s(3,4) by auto
  with g d show ?thesis by (intro exI [of _ row] exI [of _ "st_now st"]) auto
qed

text \<open>The pushes and the response after the commit.\<close>

lemma views_NextHostSeq [views]:
  "grant_tables (snd (NextHostSeq h st d)) = grant_tables d"
  by (simp add: NextHostSeq_def)

lemma view_pushSnapshot [eff]:
  "(\<And>h st d. V (snd (NextHostSeq h st d)) = V d) \<Longrightarrow> state_io_rel (keeps_view V) (pushSnapshot srv h)"
  unfolding pushSnapshot_def snapshotEnvelope_def by (intro eff db_steps views view_read [OF eff_buildSnapshot]) auto

lemma view_pushIfHostGrant [eff]:
  "(\<And>h st d. V (snd (NextHostSeq h st d)) = V d) \<Longrightarrow> state_io_rel (keeps_view V) (pushIfHostGrant srv p k i)"
  unfolding pushIfHostGrant_def by (intro eff db_steps views) auto

lemma view_writeResponse [eff]: "state_io_rel (keeps_view V) (writeResponse srv k v)"
  by (intro view_read eff)

lemma grant_tables_view:
  assumes "state_io_rel (keeps_view grant_tables) m" "run_state m w2 = (r, w')" "schema_ok (w_db w2)"
  shows "grant_tables (w_db w') = grant_tables (w_db w2)"
  using state_io_rel_run [OF assms(1), of w2] assms(2,3) by (simp add: keeps_view_def)

definition grant_done :: "authInfo \<Rightarrow> db \<Rightarrow> db \<Rightarrow> bool" where
  "grant_done auth d d' \<longleftrightarrow> (\<exists>g row. records ''grant'' (a_UserID auth) g row \<and> g_RevokedAt g = None \<and>
     validGrant (g_TargetKind g) (g_Permission g) \<and> g_ID g \<notin> set (map g_ID (grants d)) \<and>
     grant_tables d' = (grants d @ [g], grant_audit_logs d @ [row]))"

definition revoke_done :: "authInfo \<Rightarrow> db \<Rightarrow> db \<Rightarrow> bool" where
  "revoke_done auth d d' \<longleftrightarrow> (\<exists>g at row. records ''revoke'' (a_UserID auth) g row \<and> g \<in> set (grants d) \<and> g_RevokedAt g = None \<and>
     grant_tables d' = (update_where (\<lambda>h. g_ID h = g_ID g \<and> g_RevokedAt h = None) (g_RevokedAt_update (\<lambda>_. Some at)) (grants d),
       grant_audit_logs d @ [row]))"

lemma eff_grantTx [eff]: "state_io_rel tx_step (createGrantTx auth u p k i)" "state_io_rel tx_step (revokeGrantTx auth j)"
  unfolding createGrantTx_def revokeGrantTx_def by (intro eff db_steps)+

lemma handleCreateGrant_cases:
  assumes "run_state (handleCreateGrant srv auth body) w = (r, w')" "schema_ok (w_db w)"
  shows "grant_tables (w_db w') = grant_tables (w_db w) \<and> (\<exists>c m. r = HttpError c m) \<or> grant_done auth (w_db w) (w_db w')"
proof (cases "\<exists>c m. r = HttpError c m \<and> w' = w")
  case True
  then show ?thesis by auto
next
  case False
  let ?e = "serverError ''could not create grant'' :: string response"
  define u where "u req = the (parseUUID srv (cgr_UserID req))" for req :: createGrantRequest
  define i where "i req = (if cgr_TargetKind req = ''global'' then None else parseUUID srv (cgr_TargetID req))" for req :: createGrantRequest
  from assms(1) False obtain req where v: "validGrant (cgr_TargetKind req) (cgr_Permission req)"
    and run: "run_state (with_tx (\<lambda>_. ?e) (createGrantTx auth (u req) (cgr_Permission req) (cgr_TargetKind req) (i req)) (\<lambda>_. ?e)
        (\<lambda>g. do { pushIfHostGrant srv (g_Permission g) (g_TargetKind g) (g_TargetID g);
                  writeResponse srv (a_ClientPublicKey auth) (uuidString (Some (g_ID g))) })) w = (r, w')"
    by (cases body; cases "parseUUID srv (cgr_UserID (the body))") (auto simp: handleCreateGrant_def Let_def u_def i_def split: if_splits)
  have did: "grant_done auth (w_db w) d"
    if "run_state (createGrantTx auth (u req) (cgr_Permission req) (cgr_TargetKind req) (i req)) \<lparr>t_world = w1, t_db = w_db w, t_aborted = False\<rparr> = (Inr g, t)"
      "grant_tables d = grant_tables (t_db t)" for w1 g t d
    using createGrantTx_Inr [OF that(1)] that(2) v by (auto simp: grant_done_def)
  from run eff_grantTx(1) show ?thesis
  proof (cases rule: with_tx_cases)
    case (rollback w1 t)
    then have "\<exists>c m. r = HttpError c m"
      by (auto simp: createGrantTx_def serverError_def run_attempt split: sum.splits prod.splits)
    with rollback show ?thesis by (auto simp: world_read_def)
  next
    case (lost w1 t a e)
    then show ?thesis using did [OF lost(3)] by simp
  next
    case (committed w1 t g w2)
    have "schema_ok (w_db w2)" using tx_schema [OF eff_grantTx(1) committed(3)] assms(2) committed(5) by simp
    then have "grant_tables (w_db w') = grant_tables (t_db t)"
      using grant_tables_view [OF _ committed(4)] committed(5) by (simp add: eff views)
    then show ?thesis using did [OF committed(3)] by blast
  qed (auto simp: world_read_def serverError_def)
qed

lemma handleRevokeGrant_cases:
  assumes "run_state (handleRevokeGrant srv auth p) w = (r, w')" "schema_ok (w_db w)"
  shows "grant_tables (w_db w') = grant_tables (w_db w) \<and> (\<exists>c m. r = HttpError c m) \<or> revoke_done auth (w_db w) (w_db w')"
proof (cases "parseUUID srv p")
  case None
  then show ?thesis using assms(1) by (auto simp: handleRevokeGrant_def)
next
  case (Some i)
  let ?e = "serverError ''could not revoke grant'' :: unit response"
  have run: "run_state (with_tx (\<lambda>_. ?e) (revokeGrantTx auth i) (\<lambda>_. ?e)
        (\<lambda>g. do { pushIfHostGrant srv (g_Permission g) (g_TargetKind g) (g_TargetID g); ret (Status 204) })) w = (r, w')"
    using assms(1) Some by (simp add: handleRevokeGrant_def)
  have did: "revoke_done auth (w_db w) d"
    if "run_state (revokeGrantTx auth i) \<lparr>t_world = w1, t_db = w_db w, t_aborted = False\<rparr> = (Inr g, t)"
      "grant_tables d = grant_tables (t_db t)" for w1 g t d
    using revokeGrantTx_Inr [OF that(1)] that(2) by (fastforce simp: revoke_done_def records_def)
  from run eff_grantTx(2) show ?thesis
  proof (cases rule: with_tx_cases)
    case (rollback w1 t)
    then have "\<exists>c m. r = HttpError c m"
      by (auto simp: revokeGrantTx_def serverError_def run_attempt split: sum.splits prod.splits if_splits)
    with rollback show ?thesis by (auto simp: world_read_def)
  next
    case (lost w1 t a e)
    then show ?thesis using did [OF lost(3)] by simp
  next
    case (committed w1 t g w2)
    have "schema_ok (w_db w2)" using tx_schema [OF eff_grantTx(2) committed(3)] assms(2) committed(5) by simp
    then have "grant_tables (w_db w') = grant_tables (t_db t)"
      using grant_tables_view [OF _ committed(4)] committed(5) by (simp add: eff views)
    then show ?thesis using did [OF committed(3)] by blast
  qed (auto simp: world_read_def serverError_def)
qed

section \<open>Sessions\<close>

lemma no_session:
  assumes "run_state (Handler srv allowed header req) w = (r, w')" "req = UserR u \<or> req = AdminR a"
    and "\<And>s v. \<not> live_session (HashToken srv (bearerToken header)) (w_clock w) (w_db w) s v"
  shows "r = HttpError 401 ''unauthorized'' \<and> w' = w\<lparr>w_tick := w_tick w'\<rparr>"
  using assms by (auto simp: Handler_def requireAdmin_def elim!: requireAuth_cases)

text \<open>A token whose session was revoked is dead in every later state of the database.\<close>
lemma revoked_session_dead:
  assumes "history_le d d'" "schema_ok d'" "a \<in> set (access_tokens d)" "s \<in> set (sessions d)"
    "s_ID s = at_SessionID a" "s_RevokedAt s \<noteq> None"
  shows "\<not> live_session (at_TokenHash a) t d' s' v"
proof
  assume "live_session (at_TokenHash a) t d' s' v"
  then obtain a' where l: "a' \<in> set (access_tokens d')" "at_TokenHash a' = at_TokenHash a" "s' \<in> set (sessions d')"
      "at_SessionID a' = s_ID s'" "s_RevokedAt s' = None"
    by (auto simp: live_session_def)
  have ev: "evolves (=) (access_tokens d) (access_tokens d')" "evolves session_le (sessions d) (sessions d')"
    using assms(1) by (simp_all add: history_le_def)
  have u: "inj_on at_TokenHash (set (access_tokens d'))" "inj_on s_ID (set (sessions d'))"
    using assms(2) by (simp_all add: schema_ok_def sessions_ok_def distinct_map)
  have "a' = a" using evolves_in [OF ev(1) assms(3)] inj_onD [OF u(1) l(2) l(1)] by auto
  moreover obtain s1 where s1: "s1 \<in> set (sessions d')" "session_le s s1" using evolves_in [OF ev(2) assms(4)] by auto
  ultimately have "s' = s1" using inj_onD [OF u(2) _ l(3) s1(1)] l(4) assms(5) by (simp add: session_le_def)
  then show False using s1(2) assms(6) l(5) by (auto simp: session_le_def)
qed

lemma handleLogout_204:
  assumes "run_state (handleLogout auth) w = (Status 204, w')"
  shows "\<exists>t. w_db w' = (w_db w)\<lparr>sessions := update_where (\<lambda>s. s_ID s = a_SessionID auth) (s_RevokedAt_update (\<lambda>_. Some t)) (sessions (w_db w))\<rparr>"
  using assms by (auto simp: handleLogout_def run_attempt run_call RevokeSession_def split: net.splits)

lemma run_erase: "run_state (erase m) w = (r, w') \<longleftrightarrow> (\<exists>r0. run_state m w = (r0, w') \<and> map_response (\<lambda>_. ()) r0 = r)"
  by (auto simp: erase_def split: prod.splits)

lemma map_response_iff [simp]:
  "map_response f r = Status n \<longleftrightarrow> r = Status n" "map_response f r = HttpError c m \<longleftrightarrow> r = HttpError c m"
  "map_response f r = Body b \<longleftrightarrow> (\<exists>v. r = Body v \<and> f v = b)"
  by (cases r; auto)+

lemma logout_revokes:
  assumes "run_state (Handler srv allowed header (UserR (Account PostLogout))) w = (Status 204, w1)"
  shows "\<exists>a s. a \<in> set (access_tokens (w_db w1)) \<and> s \<in> set (sessions (w_db w1)) \<and> s_ID s = at_SessionID a \<and> s_RevokedAt s \<noteq> None \<and>
    at_TokenHash a = HashToken srv (bearerToken header)"
proof -
  have "run_state (requireAuth srv header (\<lambda>a. userRoutes srv a (Account PostLogout))) w = (Status 204, w1)"
    using assms by (simp add: Handler_def)
  then show ?thesis
  proof (cases rule: requireAuth_cases)
    case (3 auth s v)
    from 3(6) have "run_state (handleLogout auth) (w\<lparr>w_tick := Suc (w_tick w)\<rparr>) = (Status 204, w1)"
      by (auto simp: userRoutes_def account_routes_def run_erase)
    then obtain t where "w_db w1 = (w_db w)\<lparr>sessions := update_where (\<lambda>s. s_ID s = a_SessionID auth) (s_RevokedAt_update (\<lambda>_. Some t)) (sessions (w_db w))\<rparr>"
      using handleLogout_204 by fastforce
    then have "s\<lparr>s_RevokedAt := Some t\<rparr> \<in> set (sessions (w_db w1))" "access_tokens (w_db w1) = access_tokens (w_db w)"
      using 3(1,5) by (auto simp: live_session_def in_update_where)
    then show ?thesis using 3(1) by (fastforce simp: live_session_def)
  qed auto
qed

section \<open>Enrollment tokens\<close>

definition used_token :: "string \<Rightarrow> db \<Rightarrow> bool" where
  "used_token hash d \<longleftrightarrow> (\<exists>t \<in> set (enrollment_tokens d). et_TokenHash t = hash \<and> et_UsedAt t \<noteq> None)"

lemma used_token_stays:
  assumes "history_le d d'" "used_token hash d"
  shows "used_token hash d'"
proof -
  from assms(2) obtain t where t: "t \<in> set (enrollment_tokens d)" "et_TokenHash t = hash" "et_UsedAt t \<noteq> None"
    by (auto simp: used_token_def)
  have "evolves token_le (enrollment_tokens d) (enrollment_tokens d')" using assms(1) by (simp add: history_le_def)
  from evolves_in [OF this t(1)] obtain t' where "t' \<in> set (enrollment_tokens d')" "token_le t t'" by auto
  with t(2,3) show ?thesis by (auto simp: used_token_def token_le_def)
qed

lemma eff_enrollTx [eff]: "state_io_rel tx_step (enrollTx srv req)"
  unfolding enrollTx_def machine_guard_def prior_guard_def Let_def by (intro eff db_steps eff_outside)

lemma used_token_found:
  assumes "schema_ok d" "used_token hash d" "GetEnrollmentToken hash d = Inr tok"
  shows "et_UsedAt tok \<noteq> None"
proof -
  from assms(2) obtain t where t: "t \<in> set (enrollment_tokens d)" "et_TokenHash t = hash" "et_UsedAt t \<noteq> None"
    by (auto simp: used_token_def)
  have tok: "tok \<in> set (enrollment_tokens d)" "et_TokenHash tok = hash"
    using one_row_Inr_mem [OF assms(3) [unfolded GetEnrollmentToken_def]] by simp_all
  have "inj_on et_TokenHash (set (enrollment_tokens d))"
    using assms(1) by (simp add: schema_ok_def enrollment_ok_def distinct_map)
  then have "tok = t" using t tok by (auto dest: inj_onD)
  then show ?thesis using t by simp
qed

lemma enrollTx_used:
  assumes "used_token (HashToken srv (er_Token req)) (t_db t)" "schema_ok (t_db t)"
  shows "\<exists>e t'. run_state (enrollTx srv req) t = (Inl (Inl e), t')"
proof -
  obtain r t1 where r: "run_state (tx_call (single (GetEnrollmentToken (HashToken srv (er_Token req))))) t = (r, t1)" by fastforce
  show ?thesis
  proof (cases r)
    case (Inl e)
    then show ?thesis using r by (auto simp: enrollTx_def Let_def run_attempt)
  next
    case (Inr tok)
    then have "et_UsedAt tok \<noteq> None" using used_token_found [OF assms(2,1)] tx_call_Inr [OF r [unfolded Inr]] by (auto simp: single_def)
    then show ?thesis using r Inr by (auto simp: enrollTx_def Let_def run_attempt split: prod.splits)
  qed
qed

text \<open>A used token is refused and nothing changes.\<close>
lemma enroll_used:
  assumes "used_token (HashToken srv (er_Token req)) (w_db w)" "schema_ok (w_db w)" "run_state (enroll srv req) w = (r, w')"
  shows "(\<exists>e. r = Inl e) \<and> w_db w' = w_db w"
  using assms(3) [unfolded enroll_def] eff_enrollTx
proof (cases rule: with_tx_cases)
  case (rollback w1 t)
  then show ?thesis using enrollTx_used [of srv req "\<lparr>t_world = w1, t_db = w_db w, t_aborted = False\<rparr>"] assms(1,2)
    by (auto simp: world_read_def)
next
  case (lost w1 t a e)
  then show ?thesis using enrollTx_used [of srv req "\<lparr>t_world = w1, t_db = w_db w, t_aborted = False\<rparr>"] assms(1,2) by auto
next
  case (committed w1 t a w2)
  then show ?thesis using enrollTx_used [of srv req "\<lparr>t_world = w1, t_db = w_db w, t_aborted = False\<rparr>"] assms(1,2) by auto
qed (auto simp: world_read_def)

lemma tx_read_db:
  "run_state (tx_call (single g)) t = (r, t') \<Longrightarrow> t_db t' = t_db t"
  by (cases r) (auto simp: single_def dest!: tx_call_Inr tx_call_Inl)

lemma guards_db:
  "run_state (machine_guard m) t = (r, t') \<Longrightarrow> t_db t' = t_db t"
  "run_state (prior_guard srv p) t = (s, t'') \<Longrightarrow> t_db t'' = t_db t"
  by (auto simp: machine_guard_def prior_guard_def run_attempt dest!: tx_read_db split: if_splits option.splits sum.splits prod.splits)

definition enrolled :: "EnrollRequest \<Rightarrow> EnrollmentToken \<Rightarrow> Host \<Rightarrow> bool" where
  "enrolled req tok host \<longleftrightarrow> h_IdentityKey host = er_PublicKey req \<and> h_EncryptionKey host = er_EncryptionKey req \<and>
     h_Accounts host = et_Accounts tok \<and> h_Status host = ''active'' \<and> h_Hostname host = er_Hostname req \<and>
     h_MachineID host = pgText (er_MachineID req) \<and> h_LastSeq host = 0"

lemma enrollTx_Inr:
  assumes "run_state (enrollTx srv req) t = (Inr hid, t')"
  shows "\<exists>tok host at. tok \<in> set (enrollment_tokens (t_db t)) \<and> et_TokenHash tok = HashToken srv (er_Token req) \<and>
    et_UsedAt tok = None \<and> hid = uuidString (Some (h_ID host)) \<and> enrolled req tok host \<and>
    hosts (t_db t') = hosts (t_db t) @ [host] \<and>
    enrollment_tokens (t_db t') = update_where (\<lambda>x. et_ID x = et_ID tok) (\<lambda>x. x\<lparr>et_UsedAt := Some at, et_HostID := Some (h_ID host)\<rparr>)
      (enrollment_tokens (t_db t))"
proof -
  let ?fail = "\<lambda>e. ret (Inl (Inl e)) :: ((enroll_error + string) + string) tx_action"
  from assms obtain tok t1 where 1: "run_state (tx_call (single (GetEnrollmentToken (HashToken srv (er_Token req))))) t = (Inr tok, t1)"
    and t1: "run_state (do { x \<leftarrow> outside now;
         if et_UsedAt tok \<noteq> None \<or> et_ExpiresAt tok < x then ?fail InvalidToken
         else attempt (machine_guard (pgText (er_MachineID req))) ?fail (\<lambda>_.
           attempt (prior_guard srv (er_PriorHostID req)) ?fail (\<lambda>_.
           attempt (tx_call (CreateHost (host_name tok req) (er_Hostname req) (er_PublicKey req)
               (et_Accounts tok) (pgText (er_MachineID req)) (er_EncryptionKey req)))
             (\<lambda>e. ?fail (if isUniqueViolation e then AlreadyEnrolled else EnrollFails e)) (\<lambda>host.
           attempt (tx_call (MarkTokenUsed (et_ID tok) (Some (h_ID host)))) (\<lambda>e. ?fail (EnrollFails e)) (\<lambda>_.
             ret (Inr (uuidString (Some (h_ID host)))))))) }) t1 = (Inr hid, t')"
    unfolding enrollTx_def Let_def by (rule attempt_Inr_tx) simp_all
  then obtain t2 t3 t4 t5 host where 2: "t_db t2 = t_db t1" "et_UsedAt tok = None"
    and 3: "run_state (machine_guard (pgText (er_MachineID req))) t2 = (Inr (), t3)"
    and 4: "run_state (prior_guard srv (er_PriorHostID req)) t3 = (Inr (), t4)"
    and 5: "run_state (tx_call (CreateHost (host_name tok req) (er_Hostname req) (er_PublicKey req)
               (et_Accounts tok) (pgText (er_MachineID req)) (er_EncryptionKey req))) t4 = (Inr host, t5)"
    and 6: "run_state (tx_call (MarkTokenUsed (et_ID tok) (Some (h_ID host)))) t5 = (Inr (), t')"
    and hid: "hid = uuidString (Some (h_ID host))"
    by (auto simp: outside_def now_def run_attempt split: if_splits sum.splits prod.splits)
  have tok: "tok \<in> set (enrollment_tokens (t_db t))" "et_TokenHash tok = HashToken srv (er_Token req)"
    using tx_call_Inr [OF 1] by (auto simp: single_def GetEnrollmentToken_def dest!: one_row_Inr_mem)
  have d4: "t_db t4 = t_db t" using tx_read_db [OF 1] 2(1) guards_db(1) [OF 3] guards_db(2) [OF 4] by simp
  obtain su where "CreateHost (host_name tok req) (er_Hostname req) (er_PublicKey req) (et_Accounts tok) (pgText (er_MachineID req))
      (er_EncryptionKey req) su (t_db t) = (Inr host, t_db t5)"
    using tx_call_Inr [OF 5] d4 by auto
  then have "t_db t5 = (t_db t)\<lparr>hosts := hosts (t_db t) @ [host]\<rparr>" "enrolled req tok host"
    by (auto simp: CreateHost_def Let_def insert_row_def enrolled_def split: if_splits)
  then have h: "hosts (t_db t5) = hosts (t_db t) @ [host]" "enrolled req tok host" "enrollment_tokens (t_db t5) = enrollment_tokens (t_db t)"
    by simp_all
  obtain st where "MarkTokenUsed (et_ID tok) (Some (h_ID host)) st (t_db t5) = (Inr (), t_db t')" using tx_call_Inr [OF 6] by auto
  then have "t_db t' = (t_db t5)\<lparr>enrollment_tokens := update_where (\<lambda>x. et_ID x = et_ID tok)
      (\<lambda>x. x\<lparr>et_UsedAt := Some (st_now st), et_HostID := Some (h_ID host)\<rparr>) (enrollment_tokens (t_db t5))\<rparr>"
    by (auto simp: MarkTokenUsed_def split: if_splits)
  with tok 2(2) hid h show ?thesis by (intro exI [of _ tok] exI [of _ host] exI [of _ "st_now st"]) simp
qed

lemma enroll_Inr:
  assumes "run_state (enroll srv req) w = (Inr hid, w')"
  shows "\<exists>tok host. tok \<in> set (enrollment_tokens (w_db w)) \<and> et_TokenHash tok = HashToken srv (er_Token req) \<and>
    et_UsedAt tok = None \<and> hid = uuidString (Some (h_ID host)) \<and> enrolled req tok host \<and>
    hosts (w_db w') = hosts (w_db w) @ [host] \<and> used_token (HashToken srv (er_Token req)) (w_db w')"
  using assms [unfolded enroll_def] eff_enrollTx
proof (cases rule: with_tx_cases)
  case (rollback w1 t)
  have "fst (run_state (enrollTx srv req) v) \<noteq> Inl (Inr hid)" for v
    by (auto simp: enrollTx_def machine_guard_def prior_guard_def Let_def run_attempt split: sum.splits prod.splits if_splits option.splits)
  then show ?thesis using rollback(3) by (metis fst_conv)
next
  case (committed w1 t a w2)
  then have w': "w_db w' = t_db t" "a = hid" by simp_all
  from enrollTx_Inr [OF committed(3)] obtain tok host at where *: "tok \<in> set (enrollment_tokens (w_db w))"
      "et_TokenHash tok = HashToken srv (er_Token req)" "et_UsedAt tok = None" "hid = uuidString (Some (h_ID host))" "enrolled req tok host"
      "hosts (t_db t) = hosts (w_db w) @ [host]"
      "enrollment_tokens (t_db t) = update_where (\<lambda>x. et_ID x = et_ID tok) (\<lambda>x. x\<lparr>et_UsedAt := Some at, et_HostID := Some (h_ID host)\<rparr>)
        (enrollment_tokens (w_db w))"
    using w'(2) by auto
  have "tok\<lparr>et_UsedAt := Some at, et_HostID := Some (h_ID host)\<rparr> \<in> set (enrollment_tokens (t_db t))"
    using *(1,7) by (auto simp: in_update_where)
  then have "used_token (HashToken srv (er_Token req)) (t_db t)"
    unfolding used_token_def by (rule bexI [rotated]) (simp add: *(2))
  with * w' show ?thesis by auto
qed auto

lemma handleEnroll_Body:
  assumes "run_state (handleEnroll srv (Some req)) w = (Body resp, w')"
  shows "run_state (enroll srv req) w = (Inr (ers_HostID resp), w')"
  using assms by (auto simp: handleEnroll_def run_attempt serverError_def split: if_splits sum.splits prod.splits enroll_error.splits)

lemma handleEnroll_Inl:
  assumes "run_state (handleEnroll srv (Some req)) w = (r, w')"
    and "\<And>r0 w0. run_state (enroll srv req) w = (r0, w0) \<Longrightarrow> (\<exists>e. r0 = Inl e) \<and> w_db w0 = w_db w"
  shows "(\<exists>c m. r = HttpError c m) \<and> w_db w' = w_db w"
proof -
  obtain r0 w0 where e: "run_state (enroll srv req) w = (r0, w0)" by fastforce
  from assms(2) [OF e] e assms(1) show ?thesis
    by (auto simp: handleEnroll_def run_attempt serverError_def split: if_splits enroll_error.splits)
qed

section \<open>Password resets\<close>

definition used_reset :: "string \<Rightarrow> db \<Rightarrow> bool" where
  "used_reset hash d \<longleftrightarrow> (\<exists>p \<in> set (password_resets d). pr_TokenHash p = hash \<and> pr_UsedAt p \<noteq> None)"

lemma used_reset_stays:
  assumes "history_le d d'" "used_reset hash d"
  shows "used_reset hash d'"
proof -
  from assms(2) obtain p where p: "p \<in> set (password_resets d)" "pr_TokenHash p = hash" "pr_UsedAt p \<noteq> None"
    by (auto simp: used_reset_def)
  have "evolves reset_le (password_resets d) (password_resets d')" using assms(1) by (simp add: history_le_def)
  from evolves_in [OF this p(1)] obtain p' where "p' \<in> set (password_resets d')" "reset_le p p'" by auto
  with p(2,3) show ?thesis by (auto simp: used_reset_def reset_le_def)
qed

lemma used_reset_found:
  assumes "schema_ok d" "used_reset hash d" "GetPasswordReset hash d = Inr q"
  shows "pr_UsedAt q \<noteq> None"
proof -
  from assms(2) obtain p where p: "p \<in> set (password_resets d)" "pr_TokenHash p = hash" "pr_UsedAt p \<noteq> None"
    by (auto simp: used_reset_def)
  have q: "q \<in> set (password_resets d)" "pr_TokenHash q = hash"
    using one_row_Inr_mem [OF assms(3) [unfolded GetPasswordReset_def]] by simp_all
  have "inj_on pr_TokenHash (set (password_resets d))"
    using assms(1) by (simp add: schema_ok_def resets_ok_def distinct_map)
  then have "q = p" using p q by (auto dest: inj_onD)
  then show ?thesis using p by simp
qed

lemma eff_resetTx [eff]: "state_io_rel tx_step (resetTx p h)"
  unfolding resetTx_def by (intro eff db_steps)

lemma resetTx_Inr:
  assumes "run_state (resetTx p hash) t = (Inr (), t')" "p \<in> set (password_resets (t_db t))"
  shows "used_reset (pr_TokenHash p) (t_db t') \<and> (\<forall>s \<in> set (sessions (t_db t')). s_UserID s = pr_UserID p \<longrightarrow> s_RevokedAt s \<noteq> None)"
proof -
  from assms(1) obtain t1 t2 a where 1: "run_state (tx_call (UpdatePasswordIdentity (pr_UserID p) (Some hash))) t = (Inr a, t1)"
    and 2: "run_state (tx_call (MarkPasswordResetUsed (pr_ID p))) t1 = (Inr (), t2)"
    and 3: "run_state (tx_call (RevokeAllUserSessions (pr_UserID p))) t2 = (Inr (), t')"
    by (auto simp: resetTx_def run_attempt split: sum.splits prod.splits)
  obtain s1 s2 s3 where s: "t_db t1 = snd (UpdatePasswordIdentity (pr_UserID p) (Some hash) s1 (t_db t))"
      "t_db t2 = snd (MarkPasswordResetUsed (pr_ID p) s2 (t_db t1))" "t_db t' = snd (RevokeAllUserSessions (pr_UserID p) s3 (t_db t2))"
    using 1 2 3 by (metis tx_call_ran)
  then have "p\<lparr>pr_UsedAt := Some (st_now s2)\<rparr> \<in> set (password_resets (t_db t'))" using assms(2)
    by (auto simp: UpdatePasswordIdentity_def MarkPasswordResetUsed_def RevokeAllUserSessions_def in_update_where)
  then have "used_reset (pr_TokenHash p) (t_db t')" unfolding used_reset_def by (rule bexI [rotated]) simp
  moreover have "\<forall>s \<in> set (sessions (t_db t')). s_UserID s = pr_UserID p \<longrightarrow> s_RevokedAt s \<noteq> None"
    unfolding s(3) RevokeAllUserSessions_def update_where_def by auto
  ultimately show ?thesis ..
qed

lemma confirm_None:
  assumes "run_state (confirmPasswordReset srv req) w = (None, w')"
  shows "\<exists>p \<in> set (password_resets (w_db w)). pr_TokenHash p = HashToken srv (prc_Token req) \<and> pr_UsedAt p = None \<and>
    used_reset (pr_TokenHash p) (w_db w') \<and> (\<forall>s \<in> set (sessions (w_db w')). s_UserID s = pr_UserID p \<longrightarrow> s_RevokedAt s \<noteq> None)"
proof -
  let ?f = "\<lambda>e. Some (ResetFails e)"
  obtain r w1 where c: "run_state (call (single (GetPasswordReset (HashToken srv (prc_Token req))))) w = (r, w1)" by fastforce
  have w1: "w_db w1 = w_db w" using c by (auto simp: run_call single_def split: net.splits)
  from assms c obtain p where p: "r = Inr p" by (cases r) (auto simp: confirmPasswordReset_def run_attempt)
  have pin: "p \<in> set (password_resets (w_db w))" "pr_TokenHash p = HashToken srv (prc_Token req)"
    using c p by (auto simp: run_call single_def GetPasswordReset_def split: net.splits dest!: one_row_Inr_mem)
  obtain h w2 where h: "run_state (hashPassword srv (prc_Password req)) w1 = (h, w2)" by fastforce
  have w2: "w_db w2 = w_db w" using state_io_rel_run [OF eff_seals(3), of w1 srv "prc_Password req"] h w1 by (simp add: world_read_def)
  from assms c p h obtain hash where u: "pr_UsedAt p = None" and
    tx: "run_state (with_tx ?f (resetTx p hash) ?f (\<lambda>_. ret None)) w2 = (None, w')"
    by (cases h) (auto simp: confirmPasswordReset_def run_attempt now_def split: if_splits)
  from tx eff_resetTx show ?thesis
  proof (cases rule: with_tx_cases)
    case (rollback v t)
    then show ?thesis by (auto simp: resetTx_def run_attempt split: sum.splits prod.splits)
  next
    case (committed v t a w3)
    then have "run_state (resetTx p hash) \<lparr>t_world = v, t_db = w_db w, t_aborted = False\<rparr> = (Inr (), t)" "w_db w' = t_db t"
      using w2 by simp_all
    from resetTx_Inr [OF this(1)] pin u this(2) show ?thesis by auto
  qed auto
qed

lemma confirm_used:
  assumes "used_reset (HashToken srv (prc_Token req)) (w_db w)" "schema_ok (w_db w)" "run_state (confirmPasswordReset srv req) w = (r, w')"
  shows "r \<noteq> None \<and> w_db w' = w_db w"
proof -
  obtain q w1 where c: "run_state (call (single (GetPasswordReset (HashToken srv (prc_Token req))))) w = (q, w1)" by fastforce
  have w1: "w_db w1 = w_db w" using c by (auto simp: run_call single_def split: net.splits)
  show ?thesis
  proof (cases q)
    case (Inr p)
    then have "GetPasswordReset (HashToken srv (prc_Token req)) (w_db w) = Inr p"
      using c by (auto simp: run_call single_def split: net.splits)
    then have "pr_UsedAt p \<noteq> None" using used_reset_found assms(1,2) by blast
    then show ?thesis using assms(3) c w1 Inr by (auto simp: confirmPasswordReset_def run_attempt now_def)
  qed (use assms(3) c w1 in \<open>auto simp: confirmPasswordReset_def run_attempt\<close>)
qed

lemma handle_confirm_204:
  assumes "run_state (handlePasswordResetConfirm srv (Some req)) w = (Status 204, w')"
  shows "run_state (confirmPasswordReset srv req) w = (None, w')"
  using assms by (auto simp: handlePasswordResetConfirm_def serverError_def
      split: if_splits prod.splits option.splits reset_error.splits)

lemma handle_confirm_fails:
  assumes "run_state (handlePasswordResetConfirm srv (Some req)) w = (r, w')"
    and "\<And>r0 w0. run_state (confirmPasswordReset srv req) w = (r0, w0) \<Longrightarrow> r0 \<noteq> None \<and> w_db w0 = w_db w"
  shows "(\<exists>c m. r = HttpError c m) \<and> w_db w' = w_db w"
proof -
  obtain r0 w0 where e: "run_state (confirmPasswordReset srv req) w = (r0, w0)" by fastforce
  from assms(2) [OF e] e assms(1) show ?thesis
    by (auto simp: handlePasswordResetConfirm_def serverError_def split: if_splits reset_error.splits)
qed

lemma later_history:
  assumes "state_io_rel world_step m" "run_state m w = (r, w1)" "schema_ok (w_db w)" "(api_step srv)\<^sup>*\<^sup>* w1 w2"
  shows "schema_ok (w_db w1) \<and> schema_ok (w_db w2) \<and> history_le (w_db w1) (w_db w2)"
  using state_io_rel_run [OF assms(1), of w] assms(2,3) api_steps_db [OF assms(4)]
  by (auto simp: world_step_def db_step_def)

section \<open>Properties\<close>

text \<open>C10: A grant and a revocation come with their audit row or not at all. Whatever request to create or revoke
  a grant is served, under any faults, either the grants and the grant audit log are as before and
  the answer is an error, or exactly one grant was added (one that is valid for its target), or one
  live grant revoked, and exactly one row was appended to the log, which names the admin who did it,
  the grant, its user, permission and target.\<close>
theorem grants_audited:
  assumes "run_state (adminRoutes srv auth req) w = (r, w')" "schema_ok (w_db w)" "req = PostGrant b \<or> req = DeleteGrant i"
  shows "grants (w_db w') = grants (w_db w) \<and> grant_audit_logs (w_db w') = grant_audit_logs (w_db w) \<and> (\<exists>c m. r = HttpError c m) \<or>
    (if req = PostGrant b then grant_done auth (w_db w) (w_db w') else revoke_done auth (w_db w) (w_db w'))"
  using assms handleCreateGrant_cases [of srv auth b w _ w'] handleRevokeGrant_cases [of srv auth i w _ w']
  by (auto simp: adminRoutes_def run_erase)

text \<open>C11: Logging out is final. After a logout that was answered with success, whatever else happens in the
  control plane, a request with the same token is refused as unauthorized and changes nothing.\<close>
theorem logout_final:
  assumes "run_state (Handler srv allowed header (UserR (Account PostLogout))) w = (Status 204, w1)" "schema_ok (w_db w)"
    and "(api_step srv)\<^sup>*\<^sup>* w1 w2"
    and "run_state (Handler srv allowed' header req) w2 = (r, w3)" "req = UserR u \<or> req = AdminR a"
  shows "r = HttpError 401 ''unauthorized'' \<and> w3 = w2\<lparr>w_tick := w_tick w3\<rparr>"
proof -
  have h: "schema_ok (w_db w2)" "history_le (w_db w1) (w_db w2)" using later_history [OF eff_Handler assms(1,2,3)] by auto
  from logout_revokes [OF assms(1)] obtain tok s where "tok \<in> set (access_tokens (w_db w1))" "s \<in> set (sessions (w_db w1))"
      "s_ID s = at_SessionID tok" "s_RevokedAt s \<noteq> None" "at_TokenHash tok = HashToken srv (bearerToken header)"
    by blast
  with revoked_session_dead [OF h(2,1)] have "\<not> live_session (HashToken srv (bearerToken header)) (w_clock w2) (w_db w2) s' v" for s' v
    by metis
  with no_session [OF assms(4,5)] show ?thesis by blast
qed



section \<open>Witnesses\<close>

lemma sample_revoke: "fst (run_state (handleRevokeGrant sample_server sample_auth ''aaaaa'') sample_world) = Status 204"
  by (simp add: handleRevokeGrant_def with_tx_def revokeGrantTx_def auditGrant_def emailOf_def outside_def tx_call_def run_attempt
      run_call single_def many_def RevokeGrant_def Let_def sample_world_def sample_db_def init_db_def sample_grant_def InsertGrantAudit_def
      insert_row_def grant_actions_def update_where_def parseUUID_def sample_server_def split: prod.splits sum.splits)

lemma sample_logout: "fst (run_state (Handler sample_server True ''Bearer tok'' (UserR (Account PostLogout))) signed_in) = Status 204"
  by (simp add: Handler_def requireAuth_def run_attempt run_call single_now_def sample_bearer signed_in_admin Let_def
      userRoutes_def account_routes_def erase_def handleLogout_def RevokeSession_def)

definition enroll_world :: world where
  "enroll_world = sample_world\<lparr>w_db := sample_db\<lparr>hosts := [], enrollment_tokens := [\<lparr>et_ID = 80, et_TokenHash = ''746f6b'', et_Label = None,
     et_Accounts = [''deploy''], et_CreatedBy = Some 1, et_ExpiresAt = 5000, et_UsedAt = None, et_HostID = None, et_CreatedAt = 0\<rparr>]\<rparr>\<rparr>"

definition sample_enroll :: EnrollRequest where
  "sample_enroll = \<lparr>er_Token = ''tok'', er_Hostname = ''db1'', er_PublicKey = ''pk'', er_EncryptionKey = ''ek2'', er_MachineID = ''m2'',
     er_PriorHostID = ''''\<rparr>"

definition reset_world :: world where
  "reset_world = sample_world\<lparr>w_db := sample_db\<lparr>password_resets := [\<lparr>pr_ID = 81, pr_UserID = 2, pr_TokenHash = ''746f6b'',
     pr_ExpiresAt = 5000, pr_UsedAt = None, pr_CreatedAt = 0\<rparr>]\<rparr>\<rparr>"

lemma sample_hash: "HashToken sample_server ''tok'' = ''746f6b''"
  by code_simp

lemma worlds_schema: "schema_ok (w_db signed_in)" "schema_ok (w_db enroll_world)" "schema_ok (w_db reset_world)" "schema_ok (w_db sample_world)"
  using sample_schema_ok
  by (simp_all add: signed_in_def enroll_world_def reset_world_def sample_world_def schema_ok_def sessions_ok_def enrollment_ok_def resets_ok_def
      hosts_ok_def active_machine_ids_def map_filter_def
      sample_session_def sample_token_def sample_db_def sample_admin_def sample_member_def sets_ok_def init_db_def)

lemma sample_enrolled: "\<exists>resp. fst (run_state (handleEnroll sample_server (Some sample_enroll)) enroll_world) = Body resp"
  by (simp add: handleEnroll_def enroll_def with_tx_def enrollTx_def sample_enroll_def machine_guard_def prior_guard_def outside_def tx_call_def run_attempt
      run_call single_def many_def Let_def enroll_world_def sample_world_def sample_db_def init_db_def sample_hash GetEnrollmentToken_def now_def
      pgText_def GetActiveHostByMachineID_def sample_host_def CreateHost_def insert_row_def machine_id_free_def active_machine_ids_def map_filter_def MarkTokenUsed_def
      split: prod.splits sum.splits)

lemma sample_reset: "fst (run_state (handlePasswordResetConfirm sample_server (Some \<lparr>prc_Token = ''tok'', prc_Password = ''pw''\<rparr>)) reset_world) = Status 204"
  by (simp add: handlePasswordResetConfirm_def confirmPasswordReset_def with_tx_def resetTx_def hashPassword_def rand_read_def drawn_def outside_def tx_call_def run_attempt
      run_call single_def many_def Let_def reset_world_def sample_world_def sample_db_def init_db_def sample_hash GetPasswordReset_def now_def
      UpdatePasswordIdentity_def MarkPasswordResetUsed_def RevokeAllUserSessions_def
      split: prod.splits sum.splits)

theorem grants_audited_witness:
  "fst (run_state (adminRoutes sample_server sample_auth (DeleteGrant ''aaaaa'')) sample_world) = Status 204 \<and>
   revoke_done sample_auth (w_db sample_world) (w_db (snd (run_state (adminRoutes sample_server sample_auth (DeleteGrant ''aaaaa'')) sample_world)))"
proof -
  obtain r w' where r: "run_state (adminRoutes sample_server sample_auth (DeleteGrant ''aaaaa'')) sample_world = (r, w')" by fastforce
  then have "r = Status 204" using sample_revoke by (auto simp: adminRoutes_def run_erase)
  then show ?thesis using r grants_audited [OF r worlds_schema(4), of None "''aaaaa''"] by simp
qed

theorem logout_final_witness:
  "fst (run_state (Handler sample_server True ''Bearer tok'' (UserR (Account PostLogout))) signed_in) = Status 204 \<and>
   fst (run_state (Handler sample_server True ''Bearer tok'' (UserR (Account GetMe)))
     (snd (run_state (Handler sample_server True ''Bearer tok'' (UserR (Account PostLogout))) signed_in))) = HttpError 401 ''unauthorized''"
proof -
  let ?w = "snd (run_state (Handler sample_server True ''Bearer tok'' (UserR (Account PostLogout))) signed_in)"
  have l: "run_state (Handler sample_server True ''Bearer tok'' (UserR (Account PostLogout))) signed_in = (Status 204, ?w)"
    using sample_logout by (simp add: prod_eq_iff)
  obtain r w' where r: "run_state (Handler sample_server True ''Bearer tok'' (UserR (Account GetMe))) ?w = (r, w')" by fastforce
  show ?thesis using sample_logout r logout_final [OF l worlds_schema(1) rtranclp.rtrancl_refl r] by simp
qed



end
