(* ===== verification/Push_Coverage.thy ===== *)
theory Push_Coverage
  imports Logins Lifecycle
begin

text \<open>
  Every request that changes who may log in to a connected host queues a snapshot of the new state for
  it, as long as the database answers, the host's buffer has room and its sequence counter has not
  run out. The proof goes through the routes: those whose handlers keep the logins, and the ten
  that may change them, whose pushes reach every host concerned.
\<close>

section \<open>A push\<close>

text \<open>An envelope with a snapshot of the logins of a host, under a number above the last one of the host.\<close>
definition current :: "server \<Rightarrow> bytes \<Rightarrow> Host \<Rightarrow> db \<Rightarrow> Envelope \<Rightarrow> bool" where
  "current srv priv host d e \<longleftrightarrow> (\<exists>n es. h_LastSeq host < n \<and> n < 2 ^ 63 \<and>
     set es = access_entry host ` logins d (h_ID host) \<and>
     e = signed_snapshot srv priv (h_ID host) n \<lparr>snap_Entries = es\<rparr>)"

text \<open>The host is in the database, connected, and its sequence counter has not run out.\<close>
definition reachable_host :: "Host \<Rightarrow> world \<Rightarrow> bool" where
  "reachable_host host w \<longleftrightarrow> (\<exists>h \<in> set (hosts (w_db w)). h_ID h = h_ID host \<and> h_Accounts h = h_Accounts host \<and>
      h_LastSeq host \<le> h_LastSeq h) \<and>
     online (uuidString (Some (h_ID host))) (w_hub w) \<and> hub_ok (w_hub w)"

abbreviation queue_of :: "Host \<Rightarrow> world \<Rightarrow> Envelope list" where
  "queue_of host w \<equiv> queued (uuidString (Some (h_ID host))) (w_hub w)"

lemma filter_key: "distinct (map k xs) \<Longrightarrow> x \<in> set xs \<Longrightarrow> filter (\<lambda>r. k r = k x) xs = [x]"
  by (induction xs) (auto simp: filter_empty_conv image_iff)

lemma host_row:
  assumes "schema_ok d" "h \<in> set (hosts d)"
  shows "GetHostByID (h_ID h) d = Inr h"
    and "h_LastSeq h + 1 < 2 ^ 63 \<Longrightarrow> fst (NextHostSeq (h_ID h) st d) = Inr (h_LastSeq h + 1)"
    and "\<not> h_LastSeq h + 1 < 2 ^ 63 \<Longrightarrow> NextHostSeq (h_ID h) st d = (Inl OutOfRange, d)"
proof -
  have f: "filter (\<lambda>r. h_ID r = h_ID h) (hosts d) = [h]"
    using assms by (intro filter_key) (auto simp: schema_ok_def hosts_ok_def)
  then show "GetHostByID (h_ID h) d = Inr h" by (simp add: GetHostByID_def)
  have "list_ex (\<lambda>x. h_ID x = h_ID h \<and> h_LastSeq x + 1 \<ge> 2 ^ 63) (hosts d) \<longleftrightarrow> (\<exists>x \<in> set (filter (\<lambda>r. h_ID r = h_ID h) (hosts d)). h_LastSeq x + 1 \<ge> 2 ^ 63)"
    by (auto simp: list_ex_iff)
  then have l: "list_ex (\<lambda>x. h_ID x = h_ID h \<and> h_LastSeq x + 1 \<ge> 2 ^ 63) (hosts d) \<longleftrightarrow> h_LastSeq h + 1 \<ge> 2 ^ 63" by (simp add: f)
  show "fst (NextHostSeq (h_ID h) st d) = Inr (h_LastSeq h + 1)" if "h_LastSeq h + 1 < 2 ^ 63"
    using that l f by (simp add: NextHostSeq_def)
  show "NextHostSeq (h_ID h) st d = (Inl OutOfRange, d)" if "\<not> h_LastSeq h + 1 < 2 ^ 63"
    using that l by (simp add: NextHostSeq_def)
qed

lemma host_unique:
  assumes "schema_ok d" "h \<in> set (hosts d)" "h' \<in> set (hosts d)" "h_ID h = h_ID h'"
  shows "h = h'"
proof -
  have "inj_on h_ID (set (hosts d))" using assms(1) by (simp add: schema_ok_def hosts_ok_def distinct_map)
  from inj_onD [OF this assms(4,2,3)] show ?thesis .
qed

lemma no_host_row: "\<forall>h \<in> set (hosts d). h_ID h \<noteq> i \<Longrightarrow> GetHostByID i d = Inl ErrNoRows"
  by (simp add: GetHostByID_def filter_False)

text \<open>A push in a world without faults: nothing, or one envelope for its host.\<close>
lemma calm_pushSnapshot:
  assumes "calm w" "schema_ok (w_db w)" "srv_signer srv = Some priv" "run_state (pushSnapshot srv i) w = ((), w')"
  shows "calm w' \<and> schema_ok (w_db w') \<and> logins (w_db w') = logins (w_db w) \<and>
    (w_hub w' = w_hub w \<and> w_db w' = w_db w \<and> (\<forall>h \<in> set (hosts (w_db w)). h_ID h = i \<longrightarrow> h_LastSeq h + 1 \<ge> 2 ^ 63) \<or>
     (\<exists>h \<in> set (hosts (w_db w)). h_ID h = i \<and> h_LastSeq h + 1 < 2 ^ 63 \<and>
        w_hub w' = push (uuidString (Some i)) (signed_snapshot srv priv i (h_LastSeq h + 1)
          \<lparr>snap_Entries = map (access_entry h) (HostAccessKeys i (w_db w))\<rparr>) (w_hub w) \<and>
        (\<exists>st. w_db w' = snd (NextHostSeq i st (w_db w)))))"
proof (cases "\<exists>h \<in> set (hosts (w_db w)). h_ID h = i")
  case False
  then have "GetHostByID i (w_db w) = Inl ErrNoRows" by (simp add: no_host_row)
  then have "w' = w\<lparr>w_tick := Suc (w_tick w)\<rparr>" using assms(1,4) by (simp add: pushSnapshot_def run_attempt calm_read)
  then show ?thesis using assms(1,2) False by auto
next
  case True
  then obtain h where h: "h \<in> set (hosts (w_db w))" "h_ID h = i" by auto
  note g = host_row(1) [OF assms(2) h(1), unfolded h(2)]
  let ?w = "w\<lparr>w_tick := Suc (Suc (w_tick w))\<rparr>" and ?st = "\<lparr>st_uuid = w_uuid w (Suc (Suc (w_tick w))), st_now = w_clock w\<rparr>"
  let ?s = "\<lparr>snap_Entries = map (access_entry h) (HostAccessKeys i (w_db w))\<rparr>"
  obtain q w1 where c: "run_state (call (NextHostSeq i)) ?w = (q, w1)" by fastforce
  have r: "run_state (attempt (call (NextHostSeq i)) (\<lambda>e. ret ()) (\<lambda>seq. on_hub (push (uuidString (Some i)) (signed_snapshot srv priv i seq ?s)))) ?w = ((), w')"
    using assms(1,3,4) g h(2) c by (cases q) (simp_all add: pushSnapshot_def run_attempt calm_read buildSnapshot_def snapshotEnvelope_def)
  have d: "db_step (w_db w) (snd (NextHostSeq i ?st (w_db w)))" by (rule db_steps)
  show ?thesis
  proof (cases "h_LastSeq h + 1 < 2 ^ 63")
    case True
    then have "fst (NextHostSeq i ?st (w_db w)) = Inr (h_LastSeq h + 1)" using host_row(2) [OF assms(2) h(1)] h(2) by simp
    then have "w' = w\<lparr>w_tick := Suc (Suc (Suc (w_tick w))), w_db := snd (NextHostSeq i ?st (w_db w)),
        w_hub := push (uuidString (Some i)) (signed_snapshot srv priv i (h_LastSeq h + 1) ?s) (w_hub w)\<rparr>"
      using r assms(1) by (auto simp: run_attempt calm_call split: prod.splits)
    then show ?thesis using assms(1,2) h True db_step_schema [OF d] by (auto simp: logins_other)
  next
    case False
    then have "NextHostSeq i ?st (w_db w) = (Inl OutOfRange, w_db w)" using host_row(3) [OF assms(2) h(1), of ?st] h(2) by simp
    then have "w' = w\<lparr>w_tick := Suc (Suc (Suc (w_tick w)))\<rparr>" using r assms(1) by (auto simp: run_attempt calm_call)
    moreover have "x = h" if "x \<in> set (hosts (w_db w))" "h_ID x = i" for x
      using that h host_unique [OF assms(2)] by simp
    ultimately show ?thesis using assms(1,2) False by auto
  qed
qed

section \<open>A round of pushes\<close>

definition ready_for :: "Host \<Rightarrow> world \<Rightarrow> bool" where
  "ready_for host w \<longleftrightarrow> calm w \<and> schema_ok (w_db w) \<and> reachable_host host w"

definition seq_left :: "Host \<Rightarrow> world \<Rightarrow> bool" where
  "seq_left host w \<longleftrightarrow> (\<forall>h \<in> set (hosts (w_db w)). h_ID h = h_ID host \<longrightarrow> h_LastSeq h + 1 < 2 ^ 63)"

lemma host_evolves: "db_step d d' \<Longrightarrow> h \<in> set (hosts d) \<Longrightarrow> \<exists>h' \<in> set (hosts d'). host_le h h'"
  by (rule evolves_in) (simp_all add: db_step_def history_le_def)

lemma hosts_NextHostSeq:
  "i \<noteq> j \<Longrightarrow> h \<in> set (hosts (snd (NextHostSeq i st d))) \<Longrightarrow> h_ID h = j \<Longrightarrow> h \<in> set (hosts d)"
  by (auto simp: NextHostSeq_def in_update_where split: if_splits)

lemma push_step:
  assumes "ready_for host w" "srv_signer srv = Some priv" "run_state (pushSnapshot srv i) w = ((), w')"
  shows "ready_for host w' \<and> logins (w_db w') = logins (w_db w) \<and>
    (i \<noteq> h_ID host \<longrightarrow> queue_of host w' = queue_of host w \<and> (seq_left host w \<longrightarrow> seq_left host w')) \<and>
    (\<exists>envs. queue_of host w' = queue_of host w @ envs \<and> (\<forall>e \<in> set envs. current srv priv host (w_db w) e) \<and>
       (i = h_ID host \<longrightarrow> seq_left host w \<longrightarrow> length (queue_of host w) < sendCap \<longrightarrow> envs \<noteq> []))"
proof -
  have w: "calm w" "schema_ok (w_db w)" "reachable_host host w" "hub_ok (w_hub w)"
    using assms(1) by (simp_all add: ready_for_def reachable_host_def)
  obtain h0 where h0: "h0 \<in> set (hosts (w_db w))" "h_ID h0 = h_ID host" "h_Accounts h0 = h_Accounts host" "h_LastSeq host \<le> h_LastSeq h0"
    using w(3) by (auto simp: reachable_host_def)
  have w': "calm w'" "schema_ok (w_db w')" "logins (w_db w') = logins (w_db w)"
    using calm_pushSnapshot [OF w(1,2) assms(2,3)] by auto
  consider (none) "w_hub w' = w_hub w" "w_db w' = w_db w" "\<forall>h \<in> set (hosts (w_db w)). h_ID h = i \<longrightarrow> h_LastSeq h + 1 \<ge> 2 ^ 63"
    | (sent) h e st where "h \<in> set (hosts (w_db w))" "h_ID h = i" "h_LastSeq h + 1 < 2 ^ 63"
        "e = signed_snapshot srv priv i (h_LastSeq h + 1) \<lparr>snap_Entries = map (access_entry h) (HostAccessKeys i (w_db w))\<rparr>"
        "w_hub w' = push (uuidString (Some i)) e (w_hub w)" "w_db w' = snd (NextHostSeq i st (w_db w))"
    using calm_pushSnapshot [OF w(1,2) assms(2,3)] by blast
  then show ?thesis
  proof cases
    case none
    then have "ready_for host w'" using w w' by (simp add: ready_for_def reachable_host_def)
    moreover have "\<not> seq_left host w" if "i = h_ID host" using none(3) h0 that by (force simp: seq_left_def)
    ultimately show ?thesis using none w'(3) by (auto simp: seq_left_def)
  next
    case sent
    have "db_step (w_db w) (w_db w')" unfolding sent(6) by (rule db_steps)
    then obtain h1 where "h1 \<in> set (hosts (w_db w'))" "host_le h0 h1" using host_evolves h0(1) by blast
    then have "reachable_host host w'"
      using w(3,4) h0 sent(5) unfolding reachable_host_def by (auto simp: hub_ok_push host_le_def intro!: bexI [of _ h1])
    then have r: "ready_for host w'" using w' by (simp add: ready_for_def)
    show ?thesis
    proof (cases "i = h_ID host")
      case True
      have "h = h0" using True sent(1,2) h0(1,2) host_unique [OF w(2)] by simp
      then have "access_entry h = access_entry host" using h0 by (auto simp: access_entry_def)
      then have "current srv priv host (w_db w) e"
        using sent(3,4) h0(4) True \<open>h = h0\<close> unfolding current_def logins_def by (intro exI) auto
      moreover have "queue_of host w' = queue_of host w @ (if length (queue_of host w) < sendCap then [e] else [])"
        using sent(5) True w(3) by (simp add: push_queued_same reachable_host_def)
      ultimately show ?thesis using r w'(3) True by auto
    next
      case False
      then have "queue_of host w' = queue_of host w" using sent(5) push_queued_other [OF w(4)] by (simp add: uuidString_inj)
      moreover have "seq_left host w'" if "seq_left host w"
        using that hosts_NextHostSeq [OF False] sent(6) by (auto simp: seq_left_def)
      ultimately show ?thesis using r w'(3) False by auto
    qed
  qed
qed

lemma current_cong: "logins d' = logins d \<Longrightarrow> current srv priv host d' = current srv priv host d"
  by (simp add: current_def fun_eq_iff)

text \<open>What a host has been told by the pushes of a request: snapshots of the state \<open>d\<close>, and at least one if it was \<open>due\<close>.\<close>
definition told :: "server \<Rightarrow> bytes \<Rightarrow> Host \<Rightarrow> db \<Rightarrow> bool \<Rightarrow> world \<Rightarrow> world \<Rightarrow> bool" where
  "told srv priv host d due w w' \<longleftrightarrow> (\<exists>envs. queue_of host w' = queue_of host w @ envs \<and> (\<forall>e \<in> set envs. current srv priv host d e) \<and>
     (due \<longrightarrow> length (queue_of host w) < sendCap \<longrightarrow> envs \<noteq> []))"

lemma told_trans:
  assumes "told srv priv host d due w w1" "told srv priv host d due' w1 w2"
    and "\<not> due \<Longrightarrow> due'' \<Longrightarrow> due'" and "\<not> due \<Longrightarrow> due' \<Longrightarrow> queue_of host w1 = queue_of host w"
  shows "told srv priv host d due'' w w2"
proof -
  obtain es fs where e: "queue_of host w1 = queue_of host w @ es" "\<forall>e \<in> set es. current srv priv host d e"
      "due \<longrightarrow> length (queue_of host w) < sendCap \<longrightarrow> es \<noteq> []"
      "queue_of host w2 = queue_of host w1 @ fs" "\<forall>e \<in> set fs. current srv priv host d e"
      "due' \<longrightarrow> length (queue_of host w1) < sendCap \<longrightarrow> fs \<noteq> []"
    using assms(1,2) unfolding told_def by blast
  then show ?thesis unfolding told_def using assms(3,4) by (intro exI [of _ "es @ fs"]) auto
qed

lemma for_each_push:
  assumes "ready_for host w" "srv_signer srv = Some priv" "run_state (for_each (pushSnapshot srv) hs) w = ((), w')"
  shows "ready_for host w' \<and> logins (w_db w') = logins (w_db w) \<and>
    told srv priv host (w_db w) (h_ID host \<in> set hs \<and> seq_left host w) w w'"
  using assms
proof (induction hs arbitrary: w)
  case Nil
  then show ?case by (simp add: told_def)
next
  case (Cons i hs)
  obtain w1 where r: "run_state (pushSnapshot srv i) w = ((), w1)" "run_state (for_each (pushSnapshot srv) hs) w1 = ((), w')"
    using Cons.prems(3) by (auto split: prod.splits)
  note p = push_step [OF Cons.prems(1,2) r(1)]
  have ih: "ready_for host w' \<and> logins (w_db w') = logins (w_db w1) \<and>
      told srv priv host (w_db w1) (h_ID host \<in> set hs \<and> seq_left host w1) w1 w'"
    using Cons.IH [OF _ Cons.prems(2) r(2)] p by blast
  have c: "current srv priv host (w_db w1) = current srv priv host (w_db w)" using p by (intro current_cong) simp
  have "told srv priv host (w_db w) (h_ID host \<in> set (i # hs) \<and> seq_left host w) w w'"
  proof (rule told_trans)
    show "told srv priv host (w_db w) (i = h_ID host \<and> seq_left host w) w w1" unfolding told_def using p by blast
    show "told srv priv host (w_db w) (i \<noteq> h_ID host \<and> h_ID host \<in> set hs \<and> seq_left host w) w1 w'"
      using ih p unfolding told_def c by blast
  qed (use p in auto)
  then show ?case using ih p by simp
qed

section \<open>Whom a statement concerns\<close>

abbreviation may_log_in :: "uuid \<Rightarrow> uuid \<Rightarrow> db \<Rightarrow> bool" where
  "may_log_in u h d \<equiv> has_grant ''host'' u ''host.access'' h d"

lemma logins_differ:
  assumes "logins d' h \<noteq> logins d h"
  shows "\<exists>k. (k \<in> set (public_keys d') \<and> active_user (pk_UserID k) d' \<and> may_log_in (pk_UserID k) h d') \<noteq>
    (k \<in> set (public_keys d) \<and> active_user (pk_UserID k) d \<and> may_log_in (pk_UserID k) h d)"
  using assms by (auto simp: set_eq_iff in_logins)

lemma may_log_in_cong: "grants d' = grants d \<Longrightarrow> group_resources d' = group_resources d \<Longrightarrow> may_log_in u h d' = may_log_in u h d"
  by (simp add: has_grant_def grant_covers_def groups_of_def)

lemma in_GroupHostIDs: "h \<in> set (GroupHostIDs g d) \<longleftrightarrow> g \<in> set (groups_of ''host'' h d)"
  by (auto simp: GroupHostIDs_def groups_of_def)

lemma grant_covers_grants [simp]: "grant_covers k h (d\<lparr>grants := gs\<rparr>) g = grant_covers k h d g"
  by (simp add: grant_covers_def groups_of_def)

lemma grant_covers_revoked [simp]: "grant_covers k h d (g\<lparr>g_RevokedAt := x\<rparr>) = grant_covers k h d g"
  by (simp add: grant_covers_def)

lemma CreateGrant_concerns:
  assumes "logins (snd (CreateGrant u p k t b st d)) h \<noteq> logins d h"
  shows "p = ''host.access'' \<and> (k = ''host'' \<and> t = Some h \<or> k = ''group'' \<and> (\<exists>g. t = Some g \<and> h \<in> set (GroupHostIDs g d)))"
proof (rule ccontr)
  assume n: "\<not> ?thesis"
  define g where "g = \<lparr>g_ID = st_uuid st, g_UserID = u, g_Permission = p, g_TargetKind = k, g_TargetID = t, g_GrantedBy = b,
    g_CreatedAt = st_now st, g_RevokedAt = None\<rparr>"
  have "snd (CreateGrant u p k t b st d) = d \<or> snd (CreateGrant u p k t b st d) = d\<lparr>grants := grants d @ [g]\<rparr>"
    unfolding CreateGrant_def insert_row_def Let_def g_def by (simp only: snd_conv split: if_split) simp
  then have d: "snd (CreateGrant u p k t b st d) = d\<lparr>grants := grants d @ [g]\<rparr>" using assms by metis
  have "\<not> (g_Permission g = ''host.access'' \<and> grant_covers ''host'' h d g)"
    using n by (auto simp: g_def grant_covers_def in_GroupHostIDs)
  then have "may_log_in v h (d\<lparr>grants := grants d @ [g]\<rparr>) = may_log_in v h d" for v
    by (auto simp: has_grant_def)
  moreover have "active_user v (d\<lparr>grants := grants d @ [g]\<rparr>) = active_user v d" for v by (simp add: active_user_def)
  ultimately show False using logins_differ [OF assms] unfolding d by simp
qed

lemma revoke_concerns:
  assumes "logins (d\<lparr>grants := update_where P (g_RevokedAt_update (\<lambda>_. Some at)) (grants d)\<rparr>) h \<noteq> logins d h" (is "logins ?d h \<noteq> _")
  shows "\<exists>g \<in> set (grants d). P g \<and> g_Permission g = ''host.access'' \<and> g_RevokedAt g = None \<and> grant_covers ''host'' h d g"
proof (rule ccontr)
  assume n: "\<not> ?thesis"
  have "may_log_in v h ?d = may_log_in v h d" for v
    unfolding has_grant_def using n by (auto simp: bex_update_where)
  moreover have "active_user v ?d = active_user v d" for v by (simp add: active_user_def)
  ultimately show False using logins_differ [OF assms] by auto
qed

lemma SetUserStatus_concerns:
  assumes "logins (snd (SetUserStatus u s st d)) h \<noteq> logins d h"
  shows "may_log_in u h d"
proof -
  let ?d = "snd (SetUserStatus u s st d)"
  have m: "may_log_in v h ?d = may_log_in v h d" for v by (rule may_log_in_cong) (simp_all add: SetUserStatus_def Let_def)
  have p: "public_keys ?d = public_keys d" by (simp add: SetUserStatus_def Let_def)
  obtain k where k: "(k \<in> set (public_keys d) \<and> active_user (pk_UserID k) ?d \<and> may_log_in (pk_UserID k) h d) \<noteq>
      (k \<in> set (public_keys d) \<and> active_user (pk_UserID k) d \<and> may_log_in (pk_UserID k) h d)"
    using logins_differ [OF assms] unfolding m p by blast
  have "active_user v ?d = active_user v d" if "v \<noteq> u" for v
    using that by (auto simp: SetUserStatus_def Let_def active_user_def bex_update_where)
  from this [of "pk_UserID k"] k show ?thesis by (cases "pk_UserID k = u") auto
qed

lemma key_concerns:
  assumes "\<And>k. pk_UserID k \<noteq> u \<Longrightarrow> k \<in> set (public_keys d') \<longleftrightarrow> k \<in> set (public_keys d)"
    and "grants d' = grants d" "group_resources d' = group_resources d" "users d' = users d" "logins d' h \<noteq> logins d h"
  shows "may_log_in u h d"
proof -
  have m: "may_log_in v h d' = may_log_in v h d" for v using assms(2,3) by (rule may_log_in_cong)
  have a: "active_user v d' = active_user v d" for v using assms(4) by (simp add: active_user_def)
  obtain k where k: "(k \<in> set (public_keys d') \<and> active_user (pk_UserID k) d \<and> may_log_in (pk_UserID k) h d) \<noteq>
      (k \<in> set (public_keys d) \<and> active_user (pk_UserID k) d \<and> may_log_in (pk_UserID k) h d)"
    using logins_differ [OF assms(5)] unfolding m a by blast
  have "pk_UserID k = u" using k assms(1) by metis
  then show ?thesis using k by metis
qed

lemma keys_concern:
  "logins (snd (CreatePublicKey u l kt kb f st d)) h \<noteq> logins d h \<Longrightarrow> may_log_in u h d"
  "logins (snd (DeletePublicKey rid u st d)) h \<noteq> logins d h \<Longrightarrow> may_log_in u h d"
  by (erule key_concerns [rotated 4]; auto simp: CreatePublicKey_def DeletePublicKey_def insert_row_def Let_def)+

lemma group_concerns:
  assumes "public_keys d' = public_keys d" "users d' = users d" "grants d' = grants d" "logins d' h \<noteq> logins d h"
  shows "set (groups_of ''host'' h d') \<noteq> set (groups_of ''host'' h d)"
proof
  assume "set (groups_of ''host'' h d') = set (groups_of ''host'' h d)"
  then have "may_log_in v h d' = may_log_in v h d" for v using assms(3) by (simp add: has_grant_def grant_covers_def)
  moreover have "active_user v d' = active_user v d" for v using assms(2) by (simp add: active_user_def)
  ultimately show False using logins_differ [OF assms(4)] assms(1) by auto
qed

lemma groups_of_after:
  "set (groups_of k h (snd (DeleteGroup g st d))) = set (groups_of k h d) - {g}"
  "\<not> (k' = k \<and> r = h) \<Longrightarrow> groups_of k h (snd (AddGroupResource g k' r st d)) = groups_of k h d"
  "\<not> (k' = k \<and> r = h) \<Longrightarrow> groups_of k h (snd (RemoveGroupResource g k' r st d)) = groups_of k h d"
    apply (auto simp: DeleteGroup_def groups_of_def)[1]
   apply (auto simp: AddGroupResource_def insert_row_def groups_of_def)[1]
  apply (auto simp: RemoveGroupResource_def Let_def groups_of_def intro!: arg_cong [of _ _ "map gr_GroupID"] filter_cong)[1]
  done

lemma tables_after:
  "public_keys (snd (DeleteGroup g st d)) = public_keys d" "users (snd (DeleteGroup g st d)) = users d" "grants (snd (DeleteGroup g st d)) = grants d"
  "public_keys (snd (AddGroupResource g k r st d)) = public_keys d" "users (snd (AddGroupResource g k r st d)) = users d"
  "grants (snd (AddGroupResource g k r st d)) = grants d"
  "public_keys (snd (RemoveGroupResource g k r st d)) = public_keys d" "users (snd (RemoveGroupResource g k r st d)) = users d"
  "grants (snd (RemoveGroupResource g k r st d)) = grants d"
  by (simp_all add: DeleteGroup_def AddGroupResource_def RemoveGroupResource_def insert_row_def Let_def)

lemma groups_concern:
  "logins (snd (DeleteGroup g st d)) h \<noteq> logins d h \<Longrightarrow> h \<in> set (GroupHostIDs g d)"
  "logins (snd (AddGroupResource g k r st d)) h \<noteq> logins d h \<Longrightarrow> k = ''host'' \<and> r = h"
  "logins (snd (RemoveGroupResource g k r st d)) h \<noteq> logins d h \<Longrightarrow> k = ''host'' \<and> r = h"
proof -
  assume "logins (snd (DeleteGroup g st d)) h \<noteq> logins d h"
  from group_concerns [OF tables_after(1-3) this] have "set (groups_of ''host'' h d) - {g} \<noteq> set (groups_of ''host'' h d)"
    unfolding groups_of_after(1) .
  then show "h \<in> set (GroupHostIDs g d)" unfolding in_GroupHostIDs by blast
next
  assume "logins (snd (AddGroupResource g k r st d)) h \<noteq> logins d h"
  from group_concerns [OF tables_after(4-6) this] groups_of_after(2) show "k = ''host'' \<and> r = h" by metis
next
  assume "logins (snd (RemoveGroupResource g k r st d)) h \<noteq> logins d h"
  from group_concerns [OF tables_after(7-9) this] groups_of_after(3) show "k = ''host'' \<and> r = h" by metis
qed

section \<open>The requests that change logins\<close>

definition covered :: "server \<Rightarrow> bytes \<Rightarrow> Host \<Rightarrow> world \<Rightarrow> world \<Rightarrow> bool" where
  "covered srv priv host w w' \<longleftrightarrow>
     (logins (w_db w') (h_ID host) \<noteq> logins (w_db w) (h_ID host) \<longrightarrow> told srv priv host (w_db w') True w w')"

lemma covered_same: "logins (w_db w') = logins (w_db w) \<Longrightarrow> covered srv priv host w w'"
  by (simp add: covered_def)

text \<open>The database changes from that of \<open>w\<close> to that of \<open>w1\<close>, then the hosts of the list are told.\<close>
lemma covered_push:
  assumes "ready_for host w" "seq_left host w" "srv_signer srv = Some priv"
    and "calm w1" "w_hub w1 = w_hub w" "schema_ok (w_db w1)" "hosts (w_db w1) = hosts (w_db w)"
    and "logins (w_db w1) (h_ID host) \<noteq> logins (w_db w) (h_ID host) \<Longrightarrow> h_ID host \<in> set hs"
    and "run_state (for_each (pushSnapshot srv) hs) w1 = ((), w2)" "w_hub w' = w_hub w2" "w_db w' = w_db w2"
  shows "covered srv priv host w w'"
proof -
  have "ready_for host w1" using assms(1,4-7) by (simp add: ready_for_def reachable_host_def)
  note p = for_each_push [OF this assms(3,9)]
  have "seq_left host w1" using assms(2,7) by (simp add: seq_left_def)
  moreover have l: "logins (w_db w') = logins (w_db w1)" using p assms(11) by simp
  ultimately have "told srv priv host (w_db w1) True w1 w2" if "logins (w_db w') (h_ID host) \<noteq> logins (w_db w) (h_ID host)"
    using p assms(8) that by simp
  then show ?thesis unfolding covered_def told_def current_cong [OF l] assms(5,10) by blast
qed

lemma granted_host:
  "ready_for host w \<Longrightarrow> may_log_in u (h_ID host) d \<Longrightarrow> hosts d = hosts (w_db w) \<Longrightarrow> h_ID host \<in> set (UserGrantedHostIDs u d)"
  by (auto simp: in_UserGrantedHostIDs ready_for_def reachable_host_def) (metis image_eqI)

lemma hosts_after:
  "hosts (snd (SetUserStatus u s st d)) = hosts d" "hosts (snd (RevokeAllUserSessions u st d)) = hosts d"
  by (simp_all add: SetUserStatus_def Let_def RevokeAllUserSessions_def)

lemma calm_ran:
  assumes "calm w" "run_state (call f) w = (r, w')"
  shows "calm w' \<and> w_hub w' = w_hub w \<and> (\<exists>st. r = fst (f st (w_db w)) \<and> w_db w' = snd (f st (w_db w)))"
  using assms by (auto simp: calm_call split: prod.splits) (metis fst_conv snd_conv)

lemma calm_many:
  assumes "calm w" "run_state (call (many g)) w = (r, w')"
  shows "r = Inr (g (w_db w)) \<and> calm w' \<and> w_hub w' = w_hub w \<and> w_db w' = w_db w"
  using assms by (auto simp: calm_read)

lemma SetUserStatus_ok:
  "s \<in> set user_statuses \<Longrightarrow> SetUserStatus u s st d = (Inr (count_where (\<lambda>v. u_ID v = u) (users d)), snd (SetUserStatus u s st d))"
  by (simp add: SetUserStatus_def Let_def)

lemma SetUserStatus_none: "count_where (\<lambda>v. u_ID v = u) (users d) = 0 \<Longrightarrow> snd (SetUserStatus u s st d) = d"
  by (simp add: SetUserStatus_def Let_def count_where_zero update_where_none)

lemma suspend_covered:
  assumes "ready_for host w" "seq_left host w" "srv_signer srv = Some priv" "run_state (handleSuspendUser srv auth i) w = (r, w')"
  shows "covered srv priv host w w'"
proof (cases "targetUser srv auth i")
  case (Inl e)
  then show ?thesis using assms(4) by (auto simp: handleSuspendUser_def covered_def)
next
  case (Inr u)
  have w: "calm w" "schema_ok (w_db w)" using assms(1) by (simp_all add: ready_for_def)
  obtain hs w0 where 0: "run_state (call (many (UserGrantedHostIDs u))) w = (hs, w0)" by fastforce
  note c0 = calm_many [OF w(1) 0]
  obtain n w1 where 1: "run_state (call (SetUserStatus u ''suspended'')) w0 = (n, w1)" by fastforce
  obtain s1 where c1: "calm w1" "w_hub w1 = w_hub w" "n = fst (SetUserStatus u ''suspended'' s1 (w_db w))"
      "w_db w1 = snd (SetUserStatus u ''suspended'' s1 (w_db w))"
    using calm_ran [OF _ 1] c0 by auto
  let ?n = "count_where (\<lambda>v. u_ID v = u) (users (w_db w))"
  have n: "n = Inr ?n" using SetUserStatus_ok [of "''suspended''" u s1 "w_db w"] c1(3) by (simp add: user_statuses_def prod_eq_iff)
  show ?thesis
  proof (cases "?n = 0")
    case True
    then have "w' = w1" using assms(4) Inr 0 1 n by (simp add: handleSuspendUser_def run_attempt)
    then show ?thesis using c1(4) SetUserStatus_none [OF True] by (simp add: covered_def)
  next
    case False
    obtain x w2 where 2: "run_state (call (RevokeAllUserSessions u)) w1 = (x, w2)" by fastforce
    obtain s2 where c2: "calm w2" "w_hub w2 = w_hub w" "w_db w2 = snd (RevokeAllUserSessions u s2 (w_db w1))"
      using calm_ran [OF c1(1) 2] c1(2) by auto
    have p: "run_state (for_each (pushSnapshot srv) (UserGrantedHostIDs u (w_db w))) w2 = ((), w')"
      using assms(4) Inr 0 1 2 n False c0 by (auto simp: handleSuspendUser_def run_attempt pushToHosts_def or_nil_def split: prod.splits)
    have "db_step (w_db w) (w_db w2)" unfolding c2(3) c1(4) by (rule db_step_trans) (rule db_steps)+
    then have s: "schema_ok (w_db w2)" using w(2) by (rule db_step_schema)
    have l: "logins (w_db w2) = logins (w_db w1)" unfolding c2(3) by (rule logins_identity)
    show ?thesis
    proof (rule covered_push [OF assms(1-3) c2(1,2) s _ _ p refl refl])
      show "hosts (w_db w2) = hosts (w_db w)" by (simp add: c2(3) c1(4) hosts_after)
      show "h_ID host \<in> set (UserGrantedHostIDs u (w_db w))" if "logins (w_db w2) (h_ID host) \<noteq> logins (w_db w) (h_ID host)"
        using that SetUserStatus_concerns unfolding l c1(4) by (intro granted_host [OF assms(1)]) auto
    qed
  qed
qed

text \<open>A statement about one user, then a push to the hosts of the user.\<close>

lemma owner_covered:
  assumes "ready_for host w" "seq_left host w" "srv_signer srv = Some priv"
    and "run_state (call f) w = (n, w1)" "run_state (call (many (UserGrantedHostIDs u))) w1 = (hs, w2)"
    and "run_state (for_each (pushSnapshot srv) (or_nil hs)) w2 = ((), w3)" "w_hub w' = w_hub w3" "w_db w' = w_db w3"
    and "\<And>st d. db_step d (snd (f st d))" "\<And>st d h. logins (snd (f st d)) h \<noteq> logins d h \<Longrightarrow> may_log_in u h d"
    and "\<And>st d. hosts (snd (f st d)) = hosts d" "\<And>st d. grants (snd (f st d)) = grants d"
    and "\<And>st d. group_resources (snd (f st d)) = group_resources d"
  shows "covered srv priv host w w'"
proof -
  have w: "calm w" "schema_ok (w_db w)" using assms(1) by (simp_all add: ready_for_def)
  obtain s1 where c1: "calm w1" "w_hub w1 = w_hub w" "w_db w1 = snd (f s1 (w_db w))"
    using calm_ran [OF w(1) assms(4)] by auto
  note c2 = calm_many [OF c1(1) assms(5)]
  have s: "schema_ok (w_db w2)" using db_step_schema [OF assms(9) w(2), of s1] c1(3) c2 by simp
  have h: "hosts (w_db w1) = hosts (w_db w)" by (simp add: c1(3) assms(11))
  have m: "may_log_in u k (w_db w1) = may_log_in u k (w_db w)" for k
    by (rule may_log_in_cong) (simp_all add: c1(3) assms(12,13))
  show ?thesis
  proof (rule covered_push [OF assms(1-3) _ _ s _ _ assms(6-8)])
    show "h_ID host \<in> set (or_nil hs)" if "logins (w_db w2) (h_ID host) \<noteq> logins (w_db w) (h_ID host)"
    proof -
      have "may_log_in u (h_ID host) (w_db w)" using that c2 assms(10) by (simp add: c1(3))
      then show ?thesis using granted_host [OF assms(1) _ h] c2 by (simp add: m or_nil_def)
    qed
  qed (use c1 c2 h in simp_all)
qed

lemma other_tables:
  "hosts (snd (CreatePublicKey u l kt kb f st d)) = hosts d" "grants (snd (CreatePublicKey u l kt kb f st d)) = grants d"
  "group_resources (snd (CreatePublicKey u l kt kb f st d)) = group_resources d"
  "hosts (snd (DeletePublicKey rid u st d)) = hosts d" "grants (snd (DeletePublicKey rid u st d)) = grants d"
  "group_resources (snd (DeletePublicKey rid u st d)) = group_resources d"
  "grants (snd (SetUserStatus u s st d)) = grants d" "group_resources (snd (SetUserStatus u s st d)) = group_resources d"
  by (simp_all add: CreatePublicKey_def DeletePublicKey_def SetUserStatus_def insert_row_def Let_def)

lemmas tables = other_tables hosts_after

lemma failed_keeps:
  "CreatePublicKey u l kt kb f st d = (Inl e, d') \<Longrightarrow> d' = d"
  "DeletePublicKey rid u st d = (Inl e, d') \<Longrightarrow> d' = d" "DeletePublicKey rid u st d = (Inr 0, d') \<Longrightarrow> d' = d"
  "SetUserStatus u s st d = (Inl e, d') \<Longrightarrow> d' = d" "SetUserStatus u s st d = (Inr 0, d') \<Longrightarrow> d' = d"
  by (auto simp: CreatePublicKey_def DeletePublicKey_def SetUserStatus_def insert_row_def Let_def count_where_def filter_empty_conv update_where_def
      split: if_splits intro!: db.equality map_idI)


lemma call_kept:
  assumes "calm w" "run_state (call f) w = (x, w')" "\<And>st d d'. f st d = (x, d') \<Longrightarrow> d' = d"
  shows "covered srv priv host w w'"
proof -
  obtain st where "x = fst (f st (w_db w))" "w_db w' = snd (f st (w_db w))" using calm_ran [OF assms(1,2)] by auto
  then show ?thesis using assms(3) [of st "w_db w"] by (simp add: covered_def prod_eq_iff)
qed

lemma activate_covered:
  assumes "ready_for host w" "seq_left host w" "srv_signer srv = Some priv" "run_state (handleActivateUser srv auth i) w = (r, w')"
  shows "covered srv priv host w w'"
proof (cases "targetUser srv auth i")
  case (Inl e)
  then show ?thesis using assms(4) by (auto simp: handleActivateUser_def covered_def)
next
  case (Inr u)
  have w: "calm w" using assms(1) by (simp add: ready_for_def)
  obtain n w1 where 1: "run_state (call (SetUserStatus u ''active'')) w = (n, w1)" by fastforce
  obtain hs w2 where 2: "run_state (call (many (UserGrantedHostIDs u))) w1 = (hs, w2)" by fastforce
  consider (kept) "w' = w1" "n \<in> {Inr 0} \<union> range Inl" | (did) m where "n = Inr m" "run_state (for_each (pushSnapshot srv) (or_nil hs)) w2 = ((), w')"
    using assms(4) Inr 1 2 by (cases n) (auto simp: handleActivateUser_def run_attempt pushToHosts_def split: prod.splits if_splits)
  then show ?thesis
  proof cases
    case kept
    then show ?thesis by (auto intro!: call_kept [OF w 1] dest: failed_keeps)
  next
    case did
    show ?thesis
      by (rule owner_covered [OF assms(1-3) 1 2 did(2) refl refl]) (rule db_steps, erule SetUserStatus_concerns, simp_all only: tables)
  qed
qed

lemma delete_key_covered:
  assumes "ready_for host w" "seq_left host w" "srv_signer srv = Some priv" "run_state (handleDeleteKey srv auth i) w = (r, w')"
  shows "covered srv priv host w w'"
proof (cases "parseUUID srv i")
  case None
  then show ?thesis using assms(4) by (auto simp: handleDeleteKey_def covered_def)
next
  case (Some k)
  let ?u = "a_UserID auth"
  have w: "calm w" using assms(1) by (simp add: ready_for_def)
  obtain n w1 where 1: "run_state (call (DeletePublicKey k ?u)) w = (n, w1)" by fastforce
  obtain hs w2 where 2: "run_state (call (many (UserGrantedHostIDs ?u))) w1 = (hs, w2)" by fastforce
  consider (kept) "w' = w1" "n \<in> {Inr 0} \<union> range Inl" | (did) m where "n = Inr m" "run_state (for_each (pushSnapshot srv) (or_nil hs)) w2 = ((), w')"
    using assms(4) Some 1 2 by (cases n) (auto simp: handleDeleteKey_def run_attempt pushToHosts_def split: prod.splits if_splits)
  then show ?thesis
  proof cases
    case kept
    then show ?thesis by (auto intro!: call_kept [OF w 1] dest: failed_keeps)
  next
    case did
    show ?thesis
      by (rule owner_covered [OF assms(1-3) 1 2 did(2) refl refl]) (rule db_steps, erule keys_concern, simp_all only: tables)
  qed
qed

lemma writeResponse_keeps: "run_state (writeResponse srv k v) w = (r, w') \<Longrightarrow> w_db w' = w_db w \<and> w_hub w' = w_hub w"
  using state_io_rel_run [OF eff_writeResponse [of srv k v], of w] by (auto simp: world_read_def)

lemma add_key_covered:
  assumes "ready_for host w" "seq_left host w" "srv_signer srv = Some priv" "run_state (handleAddKey srv auth body) w = (r, w')"
  shows "covered srv priv host w w'"
proof (cases "w' = w")
  case True
  then show ?thesis by (simp add: covered_def)
next
  case False
  let ?u = "a_UserID auth"
  have w: "calm w" using assms(1) by (simp add: ready_for_def)
  from False assms(4) obtain l t b g where run: "run_state (attempt (call (CreatePublicKey ?u l t b g))
             (\<lambda>e. ret (if isUniqueViolation e then HttpError 409 ''key already registered''
                       else serverError ''could not add key''))
             (\<lambda>key. do {
                hs \<leftarrow> call (many (UserGrantedHostIDs (a_UserID auth)));
                pushToHosts srv (or_nil hs);
                writeResponse srv (a_ClientPublicKey auth) (public_key_view key) })) w = (r, w')"
    by (auto simp: handleAddKey_def split: option.splits)
  obtain n w1 where 1: "run_state (call (CreatePublicKey ?u l t b g)) w = (n, w1)" by fastforce
  obtain hs w2 where 2: "run_state (call (many (UserGrantedHostIDs ?u))) w1 = (hs, w2)" by fastforce
  obtain w3 where 3: "run_state (for_each (pushSnapshot srv) (or_nil hs)) w2 = ((), w3)" by (metis (full_types) old.unit.exhaust surj_pair)
  consider (kept) "w' = w1" "n \<in> range Inl" | (did) m where "n = Inr m" "w_hub w' = w_hub w3" "w_db w' = w_db w3"
    using run 1 2 3 by (cases n) (auto simp: run_attempt pushToHosts_def dest: writeResponse_keeps split: prod.splits if_splits)
  then show ?thesis
  proof cases
    case kept
    then show ?thesis by (auto intro!: call_kept [OF w 1] dest: failed_keeps)
  next
    case did
    show ?thesis
      by (rule owner_covered [OF assms(1-3) 1 2 3 did(2,3)]) (rule db_steps, erule keys_concern, simp_all only: tables)
  qed
qed

subsection \<open>Groups\<close>

lemma after_read:
  assumes "run_state m w = (x, w1)" "state_io_rel world_read m" "ready_for host w" "seq_left host w"
  shows "ready_for host w1" "seq_left host w1" "covered srv priv host w1 w' \<Longrightarrow> covered srv priv host w w'" "w_db w1 = w_db w" "w_hub w1 = w_hub w" "calm w1"
proof -
  have "world_read w w1" using state_io_rel_run [OF assms(2), of w] assms(1) by simp
  then show "ready_for host w1" "seq_left host w1" "covered srv priv host w1 w' \<Longrightarrow> covered srv priv host w w'" "w_db w1 = w_db w" "w_hub w1 = w_hub w" "calm w1"
    using assms(3,4) by (simp_all add: world_read_def ready_for_def seq_left_def reachable_host_def calm_def covered_def told_def)
qed

lemma resource_covered:
  assumes "ready_for host w" "seq_left host w" "srv_signer srv = Some priv"
    and "run_state (call f) w = (n, w1)" "run_state (if kd = ''host'' then pushSnapshot srv i else ret ()) w1 = ((), w')"
    and "\<And>st d. db_step d (snd (f st d))" "\<And>st d h. logins (snd (f st d)) h \<noteq> logins d h \<Longrightarrow> kd = ''host'' \<and> i = h"
    and "\<And>st d. hosts (snd (f st d)) = hosts d"
  shows "covered srv priv host w w'"
proof -
  have w: "calm w" "schema_ok (w_db w)" using assms(1) by (simp_all add: ready_for_def)
  obtain s1 where c1: "calm w1" "w_hub w1 = w_hub w" "w_db w1 = snd (f s1 (w_db w))"
    using calm_ran [OF w(1) assms(4)] by auto
  have s: "schema_ok (w_db w1)" using db_step_schema [OF assms(6) w(2), of s1] c1(3) by simp
  have p: "run_state (for_each (pushSnapshot srv) (if kd = ''host'' then [i] else [])) w1 = ((), w')"
    using assms(5) by (auto split: if_splits)
  show ?thesis
    by (rule covered_push [OF assms(1-3) c1(1,2) s _ _ p refl refl]) (use assms(7) [of s1 "w_db w"] in \<open>auto simp: c1(3) assms(8)\<close>)
qed

lemma group_tables:
  "hosts (snd (AddGroupResource g k r st d)) = hosts d" "hosts (snd (RemoveGroupResource g k r st d)) = hosts d"
  "hosts (snd (DeleteGroup g st d)) = hosts d" "hosts (snd (RevokeGroupGrants g st d)) = hosts d"
  by (simp_all add: AddGroupResource_def RemoveGroupResource_def DeleteGroup_def RevokeGroupGrants_def insert_row_def Let_def)

lemma failed_group:
  "AddGroupResource g k r st d = (Inl e, d') \<Longrightarrow> d' = d"
  "RemoveGroupResource g k r st d = (Inl e, d') \<Longrightarrow> d' = d" "RemoveGroupResource g k r st d = (Inr 0, d') \<Longrightarrow> d' = d"
  by (auto simp: AddGroupResource_def RemoveGroupResource_def insert_row_def Let_def count_where_def filter_empty_conv
      split: if_splits intro!: db.equality)

lemma add_resource_covered:
  assumes "ready_for host w" "seq_left host w" "srv_signer srv = Some priv" "run_state (handleAddGroupResource srv auth p body) w = (r, w')"
  shows "covered srv priv host w w'"
proof (cases "parseUUID srv p")
  case None
  then show ?thesis using assms(4) by (auto simp: handleAddGroupResource_def covered_def)
next
  case (Some g)
  obtain ok w0 where 0: "run_state (canGroup auth ''group.manage'' g) w = (ok, w0)" by fastforce
  note r = after_read [OF 0 eff_can(4) assms(1,2)]
  show ?thesis
  proof (cases "w' = w0")
    case True
    then show ?thesis using r(4) by (simp add: covered_def)
  next
    case False
    with assms(4) Some 0 obtain k i where run: "run_state (attempt (call (AddGroupResource g k i))
         (\<lambda>_. ret (serverError ''could not add resource'')) (\<lambda>_. do {
           (if k = ''host'' then pushSnapshot srv i else ret ()); ret (Status 204) })) w0 = (r, w')"
      by (auto simp: handleAddGroupResource_def split: if_splits option.splits)
    obtain n w1 where 1: "run_state (call (AddGroupResource g k i)) w0 = (n, w1)" by fastforce
    consider (kept) "w' = w1" "n \<in> range Inl" | (did) "run_state (if k = ''host'' then pushSnapshot srv i else ret ()) w1 = ((), w')"
      using run 1 by (cases n) (auto simp: run_attempt split: prod.splits if_splits)
    then have "covered srv priv host w0 w'"
    proof cases
      case kept
      then show ?thesis by (auto intro!: call_kept [OF r(6) 1] dest: failed_group)
    next
      case did
      show ?thesis
        by (rule resource_covered [OF r(1,2) assms(3) 1 did]) (rule db_steps, erule groups_concern, simp_all only: group_tables)
    qed
    then show ?thesis by (rule r(3))
  qed
qed

lemma remove_resource_covered:
  assumes "ready_for host w" "seq_left host w" "srv_signer srv = Some priv" "run_state (handleRemoveGroupResource srv auth p body) w = (r, w')"
  shows "covered srv priv host w w'"
proof (cases "parseUUID srv p")
  case None
  then show ?thesis using assms(4) by (auto simp: handleRemoveGroupResource_def covered_def)
next
  case (Some g)
  obtain ok w0 where 0: "run_state (canGroup auth ''group.manage'' g) w = (ok, w0)" by fastforce
  note r = after_read [OF 0 eff_can(4) assms(1,2)]
  show ?thesis
  proof (cases "w' = w0")
    case True
    then show ?thesis using r(4) by (simp add: covered_def)
  next
    case False
    with assms(4) Some 0 obtain k i where run: "run_state (attempt (call (RemoveGroupResource g k i))
         (\<lambda>_. ret (serverError ''could not remove resource'')) (\<lambda>n.
                   if n = 0 then ret (HttpError 404 ''resource not in group'')
                   else do {
           (if k = ''host'' then pushSnapshot srv i else ret ()); ret (Status 204) })) w0 = (r, w')"
      by (auto simp: handleRemoveGroupResource_def split: if_splits option.splits)
    obtain n w1 where 1: "run_state (call (RemoveGroupResource g k i)) w0 = (n, w1)" by fastforce
    consider (kept) "w' = w1" "n \<in> {Inr 0} \<union> range Inl" | (did) "run_state (if k = ''host'' then pushSnapshot srv i else ret ()) w1 = ((), w')"
      using run 1 by (cases n) (auto simp: run_attempt split: prod.splits if_splits)
    then have "covered srv priv host w0 w'"
    proof cases
      case kept
      then show ?thesis by (auto intro!: call_kept [OF r(6) 1] dest: failed_group)
    next
      case did
      show ?thesis
        by (rule resource_covered [OF r(1,2) assms(3) 1 did]) (rule db_steps, erule groups_concern, simp_all only: group_tables)
    qed
    then show ?thesis by (rule r(3))
  qed
qed

subsection \<open>Transactions\<close>

lemma tx_covered:
  assumes "ready_for host w" "run_state (with_tx b body c k) w = (r, w')" "state_io_rel tx_step body"
    and "\<And>w1 a t w2. run_state body \<lparr>t_world = w1, t_db = w_db w, t_aborted = False\<rparr> = (Inr a, t) \<Longrightarrow>
      run_state (k a) w2 = (r, w') \<Longrightarrow> calm w2 \<Longrightarrow> w_hub w2 = w_hub w \<Longrightarrow> w_db w2 = t_db t \<Longrightarrow> schema_ok (w_db w2) \<Longrightarrow>
      covered srv priv host w w'"
  shows "covered srv priv host w w'"
  using assms(2,3)
proof (cases rule: with_tx_cases)
  case (lost w1 t a e)
  then show ?thesis using assms(1) by (simp add: ready_for_def)
next
  case (committed w1 t a w2)
  have "schema_ok (w_db w2)" using tx_schema [OF assms(3) committed(3)] assms(1) committed(5) by (simp add: ready_for_def)
  then show ?thesis using assms(4) [OF committed(3,4)] committed(5,6) assms(1) by (auto simp: world_read_def calm_def ready_for_def)
qed (auto simp: world_read_def covered_def)

lemma RevokeGroupGrants_concerns:
  assumes "logins (snd (RevokeGroupGrants g st d)) h \<noteq> logins d h"
  shows "h \<in> set (GroupHostIDs g d)"
  using revoke_concerns [OF assms [unfolded RevokeGroupGrants_def snd_conv]] by (auto simp: in_GroupHostIDs grant_covers_def)

lemma delete_group_concerns:
  assumes "run_state (deleteGroupTx g) t = (Inr (), t')"
  shows "hosts (t_db t') = hosts (t_db t)" "logins (t_db t') h \<noteq> logins (t_db t) h \<Longrightarrow> h \<in> set (GroupHostIDs g (t_db t))"
proof -
  from assms obtain x n t1 where s: "run_state (tx_call (RevokeGroupGrants g)) t = (Inr x, t1)" "run_state (tx_call (DeleteGroup g)) t1 = (Inr n, t')"
    unfolding deleteGroupTx_def Let_def by (auto simp: run_attempt split: sum.splits prod.splits if_splits)
  obtain st where 1: "t_db t1 = snd (RevokeGroupGrants g st (t_db t))" using tx_call_ran [OF s(1)] by metis
  obtain su where 2: "t_db t' = snd (DeleteGroup g su (t_db t1))" using tx_call_ran [OF s(2)] by metis
  show "hosts (t_db t') = hosts (t_db t)" by (simp only: 2 1 group_tables)
  assume "logins (t_db t') h \<noteq> logins (t_db t) h"
  then consider (del) "logins (t_db t') h \<noteq> logins (t_db t1) h" | (revoke) "logins (t_db t1) h \<noteq> logins (t_db t) h" by metis
  then show "h \<in> set (GroupHostIDs g (t_db t))"
  proof cases
    case del
    have "GroupHostIDs g (t_db t1) = GroupHostIDs g (t_db t)" by (simp add: 1 RevokeGroupGrants_def GroupHostIDs_def)
    then show ?thesis using groups_concern(1) [of g su "t_db t1" h] del unfolding 2 by simp
  next
    case revoke
    then show ?thesis using RevokeGroupGrants_concerns unfolding 1 by blast
  qed
qed

lemma delete_group_covered:
  assumes "ready_for host w" "seq_left host w" "srv_signer srv = Some priv" "run_state (handleDeleteGroup srv auth p) w = (r, w')"
  shows "covered srv priv host w w'"
proof (cases "parseUUID srv p")
  case None
  then show ?thesis using assms(4) by (auto simp: handleDeleteGroup_def covered_def)
next
  case (Some g)
  obtain ok w0 where 0: "run_state (canGroup auth ''group.manage'' g) w = (ok, w0)" by fastforce
  note r = after_read [OF 0 eff_can(4) assms(1,2)]
  obtain hs w1 where 1: "run_state (call (many (GroupHostIDs g))) w0 = (hs, w1)" by fastforce
  note q = after_read [OF 1 eff_reads(1) r(1,2)]
  let ?e = "serverError ''could not delete group'' :: unit response"
  have hs: "or_nil hs = GroupHostIDs g (w_db w1)" using calm_many [OF r(6) 1] by (simp add: or_nil_def)
  show ?thesis
  proof (cases ok)
    case False
    then show ?thesis using assms(4) Some 0 r(4) by (auto simp: handleDeleteGroup_def covered_def)
  next
    case True
    have run: "run_state (with_tx (\<lambda>_. ?e) (deleteGroupTx g) (\<lambda>_. ?e)
         (\<lambda>_. do { for_each (pushSnapshot srv) (or_nil hs); ret (Status 204) })) w1 = (r, w')"
      using assms(4) Some 0 1 True by (simp add: handleDeleteGroup_def)
    have "covered srv priv host w1 w'"
    proof (rule tx_covered [OF q(1) run eff_group_txs(2)])
      fix wx a t w2
      assume a: "run_state (deleteGroupTx g) \<lparr>t_world = wx, t_db = w_db w1, t_aborted = False\<rparr> = (Inr a, t)"
        "run_state (do { for_each (pushSnapshot srv) (or_nil hs); ret (Status 204) }) w2 = (r, w')"
        "calm w2" "w_hub w2 = w_hub w1" "w_db w2 = t_db t" "schema_ok (w_db w2)"
      have p: "run_state (for_each (pushSnapshot srv) (or_nil hs)) w2 = ((), w')" using a(2) by (auto split: prod.splits)
      have c: "hosts (t_db t) = hosts (w_db w1)" "logins (t_db t) h \<noteq> logins (w_db w1) h \<Longrightarrow> h \<in> set (GroupHostIDs g (w_db w1))" for h
        using delete_group_concerns [of g _ t] a(1) by fastforce+
      show "covered srv priv host w1 w'"
        by (rule covered_push [OF q(1,2) assms(3) a(3,4,6) _ _ p refl refl]) (use c a(5) in \<open>simp_all add: hs\<close>)
    qed
    then show ?thesis by (intro r(3) q(3))
  qed
qed

lemma user_revoke_concerns:
  assumes "logins (snd (RevokeAllUserGrants u st d)) h \<noteq> logins d h"
  shows "may_log_in u h d"
  using revoke_concerns [OF assms [unfolded RevokeAllUserGrants_def snd_conv]] by (auto simp: has_grant_def)

lemma remove_concerns:
  assumes "run_state (removeUserTx u) t = (Inr (), t')"
  shows "hosts (t_db t') = hosts (t_db t)" "logins (t_db t') h \<noteq> logins (t_db t) h \<Longrightarrow> may_log_in u h (t_db t)"
proof -
  from assms obtain n t1 x t2 y t3 z where s: "run_state (tx_call (SetUserStatus u ''removed'')) t = (Inr n, t1)"
    "run_state (tx_call (DeleteUserIdentities u)) t1 = (Inr x, t2)" "run_state (tx_call (RevokeAllUserGrants u)) t2 = (Inr y, t3)"
    "run_state (tx_call (RevokeAllUserSessions u)) t3 = (Inr z, t')"
    unfolding removeUserTx_def Let_def by (auto simp: run_attempt split: sum.splits prod.splits if_splits)
  obtain s1 where 1: "t_db t1 = snd (SetUserStatus u ''removed'' s1 (t_db t))" using tx_call_ran [OF s(1)] by metis
  obtain s2 where 2: "t_db t2 = snd (DeleteUserIdentities u s2 (t_db t1))" using tx_call_ran [OF s(2)] by metis
  obtain s3 where 3: "t_db t3 = snd (RevokeAllUserGrants u s3 (t_db t2))" using tx_call_ran [OF s(3)] by metis
  obtain s4 where 4: "t_db t' = snd (RevokeAllUserSessions u s4 (t_db t3))" using tx_call_ran [OF s(4)] by metis
  show "hosts (t_db t') = hosts (t_db t)" by (simp add: 4 3 2 1 tables RevokeAllUserGrants_def DeleteUserIdentities_def)
  assume l: "logins (t_db t') h \<noteq> logins (t_db t) h"
  have "logins (t_db t') = logins (t_db t3)" "logins (t_db t2) = logins (t_db t1)" by (simp_all only: 4 2 logins_identity)
  with l consider (grants) "logins (t_db t3) h \<noteq> logins (t_db t2) h" | (status) "logins (t_db t1) h \<noteq> logins (t_db t) h" by metis
  then show "may_log_in u h (t_db t)"
  proof cases
    case grants
    have "may_log_in u h (t_db t2) = may_log_in u h (t_db t)"
      by (rule may_log_in_cong) (simp_all add: 2 1 tables DeleteUserIdentities_def)
    then show ?thesis using user_revoke_concerns grants unfolding 3 by blast
  next
    case status
    then show ?thesis using SetUserStatus_concerns unfolding 1 by blast
  qed
qed

lemma eff_removeUserTx: "state_io_rel tx_step (removeUserTx u)"
  unfolding removeUserTx_def Let_def by (intro eff db_steps)

lemma remove_covered:
  assumes "ready_for host w" "seq_left host w" "srv_signer srv = Some priv" "run_state (handleRemoveUser srv auth p) w = (r, w')"
  shows "covered srv priv host w w'"
proof (cases "targetUser srv auth p")
  case (Inl e)
  then show ?thesis using assms(4) by (auto simp: handleRemoveUser_def covered_def)
next
  case (Inr u)
  have w: "calm w" using assms(1) by (simp add: ready_for_def)
  obtain hs w1 where 1: "run_state (call (many (UserGrantedHostIDs u))) w = (hs, w1)" by fastforce
  note q = after_read [OF 1 eff_reads(1) assms(1,2)]
  let ?e = "serverError ''could not remove user'' :: unit response"
  have hs: "or_nil hs = UserGrantedHostIDs u (w_db w1)" using calm_many [OF w 1] by (simp add: or_nil_def)
  have run: "run_state (with_tx (\<lambda>_. ?e) (removeUserTx u) (\<lambda>_. ?e)
       (\<lambda>_. do { pushToHosts srv (or_nil hs); ret (Status 204) })) w1 = (r, w')"
    using assms(4) Inr 1 by (simp add: handleRemoveUser_def)
  have "covered srv priv host w1 w'"
  proof (rule tx_covered [OF q(1) run eff_removeUserTx])
    fix wx a t w2
    assume a: "run_state (removeUserTx u) \<lparr>t_world = wx, t_db = w_db w1, t_aborted = False\<rparr> = (Inr a, t)"
      "run_state (do { pushToHosts srv (or_nil hs); ret (Status 204) }) w2 = (r, w')"
      "calm w2" "w_hub w2 = w_hub w1" "w_db w2 = t_db t" "schema_ok (w_db w2)"
    have p: "run_state (for_each (pushSnapshot srv) (or_nil hs)) w2 = ((), w')"
      using a(2) by (auto simp: pushToHosts_def split: prod.splits)
    have c: "hosts (t_db t) = hosts (w_db w1)" "logins (t_db t) h \<noteq> logins (w_db w1) h \<Longrightarrow> may_log_in u h (w_db w1)" for h
      using remove_concerns [of u _ t] a(1) by fastforce+
    show "covered srv priv host w1 w'"
      by (rule covered_push [OF q(1,2) assms(3) a(3,4,6) _ _ p refl refl])
        (use c a(5) in \<open>simp_all add: hs granted_host [OF q(1)]\<close>)
  qed
  then show ?thesis by (rule q(3))
qed

lemma grant_push_covered:
  assumes "ready_for host w" "seq_left host w" "srv_signer srv = Some priv"
    and "calm w1" "w_hub w1 = w_hub w" "schema_ok (w_db w1)" "hosts (w_db w1) = hosts (w_db w)"
    and "logins (w_db w1) (h_ID host) \<noteq> logins (w_db w) (h_ID host) \<Longrightarrow> p = ''host.access'' \<and>
      (k = ''host'' \<and> t = Some (h_ID host) \<or> k = ''group'' \<and> (\<exists>g. t = Some g \<and> h_ID host \<in> set (GroupHostIDs g (w_db w1))))"
    and "run_state (pushIfHostGrant srv p k t) w1 = ((), w2)" "w_hub w' = w_hub w2" "w_db w' = w_db w2"
  shows "covered srv priv host w w'"
proof -
  obtain hs w3 where 3: "run_state (call (many (\<lambda>d. case t of None \<Rightarrow> [] | Some g \<Rightarrow> GroupHostIDs g d))) w1 = (hs, w3)" by fastforce
  note c3 = calm_many [OF assms(4) 3]
  consider (same) "logins (w_db w1) (h_ID host) = logins (w_db w) (h_ID host)"
    | (host) "p = ''host.access''" "k = ''host''" "t = Some (h_ID host)"
    | (group) g where "p = ''host.access''" "k = ''group''" "t = Some g" "h_ID host \<in> set (GroupHostIDs g (w_db w1))"
    using assms(8) by blast
  then show ?thesis
  proof cases
    case same
    have "state_io_rel (keeps_view logins) (pushIfHostGrant srv p k t)" by (intro eff views)
    from state_io_rel_run [OF this, of w1] have "logins (w_db w2) = logins (w_db w1)"
      using assms(6,9) by (simp add: keeps_view_def)
    then show ?thesis using same assms(11) by (simp add: covered_def)
  next
    case host
    then have "run_state (for_each (pushSnapshot srv) [h_ID host]) w1 = ((), w2)" using assms(9) by (simp add: pushIfHostGrant_def)
    from covered_push [OF assms(1-7) _ this assms(10,11)] show ?thesis by simp
  next
    case (group g)
    then have "run_state (for_each (pushSnapshot srv) (GroupHostIDs g (w_db w1))) w3 = ((), w2)"
      using assms(9) 3 c3 by (simp add: pushIfHostGrant_def run_attempt)
    from covered_push [OF assms(1-3) _ _ _ _ _ this assms(10,11)] show ?thesis using c3 assms(5-7) group(4) by simp
  qed
qed

lemma audit_logins:
  assumes "run_state (auditGrant a g u) t = (Inr (), t')"
  shows "logins (t_db t') = logins (t_db t)" "hosts (t_db t') = hosts (t_db t)" "GroupHostIDs i (t_db t') = GroupHostIDs i (t_db t)"
proof -
  obtain row where d: "t_db t' = (t_db t)\<lparr>grant_audit_logs := grant_audit_logs (t_db t) @ [row]\<rparr>" using auditGrant_Inr [OF assms] by blast
  show "logins (t_db t') = logins (t_db t)" unfolding d by (rule logins_tables) simp_all
  show "hosts (t_db t') = hosts (t_db t)" "GroupHostIDs i (t_db t') = GroupHostIDs i (t_db t)" by (simp_all add: d GroupHostIDs_def)
qed


lemma create_grant_concerns:
  assumes "run_state (createGrantTx auth u p k i) t = (Inr g, t')"
  shows "hosts (t_db t') = hosts (t_db t)" "logins (t_db t') h \<noteq> logins (t_db t) h \<Longrightarrow> g_Permission g = ''host.access'' \<and>
      (g_TargetKind g = ''host'' \<and> g_TargetID g = Some h \<or>
       g_TargetKind g = ''group'' \<and> (\<exists>j. g_TargetID g = Some j \<and> h \<in> set (GroupHostIDs j (t_db t'))))"
proof -
  from assms obtain g1 t1 t2 where s: "run_state (tx_call (CreateGrant u p k i (Some (a_UserID auth)))) t = (Inr g1, t1)"
    "run_state (auditGrant ''grant'' g1 (a_UserID auth)) t1 = (Inr (), t2)" "g1 = g" "t2 = t'"
    unfolding createGrantTx_def by (auto simp: run_attempt split: sum.splits prod.splits)
  obtain st where 1: "t_db t1 = snd (CreateGrant u p k i (Some (a_UserID auth)) st (t_db t))"
      "fst (CreateGrant u p k i (Some (a_UserID auth)) st (t_db t)) = Inr g"
    using tx_call_ran [OF s(1)] s(3) by metis
  have g: "g_Permission g = p" "g_TargetKind g = k" "g_TargetID g = i"
    using 1(2) by (auto simp: CreateGrant_def insert_row_def Let_def split: if_splits)
  note a = audit_logins [OF s(2), unfolded s(4)]
  have t: "hosts (t_db t1) = hosts (t_db t)" "GroupHostIDs j (t_db t1) = GroupHostIDs j (t_db t)" for j
    unfolding 1(1) by (simp_all add: CreateGrant_def insert_row_def Let_def GroupHostIDs_def)
  then show "hosts (t_db t') = hosts (t_db t)" using a by simp
  assume "logins (t_db t') h \<noteq> logins (t_db t) h"
  then have "logins (snd (CreateGrant u p k i (Some (a_UserID auth)) st (t_db t))) h \<noteq> logins (t_db t) h" by (simp add: a flip: 1(1))
  from CreateGrant_concerns [OF this] show "g_Permission g = ''host.access'' \<and>
      (g_TargetKind g = ''host'' \<and> g_TargetID g = Some h \<or>
       g_TargetKind g = ''group'' \<and> (\<exists>j. g_TargetID g = Some j \<and> h \<in> set (GroupHostIDs j (t_db t'))))"
    unfolding g a t .
qed

lemma revoke_grant_concerns:
  assumes "schema_ok (t_db t)" "run_state (revokeGrantTx auth i) t = (Inr g, t')"
  shows "hosts (t_db t') = hosts (t_db t)" "logins (t_db t') h \<noteq> logins (t_db t) h \<Longrightarrow> g_Permission g = ''host.access'' \<and>
      (g_TargetKind g = ''host'' \<and> g_TargetID g = Some h \<or>
       g_TargetKind g = ''group'' \<and> (\<exists>j. g_TargetID g = Some j \<and> h \<in> set (GroupHostIDs j (t_db t'))))"
proof -
  from assms obtain g1 t1 t2 where s: "run_state (tx_call (RevokeGrant i)) t = (Inr g1, t1)"
    "run_state (auditGrant ''revoke'' g1 (a_UserID auth)) t1 = (Inr (), t2)" "g1 = g" "t2 = t'"
    unfolding revokeGrantTx_def by (auto simp: run_attempt split: sum.splits prod.splits)
  obtain st where st: "RevokeGrant i st (t_db t) = (Inr g, t_db t1)" using tx_call_Inr [OF s(1)] s(3) by auto
  let ?P = "\<lambda>g. g_ID g = i \<and> g_RevokedAt g = None"
  from st have 1: "t_db t1 = (t_db t)\<lparr>grants := update_where ?P (g_RevokedAt_update (\<lambda>_. Some (st_now st))) (grants (t_db t))\<rparr>"
    and "\<exists>g0 \<in> set (grants (t_db t)). g_ID g0 = i \<and> g = g0\<lparr>g_RevokedAt := Some (st_now st)\<rparr>"
    by (auto simp: RevokeGrant_def Let_def dest!: one_row_Inr_mem)
  then obtain g0 where g0: "g0 \<in> set (grants (t_db t))" "g_ID g0 = i" "g = g0\<lparr>g_RevokedAt := Some (st_now st)\<rparr>" by blast
  note a = audit_logins [OF s(2), unfolded s(4)]
  have t: "hosts (t_db t1) = hosts (t_db t)" "GroupHostIDs j (t_db t1) = GroupHostIDs j (t_db t)" for j
    unfolding 1 by (simp_all add: GroupHostIDs_def)
  then show "hosts (t_db t') = hosts (t_db t)" using a by simp
  assume "logins (t_db t') h \<noteq> logins (t_db t) h"
  then have "logins ((t_db t)\<lparr>grants := update_where ?P (g_RevokedAt_update (\<lambda>_. Some (st_now st))) (grants (t_db t))\<rparr>) h \<noteq> logins (t_db t) h"
    by (simp add: a flip: 1)
  from revoke_concerns [OF this] obtain g' where g': "g' \<in> set (grants (t_db t))" "g_ID g' = i" "g_Permission g' = ''host.access''"
    "grant_covers ''host'' h (t_db t) g'" by blast
  have "inj_on g_ID (set (grants (t_db t)))" using assms(1) by (simp add: schema_ok_def grants_ok_def distinct_map)
  then have "g' = g0" using g'(1,2) g0(1,2) by (simp add: inj_on_def)
  then show "g_Permission g = ''host.access'' \<and> (g_TargetKind g = ''host'' \<and> g_TargetID g = Some h \<or>
       g_TargetKind g = ''group'' \<and> (\<exists>j. g_TargetID g = Some j \<and> h \<in> set (GroupHostIDs j (t_db t'))))"
    using g'(3,4) by (auto simp: g0(3) a t grant_covers_def in_GroupHostIDs)
qed

lemma pushIfHostGrant_unit: "\<exists>w2. run_state (pushIfHostGrant srv p k t) w1 = ((), w2)"
  by (metis (full_types) old.unit.exhaust surj_pair)

lemma create_grant_covered:
  assumes "ready_for host w" "seq_left host w" "srv_signer srv = Some priv" "run_state (handleCreateGrant srv auth body) w = (r, w')"
  shows "covered srv priv host w w'"
proof (cases "w' = w")
  case True
  then show ?thesis by (simp add: covered_def)
next
  case False
  let ?e = "serverError ''could not create grant'' :: string response"
  from assms(4) False obtain u p k i where
    run: "run_state (with_tx (\<lambda>_. ?e) (createGrantTx auth u p k i) (\<lambda>_. ?e)
        (\<lambda>g. do { pushIfHostGrant srv (g_Permission g) (g_TargetKind g) (g_TargetID g);
                  writeResponse srv (a_ClientPublicKey auth) (uuidString (Some (g_ID g))) })) w = (r, w')"
    by (cases body; cases "parseUUID srv (cgr_UserID (the body))") (auto simp: handleCreateGrant_def Let_def split: if_splits)
  show ?thesis
  proof (rule tx_covered [OF assms(1) run eff_grantTx(1)])
    fix wx g t w2
    assume a: "run_state (createGrantTx auth u p k i) \<lparr>t_world = wx, t_db = w_db w, t_aborted = False\<rparr> = (Inr g, t)"
      "run_state (do { pushIfHostGrant srv (g_Permission g) (g_TargetKind g) (g_TargetID g);
                  writeResponse srv (a_ClientPublicKey auth) (uuidString (Some (g_ID g))) }) w2 = (r, w')"
      "calm w2" "w_hub w2 = w_hub w" "w_db w2 = t_db t" "schema_ok (w_db w2)"
    obtain w3 where 3: "run_state (pushIfHostGrant srv (g_Permission g) (g_TargetKind g) (g_TargetID g)) w2 = ((), w3)"
      using pushIfHostGrant_unit by blast
    have k: "w_hub w' = w_hub w3" "w_db w' = w_db w3" using a(2) 3 by (auto dest: writeResponse_keeps)
    show "covered srv priv host w w'"
      by (rule grant_push_covered [OF assms(1-3) a(3,4,6) _ _ 3 k]) (use create_grant_concerns [OF a(1)] a(5) in simp_all)
  qed
qed

lemma revoke_grant_covered:
  assumes "ready_for host w" "seq_left host w" "srv_signer srv = Some priv" "run_state (handleRevokeGrant srv auth p) w = (r, w')"
  shows "covered srv priv host w w'"
proof (cases "parseUUID srv p")
  case None
  then show ?thesis using assms(4) by (auto simp: handleRevokeGrant_def covered_def)
next
  case (Some i)
  let ?e = "serverError ''could not revoke grant'' :: unit response"
  have run: "run_state (with_tx (\<lambda>_. ?e) (revokeGrantTx auth i) (\<lambda>_. ?e)
        (\<lambda>g. do { pushIfHostGrant srv (g_Permission g) (g_TargetKind g) (g_TargetID g); ret (Status 204) })) w = (r, w')"
    using assms(4) Some by (simp add: handleRevokeGrant_def)
  have s: "schema_ok (w_db w)" using assms(1) by (simp add: ready_for_def)
  show ?thesis
  proof (rule tx_covered [OF assms(1) run eff_grantTx(2)])
    fix wx g t w2
    assume a: "run_state (revokeGrantTx auth i) \<lparr>t_world = wx, t_db = w_db w, t_aborted = False\<rparr> = (Inr g, t)"
      "run_state (do { pushIfHostGrant srv (g_Permission g) (g_TargetKind g) (g_TargetID g); ret (Status 204) }) w2 = (r, w')"
      "calm w2" "w_hub w2 = w_hub w" "w_db w2 = t_db t" "schema_ok (w_db w2)"
    obtain w3 where 3: "run_state (pushIfHostGrant srv (g_Permission g) (g_TargetKind g) (g_TargetID g)) w2 = ((), w3)"
      using pushIfHostGrant_unit by blast
    have k: "w_hub w' = w_hub w3" "w_db w' = w_db w3" using a(2) 3 by auto
    show "covered srv priv host w w'"
      by (rule grant_push_covered [OF assms(1-3) a(3,4,6) _ _ 3 k]) (use revoke_grant_concerns [OF _ a(1)] s a(5) in simp_all)
  qed
qed

section \<open>Every request\<close>

definition pushes :: "server \<Rightarrow> bytes \<Rightarrow> Host \<Rightarrow> world \<Rightarrow> world \<Rightarrow> bool" where
  "pushes srv priv host w w' \<longleftrightarrow> (ready_for host w \<longrightarrow> seq_left host w \<longrightarrow> covered srv priv host w w')"

lemma pushes_view: "state_io_rel (keeps_view logins) m \<Longrightarrow> state_io_rel (pushes srv priv host) m"
  by (auto simp: state_io_rel_def pushes_def keeps_view_def ready_for_def intro: covered_same)

lemma pushes_erase: "state_io_rel (pushes srv priv host) m \<Longrightarrow> state_io_rel (pushes srv priv host) (erase m)"
  by (auto simp: state_io_rel_def erase_def split: prod.splits) (metis snd_conv)

lemma pushes_changes:
  assumes "srv_signer srv = Some priv"
  shows "state_io_rel (pushes srv priv host) (handleSuspendUser srv auth i)" "state_io_rel (pushes srv priv host) (handleActivateUser srv auth i)"
    "state_io_rel (pushes srv priv host) (handleRemoveUser srv auth i)" "state_io_rel (pushes srv priv host) (handleAddKey srv auth kb)"
    "state_io_rel (pushes srv priv host) (handleDeleteKey srv auth i)" "state_io_rel (pushes srv priv host) (handleCreateGrant srv auth gb)"
    "state_io_rel (pushes srv priv host) (handleRevokeGrant srv auth i)" "state_io_rel (pushes srv priv host) (handleDeleteGroup srv auth i)"
    "state_io_rel (pushes srv priv host) (handleAddGroupResource srv auth i rb)"
    "state_io_rel (pushes srv priv host) (handleRemoveGroupResource srv auth i rb)"
  using assms unfolding pushes_def
  by (auto intro!: state_io_relI intro: suspend_covered activate_covered remove_covered add_key_covered delete_key_covered
      create_grant_covered revoke_grant_covered delete_group_covered add_resource_covered remove_resource_covered)

lemma pushes_account: "srv_signer srv = Some priv \<Longrightarrow> state_io_rel (pushes srv priv host) (account_routes srv a req)"
  by (cases req) (simp_all add: account_routes_def,
      (rule pushes_erase, rule pushes_changes pushes_view, (assumption | rule eff | rule view_read, rule eff))+)

lemma pushes_secret: "state_io_rel (pushes srv priv host) (secret_routes srv a req)"
  by (cases req) (simp_all add: secret_routes_def, (rule pushes_erase, rule pushes_view, (rule eff | rule view_read, rule eff))+)

lemma pushes_set: "state_io_rel (pushes srv priv host) (set_routes srv a req)"
  by (cases req) (simp_all add: set_routes_def, (rule pushes_erase, rule pushes_view, (rule eff | rule view_read, rule eff))+)

lemma pushes_host: "state_io_rel (pushes srv priv host) (host_routes srv a req)"
  by (cases req) (simp_all add: host_routes_def, (rule pushes_erase, rule pushes_view, (rule eff | rule view_read, rule eff))+)

lemma pushes_group: "srv_signer srv = Some priv \<Longrightarrow> state_io_rel (pushes srv priv host) (group_routes srv a req)"
  by (cases req) (simp_all add: group_routes_def,
      (rule pushes_erase, rule pushes_changes pushes_view, (assumption | rule eff | rule view_read, rule eff))+)

lemma pushes_admin: "srv_signer srv = Some priv \<Longrightarrow> state_io_rel (pushes srv priv host) (adminRoutes srv a req)"
  by (cases req) (simp_all add: adminRoutes_def,
      (rule pushes_erase, rule pushes_changes pushes_view, (assumption | rule eff | rule view_read, rule eff))+)

lemma pushes_public: "state_io_rel (pushes srv priv host) (publicRoutes srv req)"
  by (cases req) (auto simp: publicRoutes_def intro!: pushes_view eff)

lemma pushes_requireAuth:
  assumes "\<And>a. state_io_rel (pushes srv priv host) (f a)"
  shows "state_io_rel (pushes srv priv host) (requireAuth srv header f)"
proof (rule state_io_relI)
  fix w r w' assume "run_state (requireAuth srv header f) w = (r, w')"
  then show "pushes srv priv host w w'"
  proof (cases rule: requireAuth_cases)
    case (3 auth s v)
    then have "pushes srv priv host (w\<lparr>w_tick := Suc (w_tick w)\<rparr>) w'"
      using state_io_rel_run [OF assms [of auth], of "w\<lparr>w_tick := Suc (w_tick w)\<rparr>"] by simp
    then show ?thesis by (simp add: pushes_def ready_for_def calm_def reachable_host_def seq_left_def covered_def told_def)
  qed (auto simp: pushes_def intro!: covered_same dest!: arg_cong [of w' _ w_db])
qed

lemma pushes_Handler:
  assumes "srv_signer srv = Some priv"
  shows "state_io_rel (pushes srv priv host) (Handler srv allowed header req)"
proof (cases req)
  case Healthz
  then show ?thesis by (auto simp: Handler_def intro!: pushes_view eff)
next
  case (PublicR q)
  then show ?thesis by (cases allowed) (auto simp: Handler_def intro!: pushes_public pushes_view eff)
next
  case (UserR q)
  have "state_io_rel (pushes srv priv host) (userRoutes srv a q)" for a
    using assms by (cases q) (simp_all add: userRoutes_def pushes_account pushes_secret pushes_group pushes_set pushes_host)
  then show ?thesis using UserR by (simp add: Handler_def pushes_requireAuth)
next
  case (AdminR q)
  have "state_io_rel (pushes srv priv host) (if a_Role a \<noteq> ''admin'' then ret (HttpError 403 ''forbidden'') else adminRoutes srv a q)" for a
    using pushes_admin [OF assms] by (auto intro!: pushes_view eff)
  then show ?thesis using AdminR by (simp add: Handler_def requireAdmin_def pushes_requireAuth)
qed

section \<open>Property\<close>

text \<open>C9: In a calm world, whenever a request of any route changes who may log in to a host that is
  connected with room in its buffer, the handler has queued at least one envelope for it when it
  returns, and everything it queued is a signed snapshot, under a number above the last one of the
  host, of exactly the logins the request left in the database.\<close>
theorem access_changes_pushed:
  assumes "calm w" "schema_ok (w_db w)" "hub_ok (w_hub w)" "srv_signer srv = Some priv"
    and "host \<in> set (hosts (w_db w))" "online (uuidString (Some (h_ID host))) (w_hub w)"
    and "length (queue_of host w) < sendCap" "h_LastSeq host + 1 < 2 ^ 63"
    and "run_state (Handler srv allowed header req) w = (r, w')"
    and "logins (w_db w') (h_ID host) \<noteq> logins (w_db w) (h_ID host)"
  shows "\<exists>envs. envs \<noteq> [] \<and> queue_of host w' = queue_of host w @ envs \<and>
    (\<forall>e \<in> set envs. current srv priv host (w_db w') e)"
proof -
  have "ready_for host w" using assms(1-3,5,6) unfolding ready_for_def reachable_host_def by blast
  moreover have "seq_left host w" using assms(8) host_unique [OF assms(2,5)] unfolding seq_left_def by metis
  moreover have "pushes srv priv host w w'" using state_io_rel_run [OF pushes_Handler [OF assms(4), of host allowed header req], of w] assms(9) by simp
  ultimately have "told srv priv host (w_db w') True w w'" using assms(10) by (simp add: pushes_def covered_def)
  then show ?thesis using assms(7) by (auto simp: told_def)
qed

text \<open>The admin revokes the only grant of the sample deployment.\<close>

lemma sample_revoked:
  assumes "run_state (Handler sample_server True ''Bearer tok'' (AdminR (DeleteGrant ''aaaaa''))) signed_in = (r, w')"
  shows "logins (w_db w') 4 = {}"
proof -
  let ?a = "\<lparr>a_SessionID = 70, a_UserID = 1, a_Role = ''admin'', a_ClientPublicKey = None\<rparr>"
  let ?w = "signed_in\<lparr>w_tick := Suc (w_tick signed_in)\<rparr>"
  have "run_state (erase (handleRevokeGrant sample_server ?a ''aaaaa'')) ?w = (r, w')"
    using assms by (simp add: Handler_def requireAdmin_def requireAuth_def run_attempt run_call single_now_def sample_bearer
        signed_in_admin Let_def adminRoutes_def)
  then obtain q where run: "run_state (handleRevokeGrant sample_server ?a ''aaaaa'') ?w = (q, w')" by (auto simp: erase_def split: prod.splits)
  have "fst (run_state (handleRevokeGrant sample_server ?a ''aaaaa'') ?w) = Status 204"
    by (simp add: handleRevokeGrant_def with_tx_def revokeGrantTx_def auditGrant_def emailOf_def outside_def tx_call_def run_attempt
      run_call single_def many_def RevokeGrant_def Let_def signed_in_def sample_world_def sample_db_def init_db_def sample_grant_def InsertGrantAudit_def
      insert_row_def grant_actions_def update_where_def parseUUID_def sample_server_def split: prod.splits sum.splits)
  then have "revoke_done ?a (w_db signed_in) (w_db w')"
    using handleRevokeGrant_cases [OF run] worlds_schema(1) run by auto
  moreover have "grants (w_db signed_in) = [sample_grant]" by (simp add: signed_in_def sample_db_def)
  ultimately have "\<forall>g \<in> set (grants (w_db w')). g_RevokedAt g \<noteq> None" by (auto simp: revoke_done_def sample_grant_def)
  then have "\<not> has_grant ''host'' u ''host.access'' 4 (w_db w')" for u by (auto simp: has_grant_def)
  then show ?thesis by (simp add: set_eq_iff in_logins)
qed

theorem access_changes_pushed_witness:
  "\<exists>envs. envs \<noteq> [] \<and> queue_of sample_host (snd (run_state (Handler sample_server True ''Bearer tok'' (AdminR (DeleteGrant ''aaaaa''))) signed_in)) =
     queue_of sample_host signed_in @ envs"
proof -
  obtain r w' where r: "run_state (Handler sample_server True ''Bearer tok'' (AdminR (DeleteGrant ''aaaaa''))) signed_in = (r, w')" by fastforce
  have k: "sample_key \<in> set (public_keys (w_db signed_in))" "active_user 2 (w_db signed_in)" "has_grant ''host'' 2 ''host.access'' 4 (w_db signed_in)"
    by (auto simp: signed_in_def sample_db_def sample_rows active_user_def has_grant_def grant_covers_def)
  have "access_key sample_key \<in> logins (w_db signed_in) 4"
    unfolding in_logins by (intro bexI [OF _ k(1)]) (use k in \<open>simp add: sample_key_def\<close>)
  then have l: "logins (w_db w') (h_ID sample_host) \<noteq> logins (w_db signed_in) (h_ID sample_host)"
    using sample_revoked [OF r] by (auto simp: sample_host_def)
  have q: "online (uuidString (Some (h_ID sample_host))) (w_hub signed_in)" "queue_of sample_host signed_in = []"
    by (simp_all add: signed_in_def sample_world_def sample_hub_def sample_host_def queued_def register_def make_chan_def newHub_def online_def new_chan_def)
  show ?thesis
    using access_changes_pushed [OF _ worlds_schema(1) _ _ _ q(1) _ _ r l, of "''signer''"] r q(2) sample_hub_ok
    by (auto simp: calm_def signed_in_def sample_world_def sample_db_def sample_server_def sample_host_def sendCap_def)
qed

end
