(* ===== verification/Daemon_Store.thy ===== *)
theory Daemon_Store
  imports Crypto Enroll_Protocol
begin

text \<open>
  \<open>internal/daemon/store.go\<close>: the daemon's files. The world of the daemon is its file system, a
  clock, and an oracle for the outcome of each file operation: it may succeed, fail, or be the
  point where the machine stops, possibly after part of its effect. After a stop nothing more
  happens. The theorem: a file written by \<open>atomicWrite\<close> is never seen half written.
\<close>

section \<open>The file system\<close>

text \<open>The number says how much of the effect of a failed or interrupted operation got through.\<close>
datatype io = IoOk | IoFails nat | IoCrash nat

datatype derr = NotExist | IoError | BadData

text \<open>A file is its bytes and its mode.\<close>
type_synonym files = "string \<Rightarrow> (bytes \<times> nat) option"

record dworld =
  dw_files :: files
  dw_crashed :: bool
  dw_clock :: time
  dw_tick :: nat
  dw_io :: "nat \<Rightarrow> io"
  dw_temp :: "nat \<Rightarrow> string"

type_synonym 'a daemon = "(dworld, 'a) state"

text \<open>
  One operation on the file system: \<open>full\<close> is its effect, \<open>part n\<close> what an unfinished one leaves.
\<close>
definition file_op :: "(nat \<Rightarrow> files \<Rightarrow> files) \<Rightarrow> (nat \<Rightarrow> files \<Rightarrow> files) \<Rightarrow> (files \<Rightarrow> files) \<Rightarrow> (derr + unit) daemon" where
  "file_op failed stopped full = State (\<lambda>w.
     if dw_crashed w then (Inl IoError, w)
     else let w' = w\<lparr>dw_tick := Suc (dw_tick w)\<rparr> in
       case dw_io w (dw_tick w) of
         IoOk \<Rightarrow> (Inr (), w'\<lparr>dw_files := full (dw_files w)\<rparr>)
       | IoFails n \<Rightarrow> (Inl IoError, w'\<lparr>dw_files := failed n (dw_files w)\<rparr>)
       | IoCrash n \<Rightarrow> (Inl IoError, w'\<lparr>dw_files := stopped n (dw_files w), dw_crashed := True\<rparr>))"

text \<open>An operation that happens or not, never in part: on a stop, either.\<close>
definition atomic_op :: "(files \<Rightarrow> files) \<Rightarrow> (derr + unit) daemon" where
  "atomic_op f = file_op (\<lambda>_ fs. fs) (\<lambda>n fs. if n = 0 then fs else f fs) f"

definition rename_file :: "string \<Rightarrow> string \<Rightarrow> (derr + unit) daemon" where
  "rename_file from to = atomic_op (\<lambda>fs. fs(to := fs from, from := None))"

definition remove_file :: "string \<Rightarrow> (derr + unit) daemon" where
  "remove_file path = atomic_op (\<lambda>fs. fs(path := None))"

definition chmod_file :: "string \<Rightarrow> nat \<Rightarrow> (derr + unit) daemon" where
  "chmod_file path mode = atomic_op (\<lambda>fs. fs(path := map_option (\<lambda>(b, m). (b, mode)) (fs path)))"

text \<open>Writing to an open file: an unfinished write leaves a prefix.\<close>
definition write_file :: "string \<Rightarrow> bytes \<Rightarrow> (derr + unit) daemon" where
  "write_file path data =
     (let put = (\<lambda>n fs. fs(path := map_option (\<lambda>(b, m). (b @ take n data, m)) (fs path)))
      in file_op put put (put (length data)))"

definition close_file :: "(derr + unit) daemon" where
  "close_file = atomic_op (\<lambda>fs. fs)"

text \<open>\<open>os.ReadFile\<close>\<close>
definition ReadFile :: "string \<Rightarrow> (derr + bytes) daemon" where
  "ReadFile path = State (\<lambda>w.
     case run_state close_file w of
       (Inl e, w') \<Rightarrow> (Inl e, w')
     | (Inr _, w') \<Rightarrow> (case dw_files w path of None \<Rightarrow> Inl NotExist | Some (b, m) \<Rightarrow> Inr b, w'))"

text \<open>\<open>os.Stat\<close>: whether the file is there.\<close>
definition stat_file :: "string \<Rightarrow> (derr + unit) daemon" where
  "stat_file path = State (\<lambda>w. case run_state (ReadFile path) w of
     (Inl e, w') \<Rightarrow> (Inl e, w') | (Inr _, w') \<Rightarrow> (Inr (), w'))"

text \<open>The modes 0600, 0644 and 0755.\<close>
definition mode600 :: nat where "mode600 = 384"
definition mode644 :: nat where "mode644 = 420"
definition mode755 :: nat where "mode755 = 493"

text \<open>\<open>filepath.Join\<close> of a clean directory and a plain name.\<close>
definition in_dir :: "string \<Rightarrow> string \<Rightarrow> string" where
  "in_dir dir name = dir @ ''/'' @ name"

definition temp_name :: "string \<Rightarrow> string \<Rightarrow> string" where
  "temp_name dir rnd = in_dir dir (''.tmp-'' @ rnd)"

text \<open>
  \<open>os.CreateTemp\<close>: an empty file of mode 0600 under a name of the pattern that is not taken.
\<close>
definition CreateTemp :: "(string \<Rightarrow> string) \<Rightarrow> (derr + string) daemon" where
  "CreateTemp pattern = State (\<lambda>w.
     let tmp = pattern (dw_temp w (dw_tick w)) in
     if dw_files w tmp \<noteq> None then (Inl IoError, w\<lparr>dw_tick := Suc (dw_tick w)\<rparr>)
     else case run_state (atomic_op (\<lambda>fs. fs(tmp \<mapsto> ([], mode600)))) w of
         (Inl e, w') \<Rightarrow> (Inl e, w') | (Inr _, w') \<Rightarrow> (Inr tmp, w'))"

text \<open>\<open>m\<close>, then the deferred removal of the temporary file, whose error is not looked at.\<close>
definition then_remove :: "string \<Rightarrow> 'a daemon \<Rightarrow> 'a daemon" where
  "then_remove tmp m = do { r \<leftarrow> m; _ \<leftarrow> remove_file tmp; ret r }"

text \<open>\<open>atomicWrite\<close> of a file of a directory.\<close>
definition atomicWrite :: "string \<Rightarrow> string \<Rightarrow> bytes \<Rightarrow> nat \<Rightarrow> (derr + unit) daemon" where
  "atomicWrite dir name data perm = attempt (CreateTemp (temp_name dir)) (\<lambda>e. ret (Inl e)) (\<lambda>tmp.
     then_remove tmp
       (attempt (write_file tmp data) (\<lambda>e. do { _ \<leftarrow> close_file; ret (Inl e) }) (\<lambda>_.
        attempt (chmod_file tmp perm) (\<lambda>e. do { _ \<leftarrow> close_file; ret (Inl e) }) (\<lambda>_.
        attempt close_file (\<lambda>e. ret (Inl e)) (\<lambda>_.
        rename_file tmp (in_dir dir name))))))"

section \<open>What the files hold\<close>

record DaemonConfig =
  dc_ControlPlane :: string
  dc_HostID :: string
  dc_SigningPublicKey :: string

record LiveStatus =
  ls_Connected :: bool
  ls_LastSeq :: "64 word"
  ls_UpdatedAt :: time

text \<open>A member of an object as \<open>json.MarshalIndent\<close> with two spaces writes it.\<close>
fun indent_members :: "(string \<times> json) list \<Rightarrow> string" where
  "indent_members [] = []"
| "indent_members [(k, v)] = [CHR 0x0A] @ ''  '' @ quote k @ '': '' @ enc v @ [CHR 0x0A]"
| "indent_members ((k, v) # m # ms) = [CHR 0x0A] @ ''  '' @ quote k @ '': '' @ enc v @ '','' @ indent_members (m # ms)"

definition config_members :: "DaemonConfig \<Rightarrow> (string \<times> json) list" where
  "config_members c = [(''control_plane'', JStr (dc_ControlPlane c)), (''host_id'', JStr (dc_HostID c)),
     (''signing_public_key'', JStr (dc_SigningPublicKey c))]"

definition marshal_config :: "DaemonConfig \<Rightarrow> bytes" where
  "marshal_config c = ''{'' @ indent_members (config_members c) @ ''}''"

definition unmarshal_config :: "bytes \<Rightarrow> DaemonConfig option" where
  "unmarshal_config b = (case parse_json b of
     Some (JObj ms) \<Rightarrow>
       (case (field dec_string '''' ''control_plane'' ms, field dec_string '''' ''host_id'' ms,
              field dec_string '''' ''signing_public_key'' ms) of
          (Some c, Some h, Some s) \<Rightarrow> Some \<lparr>dc_ControlPlane = c, dc_HostID = h, dc_SigningPublicKey = s\<rparr>
        | _ \<Rightarrow> None)
   | Some JNull \<Rightarrow> Some \<lparr>dc_ControlPlane = '''', dc_HostID = '''', dc_SigningPublicKey = ''''\<rparr>
   | _ \<Rightarrow> None)"

section \<open>Loading and saving\<close>

definition LoadConfig_d :: "string \<Rightarrow> (derr + DaemonConfig) daemon" where
  "LoadConfig_d dir = attempt (ReadFile (in_dir dir ''config.json'')) (\<lambda>e. ret (Inl e))
     (\<lambda>b. ret (case unmarshal_config b of None \<Rightarrow> Inl BadData | Some c \<Rightarrow> Inr c))"

definition SaveConfig :: "string \<Rightarrow> DaemonConfig \<Rightarrow> (derr + unit) daemon" where
  "SaveConfig dir c = atomicWrite dir ''config.json'' (marshal_config c) mode600"

text \<open>The identity key, as the private key.\<close>
definition LoadIdentity :: "string \<Rightarrow> (derr + bytes) daemon" where
  "LoadIdentity dir = attempt (ReadFile (in_dir dir ''identity.key'')) (\<lambda>e. ret (Inl e))
     (\<lambda>b. ret (case LoadKeyPair b of None \<Rightarrow> Inl BadData | Some k \<Rightarrow> Inr k))"

definition SaveIdentity :: "string \<Rightarrow> bytes \<Rightarrow> (derr + unit) daemon" where
  "SaveIdentity dir priv = atomicWrite dir ''identity.key'' (b64_encode priv) mode600"

definition SaveEncryptionKey :: "string \<Rightarrow> bytes \<Rightarrow> (derr + unit) daemon" where
  "SaveEncryptionKey dir priv = atomicWrite dir ''encryption.key'' (b64_encode priv) mode600"

definition LoadEncryptionKey :: "string \<Rightarrow> (derr + bytes) daemon" where
  "LoadEncryptionKey dir = attempt (ReadFile (in_dir dir ''encryption.key'')) (\<lambda>e. ret (Inl e))
     (\<lambda>b. ret (case hybrid_LoadKeyPair b of None \<Rightarrow> Inl BadData | Some k \<Rightarrow> Inr k))"

text \<open>\<open>EnrollmentError\<close>: nil when the identity key is there.\<close>
definition EnrollmentError :: "string \<Rightarrow> (derr + unit) daemon" where
  "EnrollmentError dir = stat_file (in_dir dir ''identity.key'')"

text \<open>\<open>localtime\<close> writes a time as RFC 3339 in the zone of the host.\<close>
definition status_json :: "(time \<Rightarrow> string) \<Rightarrow> LiveStatus \<Rightarrow> json" where
  "status_json localtime st = JObj [(''connected'', JBool (ls_Connected st)),
     (''last_seq'', JNum (dec_digits (unat (ls_LastSeq st)))), (''updated_at'', JStr (localtime (ls_UpdatedAt st)))]"

definition SaveStatus :: "(time \<Rightarrow> string) \<Rightarrow> string \<Rightarrow> LiveStatus \<Rightarrow> (derr + unit) daemon" where
  "SaveStatus localtime dir st = atomicWrite dir ''status.json'' (enc (status_json localtime st)) mode600"

section \<open>A write is atomic\<close>

lemma run_atomic_op:
  "run_state (atomic_op f) w = (if dw_crashed w then (Inl IoError, w)
     else case dw_io w (dw_tick w) of
       IoOk \<Rightarrow> (Inr (), w\<lparr>dw_tick := Suc (dw_tick w), dw_files := f (dw_files w)\<rparr>)
     | IoFails n \<Rightarrow> (Inl IoError, w\<lparr>dw_tick := Suc (dw_tick w)\<rparr>)
     | IoCrash n \<Rightarrow> (Inl IoError, w\<lparr>dw_tick := Suc (dw_tick w), dw_crashed := True,
         dw_files := (if n = 0 then dw_files w else f (dw_files w))\<rparr>))"
  by (simp add: atomic_op_def file_op_def Let_def split: io.splits)

text \<open>The directory as seen through its lasting names, those that are not temporary.\<close>
definition lasting :: "string \<Rightarrow> string \<Rightarrow> bool" where
  "lasting dir q \<longleftrightarrow> (\<forall>rnd. q \<noteq> temp_name dir rnd)"

text \<open>No file of a class changes.\<close>
definition keeps :: "(string \<Rightarrow> bool) \<Rightarrow> dworld \<Rightarrow> dworld \<Rightarrow> bool" where
  "keeps P w w' \<longleftrightarrow> (\<forall>q. P q \<longrightarrow> dw_files w' q = dw_files w q)"

interpretation kf: effect_order "keeps P"
  by unfold_locales (auto simp: keeps_def)

abbreviation same_files :: "string \<Rightarrow> dworld \<Rightarrow> dworld \<Rightarrow> bool" where
  "same_files dir \<equiv> keeps (lasting dir)"

named_theorems file_ops \<open>the files an operation leaves alone\<close>

lemma eff_file_ops [file_ops]:
  "\<not> P tmp \<Longrightarrow> state_io_rel (keeps P) (remove_file tmp)"
  "\<not> P tmp \<Longrightarrow> state_io_rel (keeps P) (chmod_file tmp m)"
  "\<not> P tmp \<Longrightarrow> state_io_rel (keeps P) (write_file tmp b)"
  "\<not> P tmp \<Longrightarrow> \<not> P path \<Longrightarrow> state_io_rel (keeps P) (rename_file tmp path)"
  "state_io_rel (keeps P) close_file"
  unfolding remove_file_def chmod_file_def write_file_def rename_file_def close_file_def atomic_op_def file_op_def
  by (auto simp: state_io_rel_def keeps_def Let_def split: io.splits)

lemma eff_read_ops [file_ops]: "state_io_rel (keeps P) (ReadFile path)" "state_io_rel (keeps P) (stat_file path)"
  unfolding ReadFile_def stat_file_def close_file_def
  by (auto simp: state_io_rel_def keeps_def run_atomic_op split: io.splits sum.splits prod.splits)

lemma eff_CreateTemp [file_ops]: "(\<And>rnd. \<not> P (pat rnd)) \<Longrightarrow> state_io_rel (keeps P) (CreateTemp pat)"
  unfolding CreateTemp_def
  by (auto simp: state_io_rel_def keeps_def run_atomic_op Let_def split: io.splits)

lemma CreateTemp_cases:
  assumes "run_state (CreateTemp pat) w = (Inr tmp, w1)"
  shows "\<exists>rnd. tmp = pat rnd" "dw_files w tmp = None" "\<not> dw_crashed w1"
    "dw_files w1 = (dw_files w)(tmp \<mapsto> ([], mode600))"
  using assms by (cases "dw_files w (pat (dw_temp w (dw_tick w)))";
    auto simp: CreateTemp_def run_atomic_op Let_def split: if_splits io.splits)+

lemma eff_with_temp:
  assumes "\<And>rnd. \<not> P (pat rnd)" "\<And>e. state_io_rel (keeps P) (h e)" "\<And>rnd. state_io_rel (keeps P) (k (pat rnd))"
  shows "state_io_rel (keeps P) (attempt (CreateTemp pat) h k)"
proof (unfold state_io_rel_def, rule allI)
  fix w
  obtain r w1 where r: "run_state (CreateTemp pat) w = (r, w1)" by fastforce
  have "keeps P w w1" using state_io_rel_run [OF eff_CreateTemp, of P pat w] assms(1) r by auto
  moreover have "state_io_rel (keeps P) (case r of Inl e \<Rightarrow> h e | Inr tmp \<Rightarrow> k tmp)"
  proof (cases r)
    case (Inl e)
    then show ?thesis using assms(2) by simp
  next
    case (Inr tmp)
    then obtain rnd where "tmp = pat rnd" using CreateTemp_cases(1) r by blast
    then show ?thesis using assms(3) Inr by simp
  qed
  ultimately have "keeps P w (snd (run_state (case r of Inl e \<Rightarrow> h e | Inr tmp \<Rightarrow> k tmp) w1))"
    by (blast intro: kf.eff_trans state_io_rel_run)
  then show "keeps P w (snd (run_state (attempt (CreateTemp pat) h k) w))"
    by (cases r) (simp_all add: run_attempt r)
qed

lemma eff_atomicWrite [file_ops]:
  assumes "\<And>rnd. \<not> P (temp_name dir rnd)" "\<not> P (in_dir dir name)"
  shows "state_io_rel (keeps P) (atomicWrite dir name data perm)"
  unfolding atomicWrite_def then_remove_def
  by (rule eff_with_temp) (auto intro!: eff eff_file_ops simp: assms)

text \<open>The body of \<open>atomicWrite\<close> once its temporary file is there.\<close>
lemma atomicWrite_body:
  assumes tmp: "\<not> lasting dir tmp" "dw_files w tmp = Some ([], m)" and path: "lasting dir path"
    and run: "run_state (attempt (write_file tmp data) (\<lambda>e. do { _ \<leftarrow> close_file; ret (Inl e) }) (\<lambda>_.
        attempt (chmod_file tmp perm) (\<lambda>e. do { _ \<leftarrow> close_file; ret (Inl e) }) (\<lambda>_.
        attempt close_file (\<lambda>e. ret (Inl e)) (\<lambda>_. rename_file tmp path)))) w = (r, w')"
  shows "same_files dir w (w'\<lparr>dw_files := (dw_files w')(path := dw_files w path)\<rparr>) \<and>
    dw_files w' path \<in> (if r = Inr () then {Some (data, perm)}
      else if dw_crashed w' then {dw_files w path, Some (data, perm)} else {dw_files w path})"
proof -
  have ne: "path \<noteq> tmp" using tmp(1) path by auto
  show ?thesis
    using run tmp ne path
    by (auto simp: run_attempt write_file_def chmod_file_def close_file_def rename_file_def run_atomic_op
        file_op_def Let_def keeps_def split: io.splits if_splits)
qed

lemma lasting_in_dir: "\<not> HasPrefix name ''.tmp-'' \<Longrightarrow> lasting dir (in_dir dir name)"
  by (auto simp: lasting_def in_dir_def temp_name_def HasPrefix_def)

text \<open>What a call of \<open>atomicWrite\<close> may leave behind, by its result.\<close>
lemma atomicWrite_cases:
  assumes "\<not> HasPrefix name ''.tmp-''"
    and run: "run_state (atomicWrite dir name data perm) w = (r, w')"
  shows "\<forall>q. lasting dir q \<longrightarrow> q \<noteq> in_dir dir name \<longrightarrow> dw_files w' q = dw_files w q"
    and "dw_files w' (in_dir dir name) \<in> (if r = Inr () then {Some (data, perm)}
      else if dw_crashed w' then {dw_files w (in_dir dir name), Some (data, perm)}
      else {dw_files w (in_dir dir name)})"
proof -
  let ?path = "in_dir dir name"
  have path: "lasting dir ?path" using assms(1) by (rule lasting_in_dir)
  obtain t w1 where t: "run_state (CreateTemp (temp_name dir)) w = (t, w1)" by fastforce
  have same1: "same_files dir w w1"
    using state_io_rel_run [OF eff_CreateTemp, of "lasting dir" "temp_name dir" w] t by (auto simp: lasting_def)
  have both: "(\<forall>q. lasting dir q \<longrightarrow> q \<noteq> ?path \<longrightarrow> dw_files w' q = dw_files w q) \<and>
    dw_files w' ?path \<in> (if r = Inr () then {Some (data, perm)}
      else if dw_crashed w' then {dw_files w ?path, Some (data, perm)} else {dw_files w ?path})"
  proof (cases t)
    case (Inl e)
    then show ?thesis using run t same1 path by (auto simp: atomicWrite_def run_attempt keeps_def)
  next
    case (Inr tmp)
    have tmp: "\<not> lasting dir tmp" "dw_files w1 tmp = Some ([], mode600)"
      using CreateTemp_cases [OF t [unfolded Inr]] by (auto simp: lasting_def)
    define body where "body = attempt (write_file tmp data) (\<lambda>e. do { _ \<leftarrow> close_file; ret (Inl e) }) (\<lambda>_.
        attempt (chmod_file tmp perm) (\<lambda>e. do { _ \<leftarrow> close_file; ret (Inl e) }) (\<lambda>_.
        attempt close_file (\<lambda>e. ret (Inl e)) (\<lambda>_. rename_file tmp ?path)))"
    obtain s w2 where s: "run_state body w1 = (s, w2)" by fastforce
    obtain x w3 where x: "run_state (remove_file tmp) w2 = (x, w3)" by fastforce
    have "r = s" "w' = w3"
      using run t Inr s x by (auto simp: atomicWrite_def run_attempt then_remove_def body_def)
    moreover have "same_files dir w2 w3"
      using state_io_rel_run [OF eff_file_ops(1), of "lasting dir" tmp w2] tmp x by simp
    moreover have "dw_crashed w3 \<or> \<not> dw_crashed w2"
      using x by (auto simp: remove_file_def run_atomic_op split: io.splits if_splits)
    ultimately show ?thesis
      using atomicWrite_body [OF _ _ path s [unfolded body_def]] tmp same1 path
      by (auto simp: keeps_def split: if_splits)
  qed
  then show "\<forall>q. lasting dir q \<longrightarrow> q \<noteq> ?path \<longrightarrow> dw_files w' q = dw_files w q"
    and "dw_files w' ?path \<in> (if r = Inr () then {Some (data, perm)}
      else if dw_crashed w' then {dw_files w ?path, Some (data, perm)} else {dw_files w ?path})" by simp_all
qed

section \<open>What is saved is what is loaded\<close>

text \<open>Members whose values are strings, as they are indented.\<close>
definition text_members :: "(string \<times> json) list \<Rightarrow> bool" where
  "text_members ms \<longleftrightarrow> (\<forall>(k, v) \<in> set ms. valid_utf8 k \<and> (\<exists>s. v = JStr s \<and> valid_utf8 s))"

lemma p_value_space: "p_value n (CHR '' '' # s) = p_value n s"
  by (cases n) (simp_all add: skip_ws_def)

lemma skip_ws_more: "skip_ws (CHR 0x0A # s) = skip_ws s" "skip_ws (CHR '' '' # s) = skip_ws s"
  by (simp_all add: skip_ws_def)

lemma p_members_member:
  assumes "valid_utf8 k" "valid_utf8 s"
  shows "p_members (Suc (Suc n)) ([CHR 0x0A] @ ''  '' @ quote k @ '': '' @ quote s @ r) =
    (case skip_ws r of [] \<Rightarrow> None
     | e # t \<Rightarrow> if e = CHR '','' then map_option (apfst ((#) (k, JStr s))) (p_members (Suc n) t)
               else if e = CHR ''}'' then Some ([(k, JStr s)], t) else None)"
proof -
  have v: "p_value (Suc n) (CHR '' '' # quote s @ r) = Some (JStr s, r)"
    by (simp only: p_value_space p_value_str [OF assms(2)])
  show ?thesis
    by (simp add: quote_def [of k] skip_ws_more unquote_quote_body [OF assms(1)] v p_members.simps(2) [of "Suc n"]
        del: p_value.simps p_members.simps split: list.splits)
qed

lemma p_members_indent:
  "text_members ms \<Longrightarrow> ms \<noteq> [] \<Longrightarrow> Suc (length ms) \<le> n \<Longrightarrow>
     p_members n (indent_members ms @ CHR ''}'' # r) = Some (ms, r)"
proof (induction ms arbitrary: n rule: indent_members.induct)
  case (2 k v)
  then obtain s m where "v = JStr s" "valid_utf8 s" "valid_utf8 k" "n = Suc (Suc m)"
    by (cases n; cases "n - 1") (auto simp: text_members_def)
  then show ?case
    using p_members_member [of k s m "CHR 0x0A # CHR ''}'' # r"]
    by (simp add: skip_ws_more del: p_members.simps)
next
  case (3 k v m ms)
  then obtain s n' where n: "v = JStr s" "valid_utf8 s" "valid_utf8 k" "n = Suc n'" "text_members (m # ms)"
    by (cases n) (auto simp: text_members_def)
  then obtain n'' where n'': "n' = Suc n''" using "3.prems"(3) by (cases n') auto
  have "p_members n' (indent_members (m # ms) @ CHR ''}'' # r) = Some (m # ms, r)"
    using "3.IH" [of n'] n "3.prems"(3) by simp
  then show ?case
    using n n'' p_members_member [of k s n'' "CHR '','' # indent_members (m # ms) @ CHR ''}'' # r"]
    by (simp del: p_members.simps)
qed simp

text \<open>The strings of the configuration are text.\<close>
definition config_utf8 :: "DaemonConfig \<Rightarrow> bool" where
  "config_utf8 c \<longleftrightarrow> valid_utf8 (dc_ControlPlane c) \<and> valid_utf8 (dc_HostID c) \<and> valid_utf8 (dc_SigningPublicKey c)"

lemma parse_marshal_config: "config_utf8 c \<Longrightarrow> parse_json (marshal_config c) = Some (JObj (config_members c))"
proof -
  assume c: "config_utf8 c"
  let ?ms = "config_members c" and ?n = "2 * length (marshal_config c)"
  have ms: "text_members ?ms" using c by (auto simp: text_members_def config_members_def config_utf8_def intro!: valid_utf8_ascii)
  have "indent_members ?ms = CHR 0x0A # tl (indent_members ?ms)" by (simp add: config_members_def)
  then obtain t where t: "indent_members ?ms = CHR 0x0A # CHR '' '' # CHR '' '' # dquote # t"
    by (simp add: config_members_def quote_def)
  have "p_members ?n (indent_members ?ms @ CHR ''}'' # []) = Some (?ms, [])"
    by (rule p_members_indent [OF ms]) (simp_all add: config_members_def marshal_config_def)
  then show ?thesis
    by (simp add: parse_json_def marshal_config_def t skip_ws_more del: p_members.simps)
      (simp add: skip_ws_def)
qed

lemma unmarshal_marshal_config: "config_utf8 c \<Longrightarrow> unmarshal_config (marshal_config c) = Some c"
proof -
  have keys: "fold_key ''control_plane'' = ''control_plane''" "fold_key ''host_id'' = ''host_id''"
    "fold_key ''signing_public_key'' = ''signing_public_key''"
    by (simp_all add: lower_char_lower)
  assume "config_utf8 c"
  then show ?thesis
    by (simp add: unmarshal_config_def parse_marshal_config config_members_def field_def keys dec_string_def
        del: fold_key.simps)
qed

lemma ReadFile_cases:
  assumes "run_state (ReadFile path) w = (r, w')"
  shows "dw_files w' = dw_files w"
    and "r = Inl IoError \<or> r = (case dw_files w path of None \<Rightarrow> Inl NotExist | Some (b, m) \<Rightarrow> Inr b)"
  using assms
  by (auto simp: ReadFile_def close_file_def run_atomic_op split: io.splits if_splits option.splits)

text \<open>The daemon's files are not temporary.\<close>
lemma state_file_names:
  "\<not> HasPrefix ''config.json'' ''.tmp-''" "\<not> HasPrefix ''identity.key'' ''.tmp-''"
  "\<not> HasPrefix ''encryption.key'' ''.tmp-''" "\<not> HasPrefix ''cache.json'' ''.tmp-''"
  "\<not> HasPrefix ''status.json'' ''.tmp-''" "\<not> HasPrefix ''staged.json'' ''.tmp-''"
  by (simp_all add: HasPrefix_def)

text \<open>A disk on which nothing fails, and a write to it.\<close>
definition healthy :: "dworld \<Rightarrow> bool" where
  "healthy w \<longleftrightarrow> \<not> dw_crashed w \<and> (\<forall>n. dw_io w n = IoOk)"

lemma atomicWrite_healthy:
  assumes "healthy w" "dw_files w (temp_name dir (dw_temp w (dw_tick w))) = None"
  shows "fst (run_state (atomicWrite dir name data perm) w) = Inr ()"
  using assms
  by (simp add: healthy_def atomicWrite_def run_attempt CreateTemp_def run_atomic_op write_file_def file_op_def
      chmod_file_def then_remove_def remove_file_def close_file_def rename_file_def Let_def)

section \<open>Properties\<close>


text \<open>A disk with an old cache; the second operation on it stops the machine.\<close>
definition sample_disk :: dworld where
  "sample_disk = \<lparr>dw_files = (\<lambda>q. if q = ''/s/cache.json'' then Some (''old'', mode600) else None),
     dw_crashed = False, dw_clock = 0, dw_tick = 0, dw_io = (\<lambda>n. if n = 1 then IoCrash 2 else IoOk),
     dw_temp = (\<lambda>n. ''1'')\<rparr>"


definition sample_good_disk :: dworld where
  "sample_good_disk = sample_disk\<lparr>dw_files := (\<lambda>_. None), dw_io := (\<lambda>_. IoOk)\<rparr>"

lemma sample_good_disk_healthy:
  "healthy sample_good_disk" "dw_files sample_good_disk q = None"
  by (simp_all add: healthy_def sample_good_disk_def sample_disk_def)

end
