(* ===== verification/Daemon_Update.thy ===== *)
theory Daemon_Update
  imports Daemon_Store Set_Protocol
begin

text \<open>
  \<open>internal/daemon/update.go\<close> and \<open>cmd/daemon/applyupdate.go\<close>: a new build is downloaded and staged by
  the daemon, and put in place of the installed program by the privileged step before the next
  start. The reply of the release server, the reader of the archive format, SHA-256 and the run of
  a program for its version are arguments. The theorems: whatever fails and wherever the machine
  stops, a staged program is one taken from an archive with the digest the control plane gave, and
  the installed program is replaced as a whole and only by a staged program that has the recorded
  digest and reports the version.
\<close>

definition releaseRepo :: string where "releaseRepo = ''tofunmiadewuyi/custos''"
definition stagedBin :: string where "stagedBin = ''custosd.staged''"
definition stagedMeta :: string where "stagedMeta = ''staged.json''"

record StagedMeta =
  sm_Version :: string
  sm_BinSHA256 :: string

definition marshal_meta :: "StagedMeta \<Rightarrow> bytes" where
  "marshal_meta m = enc (JObj [(''version'', JStr (sm_Version m)), (''bin_sha256'', JStr (sm_BinSHA256 m))])"

definition unmarshal_meta :: "bytes \<Rightarrow> StagedMeta option" where
  "unmarshal_meta b = (case parse_json b of
     Some (JObj ms) \<Rightarrow> (case (field dec_string '''' ''version'' ms, field dec_string '''' ''bin_sha256'' ms) of
         (Some v, Some s) \<Rightarrow> Some \<lparr>sm_Version = v, sm_BinSHA256 = s\<rparr> | _ \<Rightarrow> None)
   | Some JNull \<Rightarrow> Some \<lparr>sm_Version = '''', sm_BinSHA256 = ''''\<rparr>
   | _ \<Rightarrow> None)"

definition tarballURL :: "string \<Rightarrow> string \<Rightarrow> string" where
  "tarballURL version arch = ''https://github.com/'' @ releaseRepo @ ''/releases/download/custosd/'' @ version @ ''/'' @
     ''custosd_'' @ version @ ''_linux_'' @ arch @ ''.tar.gz''"

section \<open>Staging\<close>

text \<open>The reply to a request: its status, the bytes of the body that arrive, and whether they are all of it.\<close>
type_synonym http_get = "string \<Rightarrow> (nat \<times> bytes \<times> bool) option"

text \<open>
  A gzipped tar archive as its reader gives it: the entries with their names, contents and whether
  the contents can be read to the end, and whether the list ends well.
\<close>
type_synonym archive = "bytes \<Rightarrow> ((string \<times> bytes \<times> bool) list \<times> bool) option"

text \<open>The directories of the state directory are taken to be there once \<open>os.MkdirAll\<close> succeeds.\<close>
definition mkdir_all :: "(derr + unit) daemon" where
  "mkdir_all = close_file"

definition dl_name :: "string \<Rightarrow> string \<Rightarrow> string" where
  "dl_name dir rnd = in_dir dir (''dl-'' @ rnd @ ''.tar.gz'')"

definition bin_name :: "string \<Rightarrow> string \<Rightarrow> string" where
  "bin_name dir rnd = in_dir dir (''bin-'' @ rnd)"

text \<open>\<open>tmp.Close()\<close>, \<open>os.Remove(tmp.Name())\<close> and the return of an error.\<close>
definition give_up :: "string \<Rightarrow> derr \<Rightarrow> (derr + 'a) daemon" where
  "give_up tmp e = do { _ \<leftarrow> close_file; _ \<leftarrow> remove_file tmp; ret (Inl e) }"

definition download :: "(bytes \<Rightarrow> bytes) \<Rightarrow> http_get \<Rightarrow> string \<Rightarrow> string \<Rightarrow> string \<Rightarrow> (derr + string) daemon" where
  "download sha256 http updateDir url want = (case http url of None \<Rightarrow> ret (Inl IoError)
     | Some (status, body, whole) \<Rightarrow>
         if status \<noteq> 200 then ret (Inl BadData)
         else attempt (CreateTemp (dl_name updateDir)) (\<lambda>e. ret (Inl e)) (\<lambda>tmp.
           attempt (write_file tmp body) (give_up tmp) (\<lambda>_.
           if \<not> whole then give_up tmp IoError
           else do {
             _ \<leftarrow> close_file;
             if hex_encode (sha256 body) \<noteq> want then do { _ \<leftarrow> remove_file tmp; ret (Inl BadData) }
             else ret (Inr tmp)
           })))"

text \<open>The loop over the entries of the archive.\<close>
fun extract_from :: "(bytes \<Rightarrow> bytes) \<Rightarrow> string \<Rightarrow> (string \<times> bytes \<times> bool) list \<Rightarrow> (derr + string \<times> string) daemon" where
  "extract_from sha256 updateDir [] = ret (Inl BadData)"
| "extract_from sha256 updateDir ((name, body, whole) # entries) =
     (if name \<noteq> ''custosd'' then extract_from sha256 updateDir entries
      else attempt (CreateTemp (bin_name updateDir)) (\<lambda>e. ret (Inl e)) (\<lambda>out.
        attempt (write_file out body) (give_up out) (\<lambda>_.
        if \<not> whole then give_up out IoError
        else do {
          _ \<leftarrow> close_file;
          attempt (chmod_file out mode755) (\<lambda>e. do { _ \<leftarrow> remove_file out; ret (Inl e) }) (\<lambda>_.
          ret (Inr (out, hex_encode (sha256 body))))
        })))"

definition extractBinary :: "(bytes \<Rightarrow> bytes) \<Rightarrow> archive \<Rightarrow> string \<Rightarrow> string \<Rightarrow> (derr + string \<times> string) daemon" where
  "extractBinary sha256 untar updateDir tarPath = attempt (ReadFile tarPath) (\<lambda>e. ret (Inl e)) (\<lambda>b.
     case untar b of None \<Rightarrow> ret (Inl BadData) | Some (entries, _) \<Rightarrow> extract_from sha256 updateDir entries)"

definition stageUpgradeFrom :: "(bytes \<Rightarrow> bytes) \<Rightarrow> http_get \<Rightarrow> archive \<Rightarrow> string \<Rightarrow> string \<Rightarrow> Upgrade \<Rightarrow> string \<Rightarrow> (derr + unit) daemon" where
  "stageUpgradeFrom sha256 http untar arch updateDir up url =
     (case map_of (up_SHA256 up) arch of None \<Rightarrow> ret (Inl BadData)
      | Some want \<Rightarrow> if want = '''' then ret (Inl BadData) else
          attempt mkdir_all (\<lambda>e. ret (Inl e)) (\<lambda>_.
          attempt (download sha256 http updateDir url want) (\<lambda>e. ret (Inl e)) (\<lambda>tarPath. then_remove tarPath (
          attempt (extractBinary sha256 untar updateDir tarPath) (\<lambda>e. ret (Inl e)) (\<lambda>(binTmp, binSHA). then_remove binTmp (
          attempt (atomicWrite updateDir stagedMeta (marshal_meta \<lparr>sm_Version = up_Version up, sm_BinSHA256 = binSHA\<rparr>) mode600)
            (\<lambda>e. ret (Inl e)) (\<lambda>_. rename_file binTmp (in_dir updateDir stagedBin))))))))"

definition stageUpgrade :: "(bytes \<Rightarrow> bytes) \<Rightarrow> http_get \<Rightarrow> archive \<Rightarrow> string \<Rightarrow> string \<Rightarrow> Upgrade \<Rightarrow> (derr + unit) daemon" where
  "stageUpgrade sha256 http untar arch updateDir up =
     stageUpgradeFrom sha256 http untar arch updateDir up (tarballURL (up_Version up) arch)"

section \<open>Putting a staged build in place\<close>

definition installBin :: string where "installBin = ''/usr/local/bin/custosd''"

definition readMeta :: "string \<Rightarrow> (derr + StagedMeta) daemon" where
  "readMeta path = attempt (ReadFile path) (\<lambda>e. ret (Inl e))
     (\<lambda>b. ret (case unmarshal_meta b of None \<Rightarrow> Inl BadData | Some m \<Rightarrow> Inr m))"

definition fileSHA256 :: "(bytes \<Rightarrow> bytes) \<Rightarrow> string \<Rightarrow> (derr + string) daemon" where
  "fileSHA256 sha256 path = attempt (ReadFile path) (\<lambda>e. ret (Inl e)) (\<lambda>b. ret (Inr (hex_encode (sha256 b))))"

text \<open>\<open>run b\<close> is the output of the program \<open>b\<close> asked for its version, if it ends well.\<close>
definition smokeTest :: "(bytes \<Rightarrow> string option) \<Rightarrow> string \<Rightarrow> string \<Rightarrow> (derr + unit) daemon" where
  "smokeTest run bin want = attempt (ReadFile bin) (\<lambda>e. ret (Inl e)) (\<lambda>b. ret (case run b of
     None \<Rightarrow> Inl IoError | Some out \<Rightarrow> if Contains out want then Inr () else Inl BadData))"

text \<open>\<open>os.OpenFile\<close> to create or truncate: the mode is that of a new file only.\<close>
definition open_trunc :: "string \<Rightarrow> nat \<Rightarrow> (derr + unit) daemon" where
  "open_trunc path perm = atomic_op (\<lambda>fs. fs(path \<mapsto> ([], case fs path of None \<Rightarrow> perm | Some (b, m) \<Rightarrow> m)))"

definition copyFile :: "string \<Rightarrow> string \<Rightarrow> nat \<Rightarrow> (derr + unit) daemon" where
  "copyFile src dest perm = attempt (stat_file src) (\<lambda>e. ret (Inl e)) (\<lambda>_.
     attempt (open_trunc dest perm) (\<lambda>e. ret (Inl e)) (\<lambda>_.
     attempt (attempt (ReadFile src) (\<lambda>e. ret (Inl e)) (write_file dest)) (\<lambda>e. do { _ \<leftarrow> close_file; ret (Inl e) }) (\<lambda>_.
     attempt close_file (\<lambda>e. ret (Inl e)) (\<lambda>_. chmod_file dest perm))))"

definition replaceExecutable :: "string \<Rightarrow> string \<Rightarrow> (derr + unit) daemon" where
  "replaceExecutable src dest = (let tmp = dest @ ''.new'' in
     attempt (copyFile src tmp mode755) (\<lambda>e. ret (Inl e)) (\<lambda>_.
     attempt (rename_file tmp dest) (\<lambda>e. do { _ \<leftarrow> remove_file tmp; ret (Inl e) }) (\<lambda>_. ret (Inr ()))))"

definition discardStaged :: "string \<Rightarrow> string \<Rightarrow> unit daemon" where
  "discardStaged staged meta = do { _ \<leftarrow> remove_file staged; _ \<leftarrow> remove_file meta; ret () }"

datatype apply_result = NothingStaged | NotRoot | Discarded | SwapFailed | Applied string

definition cmdApplyUpdate :: "(bytes \<Rightarrow> bytes) \<Rightarrow> (bytes \<Rightarrow> string option) \<Rightarrow> nat \<Rightarrow> string \<Rightarrow> apply_result daemon" where
  "cmdApplyUpdate sha256 run euid dir =
     (let updateDir = in_dir dir ''update''; staged = in_dir updateDir ''custosd.staged''; metaPath = in_dir updateDir ''staged.json'';
          discard = do { _ \<leftarrow> discardStaged staged metaPath; ret Discarded } in
      do {
        st \<leftarrow> stat_file staged;
        if st = Inl NotExist then ret NothingStaged
        else if euid \<noteq> 0 then ret NotRoot
        else attempt (readMeta metaPath) (\<lambda>_. discard) (\<lambda>meta.
             attempt (fileSHA256 sha256 staged) (\<lambda>_. discard) (\<lambda>sum.
             if sum \<noteq> sm_BinSHA256 meta then discard
             else attempt (smokeTest run staged (sm_Version meta)) (\<lambda>_. discard) (\<lambda>_. do {
               _ \<leftarrow> copyFile installBin (installBin @ ''.prev'') mode755;
               attempt (replaceExecutable staged installBin) (\<lambda>_. ret SwapFailed) (\<lambda>_. do {
                 _ \<leftarrow> remove_file staged;
                 _ \<leftarrow> remove_file metaPath;
                 ret (Applied (sm_Version meta))
               })
             })))
      })"

section \<open>Replacing the program\<close>

lemma ReadFile_ok:
  "run_state (ReadFile path) w = (Inr b, w') \<Longrightarrow> dw_files w' = dw_files w \<and> (\<exists>m. dw_files w path = Some (b, m))"
  using ReadFile_cases [of path w "Inr b" w'] by (auto split: option.splits)

lemma stat_files: "dw_files (snd (run_state (stat_file path) w)) = dw_files w"
  using state_io_rel_run [OF eff_read_ops(2), of "\<lambda>_. True"] by (auto simp: keeps_def fun_eq_iff)

lemma read_files: "dw_files (snd (run_state (ReadFile path) w)) = dw_files w"
  using state_io_rel_run [OF eff_read_ops(1), of "\<lambda>_. True"] by (auto simp: keeps_def fun_eq_iff)

lemma eff_open_trunc [file_ops]: "\<not> P path \<Longrightarrow> state_io_rel (keeps P) (open_trunc path perm)"
  unfolding open_trunc_def by (auto simp: state_io_rel_def keeps_def run_atomic_op split: io.splits)

lemma eff_copyFile [file_ops]: "\<not> P dest \<Longrightarrow> state_io_rel (keeps P) (copyFile src dest perm)"
  unfolding copyFile_def by (auto intro!: eff file_ops)

lemma write_ok: "run_state (write_file path data) w = (Inr (), w') \<Longrightarrow>
    dw_files w' = (dw_files w)(path := map_option (\<lambda>(b, m). (b @ data, m)) (dw_files w path))"
  by (auto simp: write_file_def file_op_def Let_def split: io.splits if_splits)

lemma chmod_ok: "run_state (chmod_file path mode) w = (Inr (), w') \<Longrightarrow>
    dw_files w' = (dw_files w)(path := map_option (\<lambda>(b, m). (b, mode)) (dw_files w path))"
  by (auto simp: chmod_file_def run_atomic_op split: io.splits if_splits)

lemma trunc_ok: "run_state (open_trunc path perm) w = (Inr (), w') \<Longrightarrow> \<exists>m. dw_files w' = (dw_files w)(path \<mapsto> ([], m))"
  by (auto simp: open_trunc_def run_atomic_op split: io.splits if_splits)

lemma close_files: "dw_files (snd (run_state close_file w)) = dw_files w"
  by (auto simp: close_file_def run_atomic_op split: io.splits)

lemma attempt_Inr:
  assumes "run_state (attempt m (\<lambda>e. h e) f) w = (Inr y, w')" and "\<And>e w1. fst (run_state (h e) w1) \<noteq> Inr y"
  shows "\<exists>x w1. run_state m w = (Inr x, w1) \<and> run_state (f x) w1 = (Inr y, w')"
  using assms by (auto simp: run_attempt split: sum.splits prod.splits) (metis fst_conv)

lemma run_then_ret [simp]: "fst (run_state (do { _ \<leftarrow> m; ret x }) w) = x"
  by (simp split: prod.splits)

lemma copyFile_ok:
  assumes run: "run_state (copyFile src dest perm) w = (Inr (), w')" and "src \<noteq> dest"
  shows "\<exists>b m. dw_files w src = Some (b, m) \<and> dw_files w' = (dw_files w)(dest \<mapsto> (b, perm))"
proof -
  obtain x1 w1 where 1: "run_state (stat_file src) w = (Inr x1, w1)"
    and r1: "run_state (attempt (open_trunc dest perm) (\<lambda>e. ret (Inl e)) (\<lambda>_.
       attempt (attempt (ReadFile src) (\<lambda>e. ret (Inl e)) (write_file dest)) (\<lambda>e. do { _ \<leftarrow> close_file; ret (Inl e) }) (\<lambda>_.
       attempt close_file (\<lambda>e. ret (Inl e)) (\<lambda>_. chmod_file dest perm)))) w1 = (Inr (), w')"
    using attempt_Inr [OF run [unfolded copyFile_def]] by auto
  obtain w2 where 2: "run_state (open_trunc dest perm) w1 = (Inr (), w2)"
    and r2: "run_state (attempt (attempt (ReadFile src) (\<lambda>e. ret (Inl e)) (write_file dest)) (\<lambda>e. do { _ \<leftarrow> close_file; ret (Inl e) }) (\<lambda>_.
       attempt close_file (\<lambda>e. ret (Inl e)) (\<lambda>_. chmod_file dest perm))) w2 = (Inr (), w')"
    using attempt_Inr [OF r1] by auto
  obtain w3 where 3: "run_state (attempt (ReadFile src) (\<lambda>e. ret (Inl e)) (write_file dest)) w2 = (Inr (), w3)"
    and r3: "run_state (attempt close_file (\<lambda>e. ret (Inl e)) (\<lambda>_. chmod_file dest perm)) w3 = (Inr (), w')"
    using attempt_Inr [OF r2] by (auto simp del: run_state_bind)
  obtain b w4 where 4: "run_state (ReadFile src) w2 = (Inr b, w4)" "run_state (write_file dest b) w4 = (Inr (), w3)"
    using attempt_Inr [OF 3] by auto
  obtain w5 where 5: "run_state close_file w3 = (Inr (), w5)" "run_state (chmod_file dest perm) w5 = (Inr (), w')"
    using attempt_Inr [OF r3] by auto
  show ?thesis
    using stat_files [of src w] trunc_ok [OF 2] ReadFile_ok [OF 4(1)] write_ok [OF 4(2)] close_files [of w3] chmod_ok [OF 5(2)]
      assms(2) 1 5(1) by auto
qed

lemma replaceExecutable_cases:
  assumes run: "run_state (replaceExecutable src dest) w = (r, w')" and ne: "src \<noteq> dest" "src \<noteq> dest @ ''.new''"
  shows "r \<noteq> Inr () \<Longrightarrow> dw_files w' dest = dw_files w dest \<or> dw_crashed w' \<and> (\<exists>b m. dw_files w src = Some (b, m) \<and> dw_files w' dest = Some (b, mode755))"
    and "r = Inr () \<Longrightarrow> \<exists>b m. dw_files w src = Some (b, m) \<and> dw_files w' dest = Some (b, mode755)"
proof -
  let ?tmp = "dest @ ''.new''"
  obtain c w1 where c: "run_state (copyFile src ?tmp mode755) w = (c, w1)" by fastforce
  have old: "dw_files w1 dest = dw_files w dest"
    using state_io_rel_run [OF eff_copyFile [of "\<lambda>q. q = dest" ?tmp src mode755], of w] c by (simp add: keeps_def)
  have new: "\<exists>b m. dw_files w src = Some (b, m) \<and> dw_files w1 ?tmp = Some (b, mode755)" if "c = Inr ()"
    using copyFile_ok [OF c [unfolded that]] ne(2) by auto
  note defs = replaceExecutable_def Let_def run_attempt c rename_file_def remove_file_def run_atomic_op
  show "dw_files w' dest = dw_files w dest \<or> dw_crashed w' \<and> (\<exists>b m. dw_files w src = Some (b, m) \<and> dw_files w' dest = Some (b, mode755))"
    if "r \<noteq> Inr ()"
    using run that old new by (cases c) (auto simp: defs split: io.splits if_splits)
  show "\<exists>b m. dw_files w src = Some (b, m) \<and> dw_files w' dest = Some (b, mode755)" if "r = Inr ()"
    using run that new by (cases c) (auto simp: defs split: io.splits if_splits)
qed

text \<open>The paths of the update are apart.\<close>
lemma update_paths:
  "in_dir d stagedBin \<noteq> installBin" "in_dir d stagedBin \<noteq> installBin @ ''.new''" "in_dir d stagedBin \<noteq> installBin @ ''.prev''"
  "in_dir d stagedMeta \<noteq> installBin" "in_dir d stagedMeta \<noteq> in_dir d stagedBin"
  "installBin \<noteq> installBin @ ''.prev''"
proof -
  have "last8 x \<noteq> last8 y \<Longrightarrow> x \<noteq> y" for x y :: string and last8 :: "string \<Rightarrow> string" by auto
  note r = this [of "\<lambda>s. take 8 (rev s)"]
  show "in_dir d stagedBin \<noteq> installBin" "in_dir d stagedBin \<noteq> installBin @ ''.new''" "in_dir d stagedBin \<noteq> installBin @ ''.prev''"
    "in_dir d stagedMeta \<noteq> installBin"
    by (rule r, simp add: in_dir_def stagedBin_def stagedMeta_def installBin_def)+
qed (simp_all add: in_dir_def stagedBin_def stagedMeta_def)

text \<open>What the privileged step requires of the staged program \<open>b\<close>.\<close>
definition passes :: "(bytes \<Rightarrow> bytes) \<Rightarrow> (bytes \<Rightarrow> string option) \<Rightarrow> StagedMeta \<Rightarrow> bytes \<Rightarrow> bool" where
  "passes sha256 run meta b \<longleftrightarrow> hex_encode (sha256 b) = sm_BinSHA256 meta \<and>
     (\<exists>out. run b = Some out \<and> Contains out (sm_Version meta))"

definition swapped :: "string \<Rightarrow> (bytes \<Rightarrow> bytes) \<Rightarrow> (bytes \<Rightarrow> string option) \<Rightarrow> dworld \<Rightarrow> dworld \<Rightarrow> StagedMeta \<Rightarrow> bool" where
  "swapped d sha256 run w w' meta \<longleftrightarrow> (\<exists>b m mb mm.
     dw_files w (in_dir d stagedBin) = Some (b, m) \<and> dw_files w (in_dir d stagedMeta) = Some (mb, mm) \<and>
     unmarshal_meta mb = Some meta \<and> passes sha256 run meta b \<and> dw_files w' installBin = Some (b, mode755))"

lemma discard_keeps: "dw_files (snd (run_state (discardStaged (in_dir d stagedBin) (in_dir d stagedMeta)) w)) installBin = dw_files w installBin"
proof -
  have "state_io_rel (keeps (\<lambda>q. q = installBin)) (discardStaged (in_dir d stagedBin) (in_dir d stagedMeta))"
    unfolding discardStaged_def using update_paths by (intro eff file_ops) simp_all
  from state_io_rel_run [OF this] show ?thesis by (simp add: keeps_def)
qed

lemma swap_cases:
  assumes run: "run_state (do { _ \<leftarrow> copyFile installBin (installBin @ ''.prev'') mode755;
       attempt (replaceExecutable (in_dir d stagedBin) installBin) (\<lambda>_. ret SwapFailed) (\<lambda>_. do {
         _ \<leftarrow> remove_file (in_dir d stagedBin); _ \<leftarrow> remove_file (in_dir d stagedMeta); ret (Applied v) }) }) w = (r, w')"
  shows "(r = Applied v \<or> r = SwapFailed) \<and>
     (dw_files w' installBin = dw_files w installBin \<and> r = SwapFailed \<or>
      (\<exists>b m. dw_files w (in_dir d stagedBin) = Some (b, m) \<and> dw_files w' installBin = Some (b, mode755)) \<and>
      (r = SwapFailed \<longrightarrow> dw_crashed w'))"
proof -
  let ?S = "in_dir d stagedBin" and ?M = "in_dir d stagedMeta"
  obtain c w1 where c: "run_state (copyFile installBin (installBin @ ''.prev'') mode755) w = (c, w1)" by fastforce
  have same: "dw_files w1 ?S = dw_files w ?S" "dw_files w1 installBin = dw_files w installBin"
    using state_io_rel_run [OF eff_copyFile [of "\<lambda>q. q \<noteq> installBin @ ''.prev''" "installBin @ ''.prev''" installBin mode755], of w]
      c update_paths(3) [of d] update_paths(6) by (auto simp: keeps_def)
  obtain x w2 where x: "run_state (replaceExecutable ?S installBin) w1 = (x, w2)" by fastforce
  note cases = replaceExecutable_cases [OF x update_paths(1,2)]
  show ?thesis
  proof (cases x)
    case (Inl e)
    then show ?thesis using run c x cases(1) same by (auto simp: run_attempt)
  next
    case (Inr u)
    obtain y w3 where y: "run_state (remove_file ?S) w2 = (y, w3)" by fastforce
    obtain z w4 where z: "run_state (remove_file ?M) w3 = (z, w4)" by fastforce
    have "dw_files w4 installBin = dw_files w2 installBin"
      using state_io_rel_run [OF eff_file_ops(1) [of "\<lambda>q. q = installBin" ?S], of w2] y
        state_io_rel_run [OF eff_file_ops(1) [of "\<lambda>q. q = installBin" ?M], of w3] z update_paths(1,4) [of d]
      by (auto simp: keeps_def)
    then show ?thesis using Inr run c x y z cases(2) same by (auto simp: run_attempt)
  qed
qed

lemma checks_ok:
  "run_state (readMeta path) w = (x, w') \<Longrightarrow> dw_files w' = dw_files w \<and>
     (\<forall>meta. x = Inr meta \<longrightarrow> (\<exists>b m. dw_files w path = Some (b, m) \<and> unmarshal_meta b = Some meta))"
  "run_state (fileSHA256 sha256 path) w = (y, w') \<Longrightarrow> dw_files w' = dw_files w \<and>
     (\<forall>s. y = Inr s \<longrightarrow> (\<exists>b m. dw_files w path = Some (b, m) \<and> hex_encode (sha256 b) = s))"
  "run_state (smokeTest run path v) w = (z, w') \<Longrightarrow> dw_files w' = dw_files w \<and>
     (z = Inr () \<longrightarrow> (\<exists>b m out. dw_files w path = Some (b, m) \<and> run b = Some out \<and> Contains out v))"
  unfolding readMeta_def fileSHA256_def smokeTest_def using read_files [of path w]
  by (auto simp: run_attempt split: sum.splits prod.splits option.splits if_splits dest!: ReadFile_ok)

lemma apply_update_cases:
  assumes "run_state (cmdApplyUpdate sha256 run euid dir) w = (r, w')"
  shows "dw_files w' installBin = dw_files w installBin \<and> (\<forall>v. r \<noteq> Applied v) \<or>
     euid = 0 \<and> (\<exists>meta. swapped (in_dir dir ''update'') sha256 run w w' meta \<and>
       (r = Applied (sm_Version meta) \<or> r = SwapFailed \<and> dw_crashed w'))"
proof -
  let ?d = "in_dir dir ''update''"
  let ?S = "in_dir ?d stagedBin" and ?M = "in_dir ?d stagedMeta"
  obtain st w0 where st: "run_state (stat_file ?S) w = (st, w0)" by fastforce
  have f0: "dw_files w0 = dw_files w" using stat_files [of ?S w] st by simp
  obtain x w1 where x: "run_state (readMeta ?M) w0 = (x, w1)" by fastforce
  obtain y w2 where y: "run_state (fileSHA256 sha256 ?S) w1 = (y, w2)" by fastforce
  note paths = stagedBin_def [symmetric] stagedMeta_def [symmetric]
  note run = assms [unfolded cmdApplyUpdate_def Let_def paths]
  note xs = checks_ok(1) [OF x] and ys = checks_ok(2) [OF y]
  note dis = discard_keeps [of ?d]
  show ?thesis
  proof (cases "st = Inl NotExist \<or> euid \<noteq> 0 \<or> (\<exists>e. x = Inl e) \<or> (\<exists>e. y = Inl e)")
    case True
    then show ?thesis using run st x y f0 xs ys dis [of w1] dis [of w2]
      by (auto simp: run_attempt split: if_splits prod.splits sum.splits)
  next
    case False
    then obtain meta sum where xy: "x = Inr meta" "y = Inr sum" "st \<noteq> Inl NotExist" "euid = 0"
      by (cases x; cases y) auto
    obtain z w3 where z: "run_state (smokeTest run ?S (sm_Version meta)) w2 = (z, w3)" by fastforce
    note zs = checks_ok(3) [OF z]
    show ?thesis
    proof (cases "sum = sm_BinSHA256 meta \<and> z = Inr ()")
      case False
      then show ?thesis using run st x y z xy f0 xs ys zs dis [of w2] dis [of w3]
        by (cases z) (auto simp: run_attempt split: if_splits prod.splits)
    next
      case True
      have sw: "run_state (do { _ \<leftarrow> copyFile installBin (installBin @ ''.prev'') mode755;
          attempt (replaceExecutable ?S installBin) (\<lambda>_. ret SwapFailed) (\<lambda>_. do {
          _ \<leftarrow> remove_file ?S; _ \<leftarrow> remove_file ?M; ret (Applied (sm_Version meta)) }) }) w3 = (r, w')"
        using run st x y z xy True by (simp add: run_attempt del: run_state_bind) (simp add: run_attempt)
      show ?thesis using swap_cases [OF sw] xy f0 xs ys zs True
        by (auto simp: swapped_def passes_def)
    qed
  qed
qed

section \<open>What is staged\<close>

text \<open>The files staging works on besides its two results.\<close>
definition scratch :: "string \<Rightarrow> string \<Rightarrow> bool" where
  "scratch d q \<longleftrightarrow> (\<exists>rnd. q = dl_name d rnd \<or> q = bin_name d rnd \<or> q = temp_name d rnd)"

lemma scratch_names [simp]: "scratch d (dl_name d rnd)" "scratch d (bin_name d rnd)" "scratch d (temp_name d rnd)"
  by (auto simp: scratch_def)

lemma staged_not_scratch [simp]: "\<not> scratch d (in_dir d stagedBin)" "\<not> scratch d (in_dir d stagedMeta)"
  by (auto simp: scratch_def dl_name_def bin_name_def temp_name_def in_dir_def stagedBin_def stagedMeta_def)

lemma eff_give_up [file_ops]: "\<not> P tmp \<Longrightarrow> state_io_rel (keeps P) (give_up tmp e)"
  unfolding give_up_def by (intro eff file_ops)

lemma eff_download [file_ops]: "(\<And>rnd. \<not> P (dl_name d rnd)) \<Longrightarrow> state_io_rel (keeps P) (download sha256 http d url want)"
  unfolding download_def
  by (intro eff eff_option eff_prod eff_if kf.eff_return eff_with_temp) (auto intro!: eff file_ops)

lemma eff_extract [file_ops]:
  assumes "\<And>rnd. \<not> P (bin_name d rnd)" shows "state_io_rel (keeps P) (extract_from sha256 d entries)"
proof (induction entries)
  case (Cons e entries)
  obtain name body whole where e: "e = (name, body, whole)" by (cases e)
  show ?case unfolding e extract_from.simps using Cons assms
    by (intro eff_if eff_with_temp) (auto intro!: eff file_ops)
qed (simp add: kf.eff_return)

lemma give_up_Inl: "fst (run_state (give_up tmp e) w) \<noteq> Inr x"
  by (simp add: give_up_def split: prod.splits)

lemma download_ok:
  assumes run: "run_state (download sha256 http d url want) w = (Inr tmp, w')"
  shows "\<exists>body rnd. http url = Some (200, body, True) \<and> hex_encode (sha256 body) = want \<and> tmp = dl_name d rnd \<and>
     dw_files w' = (dw_files w)(tmp \<mapsto> (body, mode600))"
proof -
  obtain body whole where h: "http url = Some (200, body, whole)"
    using run by (auto simp: download_def split: option.splits prod.splits if_splits)
  define rest where "rest = (\<lambda>tmp :: string. \<lambda>_ :: unit. if \<not> whole then give_up tmp IoError
     else do { _ \<leftarrow> close_file; if hex_encode (sha256 body) \<noteq> want then do { _ \<leftarrow> remove_file tmp; ret (Inl BadData) } else ret (Inr tmp) })"
  have r0: "run_state (attempt (CreateTemp (dl_name d)) (\<lambda>e. ret (Inl e)) (\<lambda>tmp.
      attempt (write_file tmp body) (give_up tmp) (rest tmp))) w = (Inr tmp, w')"
    using run by (simp add: download_def h rest_def)
  obtain t w1 where t: "run_state (CreateTemp (dl_name d)) w = (Inr t, w1)"
    and r1: "run_state (attempt (write_file t body) (give_up t) (rest t)) w1 = (Inr tmp, w')"
    using attempt_Inr [OF r0] by auto
  obtain w2 where 2: "run_state (write_file t body) w1 = (Inr (), w2)" and r2: "run_state (rest t ()) w2 = (Inr tmp, w')"
    using attempt_Inr [OF r1 give_up_Inl] by auto
  have "whole" "hex_encode (sha256 body) = want" "tmp = t" "dw_files w' = dw_files w2"
    using r2 give_up_Inl [of t IoError w2 tmp] close_files [of w2]
    by (auto simp: rest_def split: if_splits prod.splits)
  then show ?thesis using h CreateTemp_cases [OF t] write_ok [OF 2] by auto
qed

lemma extract_ok:
  assumes "run_state (extract_from sha256 d entries) w = (Inr (out, dig), w')"
  shows "\<exists>b rnd. (''custosd'', b, True) \<in> set entries \<and> hex_encode (sha256 b) = dig \<and> out = bin_name d rnd \<and>
     dw_files w' = (dw_files w)(out \<mapsto> (b, mode755))"
  using assms
proof (induction entries)
  case (Cons e entries)
  obtain name body whole where e: "e = (name, body, whole)" by (cases e)
  show ?case
  proof (cases "name = ''custosd''")
    case False
    then show ?thesis using Cons e by auto
  next
    case True
    define rest where "rest = (\<lambda>out :: string. \<lambda>_ :: unit. if \<not> whole then give_up out IoError
       else do { _ \<leftarrow> close_file; attempt (chmod_file out mode755) (\<lambda>e. do { _ \<leftarrow> remove_file out; ret (Inl e) }) (\<lambda>_.
          ret (Inr (out, hex_encode (sha256 body)))) })"
    have r0: "run_state (attempt (CreateTemp (bin_name d)) (\<lambda>e. ret (Inl e)) (\<lambda>out.
        attempt (write_file out body) (give_up out) (rest out))) w = (Inr (out, dig), w')"
      using Cons.prems by (simp add: e True rest_def)
    obtain t w1 where t: "run_state (CreateTemp (bin_name d)) w = (Inr t, w1)"
      and r1: "run_state (attempt (write_file t body) (give_up t) (rest t)) w1 = (Inr (out, dig), w')"
      using attempt_Inr [OF r0] by auto
    obtain w2 where 2: "run_state (write_file t body) w1 = (Inr (), w2)" and r2: "run_state (rest t ()) w2 = (Inr (out, dig), w')"
      using attempt_Inr [OF r1 give_up_Inl] by auto
    obtain c w3 where c: "run_state close_file w2 = (c, w3)" by fastforce
    have whole: "whole" using r2 give_up_Inl [of t IoError w2 "(out, dig)"] by (cases whole) (simp_all add: rest_def)
    have r3: "run_state (attempt (chmod_file t mode755) (\<lambda>e. do { _ \<leftarrow> remove_file t; ret (Inl e) }) (\<lambda>_.
          ret (Inr (t, hex_encode (sha256 body))))) w3 = (Inr (out, dig), w')"
      using r2 c whole by (simp add: rest_def)
    have ne: "fst (run_state (do { _ \<leftarrow> remove_file t; ret (Inl e) }) v) \<noteq> Inr (out, dig)" for e :: derr and v
      by (simp del: run_state_bind)
    obtain u w4 where u: "run_state (chmod_file t mode755) w3 = (Inr u, w4)"
      "run_state (ret (Inr (t, hex_encode (sha256 body)))) w4 = (Inr (out, dig) :: derr + string \<times> string, w')"
      using attempt_Inr [OF r3 ne] by blast
    then have last: "run_state (chmod_file t mode755) w3 = (Inr (), w4)" "out = t" "dig = hex_encode (sha256 body)" "w' = w4"
      by simp_all
    have "dw_files w' = (dw_files w)(t \<mapsto> (body, mode755))"
      using chmod_ok [OF last(1)] CreateTemp_cases(4) [OF t] write_ok [OF 2] close_files [of w2] c last(4) by simp
    then show ?thesis using whole True e CreateTemp_cases(1) [OF t] last(2,3) by auto
  qed
qed simp

text \<open>A program taken from an archive with the digest the control plane gave for this architecture.\<close>
definition genuine :: "(bytes \<Rightarrow> bytes) \<Rightarrow> http_get \<Rightarrow> archive \<Rightarrow> string \<Rightarrow> Upgrade \<Rightarrow> bytes \<Rightarrow> bool" where
  "genuine sha256 http untar arch up b \<longleftrightarrow> (\<exists>want body entries fin.
     map_of (up_SHA256 up) arch = Some want \<and> want \<noteq> '''' \<and>
     http (tarballURL (up_Version up) arch) = Some (200, body, True) \<and> hex_encode (sha256 body) = want \<and>
     untar body = Some (entries, fin) \<and> (''custosd'', b, True) \<in> set entries)"

definition staged_meta :: "(bytes \<Rightarrow> bytes) \<Rightarrow> Upgrade \<Rightarrow> bytes \<Rightarrow> StagedMeta" where
  "staged_meta sha256 up b = \<lparr>sm_Version = up_Version up, sm_BinSHA256 = hex_encode (sha256 b)\<rparr>"

text \<open>The last two steps, once the program is in its temporary file.\<close>
lemma publish_cases:
  assumes run: "run_state (attempt (atomicWrite d stagedMeta data mode600) (\<lambda>e. ret (Inl e))
      (\<lambda>_. rename_file t (in_dir d stagedBin))) w = (r, w')"
    and t: "t = bin_name d rnd" "dw_files w t = Some (b, m)"
  shows "dw_files w' (in_dir d stagedBin) = dw_files w (in_dir d stagedBin) \<and> r \<noteq> Inr () \<or>
    dw_files w' (in_dir d stagedBin) = Some (b, m) \<and> dw_files w' (in_dir d stagedMeta) = Some (data, mode600) \<and>
    (r \<noteq> Inr () \<longrightarrow> dw_crashed w')"
proof -
  obtain x w1 where x: "run_state (atomicWrite d stagedMeta data mode600) w = (x, w1)" by fastforce
  note aw = atomicWrite_cases [OF state_file_names(6), folded stagedMeta_def, OF x]
  have l: "lasting d (in_dir d stagedBin)" "lasting d t"
    by (auto simp: t lasting_def temp_name_def in_dir_def stagedBin_def bin_name_def)
  have ne: "t \<noteq> in_dir d stagedMeta" "t \<noteq> in_dir d stagedBin" "in_dir d stagedBin \<noteq> in_dir d stagedMeta"
    by (auto simp: t in_dir_def stagedMeta_def stagedBin_def bin_name_def)
  have k: "dw_files w1 (in_dir d stagedBin) = dw_files w (in_dir d stagedBin)" "dw_files w1 t = Some (b, m)"
    using aw(1) l ne t(2) by simp_all
  show ?thesis
  proof (cases x)
    case (Inl e)
    then show ?thesis using run x k by (auto simp: run_attempt)
  next
    case (Inr u)
    then have "dw_files w1 (in_dir d stagedMeta) = Some (data, mode600)" using aw(2) by simp
    then show ?thesis using run x k ne Inr
      by (auto simp: run_attempt rename_file_def run_atomic_op split: io.splits if_splits)
  qed
qed

lemma then_remove_run:
  assumes "run_state (then_remove tmp m) w = (r, w')"
  shows "\<exists>w1. run_state m w = (r, w1) \<and> (\<forall>q. q \<noteq> tmp \<longrightarrow> dw_files w' q = dw_files w1 q) \<and> (dw_crashed w1 \<longrightarrow> dw_crashed w')"
proof -
  obtain s w1 where m: "run_state m w = (s, w1)" by fastforce
  show ?thesis using assms m
    by (auto simp: then_remove_def remove_file_def run_atomic_op split: io.splits if_splits)
qed

definition staged_as :: "(bytes \<Rightarrow> bytes) \<Rightarrow> string \<Rightarrow> Upgrade \<Rightarrow> bytes \<Rightarrow> dworld \<Rightarrow> bool" where
  "staged_as sha256 d up b w \<longleftrightarrow> dw_files w (in_dir d stagedBin) = Some (b, mode755) \<and>
     dw_files w (in_dir d stagedMeta) = Some (marshal_meta (staged_meta sha256 up b), mode600)"

lemma stage_extracted:
  assumes run: "run_state (attempt (extractBinary sha256 untar d tar) (\<lambda>e. ret (Inl e)) (\<lambda>(binTmp, binSHA). then_remove binTmp (
          attempt (atomicWrite d stagedMeta (marshal_meta \<lparr>sm_Version = up_Version up, sm_BinSHA256 = binSHA\<rparr>) mode600)
            (\<lambda>e. ret (Inl e)) (\<lambda>_. rename_file binTmp (in_dir d stagedBin))))) w = (r, w')"
    and tar: "dw_files w tar = Some (body, m)"
  shows "dw_files w' (in_dir d stagedBin) = dw_files w (in_dir d stagedBin) \<and> r \<noteq> Inr () \<or>
    (\<exists>b entries fin. untar body = Some (entries, fin) \<and> (''custosd'', b, True) \<in> set entries \<and> staged_as sha256 d up b w' \<and>
      (r \<noteq> Inr () \<longrightarrow> dw_crashed w'))"
proof -
  obtain x w1 where x: "run_state (extractBinary sha256 untar d tar) w = (x, w1)" by fastforce
  have keep: "dw_files w1 (in_dir d stagedBin) = dw_files w (in_dir d stagedBin)"
  proof -
    have "state_io_rel (keeps (\<lambda>q. \<not> scratch d q)) (extractBinary sha256 untar d tar)"
      unfolding extractBinary_def by (intro eff file_ops) simp
    from state_io_rel_run [OF this, of w] x show ?thesis by (simp add: keeps_def)
  qed
  show ?thesis
  proof (cases x)
    case (Inl e)
    then show ?thesis using run x keep by (auto simp: run_attempt)
  next
    case (Inr y)
    obtain t dig where y: "y = (t, dig)" by fastforce
    obtain bs w0 where bs: "run_state (ReadFile tar) w = (Inr bs, w0)"
      "run_state (case untar bs of None \<Rightarrow> ret (Inl BadData) | Some (entries, _) \<Rightarrow> extract_from sha256 d entries) w0 = (Inr (t, dig), w1)"
      using attempt_Inr [OF x [unfolded Inr y extractBinary_def]] by auto
    have body: "bs = body" "dw_files w0 = dw_files w" using ReadFile_ok [OF bs(1)] tar by simp_all
    obtain entries fin where u: "untar body = Some (entries, fin)" "run_state (extract_from sha256 d entries) w0 = (Inr (t, dig), w1)"
      using bs(2) body(1) by (auto split: option.splits)
    obtain b rnd where b: "(''custosd'', b, True) \<in> set entries" "hex_encode (sha256 b) = dig" "t = bin_name d rnd"
        "dw_files w1 = (dw_files w0)(t \<mapsto> (b, mode755))"
      using extract_ok [OF u(2)] by blast
    have "run_state (then_remove t (
          attempt (atomicWrite d stagedMeta (marshal_meta \<lparr>sm_Version = up_Version up, sm_BinSHA256 = dig\<rparr>) mode600)
            (\<lambda>e. ret (Inl e)) (\<lambda>_. rename_file t (in_dir d stagedBin)))) w1 = (r, w')"
      using run x Inr y by (simp add: run_attempt)
    from then_remove_run [OF this] obtain w2 where w2: "run_state (
          attempt (atomicWrite d stagedMeta (marshal_meta \<lparr>sm_Version = up_Version up, sm_BinSHA256 = dig\<rparr>) mode600)
            (\<lambda>e. ret (Inl e)) (\<lambda>_. rename_file t (in_dir d stagedBin))) w1 = (r, w2)"
      "\<forall>q. q \<noteq> t \<longrightarrow> dw_files w' q = dw_files w2 q" "dw_crashed w2 \<longrightarrow> dw_crashed w'" by blast
    have "in_dir d stagedBin \<noteq> t" "in_dir d stagedMeta \<noteq> t"
      using staged_not_scratch scratch_names(2) b(3) by metis+
    then show ?thesis using publish_cases [OF w2(1) b(3), of b mode755] w2(2,3) b(1,2,4) u(1) keep
      by (auto simp: staged_as_def staged_meta_def)
  qed
qed

lemma stage_upgrade_cases:
  assumes "run_state (stageUpgrade sha256 http untar arch d up) w = (r, w')"
  shows "dw_files w' (in_dir d stagedBin) = dw_files w (in_dir d stagedBin) \<and> r \<noteq> Inr () \<or>
    (\<exists>b. genuine sha256 http untar arch up b \<and> staged_as sha256 d up b w' \<and> (r \<noteq> Inr () \<longrightarrow> dw_crashed w'))"
proof (cases "map_of (up_SHA256 up) arch = None \<or> map_of (up_SHA256 up) arch = Some ''''")
  case True
  then show ?thesis using assms by (auto simp: stageUpgrade_def stageUpgradeFrom_def)
next
  case False
  then obtain want where want: "map_of (up_SHA256 up) arch = Some want" "want \<noteq> ''''" by auto
  obtain x w1 where x: "run_state mkdir_all w = (x, w1)" by fastforce
  have f1: "dw_files w1 = dw_files w" using close_files [of w] x by (simp add: mkdir_all_def)
  let ?dl = "download sha256 http d (tarballURL (up_Version up) arch) want"
  obtain y w2 where y: "run_state ?dl w1 = (y, w2)" by fastforce
  have keep: "dw_files w2 (in_dir d stagedBin) = dw_files w (in_dir d stagedBin)"
    using state_io_rel_run [OF eff_download [of "\<lambda>q. \<not> scratch d q" d sha256 http "tarballURL (up_Version up) arch" want], of w1] y f1
    by (simp add: keeps_def)
  note run = assms [unfolded stageUpgrade_def stageUpgradeFrom_def want(1) option.case]
  show ?thesis
  proof (cases "\<exists>tar. x = Inr () \<and> y = Inr tar")
    case False
    then show ?thesis using run want(2) x y f1 keep by (cases x; cases y) (auto simp: run_attempt)
  next
    case True
    then obtain tar where xy: "x = Inr ()" "y = Inr tar" by blast
    from download_ok [OF y [unfolded xy(2)]] obtain body rnd where dl:
      "http (tarballURL (up_Version up) arch) = Some (200, body, True)" "hex_encode (sha256 body) = want"
      "tar = dl_name d rnd" "dw_files w2 = (dw_files w1)(tar \<mapsto> (body, mode600))" by blast
    define rest where "rest = attempt (extractBinary sha256 untar d tar) (\<lambda>e. ret (Inl e)) (\<lambda>(binTmp, binSHA). then_remove binTmp (
          attempt (atomicWrite d stagedMeta (marshal_meta \<lparr>sm_Version = up_Version up, sm_BinSHA256 = binSHA\<rparr>) mode600)
            (\<lambda>e. ret (Inl e)) (\<lambda>_. rename_file binTmp (in_dir d stagedBin))))"
    have "run_state (then_remove tar rest) w2 = (r, w')"
      using run want(2) x y xy by (simp add: run_attempt rest_def)
    from then_remove_run [OF this] obtain w3 where w3: "run_state rest w2 = (r, w3)"
      "\<forall>q. q \<noteq> tar \<longrightarrow> dw_files w' q = dw_files w3 q" "dw_crashed w3 \<longrightarrow> dw_crashed w'" by blast
    have "in_dir d stagedBin \<noteq> tar" "in_dir d stagedMeta \<noteq> tar"
      using staged_not_scratch scratch_names(1) dl(3) by metis+
    then show ?thesis
      using stage_extracted [OF w3(1) [unfolded rest_def], of body mode600] dl want w3(2,3) keep
      by (fastforce simp: genuine_def staged_as_def)
  qed
qed

section \<open>The properties\<close>

lemma unmarshal_marshal_meta: "valid_utf8 (sm_Version m) \<Longrightarrow> valid_utf8 (sm_BinSHA256 m) \<Longrightarrow> unmarshal_meta (marshal_meta m) = Some m"
proof -
  assume v: "valid_utf8 (sm_Version m)" "valid_utf8 (sm_BinSHA256 m)"
  have k: "fold_key ''version'' = ''version''" "fold_key ''bin_sha256'' = ''bin_sha256''"
    by (simp_all add: lower_char_def in_range_def)
  have "json_ok (JObj [(''version'', JStr (sm_Version m)), (''bin_sha256'', JStr (sm_BinSHA256 m))])"
    using v by (auto intro!: valid_utf8_ascii)
  from parse_enc [OF this] show ?thesis
    by (simp add: unmarshal_meta_def marshal_meta_def field_def k dec_string_def del: fold_key.simps)
qed


lemma hex_encode_utf8: "valid_utf8 (hex_encode b)"
proof (rule valid_utf8_ascii, rule ballI)
  fix c assume "c \<in> set (hex_encode b)"
  then have "c \<in> set ''0123456789abcdef''" using set_hex_encode by blast
  then show "byte c < 0x80" by auto
qed

definition sample_release :: http_get where
  "sample_release url = Some (200, ''TAR'', True)"

definition sample_untar :: archive where
  "sample_untar b = Some ([(''README'', ''x'', True), (''custosd'', ''NEW'', True)], True)"

definition sample_upgrade :: Upgrade where
  "sample_upgrade = \<lparr>up_Version = ''v2'', up_SHA256 = [(''amd64'', hex_encode ''TAR'')]\<rparr>"

text \<open>A healthy disk with a program and a staged build.\<close>
definition sample_staged :: dworld where
  "sample_staged = sample_good_disk\<lparr>dw_files := (\<lambda>q. if q = installBin then Some (''OLD'', mode755)
     else if q = in_dir (in_dir ''/s'' ''update'') stagedBin then Some (''NEW'', mode755)
     else if q = in_dir (in_dir ''/s'' ''update'') stagedMeta
       then Some (marshal_meta (staged_meta (\<lambda>b. b) sample_upgrade ''NEW''), mode600) else None)\<rparr>"

lemma sample_meta: "unmarshal_meta (marshal_meta (staged_meta (\<lambda>b. b) sample_upgrade ''NEW'')) = Some (staged_meta (\<lambda>b. b) sample_upgrade ''NEW'')"
  by (rule unmarshal_marshal_meta)
     (simp_all add: staged_meta_def hex_encode_utf8 sample_upgrade_def, rule valid_utf8_ascii, simp)

lemma sample_meta_fields: "sm_BinSHA256 (staged_meta (\<lambda>b. b) sample_upgrade b) = hex_encode b"
  "sm_Version (staged_meta (\<lambda>b. b) sample_upgrade b) = ''v2''"
  by (simp_all add: staged_meta_def sample_upgrade_def)

lemmas file_steps = run_attempt run_atomic_op ReadFile_def stat_file_def copyFile_def open_trunc_def write_file_def file_op_def
  chmod_file_def rename_file_def remove_file_def close_file_def CreateTemp_def then_remove_def atomicWrite_def Let_def



lemma sample_stage: "fst (run_state (stageUpgrade (\<lambda>b. b) sample_release sample_untar ''amd64'' ''/s/update'' sample_upgrade) sample_good_disk) = Inr ()"
proof -
  have "bin_name ''/s/update'' rnd \<noteq> in_dir ''/s/update'' stagedMeta" "bin_name ''/s/update'' rnd \<noteq> dl_name ''/s/update'' rnd"
    "temp_name ''/s/update'' rnd \<noteq> bin_name ''/s/update'' rnd" "temp_name ''/s/update'' rnd \<noteq> dl_name ''/s/update'' rnd" for rnd
    by (auto simp: bin_name_def dl_name_def temp_name_def in_dir_def stagedMeta_def)
  moreover have "hex_encode ''TAR'' \<noteq> []" by code_simp
  ultimately show ?thesis
    by (simp add: stageUpgrade_def stageUpgradeFrom_def sample_upgrade_def sample_release_def sample_untar_def download_def extractBinary_def
        mkdir_all_def file_steps sample_good_disk_def sample_disk_def)
qed


text \<open>C23: An upgrade from the control plane's order to the installed program: when a build has been staged, the
  machine restarted with its files intact, and the privileged step reports that it applied a version,
  then that is the version ordered, and the installed program is the one from an archive with the
  digest the control plane sent.\<close>
theorem upgrade_end_to_end:
  assumes "run_state (stageUpgrade sha256 http untar arch (in_dir dir ''update'') up) w = (Inr (), w1)"
    and "valid_utf8 (up_Version up)" and "dw_files v = dw_files w1"
    and "run_state (cmdApplyUpdate sha256 run euid dir) v = (Applied ver, v')"
  shows "ver = up_Version up \<and>
    (\<exists>b. genuine sha256 http untar arch up b \<and> dw_files v' installBin = Some (b, mode755))"
proof -
  obtain b where b: "genuine sha256 http untar arch up b" "staged_as sha256 (in_dir dir ''update'') up b w1"
    using stage_upgrade_cases [OF assms(1)] by auto
  have "unmarshal_meta (marshal_meta (staged_meta sha256 up b)) = Some (staged_meta sha256 up b)"
    using assms(2) by (intro unmarshal_marshal_meta) (simp_all add: staged_meta_def hex_encode_utf8)
  then show ?thesis
    using apply_update_cases [OF assms(4)] b assms(3) by (auto simp: swapped_def staged_as_def staged_meta_def)
qed

theorem upgrade_end_to_end_witness:
  "\<exists>w1 v'. run_state (stageUpgrade (\<lambda>b. b) sample_release sample_untar ''amd64'' (in_dir ''/s'' ''update'') sample_upgrade) sample_good_disk = (Inr (), w1) \<and>
     run_state (cmdApplyUpdate (\<lambda>b. b) (\<lambda>b. Some ''custosd v2'') 0 ''/s'') (sample_good_disk\<lparr>dw_files := dw_files w1\<rparr>) = (Applied ''v2'', v') \<and>
     dw_files v' installBin = Some (''NEW'', mode755)"
proof -
  have d: "in_dir ''/s'' ''update'' = ''/s/update''" by (simp add: in_dir_def)
  obtain w1 where w1: "run_state (stageUpgrade (\<lambda>b. b) sample_release sample_untar ''amd64'' (in_dir ''/s'' ''update'') sample_upgrade) sample_good_disk = (Inr (), w1)"
    using sample_stage by (metis prod.collapse d)
  define v where "v = sample_good_disk\<lparr>dw_files := dw_files w1\<rparr>"
  obtain r v' where v': "run_state (cmdApplyUpdate (\<lambda>b. b) (\<lambda>b. Some ''custosd v2'') 0 ''/s'') v = (r, v')" by fastforce
  have "staged_as (\<lambda>b. b) (in_dir ''/s'' ''update'') sample_upgrade ''NEW'' v"
    using stage_upgrade_cases [OF w1] by (auto simp: genuine_def sample_untar_def staged_as_def v_def)
  then have "r = Applied ''v2''"
    using v' update_paths(1-5) [of "in_dir ''/s'' ''update''"] update_paths(6)
    by (cases "dw_files v installBin") (auto simp: cmdApplyUpdate_def readMeta_def fileSHA256_def smokeTest_def replaceExecutable_def file_steps
        staged_as_def v_def sample_good_disk_def sample_disk_def sample_meta sample_meta_fields HasPrefix_def simp flip: stagedBin_def stagedMeta_def)
  moreover have "valid_utf8 (up_Version sample_upgrade)" by (simp add: sample_upgrade_def) (rule valid_utf8_ascii, simp)
  ultimately show ?thesis
    using w1 v' upgrade_end_to_end [OF w1 _ _ v' [unfolded \<open>r = Applied ''v2''\<close>]]
    by (auto simp: genuine_def sample_untar_def v_def)
qed

end
