(* ===== verification/Go_Map.thy ===== *)
theory Go_Map
  imports Prelude "HOL-Library.AList" "HOL-Library.Multiset"
begin

text \<open>
  Go's maps: the locale \<open>go_map\<close> is what their users rely on, assignment, deletion and the
  iteration over the values in any order; the association lists of the library implement it.
  The lemmas: what filling a map from a slice gives, and that writing out the values in any
  order and filling a map from them again gives the same map.
\<close>

locale go_map =
  fixes empty :: 'm
    and lookup :: "'m \<Rightarrow> 'k \<Rightarrow> 'v option"
    and assign :: "'k \<Rightarrow> 'v \<Rightarrow> 'm \<Rightarrow> 'm"
    and del :: "'k \<Rightarrow> 'm \<Rightarrow> 'm"
    and items :: "'m \<Rightarrow> ('k \<times> 'v) list"
    and ok :: "'m \<Rightarrow> bool"
  assumes ok_empty: "ok empty" and lookup_empty: "lookup empty k = None"
    and ok_assign: "ok m \<Longrightarrow> ok (assign k v m)" and lookup_assign: "ok m \<Longrightarrow> lookup (assign k v m) = (lookup m)(k \<mapsto> v)"
    and ok_del: "ok m \<Longrightarrow> ok (del k m)" and lookup_del: "ok m \<Longrightarrow> lookup (del k m) = (lookup m)(k := None)"
    and in_items: "ok m \<Longrightarrow> (k, v) \<in> set (items m) \<longleftrightarrow> lookup m k = Some v"
    and distinct_items: "ok m \<Longrightarrow> distinct (map fst (items m))"
begin

text \<open>\<open>for _, v := range vs { m[key(v)] = v }\<close>\<close>
definition fill :: "('v \<Rightarrow> 'k) \<Rightarrow> 'v list \<Rightarrow> 'm \<Rightarrow> 'm" where
  "fill key vs m = fold (\<lambda>v. assign (key v) v) vs m"

lemma ok_fill: "ok m \<Longrightarrow> ok (fill key vs m)"
  unfolding fill_def by (induction vs arbitrary: m) (auto intro: ok_assign)

lemma lookup_fill:
  "ok m \<Longrightarrow> lookup (fill key vs m) k =
     (case List.find (\<lambda>v. key v = k) (rev vs) of Some v \<Rightarrow> Some v | None \<Rightarrow> lookup m k)"
proof (induction vs rule: rev_induct)
  case (snoc v vs)
  have "lookup (fill key (vs @ [v]) m) = (lookup (fill key vs m))(key v \<mapsto> v)"
    using snoc.prems by (simp add: fill_def lookup_assign ok_fill [unfolded fill_def])
  then show ?case using snoc by auto
qed (simp add: fill_def)

lemma lookup_fill_key: "ok m \<Longrightarrow> lookup m k = None \<Longrightarrow> lookup (fill key vs m) k = Some v \<Longrightarrow> key v = k \<and> v \<in> set vs"
  by (auto simp: lookup_fill split: option.splits dest: find_Some_in)

text \<open>Filling from the values of a map that are stored under their keys, in any order.\<close>
lemma fill_items:
  assumes m: "ok m" and keyed: "\<And>k v. lookup m k = Some v \<Longrightarrow> key v = k"
    and vs: "mset vs = mset (map snd (items m))"
  shows "lookup (fill key vs empty) = lookup m"
proof
  fix k
  have set: "v \<in> set vs \<longleftrightarrow> lookup m (key v) = Some v" for v
  proof -
    have "v \<in> set vs \<longleftrightarrow> v \<in> set (map snd (items m))" using vs by (metis set_mset_mset)
    also have "\<dots> \<longleftrightarrow> (\<exists>k. lookup m k = Some v)" using in_items [OF m] by force
    finally show ?thesis using keyed by metis
  qed
  show "lookup (fill key vs empty) k = lookup m k"
  proof (cases "List.find (\<lambda>v. key v = k) (rev vs)")
    case None
    then have "\<forall>v \<in> set vs. key v \<noteq> k" by (simp add: find_None_iff)
    then have "lookup m k = None" using set keyed by (metis not_None_eq)
    then show ?thesis using None by (simp add: lookup_fill ok_empty lookup_empty)
  next
    case (Some v)
    then have "v \<in> set vs" "key v = k" by (auto dest: find_Some_in)
    then show ?thesis using Some set by (auto simp: lookup_fill ok_empty)
  qed
qed

end

interpretation al: go_map "[]" map_of AList.update AList.delete "\<lambda>m. m" "\<lambda>m. distinct (map fst m)"
  by unfold_locales
    (auto simp: AList.update_conv' AList.delete_conv' distinct_update distinct_delete)

end
