(* ===== verification/Daemon_Cache.thy ===== *)
theory Daemon_Cache
  imports Daemon_Store Go_Map
begin

text \<open>
  \<open>internal/daemon/cache.go\<close>: the keys that may log in on the host, in memory and in \<open>cache.json\<close>. The
  map is an association list (\<open>go_map\<close>); \<open>iter\<close> is the order in which Go happens to range over it
  when it is written out. Every change is applied in memory, then persisted.
\<close>

record Cache =
  cc_seq :: "64 word"
  cc_entries :: "(string \<times> AccessEntry) list"

record Grant_msg =
  gr_Entry :: AccessEntry

record Revoke_msg =
  rv_Fingerprint :: string

definition empty_cache :: Cache where
  "empty_cache = \<lparr>cc_seq = 0, cc_entries = []\<rparr>"

text \<open>\<open>for _, e := range es { m[e.Fingerprint] = e }\<close> from an empty map.\<close>
definition entry_map :: "AccessEntry list \<Rightarrow> (string \<times> AccessEntry) list" where
  "entry_map es = fold (\<lambda>e. AList.update (ae_Fingerprint e) e) es []"

definition cache_json :: "64 word \<Rightarrow> AccessEntry list \<Rightarrow> json" where
  "cache_json seq es = JObj [(''seq'', JNum (dec_digits (unat seq))), (''entries'', JArr (map entry_json es))]"

definition unmarshal_cache :: "bytes \<Rightarrow> (64 word \<times> AccessEntry list) option" where
  "unmarshal_cache b = (case parse_json b of
     Some (JObj ms) \<Rightarrow>
       (case (field dec_uint64 0 ''seq'' ms, slice_field (dec_array dec_entry zero_entry) ''entries'' ms) of
          (Some s, Some es) \<Rightarrow> Some (s, es) | _ \<Rightarrow> None)
   | Some JNull \<Rightarrow> Some (0, [])
   | _ \<Rightarrow> None)"

definition LoadCache :: "string \<Rightarrow> (derr + Cache) daemon" where
  "LoadCache dir = attempt (ReadFile (in_dir dir ''cache.json''))
     (\<lambda>e. ret (if e = NotExist then Inr empty_cache else Inl e))
     (\<lambda>b. ret (case unmarshal_cache b of None \<Rightarrow> Inl BadData
        | Some (s, es) \<Rightarrow> Inr \<lparr>cc_seq = s, cc_entries = entry_map es\<rparr>))"

definition Lookup :: "string \<Rightarrow> Cache \<Rightarrow> AccessEntry option" where
  "Lookup fingerprint c = map_of (cc_entries c) fingerprint"

definition Len :: "Cache \<Rightarrow> nat" where
  "Len c = length (cc_entries c)"

definition persistLocked :: "(AccessEntry list \<Rightarrow> AccessEntry list) \<Rightarrow> string \<Rightarrow> Cache \<Rightarrow> (derr + unit) daemon" where
  "persistLocked iter dir c =
     atomicWrite dir ''cache.json'' (enc (cache_json (cc_seq c) (iter (map snd (cc_entries c))))) mode600"

text \<open>The new contents of the cache and the error of writing them out.\<close>
definition Purge :: "(AccessEntry list \<Rightarrow> AccessEntry list) \<Rightarrow> string \<Rightarrow> Cache \<Rightarrow> ((derr + unit) \<times> Cache) daemon" where
  "Purge iter dir c = (let c' = c\<lparr>cc_entries := []\<rparr> in
     do { r \<leftarrow> persistLocked iter dir c'; ret (r, c') })"

definition ApplySnapshot :: "(AccessEntry list \<Rightarrow> AccessEntry list) \<Rightarrow> string \<Rightarrow> Snapshot \<Rightarrow> 64 word \<Rightarrow> Cache \<Rightarrow>
    ((derr + unit) \<times> Cache) daemon" where
  "ApplySnapshot iter dir snap seq c = (let c' = \<lparr>cc_seq = seq, cc_entries = entry_map (snap_Entries snap)\<rparr> in
     do { r \<leftarrow> persistLocked iter dir c'; ret (r, c') })"

definition ApplyGrant :: "(AccessEntry list \<Rightarrow> AccessEntry list) \<Rightarrow> string \<Rightarrow> Grant_msg \<Rightarrow> Cache \<Rightarrow> ((derr + unit) \<times> Cache) daemon" where
  "ApplyGrant iter dir g c =
     (let c' = c\<lparr>cc_entries := AList.update (ae_Fingerprint (gr_Entry g)) (gr_Entry g) (cc_entries c)\<rparr> in
     do { r \<leftarrow> persistLocked iter dir c'; ret (r, c') })"

definition ApplyRevoke :: "(AccessEntry list \<Rightarrow> AccessEntry list) \<Rightarrow> string \<Rightarrow> Revoke_msg \<Rightarrow> Cache \<Rightarrow> ((derr + unit) \<times> Cache) daemon" where
  "ApplyRevoke iter dir r c = (let c' = c\<lparr>cc_entries := AList.delete (rv_Fingerprint r) (cc_entries c)\<rparr> in
     do { x \<leftarrow> persistLocked iter dir c'; ret (x, c') })"

section \<open>The map is keyed by fingerprint\<close>

definition cache_ok :: "Cache \<Rightarrow> bool" where
  "cache_ok c \<longleftrightarrow> distinct (map fst (cc_entries c)) \<and> (\<forall>(k, e) \<in> set (cc_entries c). ae_Fingerprint e = k)"

lemma entry_map_fill: "entry_map es = al.fill ae_Fingerprint es []"
  by (simp add: entry_map_def al.fill_def)

lemma map_of_in: "distinct (map fst m) \<Longrightarrow> (k, v) \<in> set m \<longleftrightarrow> map_of m k = Some v"
  by (simp add: map_of_eq_Some_iff)

lemma cache_ok_lookup:
  "cache_ok c \<longleftrightarrow> distinct (map fst (cc_entries c)) \<and> (\<forall>k e. Lookup k c = Some e \<longrightarrow> ae_Fingerprint e = k)"
  by (auto simp: cache_ok_def Lookup_def dest: map_of_SomeD intro: map_of_is_SomeI)

lemma entry_map_distinct: "distinct (map fst (entry_map es))"
  unfolding entry_map_fill by (rule al.ok_fill) simp

lemma lookup_entry_map:
  "map_of (entry_map es) k = List.find (\<lambda>e. ae_Fingerprint e = k) (rev es)"
  unfolding entry_map_fill by (subst al.lookup_fill) (auto split: option.splits)

lemma cache_ok_entry_map: "cache_ok \<lparr>cc_seq = s, cc_entries = entry_map es\<rparr>"
  by (auto simp: cache_ok_lookup Lookup_def entry_map_distinct lookup_entry_map dest: find_Some_in)

lemma cache_ok_updates:
  "cache_ok c \<Longrightarrow> cache_ok (c\<lparr>cc_entries := AList.update (ae_Fingerprint e) e (cc_entries c)\<rparr>)"
  "cache_ok c \<Longrightarrow> cache_ok (c\<lparr>cc_entries := AList.delete k (cc_entries c)\<rparr>)"
  by (auto simp: cache_ok_lookup Lookup_def distinct_update distinct_delete AList.update_conv' AList.delete_conv'
      split: if_splits)

section \<open>The file gives the map back\<close>

lemma cache_json_ok: "\<forall>e \<in> set es. entry_utf8 e \<Longrightarrow> json_ok (cache_json s es)"
  by (auto simp: cache_json_def entry_json_ok json_ok_dec [simplified] intro!: valid_utf8_ascii)

lemma unmarshal_cache_json:
  assumes "\<forall>e \<in> set es. entry_utf8 e"
  shows "unmarshal_cache (enc (cache_json s es)) = Some (s, es)"
proof -
  have keys: "fold_key ''seq'' = ''seq''" by (simp add: lower_char_lower)
  show ?thesis
    by (simp add: unmarshal_cache_def parse_enc [OF cache_json_ok [OF assms]])
      (simp add: cache_json_def field_def slice_field_def keys fold_keys dec_uint64_enc dec_array_def dec_entries
        del: fold_key.simps)
qed

text \<open>What \<open>LoadCache\<close> makes of the files when it can read them, and equality of two caches as maps.\<close>
definition disk_cache :: "string \<Rightarrow> files \<Rightarrow> Cache option" where
  "disk_cache dir fs = (case fs (in_dir dir ''cache.json'') of None \<Rightarrow> Some empty_cache
     | Some (b, m) \<Rightarrow> (case unmarshal_cache b of None \<Rightarrow> None
        | Some (s, es) \<Rightarrow> Some \<lparr>cc_seq = s, cc_entries = entry_map es\<rparr>))"

definition same_cache :: "Cache \<Rightarrow> Cache \<Rightarrow> bool" where
  "same_cache c d \<longleftrightarrow> cc_seq c = cc_seq d \<and> (\<forall>k. Lookup k c = Lookup k d)"

lemma LoadCache_disk:
  assumes "run_state (LoadCache dir) w = (r, w')"
  shows "r = Inl IoError \<or> (case disk_cache dir (dw_files w) of None \<Rightarrow> r = Inl BadData | Some d \<Rightarrow> r = Inr d)"
    and "dw_files w' = dw_files w"
proof -
  obtain x w1 where x: "run_state (ReadFile (in_dir dir ''cache.json'')) w = (x, w1)" by fastforce
  note rd = ReadFile_cases [OF x]
  show "r = Inl IoError \<or> (case disk_cache dir (dw_files w) of None \<Rightarrow> r = Inl BadData | Some d \<Rightarrow> r = Inr d)"
    using assms x rd(2)
    by (auto simp: LoadCache_def run_attempt disk_cache_def split: option.splits prod.splits if_splits)
  show "dw_files w' = dw_files w"
    using assms x rd(1) by (auto simp: LoadCache_def run_attempt split: sum.splits)
qed

lemma LoadCache_healthy: "healthy w \<Longrightarrow> fst (run_state (LoadCache dir) w) \<noteq> Inl IoError"
proof -
  assume "healthy w"
  then have "fst (run_state (ReadFile (in_dir dir ''cache.json'')) w) \<noteq> Inl IoError"
    by (auto simp: healthy_def ReadFile_def close_file_def run_atomic_op split: option.splits)
  then show ?thesis
    by (auto simp: LoadCache_def run_attempt split: prod.splits sum.splits option.splits)
qed

lemma disk_cache_written:
  assumes ok: "cache_ok c" and utf8: "\<forall>(k, e) \<in> set (cc_entries c). entry_utf8 e"
    and iter: "mset (iter (map snd (cc_entries c))) = mset (map snd (cc_entries c))"
    and stored: "fs (in_dir dir ''cache.json'') = Some (enc (cache_json (cc_seq c) (iter (map snd (cc_entries c)))), m)"
  shows "\<exists>d. disk_cache dir fs = Some d \<and> same_cache d c"
proof -
  let ?es = "iter (map snd (cc_entries c))"
  have "\<forall>e \<in> set ?es. entry_utf8 e" using utf8 iter by (force dest: arg_cong [of _ _ set_mset])
  then have "unmarshal_cache (enc (cache_json (cc_seq c) ?es)) = Some (cc_seq c, ?es)" by (rule unmarshal_cache_json)
  moreover have "map_of (entry_map ?es) = map_of (cc_entries c)"
    unfolding entry_map_fill using ok iter
    by (intro al.fill_items) (auto simp: cache_ok_lookup Lookup_def)
  ultimately show ?thesis using stored by (simp add: disk_cache_def same_cache_def Lookup_def)
qed

lemma persist_cases:
  assumes "cache_ok c" "\<forall>(k, e) \<in> set (cc_entries c). entry_utf8 e"
    and "mset (iter (map snd (cc_entries c))) = mset (map snd (cc_entries c))"
    and run: "run_state (persistLocked iter dir c) w = (r, w')"
  shows "disk_cache dir (dw_files w') = disk_cache dir (dw_files w) \<and> r \<noteq> Inr () \<or>
    (\<exists>d. disk_cache dir (dw_files w') = Some d \<and> same_cache d c)"
proof -
  let ?path = "in_dir dir ''cache.json''" and ?b = "enc (cache_json (cc_seq c) (iter (map snd (cc_entries c))))"
  have "dw_files w' ?path = Some (?b, mode600) \<or> dw_files w' ?path = dw_files w ?path \<and> r \<noteq> Inr ()"
    using atomicWrite_cases(2) [OF state_file_names(4) run [unfolded persistLocked_def]]
    by (auto split: if_splits)
  then show ?thesis
    using disk_cache_written [of c iter "dw_files w'" dir mode600] assms(1-3) by (auto simp: disk_cache_def)
qed



end
