(* ===== verification/Daemon_Secrets.thy ===== *)
theory Daemon_Secrets
  imports Daemon_Cache Set_Protocol "HOL-Library.Monad_Syntax"
begin

text \<open>
  \<open>internal/daemon/secretstore.go\<close>, \<open>secretsocket.go\<close> and \<open>cmd/daemon/exec.go\<close>: the secret sets the daemon
  holds in memory, the socket that serves them, and the command that starts a program with one of
  them in its environment. The uid of the peer (kernel), the account database and the program
  search path are arguments. The theorems: a set is served only to the account it is scoped to and
  every serve is reported once; the wait for a set ends; a program is started with exactly the
  values of a set the daemon agreed to serve, or not at all.
\<close>

section \<open>The store\<close>

record openedSet =
  os_asUser :: string
  os_version :: "64 word"
  os_values :: str_map

record SecretStore =
  st_seq :: "64 word"
  st_ready :: bool
  st_sets :: "(string \<times> openedSet) list"
  st_key :: "bytes option"

definition NewSecretStore :: "bytes option \<Rightarrow> SecretStore" where
  "NewSecretStore key = \<lparr>st_seq = 0, st_ready = False, st_sets = [], st_key = key\<rparr>"

definition open_set :: "SecretSet_msg \<Rightarrow> openedSet" where
  "open_set s = \<lparr>os_asUser = set_AsUser s, os_version = set_Version s, os_values = set_Values s\<rparr>"

definition opened_sets :: "SecretSet_msg list \<Rightarrow> (string \<times> openedSet) list" where
  "opened_sets ss = fold (\<lambda>s. AList.update (set_Name s) (open_set s)) ss []"

definition Apply :: "x25519 \<Rightarrow> gcm \<Rightarrow> bytes \<Rightarrow> 64 word \<Rightarrow> SecretStore \<Rightarrow> SecretStore option" where
  "Apply dh g sealed seq s = do {
     key \<leftarrow> st_key s;
     plaintext \<leftarrow> hybrid_Open dh g key sealed;
     bundle \<leftarrow> unmarshal_sets plaintext;
     Some (s\<lparr>st_sets := opened_sets (bundle_sets bundle), st_seq := seq, st_ready := True\<rparr>)
   }"

definition Get :: "string \<Rightarrow> SecretStore \<Rightarrow> (str_map \<times> string) option" where
  "Get name s = map_option (\<lambda>x. (os_values x, os_asUser x)) (map_of (st_sets s) name)"

section \<open>The socket\<close>

record secretResponse =
  sr_OK :: bool
  sr_Error :: string
  sr_Values :: str_map

definition refusal :: "string \<Rightarrow> secretResponse" where
  "refusal e = \<lparr>sr_OK = False, sr_Error = e, sr_Values = []\<rparr>"

definition response_json :: "secretResponse \<Rightarrow> json" where
  "response_json r = JObj ([(''ok'', JBool (sr_OK r))] @
     (if sr_Error r = '''' then [] else [(''error'', JStr (sr_Error r))]) @
     (if sr_Values r = [] then [] else [(''values'', map_json (sr_Values r))]))"

definition writeSecret :: "secretResponse \<Rightarrow> bytes" where
  "writeSecret r = enc (response_json r) @ [CHR 0x0A]"

definition dec_bool :: "json \<Rightarrow> bool option" where
  "dec_bool j = (case j of JBool b \<Rightarrow> Some b | _ \<Rightarrow> None)"

text \<open>\<open>json.NewDecoder(conn).Decode\<close>: the first value of the stream.\<close>
definition decode_response :: "bytes \<Rightarrow> secretResponse option" where
  "decode_response b = (case p_value (Suc (2 * length b)) b of
     Some (JObj ms, _) \<Rightarrow> (case (field dec_bool False ''ok'' ms, field dec_string '''' ''error'' ms, map_field ''values'' ms) of
         (Some k, Some e, Some vs) \<Rightarrow> Some \<lparr>sr_OK = k, sr_Error = e, sr_Values = vs\<rparr> | _ \<Rightarrow> None)
   | Some (JNull, _) \<Rightarrow> Some (refusal '''')
   | _ \<Rightarrow> None)"

text \<open>\<open>peer\<close> is the uid the kernel gives for the socket's peer, \<open>lookup\<close> the uid of an account by name.\<close>
definition callerIs :: "nat option \<Rightarrow> (string \<Rightarrow> string option) \<Rightarrow> string \<Rightarrow> bool" where
  "callerIs peer lookup username = (case peer of None \<Rightarrow> False
     | Some uid \<Rightarrow> (case lookup username of None \<Rightarrow> False | Some u \<Rightarrow> u = dec_digits uid))"

text \<open>What is written back for what the peer has sent, and the read that is reported.\<close>
definition handleSecret :: "nat option \<Rightarrow> (string \<Rightarrow> string option) \<Rightarrow> SecretStore \<Rightarrow> time \<Rightarrow> bytes \<Rightarrow> bytes \<times> SecretRead option" where
  "handleSecret peer lookup store t input = (case Cut input (CHR 0x0A) of None \<Rightarrow> ([], None)
     | Some (l, _) \<Rightarrow> let name = TrimSpace (l @ [CHR 0x0A]) in
         (case Get name store of
            None \<Rightarrow> (writeSecret (refusal (if st_ready store then ''no such set'' else ''not ready'')), None)
          | Some (values, asUser) \<Rightarrow>
              if asUser \<noteq> '''' \<and> \<not> callerIs peer lookup asUser then (writeSecret (refusal ''forbidden''), None)
              else (writeSecret \<lparr>sr_OK = True, sr_Error = '''', sr_Values = values\<rparr>,
                    Some \<lparr>rd_SetName = name, rd_At = t\<rparr>)))"

section \<open>The command's side\<close>

datatype fetch_error = Transport | Refused string

text \<open>One connection: what it answers to a request, or a transport failure. The flag asks for a retry.\<close>
definition fetchSetOnce :: "(bytes \<Rightarrow> bytes option) \<Rightarrow> string \<Rightarrow> (bool \<times> fetch_error) + str_map" where
  "fetchSetOnce conn name = (case conn (name @ [CHR 0x0A]) of None \<Rightarrow> Inl (True, Transport)
     | Some reply \<Rightarrow> (case decode_response reply of None \<Rightarrow> Inl (True, Transport)
        | Some resp \<Rightarrow>
            if sr_OK resp then Inr (sr_Values resp)
            else if sr_Error resp = ''forbidden'' then Inl (False, Refused ''forbidden'')
            else if sr_Error resp = ''no such set'' then Inl (False, Refused ''no such set'')
            else Inl (True, Refused (sr_Error resp))))"

text \<open>\<open>conns n\<close> is the connection of attempt \<open>n\<close> and \<open>now n\<close> the time it is over.\<close>
partial_function (option) fetch_from ::
  "(nat \<Rightarrow> bytes \<Rightarrow> bytes option) \<Rightarrow> (nat \<Rightarrow> time) \<Rightarrow> string \<Rightarrow> time \<Rightarrow> nat \<Rightarrow> (fetch_error + str_map) option" where
  "fetch_from conns now name deadline n = (case fetchSetOnce (conns n) name of
     Inr values \<Rightarrow> Some (Inr values)
   | Inl (retry, err) \<Rightarrow> if \<not> retry \<or> now n > deadline then Some (Inl err)
                      else fetch_from conns now name deadline (Suc n))"

definition FetchSet :: "(nat \<Rightarrow> bytes \<Rightarrow> bytes option) \<Rightarrow> (nat \<Rightarrow> time) \<Rightarrow> time \<Rightarrow> string \<Rightarrow> duration \<Rightarrow> (fetch_error + str_map) option" where
  "FetchSet conns now start name timeout = fetch_from conns now name (start + timeout) 0"

datatype launch = NotStarted | Exec string "string list" "string list"

text \<open>\<open>lookPath\<close> is the search of the program, \<open>order\<close> the order the range over the map takes.\<close>
definition cmdExec :: "(str_map \<Rightarrow> str_map) \<Rightarrow> (string \<Rightarrow> string option) \<Rightarrow> (nat \<Rightarrow> bytes \<Rightarrow> bytes option) \<Rightarrow>
    (nat \<Rightarrow> time) \<Rightarrow> time \<Rightarrow> duration \<Rightarrow> string \<Rightarrow> string list \<Rightarrow> string list \<Rightarrow> launch option" where
  "cmdExec order lookPath conns now start timeout name cmdArgs environ =
     (if name = [] \<or> cmdArgs = [] then Some NotStarted
      else case FetchSet conns now start name timeout of None \<Rightarrow> None
        | Some (Inl e) \<Rightarrow> Some NotStarted
        | Some (Inr values) \<Rightarrow> (case lookPath (hd cmdArgs) of None \<Rightarrow> Some NotStarted
            | Some bin \<Rightarrow> Some (Exec bin cmdArgs (environ @ map (\<lambda>(k, v). k @ ''='' @ v) (order values)))))"

section \<open>The reply survives the socket\<close>

definition response_ok :: "secretResponse \<Rightarrow> bool" where
  "response_ok r \<longleftrightarrow> valid_utf8 (sr_Error r) \<and> map_ok (sr_Values r) \<and> map_utf8 (sr_Values r)"

lemma response_keys: "fold_key ''ok'' = ''ok''" "fold_key ''error'' = ''error''" "fold_key ''values'' = ''values''"
  by (simp_all add: lower_char_lower)

lemma response_names: "valid_utf8 ''ok''" "valid_utf8 ''error''" "valid_utf8 ''values''"
  by (rule valid_utf8_ascii; simp)+

lemma response_json_ok: "response_ok r \<Longrightarrow> json_ok (response_json r)"
  using map_json_ok [of "sr_Values r"] by (auto simp: response_ok_def response_json_def response_names)

lemma decode_writeSecret:
  assumes "response_ok r"
  shows "decode_response (writeSecret r) = Some r"
proof -
  have "p_value (Suc (2 * length (writeSecret r))) (writeSecret r) = Some (response_json r, [CHR 0x0A])"
    unfolding writeSecret_def using response_json_ok [OF assms]
    by (intro parse_enc_gen) (simp_all add: stop_def num_char_def is_digit_def)
  then show ?thesis
    using assms dec_map_json [of "sr_Values r"]
    by (cases r) (auto simp: decode_response_def response_json_def field_def dec_bool_def dec_string_def map_field_def
        response_keys response_ok_def map_json_def simp del: p_value.simps fold_key.simps)
qed

section \<open>What is served\<close>

definition store_ok :: "SecretStore \<Rightarrow> bool" where
  "store_ok s \<longleftrightarrow> (\<forall>x \<in> set (map snd (st_sets s)). map_ok (os_values x) \<and> map_utf8 (os_values x))"

text \<open>The name the daemon makes of a request line.\<close>
definition asked_name :: "string \<Rightarrow> string" where
  "asked_name name = TrimSpace (name @ [CHR 0x0A])"

definition may_read :: "nat option \<Rightarrow> (string \<Rightarrow> string option) \<Rightarrow> string \<Rightarrow> bool" where
  "may_read peer lookup asUser \<longleftrightarrow> asUser = '''' \<or> (\<exists>uid. peer = Some uid \<and> lookup asUser = Some (dec_digits uid))"

lemma Get_ok: "store_ok s \<Longrightarrow> Get name s = Some (values, asUser) \<Longrightarrow> map_ok values \<and> map_utf8 values"
  unfolding Get_def store_ok_def by (auto dest!: map_of_SomeD)

lemma Cut_line: "CHR 0x0A \<notin> set name \<Longrightarrow> Cut (name @ [CHR 0x0A]) (CHR 0x0A) = Some (name, [])"
  by (auto simp: Cut_def takeWhile_append dropWhile_append)

lemma refusal_ok: "\<forall>c \<in> set e. byte c < 0x80 \<Longrightarrow> response_ok (refusal e)"
  by (auto simp: response_ok_def refusal_def map_ok_def map_utf8_def intro: valid_utf8_ascii)

lemma refusals_ok: "response_ok (refusal ''no such set'')" "response_ok (refusal ''not ready'')" "response_ok (refusal ''forbidden'')"
  by (rule refusal_ok; simp)+

text \<open>The daemon's decision on a request for a name.\<close>
definition decision :: "nat option \<Rightarrow> (string \<Rightarrow> string option) \<Rightarrow> SecretStore \<Rightarrow> string \<Rightarrow> secretResponse" where
  "decision peer lookup store name = (case Get name store of
     None \<Rightarrow> if st_ready store then refusal ''no such set'' else refusal ''not ready''
   | Some (vs, asUser) \<Rightarrow> if may_read peer lookup asUser then \<lparr>sr_OK = True, sr_Error = '''', sr_Values = vs\<rparr>
                         else refusal ''forbidden'')"

lemma may_read_iff: "may_read peer lookup asUser \<longleftrightarrow> \<not> (asUser \<noteq> '''' \<and> \<not> callerIs peer lookup asUser)"
  by (auto simp: may_read_def callerIs_def split: option.splits)

lemma decision_ok: "store_ok store \<Longrightarrow> response_ok (decision peer lookup store name)"
  using Get_ok [of store name]
  by (auto simp: decision_def refusals_ok valid_utf8.simps
      response_ok_def [of "\<lparr>sr_OK = True, sr_Error = '''', sr_Values = v\<rparr>" for v] split: option.splits)

lemma handleSecret_request:
  assumes "CHR 0x0A \<notin> set name"
  shows "handleSecret peer lookup store t (name @ [CHR 0x0A]) =
     (let d = decision peer lookup store (asked_name name) in
      (writeSecret d, if sr_OK d then Some \<lparr>rd_SetName = asked_name name, rd_At = t\<rparr> else None))"
  unfolding handleSecret_def Cut_line [OF assms] decision_def may_read_iff asked_name_def Let_def
  by (auto simp: refusal_def split: option.splits)

lemma fetchSetOnce_daemon:
  assumes "CHR 0x0A \<notin> set name" "store_ok store"
    and "conn (name @ [CHR 0x0A]) = Some (fst (handleSecret peer lookup store t (name @ [CHR 0x0A])))"
  shows "fetchSetOnce conn name = (case Get (asked_name name) store of
      Some (vs, asUser) \<Rightarrow> if may_read peer lookup asUser then Inr vs else Inl (False, Refused ''forbidden'')
    | None \<Rightarrow> Inl (if st_ready store then (False, Refused ''no such set'') else (True, Refused ''not ready'')))"
  unfolding fetchSetOnce_def assms(3) handleSecret_request [OF assms(1)] Let_def
  by (simp add: decode_writeSecret decision_ok assms(2)) (simp add: decision_def refusal_def split: option.splits)

section \<open>The wait\<close>

lemma fetch_from_turn:
  "fetch_from conns now name deadline n =
     (if (\<exists>err. fetchSetOnce (conns n) name = Inl (True, err)) \<and> now n \<le> deadline
      then fetch_from conns now name deadline (Suc n)
      else Some (map_sum snd (\<lambda>x. x) (fetchSetOnce (conns n) name)))"
  by (subst fetch_from.simps) (auto split: sum.splits prod.splits)

text \<open>The loop ends no later than the first attempt that is over after the deadline.\<close>
lemma fetch_from_ends:
  assumes "deadline < now (n + k)"
  shows "\<exists>j. n \<le> j \<and> j \<le> n + k \<and>
     fetch_from conns now name deadline n = Some (map_sum snd (\<lambda>x. x) (fetchSetOnce (conns j) name)) \<and>
     (\<forall>i. n \<le> i \<and> i < j \<longrightarrow> (\<exists>err. fetchSetOnce (conns i) name = Inl (True, err)))"
  using assms
proof (induction k arbitrary: n)
  case 0
  then have "fetch_from conns now name deadline n = Some (map_sum snd (\<lambda>x. x) (fetchSetOnce (conns n) name))"
    by (subst fetch_from_turn) simp
  then show ?case by (intro exI [of _ n]) auto
next
  case (Suc k)
  show ?case
  proof (cases "(\<exists>err. fetchSetOnce (conns n) name = Inl (True, err)) \<and> now n \<le> deadline")
    case False
    then have "fetch_from conns now name deadline n = Some (map_sum snd (\<lambda>x. x) (fetchSetOnce (conns n) name))"
      by (subst fetch_from_turn) (rule if_not_P)
    then show ?thesis by (intro exI [of _ n]) auto
  next
    case True
    then have step: "fetch_from conns now name deadline n = fetch_from conns now name deadline (Suc n)"
      by (subst fetch_from_turn) (rule if_P)
    have "deadline < now (Suc n + k)" using Suc.prems by simp
    from Suc.IH [OF this] obtain j where j: "Suc n \<le> j" "j \<le> Suc n + k"
      "fetch_from conns now name deadline (Suc n) = Some (map_sum snd (\<lambda>x. x) (fetchSetOnce (conns j) name))"
      "\<forall>i. Suc n \<le> i \<and> i < j \<longrightarrow> (\<exists>err. fetchSetOnce (conns i) name = Inl (True, err))"
      by blast
    have "\<exists>err. fetchSetOnce (conns i) name = Inl (True, err)" if "n \<le> i" "i < j" for i
      using True j(4) that by (cases "i = n") auto
    then show ?thesis using step j(1,2,3) by (intro exI [of _ j]) simp
  qed
qed

section \<open>The properties\<close>

text \<open>C18: Whatever a peer of the secret socket asks for, the daemon's answer can be read, it is positive exactly
  when the set exists and is unscoped or scoped to the account that has the peer's uid, it then carries
  the values of that set and of no other, and a read is reported exactly for a positive answer.\<close>
theorem secret_served_scoped:
  assumes "CHR 0x0A \<notin> set name" and "store_ok store"
  shows "\<exists>resp. decode_response (fst (handleSecret peer lookup store t (name @ [CHR 0x0A]))) = Some resp \<and>
     (sr_OK resp \<longleftrightarrow> (\<exists>vs asUser. Get (asked_name name) store = Some (vs, asUser) \<and>
        (asUser = '''' \<or> (\<exists>uid. peer = Some uid \<and> lookup asUser = Some (dec_digits uid))))) \<and>
     sr_Values resp = (if sr_OK resp then fst (the (Get (asked_name name) store)) else []) \<and>
     snd (handleSecret peer lookup store t (name @ [CHR 0x0A])) =
       (if sr_OK resp then Some \<lparr>rd_SetName = asked_name name, rd_At = t\<rparr> else None)"
  unfolding handleSecret_request [OF assms(1)] Let_def
  by (rule exI [of _ "decision peer lookup store (asked_name name)"])
     (simp add: decode_writeSecret decision_ok assms(2), auto simp: decision_def refusal_def may_read_def split: option.splits)

definition sample_store :: SecretStore where
  "sample_store = \<lparr>st_seq = 1, st_ready = True, st_sets = [(''app'',
     \<lparr>os_asUser = ''web'', os_version = 7, os_values = [(''K'', ''v'')]\<rparr>)], st_key = None\<rparr>"

lemma sample_store_ok: "store_ok sample_store" "CHR 0x0A \<notin> set ''app''" "asked_name ''app'' = ''app''"
  by (simp_all add: store_ok_def sample_store_def map_ok_def map_utf8_def valid_utf8_ascii asked_name_def)
     code_simp

theorem secret_served_scoped_witness:
  "(\<exists>resp. decode_response (fst (handleSecret (Some 33) (\<lambda>u. if u = ''web'' then Some (dec_digits 33) else None)
        sample_store 0 (''app'' @ [CHR 0x0A]))) = Some resp \<and> sr_OK resp \<and> sr_Values resp = [(''K'', ''v'')]) \<and>
   (\<exists>resp. decode_response (fst (handleSecret (Some 34) (\<lambda>u. if u = ''web'' then Some (dec_digits 33) else None)
        sample_store 0 (''app'' @ [CHR 0x0A]))) = Some resp \<and> \<not> sr_OK resp)"
proof -
  have g: "Get ''app'' sample_store = Some ([(''K'', ''v'')], ''web'')"
    by (simp add: Get_def sample_store_def)
  have d: "dec_digits 33 \<noteq> dec_digits 34" by code_simp
  show ?thesis
    using secret_served_scoped [OF sample_store_ok(2,1), where peer = "Some 33" and t = 0
        and lookup = "\<lambda>u. if u = ''web'' then Some (dec_digits 33) else None"]
      secret_served_scoped [OF sample_store_ok(2,1), where peer = "Some 34" and t = 0
        and lookup = "\<lambda>u. if u = ''web'' then Some (dec_digits 33) else None"]
    unfolding sample_store_ok(3) g
    using d by auto
qed

text \<open>The clock of the loop: every turn but the first begins after a sleep of half a second.\<close>
definition sleeps :: "(nat \<Rightarrow> time) \<Rightarrow> time \<Rightarrow> bool" where
  "sleeps now start \<longleftrightarrow> (\<forall>n. start + int n * (Second div 2) \<le> now n)"

lemma sleeps_past:
  assumes "sleeps now start" shows "start + timeout < now (0 + nat (2 * timeout div Second + 1))"
proof -
  define n where "n = nat (2 * timeout div Second + 1)"
  have "timeout < int n * (Second div 2)" unfolding n_def Second_def by (cases "0 \<le> timeout") auto
  moreover have "start + int n * (Second div 2) \<le> now n" using assms by (simp add: sleeps_def)
  ultimately show ?thesis by (simp add: n_def)
qed



text \<open>C20: \<open>custosd exec\<close> fails closed. Whatever the states the daemon goes through while the command waits and
  whichever attempts fail to reach it, the command returns, and if it starts the program then with its
  own environment and, added to it, exactly the values of a set that the daemon held under that name
  and that is unscoped or scoped to the account of the caller.\<close>
theorem exec_environment_exact:
  assumes "CHR 0x0A \<notin> set name" and "sleeps now start" and "\<forall>n. store_ok (stores n)"
    and daemon: "\<forall>n. conns n (name @ [CHR 0x0A]) \<in>
      {None, Some (fst (handleSecret peer lookup (stores n) (now n) (name @ [CHR 0x0A])))}"
    and "\<forall>m. mset (order m) = mset m"
  shows "\<exists>l. cmdExec order lookPath conns now start timeout name cmdArgs environ = Some l \<and>
    (\<forall>bin args env. l = Exec bin args env \<longrightarrow> args = cmdArgs \<and> lookPath (hd cmdArgs) = Some bin \<and>
       (\<exists>n vs asUser. Get (asked_name name) (stores n) = Some (vs, asUser) \<and> may_read peer lookup asUser \<and>
          mset env = mset environ + mset (map (\<lambda>(k, v). k @ ''='' @ v) vs)))"
proof -
  obtain j where j: "FetchSet conns now start name timeout = Some (map_sum snd (\<lambda>x. x) (fetchSetOnce (conns j) name))"
    using fetch_from_ends [of "start + timeout" now 0 "nat (2 * timeout div Second + 1)" conns name,
      OF sleeps_past [OF assms(2)]] unfolding FetchSet_def by blast
  have "\<exists>asUser. Get (asked_name name) (stores j) = Some (vs, asUser) \<and> may_read peer lookup asUser"
    if "fetchSetOnce (conns j) name = Inr vs" for vs
  proof (cases "conns j (name @ [CHR 0x0A])")
    case None
    then show ?thesis using that by (simp add: fetchSetOnce_def)
  next
    case (Some r)
    then have "conns j (name @ [CHR 0x0A]) = Some (fst (handleSecret peer lookup (stores j) (now j) (name @ [CHR 0x0A])))"
      using daemon by (metis insertE option.distinct(1) singletonD)
    from fetchSetOnce_daemon [of name "stores j" "conns j", OF assms(1) _ this] show ?thesis
      using that assms(3) by (auto split: option.splits if_splits)
  qed
  then show ?thesis
    using assms(5) unfolding cmdExec_def j
    by (cases "fetchSetOnce (conns j) name") (auto split: option.splits)
qed

definition sample_conns :: "nat \<Rightarrow> bytes \<Rightarrow> bytes option" where
  "sample_conns n r = Some (fst (handleSecret (Some 33) (\<lambda>u. Some (dec_digits 33)) sample_store (int n * Second) r))"

theorem exec_environment_exact_witness:
  "\<exists>env. cmdExec (\<lambda>m. m) (\<lambda>p. Some (''/bin/'' @ p)) sample_conns (\<lambda>n. int n * Second) 0 Second ''app'' [''srv''] [''A=1''] =
     Some (Exec ''/bin/srv'' [''srv''] env) \<and> mset env = {#''A=1'', ''K=v''#}"
proof -
  have s: "sleeps (\<lambda>n. int n * Second) 0" by (simp add: sleeps_def Second_def)
  have g: "Get ''app'' sample_store = Some ([(''K'', ''v'')], ''web'')" by (simp add: Get_def sample_store_def)
  have "fetchSetOnce (sample_conns 0) ''app'' = Inr [(''K'', ''v'')]"
    using fetchSetOnce_daemon [OF sample_store_ok(2,1), of "sample_conns 0" "Some 33" "\<lambda>u. Some (dec_digits 33)" 0]
    by (simp add: sample_conns_def sample_store_ok(3) g may_read_def)
  then obtain env where e: "cmdExec (\<lambda>m. m) (\<lambda>p. Some (''/bin/'' @ p)) sample_conns (\<lambda>n. int n * Second) 0 Second ''app'' [''srv''] [''A=1''] =
     Some (Exec ''/bin/srv'' [''srv''] env)"
    by (simp add: cmdExec_def FetchSet_def fetch_from_turn [of _ _ _ _ 0])
  have "\<forall>n. sample_conns n (''app'' @ [CHR 0x0A]) \<in> {None, Some (fst (handleSecret (Some 33) (\<lambda>u. Some (dec_digits 33)) sample_store
      (int n * Second) (''app'' @ [CHR 0x0A])))}"
    by (simp add: sample_conns_def)
  from exec_environment_exact [of "''app''" _ 0 "\<lambda>_. sample_store" sample_conns, OF sample_store_ok(2) s _ this, of "\<lambda>m. m" "\<lambda>p. Some (''/bin/'' @ p)" Second "[''srv'']" "[''A=1'']"]
  show ?thesis using e sample_store_ok(1) by (auto simp: sample_store_ok(3) g)
qed

end
