(* ===== verification/Daemon_Client.thy ===== *)
theory Daemon_Client
  imports Daemon_Update Daemon_Secrets Daemon_Login
begin

text \<open>
  \<open>internal/daemon/client.go\<close>: the daemon's connection to the control plane. One message is handled
  by \<open>dispatch\<close>; the run of the client is the step relation \<open>run_step\<close>, in which the loop of \<open>Run\<close>,
  the reader, the writer, the forwarder, the staging of an upgrade, the two sockets and the signal
  handler take turns in any order. The network is what arrives in a step. The theorems: only what
  the control plane signed for this host changes what the daemon holds, never something older than
  what it has; a rejected host forgets its keys; the reconnect delay has its bounds.
\<close>

definition logBufferSize :: nat where "logBufferSize = 256"
definition maxReconnect :: duration where "maxReconnect = 30 * Second"
definition maxBackoffAttempt :: nat where "maxBackoffAttempt = 5"
definition StatusPolicyViolation :: nat where "StatusPolicyViolation = 1008"

text \<open>What the client uses of its host and of the libraries.\<close>
record host_env =
  he_iter :: "AccessEntry list \<Rightarrow> AccessEntry list"
  he_ed :: ed25519
  he_dh :: x25519
  he_gcm :: gcm
  he_time :: "time \<Rightarrow> string"
  he_sha256 :: "bytes \<Rightarrow> bytes"
  he_http :: http_get
  he_untar :: archive
  he_arch :: string
  he_dir :: string

record Client =
  cl_cfg :: DaemonConfig
  cl_identity :: bytes
  cl_cache :: Cache
  cl_secrets :: "SecretStore option"
  cl_store :: bool
  cl_logs :: "AccessLog list"
  cl_reads :: "SecretRead list"
  cl_version :: string
  cl_updateDir :: string
  cl_restart :: bool
  cl_upgrading :: bool
  cl_staging :: "Upgrade option"

definition NewClient :: "DaemonConfig \<Rightarrow> bytes \<Rightarrow> Cache \<Rightarrow> SecretStore option \<Rightarrow> string \<Rightarrow> string \<Rightarrow> Client" where
  "NewClient cfg ident cache secrets version updateDir =
     \<lparr>cl_cfg = cfg, cl_identity = ident, cl_cache = cache, cl_secrets = secrets, cl_store = False, cl_logs = [], cl_reads = [],
      cl_version = version, cl_updateDir = updateDir, cl_restart = False, cl_upgrading = False, cl_staging = None\<rparr>"

definition RecordAccess :: "AccessLog \<Rightarrow> Client \<Rightarrow> Client" where
  "RecordAccess entry c = (if length (cl_logs c) < logBufferSize then c\<lparr>cl_logs := cl_logs c @ [entry]\<rparr> else c)"

definition RecordSecretRead :: "SecretRead \<Rightarrow> Client \<Rightarrow> Client" where
  "RecordSecretRead rd c = (if length (cl_reads c) < logBufferSize then c\<lparr>cl_reads := cl_reads c @ [rd]\<rparr> else c)"

definition SetStore :: "Client \<Rightarrow> Client" where
  "SetStore c = c\<lparr>cl_store := True\<rparr>"

definition writeStatus :: "host_env \<Rightarrow> bool \<Rightarrow> Client \<Rightarrow> unit daemon" where
  "writeStatus h connected c = (if \<not> cl_store c then ret () else do {
     w \<leftarrow> State_Monad.get;
     _ \<leftarrow> SaveStatus (he_time h) (he_dir h)
        \<lparr>ls_Connected = connected, ls_LastSeq = cc_seq (cl_cache c), ls_UpdatedAt = dw_clock w\<rparr>;
     ret () })"

section \<open>Messages\<close>

definition plain_envelope :: "string \<Rightarrow> bytes \<Rightarrow> Envelope" where
  "plain_envelope t data = \<lparr>env_Type = t, env_Data = data, env_Seq = 0, env_Sig = ''''\<rparr>"

definition unmarshal_challenge :: "bytes \<Rightarrow> bytes option" where
  "unmarshal_challenge b = (case parse_json b of
     Some (JObj ms) \<Rightarrow> slice_field dec_bytes ''nonce'' ms
   | Some JNull \<Rightarrow> Some ''''
   | _ \<Rightarrow> None)"

definition auth_json :: "Auth \<Rightarrow> json" where
  "auth_json a = JObj ([(''host_id'', JStr (auth_HostID a)), (''signature'', JStr (b64_encode (auth_Signature a)))] @
     (if auth_Version a = '''' then [] else [(''version'', JStr (auth_Version a))]))"

text \<open>The reply to the first message of the control plane, or nothing when the connection is given up.\<close>
definition authenticate :: "host_env \<Rightarrow> Client \<Rightarrow> Envelope \<Rightarrow> Envelope option" where
  "authenticate h c env = (if env_Type env \<noteq> TypeChallenge then None
     else case unmarshal_challenge (env_Data env) of None \<Rightarrow> None
       | Some nonce \<Rightarrow> Some (plain_envelope TypeAuth (enc (auth_json
           \<lparr>auth_HostID = dc_HostID (cl_cfg c), auth_Signature = ident_Sign (he_ed h) (cl_identity c) nonce,
            auth_Version = cl_version c\<rparr>))))"

definition verifySnapshot :: "host_env \<Rightarrow> Client \<Rightarrow> Envelope \<Rightarrow> bool" where
  "verifySnapshot h c env \<longleftrightarrow> dc_SigningPublicKey (cl_cfg c) = '''' \<or>
     ident_Verify (he_ed h) (dc_SigningPublicKey (cl_cfg c))
       (SnapshotSigningInput (dc_HostID (cl_cfg c)) (env_Seq env) (env_Data env)) (env_Sig env)"

definition verifySecretSets :: "host_env \<Rightarrow> Client \<Rightarrow> Envelope \<Rightarrow> bool" where
  "verifySecretSets h c env \<longleftrightarrow> dc_SigningPublicKey (cl_cfg c) = '''' \<or>
     ident_Verify (he_ed h) (dc_SigningPublicKey (cl_cfg c))
       (SecretSetsSigningInput (dc_HostID (cl_cfg c)) (env_Seq env) (env_Data env)) (env_Sig env)"

text \<open>The goroutine that stages the build is started; it ends in \<open>upgradeDone\<close>.\<close>
definition handleUpgrade :: "Upgrade \<Rightarrow> Client \<Rightarrow> Client" where
  "handleUpgrade up c = (if up_Version up = '''' \<or> up_Version up = cl_version c then c
     else if cl_upgrading c then c
     else c\<lparr>cl_upgrading := True, cl_staging := Some up\<rparr>)"

definition upgradeDone :: "derr + unit \<Rightarrow> Client \<Rightarrow> Client" where
  "upgradeDone r c = (case r of Inl e \<Rightarrow> c\<lparr>cl_upgrading := False, cl_staging := None\<rparr>
     | Inr _ \<Rightarrow> c\<lparr>cl_restart := True, cl_staging := None\<rparr>)"

text \<open>The error that ends the connection, the client afterwards, and what is put on the send channel.\<close>
definition dispatch :: "host_env \<Rightarrow> Envelope \<Rightarrow> Client \<Rightarrow> ((derr + unit) \<times> Client \<times> Envelope list) daemon" where
  "dispatch h env c =
     (if env_Type env = TypeSnapshot then
        if \<not> verifySnapshot h c env then ret (Inr (), c, [])
        else if env_Seq env \<noteq> 0 \<and> env_Seq env \<le> cc_seq (cl_cache c) then ret (Inr (), c, [])
        else (case unmarshal_snapshot (env_Data env) of None \<Rightarrow> ret (Inl BadData, c, [])
          | Some s \<Rightarrow> do {
              (r, cache) \<leftarrow> ApplySnapshot (he_iter h) (he_dir h) s (env_Seq env) (cl_cache c);
              ret (r, c\<lparr>cl_cache := cache\<rparr>, []) })
      else if env_Type env = TypeSecretSets then
        (case cl_secrets c of None \<Rightarrow> ret (Inr (), c, [])
         | Some secrets \<Rightarrow>
             if \<not> verifySecretSets h c env then ret (Inr (), c, [])
             else if env_Seq env \<noteq> 0 \<and> env_Seq env \<le> st_seq secrets then ret (Inr (), c, [])
             else (case unmarshal_sealed (env_Data env) of None \<Rightarrow> ret (Inl BadData, c, [])
               | Some sealed \<Rightarrow> (case Apply (he_dh h) (he_gcm h) sealed (env_Seq env) secrets of
                   None \<Rightarrow> ret (Inr (), c, [])
                 | Some secrets' \<Rightarrow> ret (Inr (), c\<lparr>cl_secrets := Some secrets'\<rparr>, []))))
      else if env_Type env = TypeUpgrade then
        (case unmarshal_upgrade (env_Data env) of None \<Rightarrow> ret (Inl BadData, c, [])
         | Some up \<Rightarrow> ret (Inr (), handleUpgrade up c, []))
      else if env_Type env = TypePing then ret (Inr (), c, [plain_envelope TypePong ''''])
      else ret (Inr (), c, []))"

definition wsURL :: "Client \<Rightarrow> string" where
  "wsURL c = (let u = Replace1 (dc_ControlPlane (cl_cfg c)) ''https://'' ''wss://''; u = Replace1 u ''http://'' ''ws://''
     in TrimRight u (CHR ''/'') @ ''/daemon'')"

text \<open>\<open>rnd n\<close> is the random number below \<open>n\<close>.\<close>
definition reconnectDelay :: "(int \<Rightarrow> int) \<Rightarrow> nat \<Rightarrow> duration" where
  "reconnectDelay rnd attempt_no = (let d = min (Second * 2 ^ min attempt_no 5) maxReconnect in d div 2 + rnd (d div 2 + 1))"

section \<open>The run of the client\<close>

text \<open>What ended a connection: the status of a close frame, or anything else.\<close>
datatype link_err = Closed nat | Broken

datatype run_result = CtxErr | ErrRestart

datatype phase = Top | Dialing | Authenticating | Serving | Down link_err | Waiting duration | Returned run_result

text \<open>
  The state of \<open>Run\<close>: the client, the counter of attempts, where the loop is, the send channel of
  the live connection, what was written to the network, whether the context is cancelled, and the
  world of the host.
\<close>
record run_state_rec =
  rs_client :: Client
  rs_attempt :: nat
  rs_phase :: phase
  rs_send :: "Envelope list"
  rs_wire :: "Envelope list"
  rs_cancelled :: bool
  rs_world :: dworld

definition access_log_json :: "(time \<Rightarrow> string) \<Rightarrow> AccessLog \<Rightarrow> json" where
  "access_log_json tm l = JObj [(''fingerprint'', JStr (al_Fingerprint l)), (''account'', JStr (al_Account l)),
     (''allowed'', JBool (al_Allowed l)), (''at'', JStr (tm (al_At l)))]"

definition secret_read_json :: "(time \<Rightarrow> string) \<Rightarrow> SecretRead \<Rightarrow> json" where
  "secret_read_json tm r = JObj [(''set_name'', JStr (rd_SetName r)), (''at'', JStr (tm (rd_At r)))]"

definition forward :: "string \<Rightarrow> json \<Rightarrow> Envelope list \<Rightarrow> Envelope list" where
  "forward t payload send = send @ [plain_envelope t (enc payload)]"

text \<open>\<open>writeStatus\<close> in the world of the run.\<close>
definition status_world :: "host_env \<Rightarrow> bool \<Rightarrow> run_state_rec \<Rightarrow> dworld" where
  "status_world h connected s = snd (run_state (writeStatus h connected (rs_client s)) (rs_world s))"

text \<open>The return of \<open>Run\<close>, with its deferred status.\<close>
definition returns :: "host_env \<Rightarrow> run_result \<Rightarrow> run_state_rec \<Rightarrow> run_state_rec" where
  "returns h r s = s\<lparr>rs_phase := Returned r, rs_world := status_world h False s\<rparr>"

text \<open>The checks of the context and of the restart channel.\<close>
definition stop_check :: "host_env \<Rightarrow> run_state_rec \<Rightarrow> run_state_rec \<Rightarrow> run_state_rec" where
  "stop_check h s next = (if rs_cancelled s then returns h CtxErr s
     else if cl_restart (rs_client s) then returns h ErrRestart s else next)"

text \<open>A policy-violation close: the keys are dropped and the backoff is at its maximum.\<close>
definition rejected :: "host_env \<Rightarrow> run_state_rec \<Rightarrow> run_state_rec" where
  "rejected h s = (case run_state (Purge (he_iter h) (he_dir h) (cl_cache (rs_client s))) (rs_world s) of
     ((_, cache), w) \<Rightarrow> s\<lparr>rs_client := (rs_client s)\<lparr>cl_cache := cache\<rparr>, rs_world := w, rs_attempt := maxBackoffAttempt\<rparr>)"

text \<open>\<open>Run\<close> after \<open>connectAndServe\<close> has returned the error.\<close>
definition after_link :: "host_env \<Rightarrow> (int \<Rightarrow> int) \<Rightarrow> link_err \<Rightarrow> run_state_rec \<Rightarrow> run_state_rec" where
  "after_link h rnd err s =
     (let s = s\<lparr>rs_world := status_world h False s\<rparr> in stop_check h s
       (let s = (if err = Closed StatusPolicyViolation then rejected h s else s); n = Suc (rs_attempt s)
        in s\<lparr>rs_attempt := n, rs_phase := Waiting (reconnectDelay rnd n)\<rparr>))"

text \<open>A connection is over: its channel is dropped.\<close>
definition down :: "link_err \<Rightarrow> run_state_rec \<Rightarrow> run_state_rec" where
  "down err s = s\<lparr>rs_phase := Down err, rs_send := []\<rparr>"

text \<open>\<open>onReady\<close>, and the loops of the connection are started.\<close>
definition ready :: "host_env \<Rightarrow> Envelope \<Rightarrow> run_state_rec \<Rightarrow> run_state_rec" where
  "ready h reply s = s\<lparr>rs_attempt := 0, rs_world := status_world h True s, rs_phase := Serving, rs_send := [],
     rs_wire := rs_wire s @ [reply]\<rparr>"

text \<open>\<open>readLoop\<close> has read a message.\<close>
definition received :: "host_env \<Rightarrow> Envelope \<Rightarrow> run_state_rec \<Rightarrow> run_state_rec" where
  "received h env s = (case run_state (dispatch h env (rs_client s)) (rs_world s) of
     ((r, c, out), w) \<Rightarrow> let s' = s\<lparr>rs_client := c, rs_world := w, rs_send := rs_send s @ out\<rparr> in
       case r of Inl e \<Rightarrow> down Broken s' | Inr _ \<Rightarrow> s')"

text \<open>\<open>writeLoop\<close> writes the next message.\<close>
definition writeLoop :: "run_state_rec \<Rightarrow> run_state_rec option" where
  "writeLoop s = (case rs_send s of [] \<Rightarrow> None | env # rest \<Rightarrow> Some (s\<lparr>rs_send := rest, rs_wire := rs_wire s @ [env]\<rparr>))"

text \<open>\<open>forwardLogs\<close> takes a login or a read from its buffer; \<open>login\<close> is the choice of the select.\<close>
definition forwardLogs :: "host_env \<Rightarrow> bool \<Rightarrow> run_state_rec \<Rightarrow> run_state_rec option" where
  "forwardLogs h login s = (let c = rs_client s in
     if length (rs_send s) \<ge> logBufferSize then None
     else if login then (case cl_logs c of [] \<Rightarrow> None
       | l # ls \<Rightarrow> Some (s\<lparr>rs_client := c\<lparr>cl_logs := ls\<rparr>, rs_send := forward TypeAccessLog (access_log_json (he_time h) l) (rs_send s)\<rparr>))
     else (case cl_reads c of [] \<Rightarrow> None
       | r # rs \<Rightarrow> Some (s\<lparr>rs_client := c\<lparr>cl_reads := rs\<rparr>, rs_send := forward TypeSecretRead (secret_read_json (he_time h) r) (rs_send s)\<rparr>)))"

inductive run_step :: "host_env \<Rightarrow> run_state_rec \<Rightarrow> run_state_rec \<Rightarrow> bool" for h :: host_env where
  rs_top: "rs_phase s = Top \<Longrightarrow> run_step h s (stop_check h s (s\<lparr>rs_phase := Dialing\<rparr>))"
| rs_dial_fails: "rs_phase s = Dialing \<Longrightarrow> run_step h s (down Broken s)"
| rs_dial: "rs_phase s = Dialing \<Longrightarrow> run_step h s (s\<lparr>rs_phase := Authenticating\<rparr>)"
| rs_auth_fails: "rs_phase s = Authenticating \<Longrightarrow> run_step h s (down err s)"
| rs_auth: "rs_phase s = Authenticating \<Longrightarrow> authenticate h (rs_client s) env = Some reply \<Longrightarrow> run_step h s (ready h reply s)"
| rs_auth_refused: "rs_phase s = Authenticating \<Longrightarrow> authenticate h (rs_client s) env = None \<Longrightarrow> run_step h s (down Broken s)"
| rs_receive: "rs_phase s = Serving \<Longrightarrow> env_Type env = TypePing \<longrightarrow> length (rs_send s) < logBufferSize \<Longrightarrow>
    run_step h s (received h env s)"
| rs_link_fails: "rs_phase s = Serving \<Longrightarrow> run_step h s (down err s)"
| rs_write: "rs_phase s = Serving \<Longrightarrow> writeLoop s = Some t \<Longrightarrow> run_step h s t"
| rs_forward: "rs_phase s = Serving \<Longrightarrow> forwardLogs h login s = Some t \<Longrightarrow> run_step h s t"
| rs_down: "rs_phase s = Down err \<Longrightarrow> \<forall>n > 0. 0 \<le> rnd n \<and> rnd n < n \<Longrightarrow> run_step h s (after_link h rnd err s)"
| rs_wake: "rs_phase s = Waiting d \<Longrightarrow> run_step h s (stop_check h s (s\<lparr>rs_phase := Top\<rparr>))"
| rs_signal: "run_step h s (s\<lparr>rs_cancelled := True\<rparr>)"
| rs_login: "run_step h s (s\<lparr>rs_client := RecordAccess entry (rs_client s)\<rparr>)"
| rs_served: "run_step h s (s\<lparr>rs_client := RecordSecretRead rd (rs_client s)\<rparr>)"
| rs_staged: "cl_staging (rs_client s) = Some up \<Longrightarrow>
    run_state (stageUpgrade (he_sha256 h) (he_http h) (he_untar h) (he_arch h) (cl_updateDir (rs_client s)) up) (rs_world s) = (r, w) \<Longrightarrow>
    run_step h s (s\<lparr>rs_client := upgradeDone r (rs_client s), rs_world := w\<rparr>)"
| rs_time: "run_step h s (s\<lparr>rs_world := (rs_world s)\<lparr>dw_clock := t\<rparr>\<rparr>)"

inductive_cases run_stepE: "run_step h s t"

section \<open>Invariants of the run\<close>

text \<open>What the steps other than \<open>received\<close> and \<open>after_link\<close> leave of the client.\<close>
lemmas step_defs = stop_check_def returns_def down_def ready_def RecordAccess_def RecordSecretRead_def upgradeDone_def
  writeLoop_def forwardLogs_def Let_def

lemma dispatch_cases:
  assumes "run_state (dispatch h env c) w = ((r, c', out), w')"
  shows "cl_cache c' = cl_cache c \<or>
    env_Type env = TypeSnapshot \<and> verifySnapshot h c env \<and> (env_Seq env = 0 \<or> cc_seq (cl_cache c) < env_Seq env) \<and>
    (\<exists>s. unmarshal_snapshot (env_Data env) = Some s \<and>
      cl_cache c' = \<lparr>cc_seq = env_Seq env, cc_entries = entry_map (snap_Entries s)\<rparr>)"
    and "cl_secrets c' = cl_secrets c \<or>
    env_Type env = TypeSecretSets \<and> verifySecretSets h c env \<and>
    (\<exists>st st' sealed. cl_secrets c = Some st \<and> cl_secrets c' = Some st' \<and> (env_Seq env = 0 \<or> st_seq st < env_Seq env) \<and>
      unmarshal_sealed (env_Data env) = Some sealed \<and> Apply (he_dh h) (he_gcm h) sealed (env_Seq env) st = Some st')"
    and "cl_cfg c' = cl_cfg c" "cl_logs c' = cl_logs c" "cl_reads c' = cl_reads c"
    and "out = (if env_Type env = TypePing then [plain_envelope TypePong ''''] else [])"
  using assms unfolding dispatch_def handleUpgrade_def ApplySnapshot_def
  by (auto simp: not_le Let_def message_types split: if_splits option.splits prod.splits)

lemma rejected_simps:
  "cl_cfg (rs_client (rejected h s)) = cl_cfg (rs_client s)" "cl_secrets (rs_client (rejected h s)) = cl_secrets (rs_client s)"
  "cl_cache (rs_client (rejected h s)) = (cl_cache (rs_client s))\<lparr>cc_entries := []\<rparr>"
  "cl_logs (rs_client (rejected h s)) = cl_logs (rs_client s)" "cl_reads (rs_client (rejected h s)) = cl_reads (rs_client s)"
  "rs_send (rejected h s) = rs_send s" "rs_phase (rejected h s) = rs_phase s"
  by (simp_all add: rejected_def Purge_def Let_def split: prod.splits)

text \<open>The two ways in which the cache of a client changes.\<close>
definition cache_step :: "host_env \<Rightarrow> Client \<Rightarrow> Cache \<Rightarrow> Cache \<Rightarrow> bool" where
  "cache_step h c k k' \<longleftrightarrow> k' = k \<or> k' = k\<lparr>cc_entries := []\<rparr> \<or>
     (\<exists>env snap. verifySnapshot h c env \<and> (env_Seq env = 0 \<or> cc_seq k < env_Seq env) \<and>
        unmarshal_snapshot (env_Data env) = Some snap \<and>
        k' = \<lparr>cc_seq = env_Seq env, cc_entries = entry_map (snap_Entries snap)\<rparr>)"

lemma run_received:
  obtains r c out w where "run_state (dispatch h env (rs_client s)) (rs_world s) = ((r, c, out), w)"
    and "rs_client (received h env s) = c" and "rs_send (received h env s) \<in> {[], rs_send s @ out}"
    and "rs_phase (received h env s) \<in> {rs_phase s, Down Broken}"
proof -
  obtain r c out w where d: "run_state (dispatch h env (rs_client s)) (rs_world s) = ((r, c, out), w)"
    by (metis prod.collapse)
  then show ?thesis by (intro that [OF d]) (auto simp: received_def Let_def down_def split: sum.splits)
qed

lemma run_step_cache:
  assumes "run_step h s t"
  shows "cl_cfg (rs_client t) = cl_cfg (rs_client s) \<and> cache_step h (rs_client s) (cl_cache (rs_client s)) (cl_cache (rs_client t))"
  using assms
proof (cases rule: run_step.cases)
  case (rs_receive env)
  obtain r c out w where d: "run_state (dispatch h env (rs_client s)) (rs_world s) = ((r, c, out), w)" "rs_client t = c"
    using rs_receive by (metis run_received)
  then show ?thesis using dispatch_cases(1,3) [OF d(1)] by (auto simp: cache_step_def)
next
  case (rs_down err rnd)
  then show ?thesis by (auto simp: after_link_def Let_def step_defs rejected_simps cache_step_def)
qed (auto simp: step_defs cache_step_def split: sum.splits list.splits if_splits)

definition run_ok :: "run_state_rec \<Rightarrow> bool" where
  "run_ok s \<longleftrightarrow> length (cl_logs (rs_client s)) \<le> logBufferSize \<and> length (cl_reads (rs_client s)) \<le> logBufferSize \<and>
     length (rs_send s) \<le> logBufferSize \<and> (\<forall>d. rs_phase s = Waiting d \<longrightarrow> Second \<le> d \<and> d \<le> maxReconnect)"

lemma reconnectDelay_bounds:
  assumes "\<forall>n > 0. 0 \<le> rnd n \<and> rnd n < n" "0 < k"
  shows "Second \<le> reconnectDelay rnd k \<and> reconnectDelay rnd k \<le> maxReconnect"
proof -
  define d where "d = min (Second * 2 ^ min k 5) maxReconnect"
  have "(2 :: int) ^ 1 \<le> 2 ^ min k 5" using assms(2) by (intro power_increasing) auto
  then have d: "2 * Second \<le> d" "d \<le> maxReconnect" by (simp_all add: d_def maxReconnect_def Second_def)
  then have "0 < d div 2 + 1" by (simp add: Second_def)
  then have "0 \<le> rnd (d div 2 + 1)" "rnd (d div 2 + 1) < d div 2 + 1" using assms(1) by blast+
  then show ?thesis using d unfolding reconnectDelay_def Let_def d_def [symmetric] by linarith
qed

lemma run_step_ok:
  assumes "run_step h s t" "run_ok s" shows "run_ok t"
  using assms(1)
proof (cases rule: run_step.cases)
  case (rs_receive env)
  obtain r c out w where d: "run_state (dispatch h env (rs_client s)) (rs_world s) = ((r, c, out), w)" "rs_client t = c"
    "rs_send t \<in> {[], rs_send s @ out}" "rs_phase t \<in> {rs_phase s, Down Broken}"
    using rs_receive by (metis run_received)
  then show ?thesis using dispatch_cases(4,5,6) [OF d(1)] rs_receive assms(2)
    by (auto simp: run_ok_def logBufferSize_def split: if_splits)
next
  case (rs_down err rnd)
  then show ?thesis using assms(2) reconnectDelay_bounds [OF rs_down(3)]
    by (auto simp: after_link_def Let_def step_defs rejected_simps run_ok_def)
qed (use assms(2) in \<open>auto simp: step_defs run_ok_def forward_def split: sum.splits list.splits if_splits\<close>)

section \<open>Properties\<close>

text \<open>The state of \<open>Run\<close> when it is called.\<close>
definition run_start :: "Client \<Rightarrow> dworld \<Rightarrow> run_state_rec" where
  "run_start c w = \<lparr>rs_client = c, rs_attempt = 0, rs_phase = Top, rs_send = [], rs_wire = [], rs_cancelled = False, rs_world = w\<rparr>"


text \<open>C6: The daemon believes the control plane only. Let \<open>issued\<close> be the inputs the control plane has signed,
  none of them under sequence number zero, and let no signature verify on any other input. Then
  throughout any run of a daemon with the control plane's key in its configuration, the keys that may
  log in are those it started with, or none, or exactly those of a snapshot the control plane
  signed for this host under the sequence number the cache carries, which is then higher than
  the one it started with: a forged, foreign or replayed message changes nothing.\<close>
theorem daemon_cache_authentic:
  assumes "(run_step h)\<^sup>*\<^sup>* s t" and "cl_cfg (rs_client s) = cfg" and "dc_SigningPublicKey cfg \<noteq> ''''"
    and unforgeable: "\<forall>input sig. ident_Verify (he_ed h) (dc_SigningPublicKey cfg) input sig \<longrightarrow> input \<in> issued"
    and counted: "\<forall>data. SnapshotSigningInput (dc_HostID cfg) 0 data \<notin> issued"
  shows "cl_cache (rs_client t) = cl_cache (rs_client s) \<or>
    cc_seq (cl_cache (rs_client s)) \<le> cc_seq (cl_cache (rs_client t)) \<and> cc_entries (cl_cache (rs_client t)) = [] \<or>
    cc_seq (cl_cache (rs_client s)) < cc_seq (cl_cache (rs_client t)) \<and>
    (\<exists>data snap. SnapshotSigningInput (dc_HostID cfg) (cc_seq (cl_cache (rs_client t))) data \<in> issued \<and>
      unmarshal_snapshot data = Some snap \<and> cc_entries (cl_cache (rs_client t)) = entry_map (snap_Entries snap))"
    (is "?P t")
proof -
  have "cl_cfg (rs_client t) = cfg \<and> ?P t" using assms(1)
  proof (induction rule: rtranclp_induct)
    case (step t u)
    have "cl_cfg (rs_client u) = cfg" "cache_step h (rs_client t) (cl_cache (rs_client t)) (cl_cache (rs_client u))"
      using run_step_cache [OF step.hyps(2)] step.IH by auto
    then show ?case using step.IH assms(3) unforgeable counted unfolding cache_step_def verifySnapshot_def by fastforce
  qed (simp add: assms(2))
  then show ?thesis ..
qed

section \<open>A sample host\<close>

definition sample_pub :: string where "sample_pub = b64_encode (replicate 32 (CHR ''k''))"

definition sample_cfg :: DaemonConfig where
  "sample_cfg = \<lparr>dc_ControlPlane = ''https://cp'', dc_HostID = ''h1'', dc_SigningPublicKey = sample_pub\<rparr>"

definition sample_snap :: Snapshot where "sample_snap = \<lparr>snap_Entries = [zero_entry]\<rparr>"

text \<open>A signature scheme under which the one signature made so far is on a snapshot with number 5.\<close>
definition sample_ed5 :: ed25519 where
  "sample_ed5 = \<lparr>ed_Sign = (\<lambda>k m. ''sig''),
     ed_Verify = (\<lambda>p m s. m = ident_message (SnapshotSigningInput ''h1'' 5 (marshal_snapshot sample_snap)) \<and> s = ''sig''),
     ed_Public = (\<lambda>k. k)\<rparr>"

definition sample_env :: host_env where
  "sample_env = \<lparr>he_iter = (\<lambda>es. es), he_ed = sample_ed5, he_dh = sample_dh, he_gcm = sample_gcm, he_time = (\<lambda>t. ''''),
     he_sha256 = (\<lambda>b. b), he_http = (\<lambda>u. None), he_untar = (\<lambda>b. None), he_arch = ''amd64'', he_dir = ''/s''\<rparr>"

definition sample_client :: Client where
  "sample_client = NewClient sample_cfg ''priv'' empty_cache None ''v1'' ''/s/update''"

definition sample_push :: Envelope where
  "sample_push = \<lparr>env_Type = TypeSnapshot, env_Data = marshal_snapshot sample_snap, env_Seq = 5, env_Sig = ''sig''\<rparr>"

definition sample_serving :: run_state_rec where
  "sample_serving = (run_start sample_client sample_good_disk)\<lparr>rs_phase := Serving\<rparr>"

lemma sample_verify: "ident_Verify sample_ed5 sample_pub input sig \<longleftrightarrow>
    input = SnapshotSigningInput ''h1'' 5 (marshal_snapshot sample_snap) \<and> sig = ''sig''"
  by (auto simp: ident_Verify_def sample_pub_def b64_roundtrip sample_ed5_def ident_message_inj simp del: b64_encode.simps)

lemma sample_pub_nonempty: "sample_pub \<noteq> ''''"
proof
  assume "sample_pub = ''''"
  then have "b64_decode '''' = Some (replicate 32 (CHR ''k''))" unfolding sample_pub_def using b64_roundtrip by metis
  moreover have "b64_decode '''' = Some ''''" by code_simp
  ultimately show False by simp
qed

lemma sample_snap_read: "unmarshal_snapshot (marshal_snapshot sample_snap) = Some sample_snap"
  by (intro snapshot_roundtrip) (simp add: sample_snap_def entry_utf8_def zero_entry_def valid_utf8.simps)

lemma sample_received: "run_step sample_env sample_serving (received sample_env sample_push sample_serving)"
  "cl_cache (rs_client (received sample_env sample_push sample_serving)) = \<lparr>cc_seq = 5, cc_entries = [('''', zero_entry)]\<rparr>"
proof -
  show "run_step sample_env sample_serving (received sample_env sample_push sample_serving)"
    by (rule rs_receive) (simp_all add: sample_serving_def sample_push_def message_types)
  obtain r c out w where d: "run_state (dispatch sample_env sample_push (rs_client sample_serving)) (rs_world sample_serving) = ((r, c, out), w)"
    "rs_client (received sample_env sample_push sample_serving) = c"
    by (metis run_received)
  have "verifySnapshot sample_env (rs_client sample_serving) sample_push" "cl_cache (rs_client sample_serving) = empty_cache"
    by (simp_all add: verifySnapshot_def sample_serving_def run_start_def sample_client_def NewClient_def sample_cfg_def sample_env_def
        sample_push_def sample_verify)
  then have "cl_cache c = \<lparr>cc_seq = 5, cc_entries = entry_map (snap_Entries sample_snap)\<rparr>"
    using d(1) by (simp add: dispatch_def ApplySnapshot_def Let_def sample_push_def sample_snap_read empty_cache_def split: prod.splits) auto
  then show "cl_cache (rs_client (received sample_env sample_push sample_serving)) = \<lparr>cc_seq = 5, cc_entries = [('''', zero_entry)]\<rparr>"
    by (simp add: d(2) sample_snap_def entry_map_def zero_entry_def)
qed


theorem daemon_cache_authentic_witness:
  "(run_step sample_env)\<^sup>*\<^sup>* sample_serving (received sample_env sample_push sample_serving) \<and>
   (\<exists>data snap. SnapshotSigningInput ''h1'' 5 data = SnapshotSigningInput ''h1'' 5 (marshal_snapshot sample_snap) \<and>
      unmarshal_snapshot data = Some snap \<and> entry_map (snap_Entries snap) = [('''', zero_entry)])"
proof -
  have r: "(run_step sample_env)\<^sup>*\<^sup>* sample_serving (received sample_env sample_push sample_serving)"
    using sample_received(1) by (rule r_into_rtranclp)
  let ?signed = "{SnapshotSigningInput ''h1'' 5 (marshal_snapshot sample_snap)}"
  have z: "\<forall>data. SnapshotSigningInput (dc_HostID sample_cfg) 0 data \<notin> ?signed"
    using signingInput_inj [of "''h1''" "''h1''" snapshotSigTag 0 _ 5 "marshal_snapshot sample_snap"]
    by (auto simp: SnapshotSigningInput_def sample_cfg_def)
  have u: "\<forall>input sig. ident_Verify (he_ed sample_env) (dc_SigningPublicKey sample_cfg) input sig \<longrightarrow> input \<in> ?signed"
    by (simp add: sample_cfg_def sample_env_def sample_verify)
  have c: "cl_cfg (rs_client sample_serving) = sample_cfg" "cl_cache (rs_client sample_serving) = empty_cache"
    by (simp_all add: sample_serving_def run_start_def sample_client_def NewClient_def)
  have "dc_SigningPublicKey sample_cfg \<noteq> ''''" using sample_pub_nonempty by (simp add: sample_cfg_def)
  from daemon_cache_authentic [OF r c(1) this u z] show ?thesis
    using r sample_received(2) c(2) by (auto simp: empty_cache_def sample_env_def sample_cfg_def)
qed

text \<open>A status write leaves the cache file alone.\<close>
lemma status_disk: "disk_cache (he_dir h) (dw_files (status_world h connected s)) = disk_cache (he_dir h) (dw_files (rs_world s))"
proof -
  have "state_io_rel (keeps (\<lambda>q. q = in_dir (he_dir h) ''cache.json'')) (writeStatus h connected (rs_client s))"
    unfolding writeStatus_def SaveStatus_def
    by (intro eff file_ops) (auto simp: in_dir_def temp_name_def)
  from state_io_rel_run [OF this, of "rs_world s"] show ?thesis
    by (simp add: status_world_def keeps_def disk_cache_def)
qed

lemma authorize_none: "(\<forall>k. Lookup k c = None) \<Longrightarrow> authorize c fingerprint account = None"
  by (simp add: authorize_def)


definition sample_granting :: run_state_rec where
  "sample_granting = run_start (sample_client\<lparr>cl_cache := \<lparr>cc_seq = 5, cc_entries = [(''f'', zero_entry\<lparr>ae_Accounts := [''x'']\<rparr>)]\<rparr>\<rparr>) sample_good_disk"


end
