(* ===== verification/Daemon_Enroll.thy ===== *)
theory Daemon_Enroll
  imports Daemon_Cache Go_Strings
begin

text \<open>
  \<open>internal/daemon/enroll.go\<close> and \<open>decommission.go\<close>: the one-time registration of a host with the
  control plane and its removal. The reply of the control plane to a request is an argument, as are
  the fresh keys. The theorems: a rejected enrollment leaves the files alone; an accepted one that
  reports success has stored the keys and the configuration that the daemon then loads.
\<close>

section \<open>Messages\<close>

definition enroll_request_json :: "EnrollRequest \<Rightarrow> json" where
  "enroll_request_json r = JObj ([(''token'', JStr (er_Token r)), (''hostname'', JStr (er_Hostname r)),
     (''public_key'', JStr (er_PublicKey r)), (''encryption_key'', JStr (er_EncryptionKey r)), (''machine_id'', JStr (er_MachineID r))] @
     (if er_PriorHostID r = '''' then [] else [(''prior_host_id'', JStr (er_PriorHostID r))]))"

definition enroll_response_json :: "EnrollResponse \<Rightarrow> json" where
  "enroll_response_json r = JObj [(''host_id'', JStr (ers_HostID r)), (''signing_public_key'', JStr (ers_SigningPublicKey r))]"

text \<open>The first JSON value of the body.\<close>
definition decode_enroll_response :: "bytes \<Rightarrow> EnrollResponse option" where
  "decode_enroll_response b = (case p_value (Suc (2 * length b)) b of
     Some (JObj ms, _) \<Rightarrow> (case (field dec_string '''' ''host_id'' ms, field dec_string '''' ''signing_public_key'' ms) of
         (Some h, Some s) \<Rightarrow> Some \<lparr>ers_HostID = h, ers_SigningPublicKey = s\<rparr> | _ \<Rightarrow> None)
   | Some (JNull, _) \<Rightarrow> Some \<lparr>ers_HostID = '''', ers_SigningPublicKey = ''''\<rparr>
   | _ \<Rightarrow> None)"

definition decommission_json :: "DecommissionRequest \<Rightarrow> json" where
  "decommission_json r = JObj [(''at'', JStr (FormatRFC3339Nano (dr_At r))), (''signature'', JStr (b64_encode (dr_Signature r)))]"

section \<open>Enrollment\<close>

definition machineIDSources :: "string list" where
  "machineIDSources = [''/etc/machine-id'', ''/var/lib/dbus/machine-id'', ''/sys/class/dmi/id/product_uuid'']"

fun first_id :: "string list \<Rightarrow> string daemon" where
  "first_id [] = ret ''''"
| "first_id (src # srcs) = attempt (ReadFile src) (\<lambda>_. first_id srcs)
     (\<lambda>b. let raw = TrimSpace b in if raw \<noteq> '''' then ret raw else first_id srcs)"

definition machineID :: "(bytes \<Rightarrow> bytes) \<Rightarrow> string daemon" where
  "machineID sha256 = do {
     raw \<leftarrow> first_id machineIDSources;
     ret (if raw = '''' then '''' else hex_encode (sha256 (''custos-host:'' @ raw)))
   }"

text \<open>The status and body the control plane answers a POST with.\<close>
type_synonym http_post = "string \<Rightarrow> bytes \<Rightarrow> (nat \<times> bytes) option"

definition postEnroll :: "http_post \<Rightarrow> string \<Rightarrow> EnrollRequest \<Rightarrow> derr + EnrollResponse" where
  "postEnroll post baseURL req = (case post (TrimRight baseURL (CHR ''/'') @ ''/enroll'') (enc (enroll_request_json req)) of
     None \<Rightarrow> Inl IoError
   | Some (status, body) \<Rightarrow> if status \<noteq> 200 then Inl BadData
       else (case decode_enroll_response body of None \<Rightarrow> Inl BadData | Some out \<Rightarrow> Inr out))"

record EnrollOptions =
  eo_ControlPlane :: string
  eo_Token :: string
  eo_Hostname :: string

text \<open>The fresh keys are the private keys, or nothing when the random source fails.\<close>
definition Enroll :: "ed25519 \<Rightarrow> x25519 \<Rightarrow> (bytes \<Rightarrow> bytes) \<Rightarrow> http_post \<Rightarrow> bytes option \<Rightarrow> bytes option \<Rightarrow> string \<Rightarrow> EnrollOptions \<Rightarrow> (derr + unit) daemon" where
  "Enroll ed dh sha256 post newKey newEncKey dir opts = do {
     mID \<leftarrow> machineID sha256;
     if mID = '''' then ret (Inl BadData)
     else case newKey of None \<Rightarrow> ret (Inl IoError)
       | Some kp \<Rightarrow> (case newEncKey of None \<Rightarrow> ret (Inl IoError)
         | Some encKP \<Rightarrow> do {
             prior \<leftarrow> attempt (LoadConfig_d dir) (\<lambda>_. ret '''') (\<lambda>cfg. ret (dc_HostID cfg));
             (case postEnroll post (eo_ControlPlane opts) \<lparr>er_Token = eo_Token opts, er_Hostname = eo_Hostname opts,
                 er_PublicKey = ident_PublicKey ed kp, er_EncryptionKey = hybrid_PublicKey dh encKP,
                 er_MachineID = mID, er_PriorHostID = prior\<rparr> of
                Inl e \<Rightarrow> ret (Inl e)
              | Inr resp \<Rightarrow>
                  attempt (SaveIdentity dir kp) (\<lambda>e. ret (Inl e)) (\<lambda>_.
                  attempt (SaveEncryptionKey dir encKP) (\<lambda>e. ret (Inl e)) (\<lambda>_.
                  SaveConfig dir \<lparr>dc_ControlPlane = eo_ControlPlane opts, dc_HostID = ers_HostID resp,
                    dc_SigningPublicKey = ers_SigningPublicKey resp\<rparr>))) }) }"

definition Decommission :: "ed25519 \<Rightarrow> http_post \<Rightarrow> string \<Rightarrow> (derr + unit) daemon" where
  "Decommission ed post dir = attempt (LoadConfig_d dir) (\<lambda>e. ret (Inl e)) (\<lambda>cfg.
     attempt (LoadIdentity dir) (\<lambda>e. ret (Inl e)) (\<lambda>ident. do {
       w \<leftarrow> State_Monad.get;
       let at = dw_clock w;
           req = \<lparr>dr_At = at, dr_Signature = ident_Sign ed ident (DecommissionSigningInput (dc_HostID cfg) at)\<rparr> in
       ret (case post (TrimRight (dc_ControlPlane cfg) (CHR ''/'') @ ''/hosts/'' @ dc_HostID cfg @ ''/decommission'')
                  (enc (decommission_json req)) of
              None \<Rightarrow> Inl IoError
            | Some (status, body) \<Rightarrow> if status \<noteq> 204 then Inl BadData else Inr ()) }))"

section \<open>What an enrollment leaves\<close>

lemma eff_first_id [file_ops]: "state_io_rel (keeps P) (first_id srcs)"
  by (induction srcs) (auto intro!: eff file_ops simp: Let_def)

lemma eff_LoadConfig [file_ops]: "state_io_rel (keeps P) (LoadConfig_d dir)"
  unfolding LoadConfig_d_def by (intro eff file_ops)

lemma eff_machineID [file_ops]: "state_io_rel (keeps P) (machineID sha256)"
  unfolding machineID_def by (intro eff file_ops)

lemma keeps_all: "keeps (\<lambda>_. True) w w' \<longleftrightarrow> dw_files w' = dw_files w"
  by (auto simp: keeps_def)

text \<open>The three files, in the order they are written.\<close>
definition id_path :: "string \<Rightarrow> string" where "id_path dir = in_dir dir ''identity.key''"
definition enc_path :: "string \<Rightarrow> string" where "enc_path dir = in_dir dir ''encryption.key''"
definition cfg_path :: "string \<Rightarrow> string" where "cfg_path dir = in_dir dir ''config.json''"
definition cache_path :: "string \<Rightarrow> string" where "cache_path dir = in_dir dir ''cache.json''"

lemmas paths_defs = id_path_def enc_path_def cfg_path_def cache_path_def

lemma state_paths:
  "id_path dir \<noteq> enc_path dir" "id_path dir \<noteq> cfg_path dir" "enc_path dir \<noteq> cfg_path dir" "cache_path dir \<noteq> id_path dir"
  "cache_path dir \<noteq> enc_path dir" "cache_path dir \<noteq> cfg_path dir"
  "lasting dir (id_path dir)" "lasting dir (enc_path dir)" "lasting dir (cfg_path dir)" "lasting dir (cache_path dir)"
  by (auto simp: paths_defs lasting_def temp_name_def in_dir_def)

text \<open>A write of one of them: it is replaced or not, the others stay.\<close>
lemma write_cases:
  assumes "\<not> HasPrefix name ''.tmp-''" "run_state (atomicWrite dir name data perm) w = (r, w')"
  shows "(\<forall>q. lasting dir q \<longrightarrow> q \<noteq> in_dir dir name \<longrightarrow> dw_files w' q = dw_files w q) \<and>
     (dw_files w' (in_dir dir name) = dw_files w (in_dir dir name) \<and> r \<noteq> Inr () \<or> dw_files w' (in_dir dir name) = Some (data, perm))"
  using atomicWrite_cases [OF assms] by (auto split: if_splits)

lemmas save_cases =
  write_cases [OF state_file_names(2), of dir "b64_encode kp" mode600 for dir kp, folded SaveIdentity_def id_path_def]
  write_cases [OF state_file_names(3), of dir "b64_encode ek" mode600 for dir ek, folded SaveEncryptionKey_def enc_path_def]
  write_cases [OF state_file_names(1), of dir "marshal_config c" mode600 for dir c, folded SaveConfig_def cfg_path_def]

text \<open>The files after the three writes.\<close>
definition enrolled_files :: "string \<Rightarrow> bytes \<Rightarrow> bytes \<Rightarrow> DaemonConfig \<Rightarrow> files \<Rightarrow> bool" where
  "enrolled_files dir kp ek c fs \<longleftrightarrow> fs (id_path dir) = Some (b64_encode kp, mode600) \<and>
     fs (enc_path dir) = Some (b64_encode ek, mode600) \<and> fs (cfg_path dir) = Some (marshal_config c, mode600)"

lemma save_all_cases:
  assumes run: "run_state (attempt (SaveIdentity dir kp) (\<lambda>e. ret (Inl e)) (\<lambda>_.
       attempt (SaveEncryptionKey dir ek) (\<lambda>e. ret (Inl e)) (\<lambda>_. SaveConfig dir c))) w = (r, w')"
  shows "(r = Inr () \<longrightarrow> enrolled_files dir kp ek c (dw_files w')) \<and>
    (dw_files w' (cfg_path dir) = dw_files w (cfg_path dir) \<or> enrolled_files dir kp ek c (dw_files w')) \<and>
    dw_files w' (cache_path dir) = dw_files w (cache_path dir)"
proof -
  obtain x w1 where x: "run_state (SaveIdentity dir kp) w = (x, w1)" by fastforce
  obtain y w2 where y: "run_state (SaveEncryptionKey dir ek) w1 = (y, w2)" by fastforce
  obtain z w3 where z: "run_state (SaveConfig dir c) w2 = (z, w3)" by fastforce
  have X: "dw_files w1 (enc_path dir) = dw_files w (enc_path dir)" "dw_files w1 (cfg_path dir) = dw_files w (cfg_path dir)"
      "dw_files w1 (cache_path dir) = dw_files w (cache_path dir)" "x = Inr () \<Longrightarrow> dw_files w1 (id_path dir) = Some (b64_encode kp, mode600)"
    using save_cases(1) [OF x] state_paths [of dir] by (simp_all, blast?)
  have Y: "dw_files w2 (id_path dir) = dw_files w1 (id_path dir)" "dw_files w2 (cfg_path dir) = dw_files w1 (cfg_path dir)"
      "dw_files w2 (cache_path dir) = dw_files w1 (cache_path dir)" "y = Inr () \<Longrightarrow> dw_files w2 (enc_path dir) = Some (b64_encode ek, mode600)"
    using save_cases(2) [OF y] state_paths [of dir] by (simp_all, blast?)
  have Z: "dw_files w3 (id_path dir) = dw_files w2 (id_path dir)" "dw_files w3 (enc_path dir) = dw_files w2 (enc_path dir)"
      "dw_files w3 (cache_path dir) = dw_files w2 (cache_path dir)"
      "dw_files w3 (cfg_path dir) = dw_files w2 (cfg_path dir) \<and> z \<noteq> Inr () \<or> dw_files w3 (cfg_path dir) = Some (marshal_config c, mode600)"
    using save_cases(3) [OF z] state_paths [of dir] by simp_all
  consider e where "x = Inl e" | e where "x = Inr ()" "y = Inl e" | "x = Inr ()" "y = Inr ()"
    by (cases x; cases y) auto
  then show ?thesis
  proof cases
    case 1
    then show ?thesis using run x X by (simp add: run_attempt) auto
  next
    case 2
    then show ?thesis using run x y X Y by (simp add: run_attempt) auto
  next
    case 3
    then have "r = z" "w' = w3" using run x y z by (simp_all add: run_attempt)
    then show ?thesis using X Y Z 3 unfolding enrolled_files_def by auto
  qed
qed

definition enroll_request :: "ed25519 \<Rightarrow> x25519 \<Rightarrow> bytes \<Rightarrow> bytes \<Rightarrow> EnrollOptions \<Rightarrow> string \<Rightarrow> string \<Rightarrow> EnrollRequest" where
  "enroll_request ed dh kp ek opts mID prior = \<lparr>er_Token = eo_Token opts, er_Hostname = eo_Hostname opts,
     er_PublicKey = ident_PublicKey ed kp, er_EncryptionKey = hybrid_PublicKey dh ek, er_MachineID = mID, er_PriorHostID = prior\<rparr>"

definition enroll_config :: "EnrollOptions \<Rightarrow> EnrollResponse \<Rightarrow> DaemonConfig" where
  "enroll_config opts resp = \<lparr>dc_ControlPlane = eo_ControlPlane opts, dc_HostID = ers_HostID resp, dc_SigningPublicKey = ers_SigningPublicKey resp\<rparr>"

lemma Enroll_cases:
  assumes run: "run_state (Enroll ed dh sha256 post (Some kp) (Some ek) dir opts) w = (r, w')"
  shows "dw_files w' = dw_files w \<and> r \<noteq> Inr () \<or>
    (\<exists>mID prior resp w1. mID \<noteq> '''' \<and> postEnroll post (eo_ControlPlane opts) (enroll_request ed dh kp ek opts mID prior) = Inr resp \<and>
      dw_files w1 = dw_files w \<and>
      run_state (attempt (SaveIdentity dir kp) (\<lambda>e. ret (Inl e)) (\<lambda>_.
       attempt (SaveEncryptionKey dir ek) (\<lambda>e. ret (Inl e)) (\<lambda>_. SaveConfig dir (enroll_config opts resp)))) w1 = (r, w'))"
proof -
  obtain mID w1 where m: "run_state (machineID sha256) w = (mID, w1)" by fastforce
  have f1: "dw_files w1 = dw_files w"
    using state_io_rel_run [OF eff_machineID [of "\<lambda>_. True" sha256], of w] m by (simp add: keeps_all)
  define load where "load = attempt (LoadConfig_d dir) (\<lambda>_. ret '''') (\<lambda>cfg. ret (dc_HostID cfg))"
  obtain prior w2 where l: "run_state load w1 = (prior, w2)" by fastforce
  have "state_io_rel (keeps (\<lambda>_. True)) load" unfolding load_def by (intro eff file_ops)
  from state_io_rel_run [OF this, of w1] have f2: "dw_files w2 = dw_files w1" using l by (simp add: keeps_all)
  define resp where "resp = postEnroll post (eo_ControlPlane opts) (enroll_request ed dh kp ek opts mID prior)"
  show ?thesis
  proof (cases "mID = '''' \<or> (\<exists>e. resp = Inl e)")
    case True
    then show ?thesis using run m l f1 f2
      by (auto simp: Enroll_def resp_def enroll_request_def simp flip: load_def split: if_splits)
  next
    case False
    then obtain x where x: "mID \<noteq> ''''" "resp = Inr x" by (cases resp) auto
    have "run_state (attempt (SaveIdentity dir kp) (\<lambda>e. ret (Inl e)) (\<lambda>_.
       attempt (SaveEncryptionKey dir ek) (\<lambda>e. ret (Inl e)) (\<lambda>_. SaveConfig dir (enroll_config opts x)))) w2 = (r, w')"
      using run m l x by (simp add: Enroll_def resp_def enroll_request_def enroll_config_def flip: load_def)
    then show ?thesis using x f1 f2 unfolding resp_def by metis
  qed
qed

lemma read_healthy: "healthy v \<Longrightarrow> dw_files v path = Some (b, m) \<Longrightarrow> \<exists>v'. run_state (ReadFile path) v = (Inr b, v')"
  by (simp add: healthy_def ReadFile_def close_file_def run_atomic_op)

lemma enrolled_loads:
  assumes "enrolled_files dir kp ek c (dw_files v)" "healthy v" "length kp = 64" "length ek = 32" "config_utf8 c"
  shows "fst (run_state (LoadIdentity dir) v) = Inr kp \<and> fst (run_state (LoadEncryptionKey dir) v) = Inr ek \<and>
    fst (run_state (LoadConfig_d dir) v) = Inr c"
  using read_healthy [OF assms(2)] assms
  by (fastforce simp: enrolled_files_def LoadIdentity_def LoadEncryptionKey_def LoadConfig_d_def paths_defs run_attempt LoadKeyPair_def
      hybrid_LoadKeyPair_def b64_roundtrip unmarshal_marshal_config simp del: b64_encode.simps)

section \<open>Properties\<close>


text \<open>A new registration keeps the cache of the old one, its sequence number included.\<close>
lemma Enroll_keeps_cache:
  assumes "run_state (Enroll ed dh sha256 post (Some kp) (Some ek) dir opts) w = (r, w')"
  shows "disk_cache dir (dw_files w') = disk_cache dir (dw_files w)"
  using Enroll_cases [OF assms]
proof (elim disjE exE conjE)
  fix resp w1
  assume f: "dw_files w1 = dw_files w" and run: "run_state (attempt (SaveIdentity dir kp) (\<lambda>e. ret (Inl e)) (\<lambda>_.
       attempt (SaveEncryptionKey dir ek) (\<lambda>e. ret (Inl e)) (\<lambda>_. SaveConfig dir (enroll_config opts resp)))) w1 = (r, w')"
  show ?thesis using save_all_cases [OF run] f by (simp add: disk_cache_def cache_path_def)
qed simp

lemma decode_enroll_response_json:
  assumes "valid_utf8 (ers_HostID r)" "valid_utf8 (ers_SigningPublicKey r)"
  shows "decode_enroll_response (enc (enroll_response_json r)) = Some r"
proof -
  have k: "fold_key ''host_id'' = ''host_id''" "fold_key ''signing_public_key'' = ''signing_public_key''"
    by (simp_all add: lower_char_def in_range_def)
  have "json_ok (enroll_response_json r)" using assms by (auto simp: enroll_response_json_def intro!: valid_utf8_ascii)
  from parse_enc_gen(1) [OF this, of "[]" "Suc (2 * length (enc (enroll_response_json r)))"]
  have "p_value (Suc (2 * length (enc (enroll_response_json r)))) (enc (enroll_response_json r)) = Some (enroll_response_json r, [])"
    by (simp add: stop_def del: p_value.simps)
  then show ?thesis
    by (simp add: decode_enroll_response_def enroll_response_json_def field_def k dec_string_def del: fold_key.simps p_value.simps enc.simps)
qed

definition sample_machine :: dworld where
  "sample_machine = sample_good_disk\<lparr>dw_files := (\<lambda>q. if q = ''/etc/machine-id'' then Some (''abc'', mode644) else None)\<rparr>"

definition sample_reply :: EnrollResponse where
  "sample_reply = \<lparr>ers_HostID = ''h1'', ers_SigningPublicKey = ''pk''\<rparr>"

definition sample_opts :: EnrollOptions where
  "sample_opts = \<lparr>eo_ControlPlane = ''https://cp'', eo_Token = ''t'', eo_Hostname = ''web''\<rparr>"

definition sample_post :: http_post where
  "sample_post url body = Some (200, enc (enroll_response_json sample_reply))"

lemma sample_postEnroll: "postEnroll sample_post u req = Inr sample_reply" "config_utf8 (enroll_config sample_opts sample_reply)"
proof -
  have "valid_utf8 ''h1''" "valid_utf8 ''pk''" "valid_utf8 ''https://cp''" by (rule valid_utf8_ascii; simp)+
  then show "postEnroll sample_post u req = Inr sample_reply" "config_utf8 (enroll_config sample_opts sample_reply)"
    by (simp_all add: postEnroll_def sample_post_def decode_enroll_response_json sample_reply_def config_utf8_def enroll_config_def
        sample_opts_def del: enc.simps)
qed


end
