(* ===== verification/Daemon_Cmd.thy ===== *)
theory Daemon_Cmd
  imports Daemon_Client Daemon_Enroll
begin

text \<open>
  \<open>internal/daemon/sshd.go\<close> and the commands of \<open>cmd/daemon\<close>: \<open>install\<close>, \<open>uninstall\<close>, \<open>enroll\<close>, \<open>run\<close> and
  \<open>status\<close>. The machine is its disk, the list of the programs run on it with an oracle for their exit
  status, and the account database as it is after a number of them. What is printed for the operator
  is modelled for \<open>status\<close> only. The theorems: sshd is never left with a drop-in that it refuses;
  the running daemon starts from what enrollment and the last run left.
\<close>

record machine =
  mc_disk :: dworld
  mc_ran :: "string list list"
  mc_exit :: "nat \<Rightarrow> bool"
  mc_users :: "nat \<Rightarrow> string \<Rightarrow> (string \<times> string) option"

type_synonym 'a command = "(machine, 'a) state"

definition on_disk :: "'a daemon \<Rightarrow> 'a command" where
  "on_disk m = State (\<lambda>s. case run_state m (mc_disk s) of (r, w) \<Rightarrow> (r, s\<lparr>mc_disk := w\<rparr>))"

text \<open>\<open>exec.Command(argv...).Run()\<close>: whether it succeeds.\<close>
definition run_cmd :: "string list \<Rightarrow> bool command" where
  "run_cmd argv = State (\<lambda>s. (mc_exit s (length (mc_ran s)), s\<lparr>mc_ran := mc_ran s @ [argv]\<rparr>))"

definition lookup_user :: "string \<Rightarrow> (string \<times> string) option command" where
  "lookup_user name = State (\<lambda>s. (mc_users s (length (mc_ran s)) name, s))"

section \<open>sshd\<close>

definition sshDir :: string where "sshDir = ''/etc/ssh''"
definition dropInName :: string where "dropInName = ''70-custos.conf''"

definition newline :: string where "newline = [CHR 0x0A]"

definition dropInContent :: "string \<Rightarrow> string \<Rightarrow> string \<Rightarrow> string \<Rightarrow> string" where
  "dropInContent binaryPath user stateDir socket = ''# Managed by custos. Do not edit.'' @ newline @
     ''AuthorizedKeysCommand '' @ binaryPath @ '' authkeys --dir '' @ stateDir @ '' --socket '' @ socket @ '' %u %t %k'' @ newline @
     ''AuthorizedKeysCommandUser '' @ user @ newline"

definition sshd_dir :: "string \<Rightarrow> string" where
  "sshd_dir dir = in_dir (if dir = '''' then sshDir else dir) ''sshd_config.d''"

definition DropInPath :: string where
  "DropInPath = in_dir (in_dir sshDir ''sshd_config.d'') dropInName"

definition WriteDropIn :: "string \<Rightarrow> string \<Rightarrow> string \<Rightarrow> string \<Rightarrow> string \<Rightarrow> (derr + string) daemon" where
  "WriteDropIn sshConfigDir binaryPath user stateDir socket =
     attempt (atomicWrite (sshd_dir sshConfigDir) dropInName (dropInContent binaryPath user stateDir socket) mode644)
       (\<lambda>e. ret (Inl e)) (\<lambda>_. ret (Inr (in_dir (sshd_dir sshConfigDir) dropInName)))"

text \<open>Removing a file that is not there succeeds in this model, which is what the command makes of it.\<close>
definition RemoveDropIn :: "string \<Rightarrow> (derr + unit) daemon" where
  "RemoveDropIn dir = remove_file (in_dir (sshd_dir dir) dropInName)"

text \<open>\<open>strings.ToLower\<close> as far as its ASCII letters: the letters, and the one other rune that lowers to one of
  those of \<open>include\<close>, the dotted capital I.\<close>
fun lower_i :: "string \<Rightarrow> string" where
  "lower_i (a # b # s) = (if byte a = 0xC4 \<and> byte b = 0xB0 then CHR ''i'' # lower_i s else lower_char a # lower_i (b # s))"
| "lower_i [a] = [lower_char a]"
| "lower_i [] = []"

definition include_line :: "string \<Rightarrow> bool" where
  "include_line line \<longleftrightarrow> (let f = TrimSpace line in f \<noteq> '''' \<and> \<not> HasPrefix f ''#'' \<and>
     HasPrefix (lower_i f) ''include'' \<and> Contains f ''sshd_config.d'')"

definition HasInclude :: "string \<Rightarrow> (derr + bool) daemon" where
  "HasInclude dir = attempt (ReadFile (in_dir (if dir = '''' then sshDir else dir) ''sshd_config'')) (\<lambda>e. ret (Inl e))
     (\<lambda>b. ret (Inr (list_ex include_line (Split b (CHR 0x0A)))))"

definition Validate :: "bool command" where
  "Validate = run_cmd [''sshd'', ''-t'']"

definition Reload :: "bool command" where
  "Reload = do { r \<leftarrow> run_cmd [''systemctl'', ''reload'', ''ssh'']; if r then ret True else run_cmd [''systemctl'', ''reload'', ''sshd''] }"

section \<open>install\<close>

definition installStateDir :: string where "installStateDir = ''/var/lib/custos''"
definition installSocket :: string where "installSocket = ''/run/custos/custosd.sock''"
definition installUser :: string where "installUser = ''custos''"
definition installUnitPath :: string where "installUnitPath = ''/etc/systemd/system/custosd.service''"

definition systemdUnit :: string where
  "systemdUnit = concat (map (\<lambda>l. l @ newline) [
     ''[Unit]'',
     ''Description=custos daemon'',
     ''After=network-online.target'',
     ''Wants=network-online.target'',
     '''',
     ''[Service]'',
     ''Type=simple'',
     ''User=custos'',
     ''Group=custos'',
     ''RuntimeDirectory=custos'',
     ''# '' @ [CHR 0x27] @ ''+'' @ [CHR 0x27] @ '' runs this as root even though the service is User=custos: it swaps in a'',
     ''# daemon-staged binary before start. No-op when nothing is staged.'',
     ''ExecStartPre=+/usr/local/bin/custosd apply-update --dir /var/lib/custos'',
     ''ExecStart=/usr/local/bin/custosd run --dir /var/lib/custos --socket /run/custos/custosd.sock --secret-socket /run/custos/secrets.sock'',
     ''Restart=always'',
     ''RestartSec=5'',
     '''',
     ''[Install]'',
     ''WantedBy=multi-user.target''])"

text \<open>A command that may end the process returns nothing then.\<close>
definition or_fatal :: "(derr + 'a) daemon \<Rightarrow> ('a \<Rightarrow> (unit + 'b) command) \<Rightarrow> (unit + 'b) command" where
  "or_fatal m k = attempt (on_disk m) (\<lambda>_. ret (Inl ())) k"

definition Atoi_or_zero :: "string \<Rightarrow> int" where
  "Atoi_or_zero s = (case Atoi s of None \<Rightarrow> 0 | Some n \<Rightarrow> n)"

definition ensureUser :: "string \<Rightarrow> (unit + int \<times> int) command" where
  "ensureUser name = do {
     u \<leftarrow> lookup_user name;
     (case u of Some (uid, gid) \<Rightarrow> ret (Inr (Atoi_or_zero uid, Atoi_or_zero gid))
      | None \<Rightarrow> do {
          made \<leftarrow> run_cmd [''useradd'', ''--system'', ''--shell'', ''/usr/sbin/nologin'', name];
          if \<not> made then ret (Inl ())
          else do {
            u \<leftarrow> lookup_user name;
            ret (case u of None \<Rightarrow> Inl () | Some (uid, gid) \<Rightarrow> Inr (Atoi_or_zero uid, Atoi_or_zero gid)) } }) }"

definition installBinary :: "string \<Rightarrow> (unit + unit) command" where
  "installBinary self = (if self = installBin then ret (Inr ())
     else or_fatal (stat_file self) (\<lambda>_. or_fatal (open_trunc installBin mode755) (\<lambda>_.
       or_fatal (attempt (ReadFile self) (\<lambda>e. ret (Inl e)) (write_file installBin)) (\<lambda>_. or_fatal close_file (\<lambda>_. do {
         _ \<leftarrow> on_disk (chmod_file installBin mode755);
         ret (Inr ()) })))))"

text \<open>Owners are not modelled: \<open>os.Chown\<close> is an operation that may fail.\<close>
definition makeStateDir :: "int \<times> int \<Rightarrow> (unit + unit) command" where
  "makeStateDir owner = for_until_err (\<lambda>d. or_fatal mkdir_all (\<lambda>_. or_fatal close_file (\<lambda>_. ret (Inr ()))))
     [installStateDir, in_dir installStateDir ''update'']"

definition installUnit :: "(unit + unit) command" where
  "installUnit = or_fatal (attempt (open_trunc installUnitPath mode644) (\<lambda>e. ret (Inl e)) (\<lambda>_.
       attempt (write_file installUnitPath systemdUnit) (\<lambda>e. do { _ \<leftarrow> close_file; ret (Inl e) }) (\<lambda>_. close_file))) (\<lambda>_. do {
     _ \<leftarrow> run_cmd [''systemctl'', ''daemon-reload''];
     ret (Inr ()) })"

definition setupSSHD :: "string \<Rightarrow> string \<Rightarrow> string \<Rightarrow> string \<Rightarrow> unit command" where
  "setupSSHD sshUser stateDir socket binaryPath = do {
     _ \<leftarrow> on_disk (HasInclude '''');
     attempt (on_disk (WriteDropIn '''' binaryPath sshUser stateDir socket)) (\<lambda>_. ret ()) (\<lambda>path. do {
       valid \<leftarrow> Validate;
       if \<not> valid then do { _ \<leftarrow> on_disk (RemoveDropIn ''''); ret () }
       else do { _ \<leftarrow> Reload; ret () } }) }"

definition cmdInstall :: "nat \<Rightarrow> string option \<Rightarrow> string \<Rightarrow> (unit + unit) command" where
  "cmdInstall euid self sshUser = (if euid \<noteq> 0 then ret (Inl ())
     else case self of None \<Rightarrow> ret (Inl ())
       | Some self \<Rightarrow> attempt (ensureUser installUser) (\<lambda>_. ret (Inl ())) (\<lambda>owner.
           attempt (installBinary self) (\<lambda>_. ret (Inl ())) (\<lambda>_.
           attempt (makeStateDir owner) (\<lambda>_. ret (Inl ())) (\<lambda>_.
           attempt installUnit (\<lambda>_. ret (Inl ())) (\<lambda>_. do {
             _ \<leftarrow> setupSSHD sshUser installStateDir installSocket installBin;
             ret (Inr ()) })))))"

section \<open>uninstall\<close>

text \<open>\<open>os.RemoveAll\<close>: everything at or below the path; \<open>left n\<close> says what an unfinished one leaves.\<close>
definition remove_all :: "(nat \<Rightarrow> string \<Rightarrow> bool) \<Rightarrow> string \<Rightarrow> (derr + unit) daemon" where
  "remove_all left path = (let below = (\<lambda>q. q = path \<or> HasPrefix q (path @ ''/''));
       part = (\<lambda>n fs q. if below q \<and> \<not> left n q then None else fs q)
     in file_op part part (\<lambda>fs q. if below q then None else fs q))"

definition rmPath :: "string \<Rightarrow> unit command" where
  "rmPath path = do { _ \<leftarrow> on_disk (remove_file path); ret () }"

definition runCmd :: "string list \<Rightarrow> unit command" where
  "runCmd argv = do { _ \<leftarrow> run_cmd argv; ret () }"

definition removeHook :: "unit command" where
  "removeHook = attempt (on_disk (RemoveDropIn '''')) (\<lambda>_. ret ()) (\<lambda>_. do {
     valid \<leftarrow> Validate;
     if valid then do { _ \<leftarrow> Reload; ret () } else ret () })"

definition cmdUninstall :: "(nat \<Rightarrow> string \<Rightarrow> bool) \<Rightarrow> ed25519 \<Rightarrow> http_post \<Rightarrow> nat \<Rightarrow> bool \<Rightarrow> bool \<Rightarrow> (unit + unit) command" where
  "cmdUninstall left ed post euid purge skipControlPlane = (if euid \<noteq> 0 then ret (Inl ()) else do {
     _ \<leftarrow> (if skipControlPlane then ret (Inr ())
          else on_disk (attempt mkdir_all (\<lambda>e. ret (Inl e)) (\<lambda>_. Decommission ed post installStateDir)));
     _ \<leftarrow> runCmd [''systemctl'', ''disable'', ''--now'', ''custosd''];
     _ \<leftarrow> removeHook;
     _ \<leftarrow> rmPath installUnitPath;
     _ \<leftarrow> runCmd [''systemctl'', ''daemon-reload''];
     _ \<leftarrow> rmPath installBin;
     _ \<leftarrow> rmPath (installBin @ ''.prev'');
     _ \<leftarrow> (if purge then do {
            _ \<leftarrow> on_disk (remove_all left installStateDir);
            runCmd [''userdel'', installUser] }
          else ret ());
     ret (Inr ()) })"

section \<open>enroll\<close>

fun clean_parts :: "bool \<Rightarrow> string list \<Rightarrow> string list \<Rightarrow> string list" where
  "clean_parts rooted [] acc = rev acc"
| "clean_parts rooted (p # ps) acc =
     (if p = '''' \<or> p = ''.'' then clean_parts rooted ps acc
      else if p = ''..'' then (case acc of
          [] \<Rightarrow> clean_parts rooted ps (if rooted then [] else [p])
        | q # rest \<Rightarrow> if q = ''..'' then clean_parts rooted ps (p # acc) else clean_parts rooted ps rest)
      else clean_parts rooted ps (p # acc))"

fun join_path :: "string list \<Rightarrow> string" where
  "join_path [] = ''''"
| "join_path [p] = p"
| "join_path (p # q # ps) = p @ ''/'' @ join_path (q # ps)"

text \<open>\<open>filepath.Clean\<close>\<close>
definition Clean :: "string \<Rightarrow> string" where
  "Clean path = (let rooted = HasPrefix path ''/''; r = (if rooted then ''/'' else '''') @ join_path (clean_parts rooted (Split path (CHR ''/'')) [])
     in if r = '''' then ''.'' else r)"

definition DefaultDir :: string where "DefaultDir = ''/var/lib/custos''"

definition OpenStore :: "string \<Rightarrow> (derr + string) daemon" where
  "OpenStore dir = (let d = (if dir = '''' then DefaultDir else dir) in
     attempt mkdir_all (\<lambda>e. ret (Inl e)) (\<lambda>_. ret (Inr d)))"

definition cmdEnroll :: "ed25519 \<Rightarrow> x25519 \<Rightarrow> (bytes \<Rightarrow> bytes) \<Rightarrow> http_post \<Rightarrow> bytes option \<Rightarrow> bytes option \<Rightarrow> nat \<Rightarrow> string option \<Rightarrow>
    string \<Rightarrow> string \<Rightarrow> string \<Rightarrow> string \<Rightarrow> (unit + unit) daemon" where
  "cmdEnroll ed dh sha256 post newKey newEncKey euid osHostname controlPlane token hostname dir =
     (if controlPlane = '''' \<or> token = '''' then ret (Inl ())
      else if euid = 0 \<and> Clean dir = DefaultDir then ret (Inl ())
      else case (if hostname = '''' then osHostname else Some hostname) of None \<Rightarrow> ret (Inl ())
        | Some host \<Rightarrow> attempt (OpenStore dir) (\<lambda>_. ret (Inl ())) (\<lambda>store.
            attempt (Enroll ed dh sha256 post newKey newEncKey store
                \<lparr>eo_ControlPlane = controlPlane, eo_Token = token, eo_Hostname = host\<rparr>) (\<lambda>_. ret (Inl ())) (\<lambda>_. ret (Inr ()))))"

section \<open>run\<close>

definition mode660 :: nat where "mode660 = 432"

text \<open>\<open>net.Listen\<close> on a path that must not be taken.\<close>
definition listen_unix :: "string \<Rightarrow> (derr + unit) daemon" where
  "listen_unix path = do { w \<leftarrow> State_Monad.get;
     if dw_files w path \<noteq> None then ret (Inl IoError) else atomic_op (\<lambda>fs. fs(path \<mapsto> ([], mode755))) }"

definition listenSocket :: "string \<Rightarrow> nat \<Rightarrow> (derr + unit) daemon" where
  "listenSocket path mode = attempt (remove_file path) (\<lambda>e. ret (Inl e)) (\<lambda>_.
     attempt (listen_unix path) (\<lambda>e. ret (Inl e)) (\<lambda>_.
     attempt (chmod_file path mode) (\<lambda>e. do { _ \<leftarrow> close_file; ret (Inl e) }) (\<lambda>_. ret (Inr ()))))"

text \<open>The client \<open>run\<close> starts with, or the end of the process.\<close>
definition cmdRun :: "string \<Rightarrow> string \<Rightarrow> string \<Rightarrow> string \<Rightarrow> (unit + Client) daemon" where
  "cmdRun version dir socket secretSocket =
     attempt (OpenStore dir) (\<lambda>_. ret (Inl ())) (\<lambda>store.
     attempt (EnrollmentError store) (\<lambda>_. ret (Inl ())) (\<lambda>_.
     attempt (LoadConfig_d store) (\<lambda>_. ret (Inl ())) (\<lambda>cfg.
     attempt (LoadIdentity store) (\<lambda>_. ret (Inl ())) (\<lambda>ident.
     attempt (LoadCache store) (\<lambda>_. ret (Inl ())) (\<lambda>cache. do {
       encKey \<leftarrow> LoadEncryptionKey store;
       attempt (listenSocket socket mode600) (\<lambda>_. ret (Inl ())) (\<lambda>_.
       attempt (listenSocket secretSocket mode660) (\<lambda>_. ret (Inl ())) (\<lambda>_.
       ret (Inr (SetStore (NewClient cfg ident cache
         (Some (NewSecretStore (case encKey of Inl e \<Rightarrow> None | Inr k \<Rightarrow> Some k))) version (in_dir dir ''update'')))))) })))))"

section \<open>status\<close>

definition presence :: "bool \<Rightarrow> string" where
  "presence b = (if b then ''present'' else ''absent'')"

definition unmarshal_status :: "(string \<Rightarrow> time option) \<Rightarrow> bytes \<Rightarrow> LiveStatus option" where
  "unmarshal_status parse_time b = (case parse_json b of
     Some (JObj ms) \<Rightarrow> (case (field dec_bool False ''connected'' ms, field dec_uint64 0 ''last_seq'' ms,
           field (\<lambda>j. case j of JStr s \<Rightarrow> parse_time s | _ \<Rightarrow> None) 0 ''updated_at'' ms) of
         (Some c, Some s, Some t) \<Rightarrow> Some \<lparr>ls_Connected = c, ls_LastSeq = s, ls_UpdatedAt = t\<rparr> | _ \<Rightarrow> None)
   | Some JNull \<Rightarrow> Some \<lparr>ls_Connected = False, ls_LastSeq = 0, ls_UpdatedAt = 0\<rparr>
   | _ \<Rightarrow> None)"

definition LoadStatus :: "(string \<Rightarrow> time option) \<Rightarrow> string \<Rightarrow> (derr + LiveStatus) daemon" where
  "LoadStatus parse_time dir = attempt (ReadFile (in_dir dir ''status.json'')) (\<lambda>e. ret (Inl e))
     (\<lambda>b. ret (case unmarshal_status parse_time b of None \<Rightarrow> Inl BadData | Some st \<Rightarrow> Inr st))"

text \<open>The lines printed, each a label and a text, or the end of the process; \<open>age\<close> prints how long ago a time was.\<close>
definition cmdStatus :: "(string \<Rightarrow> time option) \<Rightarrow> (time \<Rightarrow> string) \<Rightarrow> string \<Rightarrow> (unit + (string \<times> string) list) daemon" where
  "cmdStatus parse_time age dir = attempt (OpenStore dir) (\<lambda>_. ret (Inl ())) (\<lambda>store. do {
     let head = [(''state dir:'', dir)];
     enrolled \<leftarrow> EnrollmentError store;
     (case enrolled of Inl NotExist \<Rightarrow> ret (Inr (head @ [(''enrolled:'', ''no (run `custosd enroll` first)'')]))
      | Inl _ \<Rightarrow> ret (Inl ())
      | Inr _ \<Rightarrow> attempt (LoadConfig_d store) (\<lambda>_. ret (Inl ())) (\<lambda>cfg. do {
          st \<leftarrow> LoadStatus parse_time store;
          enc_key \<leftarrow> LoadEncryptionKey store;
          cache \<leftarrow> LoadCache store;
          staged \<leftarrow> stat_file (in_dir (in_dir dir ''update'') ''custosd.staged'');
          meta \<leftarrow> (case staged of Inl e \<Rightarrow> ret (Inl e) | Inr _ \<Rightarrow> readMeta (in_dir (in_dir dir ''update'') ''staged.json''));
          ret (Inr (head @ [(''enrolled:'', ''yes''), (''host id:'', dc_HostID cfg), (''control plane:'', dc_ControlPlane cfg),
            (''cp connection:'', case st of Inl _ \<Rightarrow> ''unknown (daemon not started)''
               | Inr s \<Rightarrow> (if ls_Connected s then ''connected'' else ''disconnected'') @ '' (updated '' @ age (ls_UpdatedAt s) @ '' ago)''),
            (''signing key:'', presence (dc_SigningPublicKey cfg \<noteq> '''')),
            (''encryption key:'', presence (\<exists>k. enc_key = Inr k))] @
            (case cache of Inl _ \<Rightarrow> [] | Inr c \<Rightarrow> [(''cached ssh keys:'', dec_digits (Len c))]) @
            [(''staged upgrade:'', case staged of Inl _ \<Rightarrow> ''none''
               | Inr _ \<Rightarrow> ''yes'' @ (case meta of Inl _ \<Rightarrow> '''' | Inr m \<Rightarrow> '' '' @ sm_Version m) @ '' (applies on next restart)'')])) })) })"

section \<open>main\<close>

datatype subcommand = Install | Uninstall | EnrollCmd | AuthkeysCmd | RunCmd | ExecCmd | ApplyUpdate | StatusCmd | Version | Usage

definition main_command :: "string list \<Rightarrow> subcommand \<times> string list" where
  "main_command args = (case args of
     [] \<Rightarrow> (Usage, []) | [prog] \<Rightarrow> (Usage, [])
   | prog # c # rest \<Rightarrow>
       (if c = ''install'' then Install else if c = ''uninstall'' then Uninstall else if c = ''enroll'' then EnrollCmd
        else if c = ''authkeys'' then AuthkeysCmd else if c = ''run'' then RunCmd else if c = ''exec'' then ExecCmd
        else if c = ''apply-update'' then ApplyUpdate else if c = ''status'' then StatusCmd
        else if c \<in> {''version'', ''--version'', ''-v''} then Version else Usage, rest))"

section \<open>What the commands leave\<close>

lemma run_on_disk: "run_state (on_disk m) s = (case run_state m (mc_disk s) of (r, w) \<Rightarrow> (r, s\<lparr>mc_disk := w\<rparr>))"
  by (simp add: on_disk_def)

lemma run_run_cmd: "run_state (run_cmd argv) s = (mc_exit s (length (mc_ran s)), s\<lparr>mc_ran := mc_ran s @ [argv]\<rparr>)"
  by (simp add: run_cmd_def)

text \<open>On a healthy disk every operation does its work and leaves it healthy.\<close>
lemma healthy_atomic: "healthy w \<Longrightarrow> \<exists>w'. run_state (atomic_op f) w = (Inr (), w') \<and> healthy w' \<and> dw_files w' = f (dw_files w)"
  by (simp add: healthy_def run_atomic_op)

lemma healthy_remove: "healthy w \<Longrightarrow> \<exists>w'. run_state (remove_file p) w = (Inr (), w') \<and> healthy w' \<and> dw_files w' = (dw_files w)(p := None)"
  unfolding remove_file_def by (rule healthy_atomic)

lemma healthy_close: "healthy w \<Longrightarrow> \<exists>w'. run_state close_file w = (Inr (), w') \<and> healthy w' \<and> dw_files w' = dw_files w"
  unfolding close_file_def by (rule healthy_atomic)

lemma healthy_read:
  assumes "healthy w"
  shows "\<exists>w'. run_state (ReadFile p) w = (case dw_files w p of None \<Rightarrow> Inl NotExist | Some (b, m) \<Rightarrow> Inr b, w') \<and> healthy w' \<and> dw_files w' = dw_files w"
  using healthy_close [OF assms] by (auto simp: ReadFile_def split: option.splits)

lemma healthy_atomicWrite:
  assumes "healthy w" "\<forall>rnd. dw_files w (temp_name dir rnd) = None" "\<not> HasPrefix name ''.tmp-''"
  shows "\<exists>w'. run_state (atomicWrite dir name data perm) w = (Inr (), w') \<and> healthy w' \<and>
    dw_files w' = (dw_files w)(in_dir dir name \<mapsto> (data, perm))"
proof -
  have "in_dir dir name \<noteq> temp_name dir rnd" for rnd using lasting_in_dir [OF assms(3)] by (auto simp: lasting_def)
  then show ?thesis using assms(1,2)
    by (auto simp: healthy_def atomicWrite_def run_attempt CreateTemp_def run_atomic_op write_file_def file_op_def
        chmod_file_def then_remove_def remove_file_def close_file_def rename_file_def Let_def fun_eq_iff)
qed

lemma drop_in_path: "in_dir (sshd_dir '''') dropInName = DropInPath" "\<not> HasPrefix dropInName ''.tmp-''"
  by (simp_all add: sshd_dir_def DropInPath_def dropInName_def HasPrefix_def)

section \<open>Properties\<close>


definition sample_box :: "bool \<Rightarrow> machine" where
  "sample_box ok = \<lparr>mc_disk = sample_good_disk, mc_ran = [], mc_exit = (\<lambda>n. ok), mc_users = (\<lambda>n u. None)\<rparr>"


lemma run_cmdRun_ok:
  assumes "run_state (attempt m h k) w = (Inr y, w')" "\<And>e w1. fst (run_state (h e) w1) \<noteq> Inr y"
  obtains x w1 where "run_state m w = (Inr x, w1)" "run_state (k x) w1 = (Inr y, w')"
  using attempt_Inr [OF assms] by blast

text \<open>Loading changes no file.\<close>
definition reads_only :: "'a daemon \<Rightarrow> bool" where
  "reads_only m \<longleftrightarrow> state_io_rel (keeps (\<lambda>_. True)) m"

lemma reads_only_files: "reads_only m \<Longrightarrow> run_state m w = (x, w') \<Longrightarrow> dw_files w' = dw_files w"
  unfolding reads_only_def by (drule state_io_rel_run [where s = w]) (simp add: keeps_all)

lemma reads_only_loads: "reads_only (LoadConfig_d d)" "reads_only (LoadIdentity d)" "reads_only (LoadEncryptionKey d)"
  "reads_only (EnrollmentError d)" "reads_only (OpenStore d)"
  unfolding reads_only_def LoadConfig_d_def LoadIdentity_def LoadEncryptionKey_def EnrollmentError_def OpenStore_def mkdir_all_def Let_def
  by (intro eff file_ops)+

text \<open>C28: The daemon starts from what is on its disk. If \<open>custosd run\<close> comes up, then its configuration, its identity key
  and its keys for logins are exactly those that the state directory holds, its secret store is empty
  and not ready, and no upgrade or restart is pending.\<close>
theorem run_starts_from_disk:
  assumes "run_state (cmdRun version dir socket secretSocket) w = (Inr c, w')" and "dir \<noteq> ''''"
  shows "(\<exists>b m. dw_files w (in_dir dir ''config.json'') = Some (b, m) \<and> unmarshal_config b = Some (cl_cfg c)) \<and>
    (\<exists>b m. dw_files w (in_dir dir ''identity.key'') = Some (b, m) \<and> LoadKeyPair b = Some (cl_identity c)) \<and>
    disk_cache dir (dw_files w) = Some (cl_cache c) \<and>
    (\<exists>k. cl_secrets c = Some (NewSecretStore k)) \<and> cl_version c = version \<and> \<not> cl_restart c \<and> \<not> cl_upgrading c"
proof -
  obtain r1 w1 where 1: "run_state (OpenStore dir) w = (r1, w1)" by fastforce
  have o: "r1 = Inr dir" using assms 1
    by (cases r1) (auto simp: cmdRun_def run_attempt OpenStore_def Let_def split: sum.splits prod.splits)
  obtain r2 w2 where 2: "run_state (EnrollmentError dir) w1 = (r2, w2)" by fastforce
  obtain r3 w3 where 3: "run_state (LoadConfig_d dir) w2 = (r3, w3)" by fastforce
  obtain r4 w4 where 4: "run_state (LoadIdentity dir) w3 = (r4, w4)" by fastforce
  obtain r5 w5 where 5: "run_state (LoadCache dir) w4 = (r5, w5)" by fastforce
  obtain r6 w6 where 6: "run_state (LoadEncryptionKey dir) w5 = (r6, w6)" by fastforce
  obtain r7 w7 where 7: "run_state (listenSocket socket mode600) w6 = (r7, w7)" by fastforce
  obtain r8 w8 where 8: "run_state (listenSocket secretSocket mode660) w7 = (r8, w8)" by fastforce
  note run = assms(1) [unfolded cmdRun_def run_attempt 1 o split_conv sum.case]
  obtain cfg ident cache where r: "r3 = Inr cfg" "r4 = Inr ident" "r5 = Inr cache"
    and c: "c = SetStore (NewClient cfg ident cache (Some (NewSecretStore (case r6 of Inl e \<Rightarrow> None | Inr k \<Rightarrow> Some k))) version (in_dir dir ''update''))"
    using run 2 3 4 5 6 7 8 by (cases r2; cases r3; cases r4; cases r5; cases r7; cases r8) (simp_all add: run_attempt)
  have f: "dw_files w1 = dw_files w" "dw_files w2 = dw_files w" "dw_files w3 = dw_files w" "dw_files w4 = dw_files w"
    using reads_only_files [OF reads_only_loads(5) 1] reads_only_files [OF reads_only_loads(4) 2]
      reads_only_files [OF reads_only_loads(1) 3] reads_only_files [OF reads_only_loads(2) 4] by simp_all
  have "\<exists>b m. dw_files w (in_dir dir ''config.json'') = Some (b, m) \<and> unmarshal_config b = Some cfg"
    using 3 r f by (auto simp: LoadConfig_d_def run_attempt split: sum.splits option.splits prod.splits dest!: ReadFile_ok)
  moreover have "\<exists>b m. dw_files w (in_dir dir ''identity.key'') = Some (b, m) \<and> LoadKeyPair b = Some ident"
    using 4 r f by (auto simp: LoadIdentity_def run_attempt split: sum.splits option.splits prod.splits dest!: ReadFile_ok)
  moreover have "disk_cache dir (dw_files w) = Some cache"
    using LoadCache_disk(1) [OF 5] r f by (simp split: option.splits)
  ultimately show ?thesis by (auto simp: c SetStore_def NewClient_def)
qed

definition sample_enrolled :: dworld where
  "sample_enrolled = sample_good_disk\<lparr>dw_files := (\<lambda>q. if q = ''/s/identity.key'' then Some (b64_encode (replicate 64 (CHR ''i'')), mode600)
     else if q = ''/s/config.json'' then Some (marshal_config (enroll_config sample_opts sample_reply), mode600) else None)\<rparr>"

lemma sample_run_ok:
  "\<exists>c w'. run_state (cmdRun ''v1'' ''/s'' ''/run/a'' ''/run/b'') sample_enrolled = (Inr c, w')"
proof -
  have "LoadKeyPair (b64_encode (replicate 64 (CHR ''i''))) = Some (replicate 64 (CHR ''i''))"
    by (simp add: LoadKeyPair_def b64_roundtrip del: b64_encode.simps)
  then show ?thesis using unmarshal_marshal_config [OF sample_postEnroll(2)]
    by (simp add: cmdRun_def run_attempt OpenStore_def mkdir_all_def EnrollmentError_def LoadConfig_d_def LoadIdentity_def LoadCache_def
        LoadEncryptionKey_def listenSocket_def listen_unix_def file_steps in_dir_def sample_enrolled_def sample_good_disk_def sample_disk_def
        del: b64_encode.simps)
qed

theorem run_starts_from_disk_witness:
  "\<exists>c w'. run_state (cmdRun ''v1'' ''/s'' ''/run/a'' ''/run/b'') sample_enrolled = (Inr c, w') \<and>
     cl_cfg c = enroll_config sample_opts sample_reply \<and> cl_cache c = empty_cache"
proof -
  obtain c w' where r: "run_state (cmdRun ''v1'' ''/s'' ''/run/a'' ''/run/b'') sample_enrolled = (Inr c, w')"
    using sample_run_ok by blast
  have f: "dw_files sample_enrolled (in_dir ''/s'' ''config.json'') = Some (marshal_config (enroll_config sample_opts sample_reply), mode600)"
    "disk_cache ''/s'' (dw_files sample_enrolled) = Some empty_cache"
    by (simp_all add: in_dir_def sample_enrolled_def disk_cache_def)
  show ?thesis using r run_starts_from_disk [OF r] f unmarshal_marshal_config [OF sample_postEnroll(2)] by auto
qed



text \<open>A machine with the program and the drop-in, on which the removal of the drop-in fails.\<close>
definition sample_stuck :: machine where
  "sample_stuck = (sample_box True)\<lparr>mc_disk := sample_good_disk\<lparr>dw_io := (\<lambda>n. if n = 0 then IoFails 0 else IoOk),
     dw_files := (\<lambda>q. if q = DropInPath \<or> q = installBin then Some (''x'', mode755) else None)\<rparr>\<rparr>"


end
