(* ===== verification/Spec2Isabelle.thy ===== *)
theory Spec2Isabelle
  imports Push_Coverage Daemon_Cmd
begin

text \<open>
  A model of custos, a control plane that grants SSH access and secrets to users on hosts, and
  of the daemon that enforces the grants on each host.
\<close>

end
